(* ===== verification/Go_Prelude.thy ===== *)
theory Go_Prelude
  imports Main "HOL-Library.Word"
begin

text \<open>
  What the components share of the Go language and of its standard library:
  the outcome of a call (a value, a panic, a process exit, a call that never
  returns), the error values of \<^verbatim>\<open>pkg/errcode/error.go\<close> and of \<open>fmt.Errorf\<close>,
  64-bit integers, the string functions of package \<open>strings\<close> that the source
  calls, and \<open>sync.Once\<close>.  The collections \<open>go_int\<close>, \<open>go_string\<close> and
  \<open>go_outcome\<close> gather the rewrite rules of each group.

  Strings are lists of bytes (type \<^typ>\<open>string\<close>), as Go's are.  White space is the
  ASCII white space of \<open>unicode.IsSpace\<close>; the multi-byte Unicode spaces are
  ordinary bytes here, so the string functions are those of Go on ASCII input.
\<close>

named_theorems go_int
named_theorems go_string
named_theorems go_outcome

section \<open>Errors and outcomes\<close>

text \<open>
  The sentinel errors of \<^verbatim>\<open>pkg/errcode/error.go\<close>, one constructor per variable, then
  the three ways the source makes an error: \<open>fmt.Errorf\<close> without a cause, \<open>fmt.Errorf\<close>
  with \<open>%w\<close> (or \<open>errors.Wrapf\<close>), and an error that a library call returned.
\<close>

datatype go_error =
    ErrNoResourceRange
  | ErrNoPodName
  | ErrNoNamespace
  | ErrNotSupported
  | ErrNotFound
  | ErrUnknownEvent
  | ErrNeedAlert
  | Errorf string
  | Wrapf string go_error
  | LibError string

fun root_cause :: "go_error \<Rightarrow> go_error" where
  "root_cause (Wrapf _ e) = root_cause e"
| "root_cause e = e"

text \<open>The text of an error value of \<^verbatim>\<open>pkg/errcode/error.go\<close>.\<close>

fun errcode_text :: "go_error \<Rightarrow> string" where
  "errcode_text ErrNoResourceRange = ''NoResourceRange''"
| "errcode_text ErrNoPodName = ''NoPodName''"
| "errcode_text ErrNoNamespace = ''NoNamespace''"
| "errcode_text ErrNotSupported = ''NotSupported''"
| "errcode_text ErrNotFound = ''NotFound''"
| "errcode_text ErrUnknownEvent = ''UnknownEvent''"
| "errcode_text ErrNeedAlert = ''NeedAlert''"
| "errcode_text (Errorf s) = s"
| "errcode_text (Wrapf s e) = s @ '': '' @ errcode_text e"
| "errcode_text (LibError s) = s"

datatype go_panic =
    NilDeref
  | NilMapWrite
  | TickerUninitialised
  | TickerNonPositive
  | DivideByZero
  | IndexOutOfRange
  | PanicError go_error
  | PanicText string

text \<open>
  The outcome of a call.  \<open>Blocks\<close> is a call that never returns (a send on a nil channel,
  a second \<open>Lock\<close> of a held mutex); \<open>Exits n\<close> is \<open>os.Exit(n)\<close>.
\<close>

datatype 'a outcome = Returns 'a | Panics go_panic | Exits int | Blocks

fun bind_outcome :: "'a outcome \<Rightarrow> ('a \<Rightarrow> 'b outcome) \<Rightarrow> 'b outcome" where
  "bind_outcome (Returns x) f = f x"
| "bind_outcome (Panics p) f = Panics p"
| "bind_outcome (Exits n) f = Exits n"
| "bind_outcome Blocks f = Blocks"

lemma bind_outcome_Returns_iff [go_outcome]:
  "bind_outcome m f = Returns y \<longleftrightarrow> (\<exists>x. m = Returns x \<and> f x = Returns y)"
  by (cases m) auto

lemma bind_outcome_assoc [go_outcome]:
  "bind_outcome (bind_outcome m f) g = bind_outcome m (\<lambda>x. bind_outcome (f x) g)"
  by (cases m) auto

text \<open>A call that also changes state: the state is kept when the call panics.\<close>

fun bind_state :: "'s \<times> 'a outcome \<Rightarrow> ('s \<Rightarrow> 'a \<Rightarrow> 's \<times> 'b outcome) \<Rightarrow> 's \<times> 'b outcome" where
  "bind_state (s, Returns x) f = f s x"
| "bind_state (s, Panics p) f = (s, Panics p)"
| "bind_state (s, Exits n) f = (s, Exits n)"
| "bind_state (s, Blocks) f = (s, Blocks)"

lemma bind_state_Returns_iff [go_outcome]:
  "bind_state m f = (t, Returns y) \<longleftrightarrow> (\<exists>s x. m = (s, Returns x) \<and> f s x = (t, Returns y))"
  by (cases m; cases "snd m") auto

lemma sum_case_eq_iff:
  "(case r of Inl e \<Rightarrow> f e | Inr x \<Rightarrow> g x) = y \<longleftrightarrow> (\<exists>e. r = Inl e \<and> f e = y) \<or> (\<exists>x. r = Inr x \<and> g x = y)"
  by (cases r) auto

lemma prod_case_eq_iff:
  "(case p of (a, b) \<Rightarrow> f a b) = y \<longleftrightarrow> (\<exists>a b. p = (a, b) \<and> f a b = y)"
  by (cases p) auto

lemma option_case_eq_iff:
  "(case r of None \<Rightarrow> a | Some x \<Rightarrow> g x) = y \<longleftrightarrow> (r = None \<and> a = y) \<or> (\<exists>x. r = Some x \<and> g x = y)"
  by (cases r) auto

text \<open>\<^verbatim>\<open>func NoErrOrDie(err error)\<close>: panics on a non-nil error.\<close>

definition NoErrOrDie :: "go_error option \<Rightarrow> unit outcome" where
  "NoErrOrDie err = (case err of None \<Rightarrow> Returns () | Some e \<Rightarrow> Panics (PanicError e))"

text \<open>The usual \<open>x, err := f(); if err != nil { return err }\<close> on sums.\<close>

fun bind_err :: "go_error + 'a \<Rightarrow> ('a \<Rightarrow> go_error + 'b) \<Rightarrow> go_error + 'b" where
  "bind_err (Inl e) f = Inl e"
| "bind_err (Inr x) f = f x"

fun map_err :: "(go_error \<Rightarrow> go_error) \<Rightarrow> go_error + 'a \<Rightarrow> go_error + 'a" where
  "map_err g (Inl e) = Inl (g e)"
| "map_err g (Inr x) = Inr x"

lemma bind_err_Inr_iff [go_outcome]:
  "bind_err m f = Inr y \<longleftrightarrow> (\<exists>x. m = Inr x \<and> f x = Inr y)"
  by (cases m) auto

lemma bind_err_Inl_iff [go_outcome]:
  "bind_err m f = Inl e \<longleftrightarrow> m = Inl e \<or> (\<exists>x. m = Inr x \<and> f x = Inl e)"
  by (cases m) auto

lemma map_err_Inr_iff [go_outcome]: "map_err g m = Inr y \<longleftrightarrow> m = Inr y"
  by (cases m) auto

lemma map_err_Inl_iff [go_outcome]: "map_err g m = Inl e \<longleftrightarrow> (\<exists>d. m = Inl d \<and> e = g d)"
  by (cases m) auto

section \<open>64-bit integers\<close>

type_synonym u64 = "64 word"

text \<open>
  \<open>int64\<close> values are integers between \<open>- 2^63\<close> and \<open>2^63 - 1\<close>; \<open>wrap64\<close> is what an
  \<open>int64\<close> operation leaves of the exact result.  Go's \<open>/\<close> truncates towards zero.
  \<open>sat64\<close> is the saturation of \<open>time.Time.Sub\<close>.
\<close>

definition in_int64 :: "int \<Rightarrow> bool" where
  "in_int64 x \<longleftrightarrow> - (2 ^ 63) \<le> x \<and> x < 2 ^ 63"

definition wrap64 :: "int \<Rightarrow> int" where
  "wrap64 x = (x + 2 ^ 63) mod 2 ^ 64 - 2 ^ 63"

definition quot64 :: "int \<Rightarrow> int \<Rightarrow> int" where
  "quot64 a b = wrap64 (sgn a * sgn b * (\<bar>a\<bar> div \<bar>b\<bar>))"

definition sat64 :: "int \<Rightarrow> int" where
  "sat64 x = max (- (2 ^ 63)) (min (2 ^ 63 - 1) x)"

lemma in_int64_wrap64 [simp, intro]: "in_int64 (wrap64 x)"
  by (simp add: in_int64_def wrap64_def)

lemma wrap64_id [simp]: "in_int64 x \<Longrightarrow> wrap64 x = x"
  by (simp add: in_int64_def wrap64_def)

lemma sat64_id [simp]: "in_int64 x \<Longrightarrow> sat64 x = x"
  by (simp add: in_int64_def sat64_def)

lemma in_int64_sat64 [simp, intro]: "in_int64 (sat64 x)"
  by (simp add: in_int64_def sat64_def)

lemma sat64_pos_iff [go_int]: "0 < sat64 x \<longleftrightarrow> 0 < x"
  by (auto simp: sat64_def max_def min_def)

lemma sat64_zero_iff [go_int]: "sat64 x = 0 \<longleftrightarrow> x = 0"
  by (auto simp: sat64_def max_def min_def)

lemma in_int64_nonneg [go_int]: "0 \<le> x \<Longrightarrow> in_int64 x \<longleftrightarrow> x < 2 ^ 63"
  by (simp add: in_int64_def)

lemma int_div_le: "0 \<le> (a::int) \<Longrightarrow> 0 < b \<Longrightarrow> a div b \<le> a"
  using zdiv_mono2 [of a 1 b] by simp

lemma quot64_pos [go_int]:
  assumes "0 \<le> a" "0 < b" "in_int64 a"
  shows "quot64 a b = a div b"
proof -
  have "0 \<le> a div b" and "a div b \<le> a"
    using assms by (simp_all add: pos_imp_zdiv_nonneg_iff int_div_le)
  then have "in_int64 (a div b)"
    using assms(3) by (simp add: in_int64_def)
  then show ?thesis
    using assms by (cases "a = 0") (simp_all add: quot64_def)
qed

lemma int_div_less_iff: "0 < (d::int) \<Longrightarrow> m div d < j \<longleftrightarrow> m < j * d"
proof
  assume d: "0 < d" and "m div d < j"
  then have "(m div d + 1) * d \<le> j * d" by (intro mult_right_mono) simp_all
  moreover have "m div d * d + m mod d = m" "m mod d < d"
    using d by simp_all
  then have "m < (m div d + 1) * d"
    unfolding distrib_right by linarith
  ultimately show "m < j * d" by linarith
next
  assume d: "0 < d" and m: "m < j * d"
  show "m div d < j"
  proof (rule ccontr)
    assume "\<not> m div d < j"
    then have "j * d \<le> m div d * d" using d by (intro mult_right_mono) simp_all
    with m d show False using div_mult_mod_eq [of m d] pos_mod_sign [of d m] by linarith
  qed
qed

lemma next_multiple:
  assumes "0 < (d::int)" "k = max 1 (m div d + 1)"
  shows "1 \<le> k" "m < k * d" "1 \<le> j \<Longrightarrow> m < j * d \<Longrightarrow> k \<le> j"
    using assms int_div_less_iff [of d m k] int_div_less_iff [of d m j] by auto

lemma previous_multiple:
  assumes "0 < (d::int)" "k = min n ((m - 1) div d)"
  shows "k \<le> n" "k * d < m" "j \<le> n \<Longrightarrow> j * d < m \<Longrightarrow> j \<le> k"
    using assms int_div_less_iff [of d "m - 1" k] int_div_less_iff [of d "m - 1" j] by auto

section \<open>Strings\<close>

definition is_space :: "char \<Rightarrow> bool" where
  "is_space c \<longleftrightarrow> c \<in> set [CHR '' '', CHR 0x09, CHR 0x0A, CHR 0x0B, CHR 0x0C, CHR 0x0D]"

text \<open>Pieces of a byte string between the bytes that satisfy \<open>p\<close>: never the empty list.\<close>

fun split_by :: "('a \<Rightarrow> bool) \<Rightarrow> 'a list \<Rightarrow> 'a list list" where
  "split_by p [] = [[]]"
| "split_by p (c # cs) =
     (if p c then [] # split_by p cs
      else (case split_by p cs of [] \<Rightarrow> [[c]] | w # ws \<Rightarrow> (c # w) # ws))"

text \<open>\<open>strings.Split(s, sep)\<close> for a one-byte separator, and its inverse \<open>strings.Join\<close>.\<close>

definition strings_Split :: "string \<Rightarrow> char \<Rightarrow> string list" where
  "strings_Split s sep = split_by (\<lambda>c. c = sep) s"

fun join_with :: "'a \<Rightarrow> 'a list list \<Rightarrow> 'a list" where
  "join_with sep [] = []"
| "join_with sep [w] = w"
| "join_with sep (w # v # ws) = w @ sep # join_with sep (v # ws)"

definition strings_Fields :: "string \<Rightarrow> string list" where
  "strings_Fields s = filter (\<lambda>w. w \<noteq> []) (split_by is_space s)"

definition strings_TrimSpace :: "string \<Rightarrow> string" where
  "strings_TrimSpace s = rev (dropWhile is_space (rev (dropWhile is_space s)))"

definition strings_Contains :: "string \<Rightarrow> char \<Rightarrow> bool" where
  "strings_Contains s c \<longleftrightarrow> c \<in> set s"

lemma split_by_not_Nil [simp]: "split_by p cs \<noteq> []"
  by (induction cs) (auto split: list.splits)

lemma split_by_no_sep [go_string]: "\<forall>c\<in>set cs. \<not> p c \<Longrightarrow> split_by p cs = [cs]"
  by (induction cs) auto

lemma split_by_append_sep [go_string]:
  "\<forall>c\<in>set u. \<not> p c \<Longrightarrow> p s \<Longrightarrow> split_by p (u @ s # v) = u # split_by p v"
  by (induction u) auto

lemma split_by_pieces: "w \<in> set (split_by p cs) \<Longrightarrow> c \<in> set w \<Longrightarrow> \<not> p c"
proof (induction cs arbitrary: w)
  case (Cons a cs)
  then show ?case
    by (cases "split_by p cs") (fastforce split: if_splits)+
qed simp

lemma split_by_join_with:
  "ws \<noteq> [] \<Longrightarrow> \<forall>w\<in>set ws. \<forall>c\<in>set w. c \<noteq> sep \<Longrightarrow> split_by (\<lambda>c. c = sep) (join_with sep ws) = ws"
  by (induction sep ws rule: join_with.induct)
    (simp_all add: split_by_no_sep split_by_append_sep)

lemma join_with_split_by: "join_with sep (split_by (\<lambda>c. c = sep) cs) = cs"
proof (induction cs)
  case (Cons c cs)
  then show ?case
    by (cases "split_by (\<lambda>c. c = sep) cs"; cases "tl (split_by (\<lambda>c. c = sep) cs)") auto
qed simp

lemma strings_Fields_words [go_string]:
  "w \<in> set (strings_Fields s) \<Longrightarrow> w \<noteq> [] \<and> (\<forall>c\<in>set w. \<not> is_space c)"
  by (auto simp: strings_Fields_def dest: split_by_pieces)

lemma strings_Fields_append [go_string]:
  "\<forall>c\<in>set u. \<not> is_space c \<Longrightarrow> u \<noteq> [] \<Longrightarrow> is_space s \<Longrightarrow>
     strings_Fields (u @ s # v) = u # strings_Fields v"
  by (simp add: strings_Fields_def split_by_append_sep)

lemma strings_Fields_space [go_string]:
  "is_space s \<Longrightarrow> strings_Fields (s # v) = strings_Fields v"
  by (simp add: strings_Fields_def)

lemma strings_Fields_word [go_string]:
  "\<forall>c\<in>set u. \<not> is_space c \<Longrightarrow> u \<noteq> [] \<Longrightarrow> strings_Fields u = [u]"
  by (simp add: strings_Fields_def split_by_no_sep)

lemma strings_Fields_Nil [simp]: "strings_Fields [] = []"
  by (simp add: strings_Fields_def)

lemma strings_TrimSpace_id [go_string]:
  "\<forall>c\<in>set s. \<not> is_space c \<Longrightarrow> strings_TrimSpace s = s"
proof -
  assume a: "\<forall>c\<in>set s. \<not> is_space c"
  then have "dropWhile is_space s = s" and "dropWhile is_space (rev s) = rev s"
    by (cases s; simp; fail) (cases "rev s"; use a in auto)
  then show ?thesis by (simp add: strings_TrimSpace_def)
qed

text \<open>\<open>fmt\<close>'s \<open>%q\<close>, on text without quotes, backslashes and control characters.\<close>

definition quoted :: "string \<Rightarrow> string" where
  "quoted s = [CHR 0x22] @ s @ [CHR 0x22]"

text \<open>A Go map of strings as the list of its entries, with distinct keys.\<close>

type_synonym string_map = "(string \<times> string) list"

section \<open>Decimal numbers\<close>

text \<open>\<open>strconv.FormatInt(n, 10)\<close>, and the reading of a non-empty string of digits.\<close>

definition digit_char :: "int \<Rightarrow> char" where
  "digit_char d = ''0123456789'' ! nat d"

definition digit_val :: "char \<Rightarrow> int option" where
  "digit_val c = map_of (zip ''0123456789'' [0, 1, 2, 3, 4, 5, 6, 7, 8, 9]) c"

function format_nonneg :: "int \<Rightarrow> string" where
  "format_nonneg n =
     (if n < 10 then [digit_char n] else format_nonneg (n div 10) @ [digit_char (n mod 10)])"
  by pat_completeness auto
termination
  by (relation "measure nat") auto

declare format_nonneg.simps [simp del]

definition FormatInt :: "int \<Rightarrow> string" where
  "FormatInt n = (if n < 0 then CHR ''-'' # format_nonneg (- n) else format_nonneg n)"

fun read_digits :: "int \<Rightarrow> string \<Rightarrow> int option" where
  "read_digits acc [] = Some acc"
| "read_digits acc (c # cs) =
     (case digit_val c of None \<Rightarrow> None | Some d \<Rightarrow> read_digits (10 * acc + d) cs)"

definition read_nonneg :: "string \<Rightarrow> int option" where
  "read_nonneg s = (if s = [] then None else read_digits 0 s)"

definition read_int :: "string \<Rightarrow> int option" where
  "read_int s =
     (case s of
        [] \<Rightarrow> None
      | c # cs \<Rightarrow> if c = CHR ''-'' then map_option uminus (read_nonneg cs) else read_nonneg s)"

lemma digit_cases: "0 \<le> (d::int) \<Longrightarrow> d < 10 \<Longrightarrow>
    d = 0 \<or> d = 1 \<or> d = 2 \<or> d = 3 \<or> d = 4 \<or> d = 5 \<or> d = 6 \<or> d = 7 \<or> d = 8 \<or> d = 9"
  by arith

lemma digit_val_digit_char [simp]: "0 \<le> d \<Longrightarrow> d < 10 \<Longrightarrow> digit_val (digit_char d) = Some d"
  by (drule (1) digit_cases) (elim disjE; simp add: digit_val_def digit_char_def)

lemma digit_char_not_space [simp]: "0 \<le> d \<Longrightarrow> d < 10 \<Longrightarrow> \<not> is_space (digit_char d)"
  by (drule (1) digit_cases) (elim disjE; simp add: is_space_def digit_char_def)

lemma digit_char_not_minus [simp]: "0 \<le> d \<Longrightarrow> d < 10 \<Longrightarrow> digit_char d \<noteq> CHR ''-''"
  by (drule (1) digit_cases) (elim disjE; simp add: digit_char_def)

lemma read_digits_append:
  "read_digits acc (u @ v) = Option.bind (read_digits acc u) (\<lambda>a. read_digits a v)"
  by (induction u arbitrary: acc) (auto split: option.splits)

lemma read_format_nonneg: "0 \<le> n \<Longrightarrow> read_digits 0 (format_nonneg n) = Some n"
proof (induction n rule: format_nonneg.induct)
  case (1 n)
  then show ?case
    by (cases "n < 10")
      (simp_all add: format_nonneg.simps [of n] read_digits_append)
qed

lemma format_nonneg_chars:
  "0 \<le> n \<Longrightarrow> c \<in> set (format_nonneg n) \<Longrightarrow> \<exists>d. 0 \<le> d \<and> d < 10 \<and> c = digit_char d"
proof (induction n rule: format_nonneg.induct)
  case (1 n)
  show ?case
  proof (cases "n < 10")
    case True
    with 1 show ?thesis by (auto simp: format_nonneg.simps [of n])
  next
    case False
    with 1 consider "c \<in> set (format_nonneg (n div 10))" | "c = digit_char (n mod 10)"
      by (auto simp: format_nonneg.simps [of n])
    then show ?thesis
    proof cases
      case 1
      with False "1.IH" "1.prems" show ?thesis by auto
    next
      case 2
      then show ?thesis by (intro exI [of _ "n mod 10"]) simp
    qed
  qed
qed

lemma format_nonneg_not_Nil [simp]: "format_nonneg n \<noteq> []"
  by (subst format_nonneg.simps) simp

lemma read_int_FormatInt [go_string]: "read_int (FormatInt n) = Some n"
proof (cases "n < 0")
  case True
  then show ?thesis
    using read_format_nonneg [of "- n"] by (simp add: FormatInt_def read_int_def read_nonneg_def)
next
  case False
  then obtain c cs where c: "format_nonneg n = c # cs"
    by (cases "format_nonneg n") auto
  with False have "c \<noteq> CHR ''-''"
    using format_nonneg_chars [of n c] by auto
  then show ?thesis
    using False c read_format_nonneg [of n] by (simp add: FormatInt_def read_int_def read_nonneg_def)
qed

lemma FormatInt_inject [go_string]: "FormatInt m = FormatInt n \<longleftrightarrow> m = n"
  using read_int_FormatInt by (metis option.inject)

lemma FormatInt_no_space [go_string]: "c \<in> set (FormatInt n) \<Longrightarrow> \<not> is_space c"
proof (cases "n < 0")
  case True
  moreover assume "c \<in> set (FormatInt n)"
  ultimately have "c = CHR ''-'' \<or> c \<in> set (format_nonneg (- n))"
    by (simp add: FormatInt_def)
  then show ?thesis
    using format_nonneg_chars [of "- n" c] True by (auto simp: is_space_def [of "CHR ''-''"])
next
  case False
  moreover assume "c \<in> set (FormatInt n)"
  ultimately show ?thesis
    using format_nonneg_chars [of n c] by (auto simp: FormatInt_def)
qed

section \<open>sync.Once\<close>

text \<open>
  A \<open>sync.Once\<close> is a flag; \<open>Do f\<close> runs \<open>f\<close> on the state only when the flag is clear, and
  sets it in every case: when \<open>f\<close> panics, \<open>Do\<close> considers it to have returned.
\<close>

definition once_Do :: "bool \<Rightarrow> ('s \<Rightarrow> 's) \<Rightarrow> 's \<Rightarrow> bool \<times> 's" where
  "once_Do flag f s = (True, if flag then s else f s)"

lemma once_Do_idem:
  "once_Do (fst (once_Do flag f s)) g (snd (once_Do flag f s)) = once_Do flag f s"
  by (simp add: once_Do_def)

end
