(* ===== verification/Quantity.thy ===== *)
theory Quantity
  imports Go_Prelude
begin

text \<open>
  \<open>resource.Quantity\<close> of \<open>k8s.io/apimachinery\<close> is not part of the repository: it is a
  parameter of every definition that uses it, a record of the operations the source calls.
  The locale \<open>quantity\<close> states what the package documentation promises of them, as far as
  the source relies on it.  The second half gives one concrete implementation (exact decimal
  amounts with the documented suffixes), which discharges the laws, so that every theorem
  that assumes them can be run on concrete quantities.

  \<open>int64\<close> results are integers within \<^const>\<open>in_int64\<close>.  \<open>MustParse\<close> is \<^const>\<open>None\<close> where the
  call panics.  \<open>ListCpu\<close> and \<open>ListMemory\<close> are the accessors of \<open>corev1.ResourceList\<close>, the map
  from resource names to quantities of a container's limits and requests.  Equality of \<open>'q\<close> is Go's \<open>==\<close> on Quantity structs.
\<close>

record 'q quantity_api =
  Value :: "'q \<Rightarrow> int"
  MilliValue :: "'q \<Rightarrow> int"
  Sign :: "'q \<Rightarrow> int"
  QString :: "'q \<Rightarrow> string"
  DeepCopy :: "'q \<Rightarrow> 'q"
  SetValue :: "'q \<Rightarrow> int \<Rightarrow> 'q"
  SetMilli :: "'q \<Rightarrow> int \<Rightarrow> 'q"
  NewMilliQuantity :: "int \<Rightarrow> 'q"
  ParseQuantity :: "string \<Rightarrow> go_error + 'q"
  MustParse :: "string \<Rightarrow> 'q option"
  ZeroQuantity :: 'q
  ListCpu :: "(string \<rightharpoonup> 'q) \<Rightarrow> 'q"
  ListMemory :: "(string \<rightharpoonup> 'q) \<Rightarrow> 'q"

text \<open>The unit above \<open>m\<close> thousandths, rounded away from zero, as \<open>Value\<close> documents it.\<close>

definition milli_up :: "int \<Rightarrow> int" where
  "milli_up m = sgn m * ((\<bar>m\<bar> + 999) div 1000)"

locale quantity =
  fixes Q :: "'q quantity_api"
  assumes Value_range: "in_int64 (Value Q q)"
    and MilliValue_range: "in_int64 (MilliValue Q q)"
    and Value_SetValue: "in_int64 v \<Longrightarrow> Value Q (SetValue Q q v) = v"
    and MilliValue_SetMilli: "in_int64 m \<Longrightarrow> MilliValue Q (SetMilli Q q m) = m"
    and MilliValue_New: "in_int64 m \<Longrightarrow> MilliValue Q (NewMilliQuantity Q m) = m"
    and Value_New: "in_int64 m \<Longrightarrow> Value Q (NewMilliQuantity Q m) = milli_up m"
    and Value_DeepCopy: "Value Q (DeepCopy Q q) = Value Q q"
    and MilliValue_DeepCopy: "MilliValue Q (DeepCopy Q q) = MilliValue Q q"
    and Value_Zero: "Value Q (ZeroQuantity Q) = 0"
    and MilliValue_Zero: "MilliValue Q (ZeroQuantity Q) = 0"
    and ListCpu_Some: "rl ''cpu'' = Some q \<Longrightarrow> ListCpu Q rl = q"
    and ListMemory_Some: "rl ''memory'' = Some q \<Longrightarrow> ListMemory Q rl = q"
    and MustParse_iff: "MustParse Q s = Some q \<longleftrightarrow> ParseQuantity Q s = Inr q"
    and Parse_1Gi: "\<exists>q. MustParse Q ''1Gi'' = Some q \<and> Value Q q = 2 ^ 30"
    and Parse_64Mi: "\<exists>q. MustParse Q ''64Mi'' = Some q \<and> Value Q q = 2 ^ 26"
    and Parse_1000: "\<exists>q. MustParse Q ''1000'' = Some q \<and> MilliValue Q q = 1000000"
    and Parse_1000Gi: "\<exists>q. MustParse Q ''1000Gi'' = Some q \<and> Value Q q = 1000 * 2 ^ 30"
    and Parse_0: "\<exists>q. MustParse Q ''0'' = Some q \<and> MilliValue Q q = 0"
    and Parse_0Gi: "\<exists>q. MustParse Q ''0Gi'' = Some q \<and> Value Q q = 0"
begin

lemmas quantity_values =
  Value_range MilliValue_range Value_SetValue MilliValue_SetMilli MilliValue_New Value_New
  Value_DeepCopy MilliValue_DeepCopy Value_Zero MilliValue_Zero

lemma Value_wrap: "Value Q (SetValue Q q (wrap64 v)) = wrap64 v"
  by (simp add: Value_SetValue)

lemma MilliValue_wrap: "MilliValue Q (NewMilliQuantity Q (wrap64 m)) = wrap64 m"
  by (simp add: MilliValue_New)

end

section \<open>A concrete implementation\<close>

text \<open>
  An amount in units of \<open>10 ^ (- 9)\<close> (the documented precision) and whether the binary
  suffixes are used to print it.  Numbers in exponent notation are not read.
\<close>

datatype amount = Amount (nano: int) (binary_si: bool)

abbreviation nano_unit :: int where
  "nano_unit \<equiv> 1000000000"

definition ceil_away :: "int \<Rightarrow> int \<Rightarrow> int" where
  "ceil_away n d = sgn n * ((\<bar>n\<bar> + d - 1) div d)"

definition binary_suffixes :: "(string \<times> int) list" where
  "binary_suffixes =
     [(''Ei'', 2 ^ 60), (''Pi'', 2 ^ 50), (''Ti'', 2 ^ 40), (''Gi'', 2 ^ 30), (''Mi'', 2 ^ 20), (''Ki'', 2 ^ 10)]"

definition decimal_suffixes :: "(string \<times> int) list" where
  "decimal_suffixes =
     [(''E'', 10 ^ 27), (''P'', 10 ^ 24), (''T'', 10 ^ 21), (''G'', 10 ^ 18), (''M'', 10 ^ 15), (''k'', 10 ^ 12),
      ('''', 10 ^ 9), (''m'', 10 ^ 6), (''u'', 10 ^ 3), (''n'', 1)]"

text \<open>The nano units of one unit of a suffix.\<close>

definition suffix_scale :: "string \<Rightarrow> (int \<times> bool) option" where
  "suffix_scale s =
     (case map_of binary_suffixes s of
        Some m \<Rightarrow> Some (m * nano_unit, True)
      | None \<Rightarrow> map_option (\<lambda>m. (m, False)) (map_of decimal_suffixes s))"

definition is_digit :: "char \<Rightarrow> bool" where
  "is_digit c \<longleftrightarrow> digit_val c \<noteq> None"

text \<open>\<open>[sign] digits [. digits] suffix\<close>, rounded up to the precision.\<close>

definition parse_unsigned :: "string \<Rightarrow> amount option" where
  "parse_unsigned s =
     (let whole = takeWhile is_digit s; rest = dropWhile is_digit s;
          dot = (rest \<noteq> [] \<and> hd rest = CHR ''.'');
          frac = (if dot then takeWhile is_digit (tl rest) else []);
          suffix = (if dot then dropWhile is_digit (tl rest) else rest)
      in if whole = [] \<and> frac = [] then None
         else case (read_digits 0 (whole @ frac), suffix_scale suffix) of
                (Some n, Some (m, b)) \<Rightarrow> Some (Amount (ceil_away (n * m) (10 ^ length frac)) b)
              | _ \<Rightarrow> None)"

definition parse_amount :: "string \<Rightarrow> go_error + amount" where
  "parse_amount s =
     (case (if s \<noteq> [] \<and> hd s = CHR ''-''
            then map_option (\<lambda>a. Amount (- nano a) (binary_si a)) (parse_unsigned (tl s))
            else if s \<noteq> [] \<and> hd s = CHR ''+'' then parse_unsigned (tl s)
            else parse_unsigned s) of
        None \<Rightarrow> Inl (LibError ''quantities must match the regular expression'')
      | Some a \<Rightarrow> Inr a)"

text \<open>The canonical form: the largest suffix that leaves an integer.\<close>

fun format_with :: "int \<Rightarrow> (string \<times> int) list \<Rightarrow> string" where
  "format_with n [] = FormatInt n"
| "format_with n ((s, m) # sms) = (if n mod m = 0 then FormatInt (n div m) @ s else format_with n sms)"

definition format_amount :: "amount \<Rightarrow> string" where
  "format_amount a =
     (if nano a = 0 then ''0''
      else if binary_si a \<and> nano a mod nano_unit = 0 \<and> 1024 \<le> \<bar>nano a div nano_unit\<bar>
      then format_with (nano a div nano_unit) binary_suffixes
      else format_with (nano a) decimal_suffixes)"

definition ref_quantity :: "amount quantity_api" where
  "ref_quantity =
     \<lparr>Value = (\<lambda>a. wrap64 (ceil_away (nano a) nano_unit)),
      MilliValue = (\<lambda>a. wrap64 (ceil_away (nano a) 1000000)),
      Sign = (\<lambda>a. sgn (nano a)),
      QString = format_amount,
      DeepCopy = (\<lambda>a. a),
      SetValue = (\<lambda>a v. Amount (v * nano_unit) (binary_si a)),
      SetMilli = (\<lambda>a m. Amount (m * 1000000) (binary_si a)),
      NewMilliQuantity = (\<lambda>m. Amount (m * 1000000) False),
      ParseQuantity = parse_amount,
      MustParse = (\<lambda>s. case parse_amount s of Inl _ \<Rightarrow> None | Inr a \<Rightarrow> Some a),
      ZeroQuantity = Amount 0 False,
      ListCpu = (\<lambda>rl. case rl ''cpu'' of None \<Rightarrow> Amount 0 False | Some q \<Rightarrow> q),
      ListMemory = (\<lambda>rl. case rl ''memory'' of None \<Rightarrow> Amount 0 True | Some q \<Rightarrow> q)\<rparr>"

lemma ceil_away_exact [simp]: "0 < d \<Longrightarrow> ceil_away (n * d) d = n"
proof -
  assume d: "0 < d"
  have "(\<bar>n\<bar> * d + (d - 1)) div d = \<bar>n\<bar> + (d - 1) div d"
    using d by (subst add.commute) simp
  also have "(d - 1) div d = 0"
    using d by (intro div_pos_pos_trivial) auto
  finally have "(\<bar>n * d\<bar> + d - 1) div d = \<bar>n\<bar>"
    using d by (simp add: abs_mult add_diff_eq)
  then show ?thesis
    using d by (simp add: ceil_away_def sgn_mult sgn_mult_abs)
qed

lemma ceil_away_0 [simp]: "ceil_away 0 d = 0"
  by (simp add: ceil_away_def)

lemma wrap64_0 [simp]: "wrap64 0 = 0"
  by (simp add: wrap64_def)

lemma ceil_away_milli: "ceil_away (m * 1000000) 1000000000 = milli_up m"
proof -
  have "(\<bar>m\<bar> * 1000000 + 999999999) div (1000000 * 1000) =
      (\<bar>m\<bar> * 1000000 + 999999999) div 1000000 div 1000"
    by (rule zdiv_zmult2_eq) simp
  also have "(\<bar>m\<bar> * 1000000 + 999999999) div 1000000 = \<bar>m\<bar> + 999"
    by simp
  finally have "(\<bar>m\<bar> * 1000000 + 999999999) div 1000000000 = (\<bar>m\<bar> + 999) div 1000"
    by simp
  then show ?thesis
    by (simp add: ceil_away_def milli_up_def abs_mult sgn_mult add.commute)
qed

lemma in_int64_milli_up: "in_int64 m \<Longrightarrow> in_int64 (milli_up m)"
  by (auto simp: in_int64_def milli_up_def sgn_if)

interpretation ref: quantity ref_quantity
proof (unfold_locales, goal_cases)
  case (6 m)
  then show ?case
    by (simp add: ref_quantity_def ceil_away_milli in_int64_milli_up)
next
  case (13 s q)
  show ?case by (auto simp: ref_quantity_def split: sum.splits)
next
  case 14 show ?case by (rule exI [of _ "Amount (2 ^ 30 * nano_unit) True"]) code_simp
next
  case 15 show ?case by (rule exI [of _ "Amount (2 ^ 26 * nano_unit) True"]) code_simp
next
  case 16 show ?case by (rule exI [of _ "Amount (1000 * nano_unit) False"]) code_simp
next
  case 17 show ?case by (rule exI [of _ "Amount (1000 * 2 ^ 30 * nano_unit) True"]) code_simp
next
  case 18 show ?case by (rule exI [of _ "Amount 0 False"]) code_simp
next
  case 19 show ?case by (rule exI [of _ "Amount 0 True"]) code_simp
qed (simp_all add: ref_quantity_def)

section \<open>Printing and reading back\<close>

text \<open>The text of a quantity is a quantity of the same value.\<close>

locale quantity_text = quantity +
  assumes Parse_QString: "\<exists>q'. ParseQuantity Q (QString Q q) = Inr q' \<and>
    Value Q q' = Value Q q \<and> MilliValue Q q' = MilliValue Q q"
begin

lemma MustParse_QString: "\<exists>q'. MustParse Q (QString Q q) = Some q' \<and>
    Value Q q' = Value Q q \<and> MilliValue Q q' = MilliValue Q q"
  using Parse_QString [of q] MustParse_iff by blast

end

lemma is_digit_digit_char [simp]: "0 \<le> d \<Longrightarrow> d < 10 \<Longrightarrow> is_digit (digit_char d)"
  by (simp add: is_digit_def)

lemma format_nonneg_digits: "0 \<le> n \<Longrightarrow> \<forall>c\<in>set (format_nonneg n). is_digit c"
  using format_nonneg_chars by fastforce

definition suffix_like :: "string \<Rightarrow> bool" where
  "suffix_like s \<longleftrightarrow> s = [] \<or> (\<not> is_digit (hd s) \<and> hd s \<noteq> CHR ''.'')"

lemma parse_unsigned_format:
  assumes "0 \<le> n" "suffix_like s" "suffix_scale s = Some (m, b)"
  shows "parse_unsigned (format_nonneg n @ s) = Some (Amount (n * m) b)"
proof -
  have s: "takeWhile is_digit s = []" "dropWhile is_digit s = s"
    using assms(2) by (cases s; simp add: suffix_like_def)+
  have w: "takeWhile is_digit (format_nonneg n @ s) = format_nonneg n"
      "dropWhile is_digit (format_nonneg n @ s) = s"
    using format_nonneg_digits [OF assms(1)] s by (simp_all add: takeWhile_append2 dropWhile_append2)
  have "(s \<noteq> [] \<and> hd s = CHR ''.'') = False"
    using assms(2) by (auto simp: suffix_like_def)
  note nodot = this
  show ?thesis
    using read_format_nonneg [OF assms(1)] assms(3) ceil_away_exact [of 1 "n * m"]
    unfolding parse_unsigned_def Let_def w nodot by simp
qed

lemma parse_amount_format:
  assumes "suffix_like s" "suffix_scale s = Some (m, b)"
  shows "parse_amount (FormatInt n @ s) = Inr (Amount (n * m) b)"
proof (cases "n < 0")
  case True
  then show ?thesis
    using parse_unsigned_format [of "- n", OF _ assms] by (simp add: FormatInt_def parse_amount_def)
next
  case False
  then obtain c cs where c: "format_nonneg n = c # cs" "is_digit c"
    using format_nonneg_digits [of n] by (cases "format_nonneg n") auto
  then have "c \<noteq> CHR ''-''" "c \<noteq> CHR ''+''"
    by (auto simp: is_digit_def digit_val_def)
  then show ?thesis
    using False c parse_unsigned_format [of n, OF _ assms]
    by (simp add: FormatInt_def parse_amount_def)
qed

text \<open>\<^const>\<open>format_with\<close>, whichever suffix it stops at.\<close>

lemma parse_format_with:
  assumes "u = nano_unit \<or> (s0, 1) \<in> set sms"
    and "\<forall>(s, m)\<in>set sms. suffix_like s \<and> suffix_scale s = Some (m * u, b)"
  shows "\<exists>b. parse_amount (format_with n sms) = Inr (Amount (n * u) b)"
  using assms
proof (induction sms)
  case Nil
  have "suffix_like []" "suffix_scale [] = Some (nano_unit, False)"
    by (simp_all add: suffix_like_def suffix_scale_def binary_suffixes_def decimal_suffixes_def)
  from parse_amount_format [OF this, of n] Nil show ?case by auto
next
  case (Cons sm sms)
  obtain s m where sm: "sm = (s, m)" by (cases sm)
  show ?case
  proof (cases "n mod m = 0")
    case True
    then have "n div m * (m * u) = n * u"
      by (metis dvd_div_mult_self mod_0_imp_dvd mult.assoc)
    then show ?thesis
      using True Cons.prems(2) parse_amount_format [of s "m * u" b "n div m"] by (simp add: sm)
  next
    case False
    with Cons show ?thesis by (auto simp: sm)
  qed
qed

lemma binary_suffixes_scale:
  "\<forall>(s, m)\<in>set binary_suffixes. suffix_like s \<and> suffix_scale s = Some (m * nano_unit, True)"
  by code_simp

lemma decimal_suffixes_scale:
  "\<forall>(s, m)\<in>set decimal_suffixes. suffix_like s \<and> suffix_scale s = Some (m * 1, False)"
  by code_simp

lemma parse_format_amount: "\<exists>b. parse_amount (format_amount a) = Inr (Amount (nano a) b)"
proof -
  have d: "\<exists>b. parse_amount (format_with (nano a) decimal_suffixes) = Inr (Amount (nano a) b)"
    using parse_format_with [OF _ decimal_suffixes_scale, of "''n''" "nano a"]
    by (simp add: decimal_suffixes_def)
  have b: "\<exists>b. parse_amount (format_with (nano a div nano_unit) binary_suffixes) = Inr (Amount (nano a) b)"
    if "nano a mod nano_unit = 0"
  proof -
    have "nano a div nano_unit * nano_unit = nano a"
      using that by (metis dvd_div_mult_self mod_0_imp_dvd)
    then show ?thesis
      using parse_format_with [OF _ binary_suffixes_scale, of _ "nano a div nano_unit"] by metis
  qed
  have z: "parse_amount ''0'' = Inr (Amount 0 False)"
    by code_simp
  show ?thesis
  proof (cases "nano a = 0")
    case True
    with z show ?thesis unfolding format_amount_def by (intro exI [of _ False]) simp
  next
    case False
    with b d show ?thesis by (simp add: format_amount_def)
  qed
qed

interpretation ref: quantity_text ref_quantity
proof unfold_locales
  fix q
  obtain b where "parse_amount (format_amount q) = Inr (Amount (nano q) b)"
    using parse_format_amount by blast
  then show "\<exists>q'. ParseQuantity ref_quantity (QString ref_quantity q) = Inr q' \<and>
      Value ref_quantity q' = Value ref_quantity q \<and>
      MilliValue ref_quantity q' = MilliValue ref_quantity q"
    by (simp add: ref_quantity_def)
qed

end
