(* ===== verification/Go_Float.thy ===== *)
theory Go_Float
  imports Complex_Main Go_Prelude
begin

text \<open>
  The \<open>float64\<close> of Go, as far as the source computes with it: conversions from
  \<open>uint64\<close> and \<open>int64\<close>, addition, multiplication, division, comparison and the
  conversion back to \<open>int64\<close>.  A finite value is the rational number it denotes; every
  operation rounds its exact result to the nearest 53-bit value, ties to even, with
  gradual underflow and overflow to infinity.  The sign of a zero is not kept: no
  operation of the source divides by a negative zero or prints one.

  The lemmas are collected in \<open>go_float\<close>.  Rounding is monotone, so a comparison of a
  rounded quotient with a constant reduces to the exact quotient and one evaluation.
\<close>

named_theorems go_float

datatype f64 = Fin rat | PInf | NInf | NaN

section \<open>Rounding\<close>

text \<open>The number of binary digits of a positive integer.\<close>

function nbits :: "int \<Rightarrow> nat" where
  "nbits n = (if n \<le> 0 then 0 else Suc (nbits (n div 2)))"
  by pat_completeness auto
termination
  by (relation "measure nat") auto

declare nbits.simps [simp del]

text \<open>The binary exponent of a positive rational: \<open>2 ^ e \<le> r < 2 ^ (e + 1)\<close>.\<close>

definition expo :: "rat \<Rightarrow> int" where
  "expo r =
     (case quotient_of r of (p, q) \<Rightarrow>
        let e = int (nbits p) - int (nbits q)
        in if 2 powi e \<le> r then e else e - 1)"

definition round_half_even :: "rat \<Rightarrow> int" where
  "round_half_even x =
     (let f = \<lfloor>x\<rfloor>; d = x - of_int f
      in if d < 1 / 2 \<or> (d = 1 / 2 \<and> even f) then f else f + 1)"

text \<open>The distance of two neighbouring float64 values at \<open>r\<close>, and \<open>r\<close> rounded.\<close>

definition ulp :: "rat \<Rightarrow> rat" where
  "ulp r = 2 powi (max (expo r) (- 1022) - 52)"

definition rnd_pos :: "rat \<Rightarrow> rat" where
  "rnd_pos r = of_int (round_half_even (r / ulp r)) * ulp r"

definition round64 :: "rat \<Rightarrow> f64" where
  "round64 r =
     (if r = 0 then Fin 0
      else let a = rnd_pos \<bar>r\<bar>
           in if 2 ^ 1024 \<le> a then (if 0 < r then PInf else NInf) else Fin (sgn r * a))"

section \<open>Operations\<close>

definition f64_of_u64 :: "u64 \<Rightarrow> f64" where
  "f64_of_u64 w = round64 (of_int (uint w))"

definition f64_of_int64 :: "int \<Rightarrow> f64" where
  "f64_of_int64 n = round64 (of_int n)"

definition inf_of_sign :: "rat \<Rightarrow> f64" where
  "inf_of_sign s = (if s = 0 then NaN else if 0 < s then PInf else NInf)"

fun f64_sign :: "f64 \<Rightarrow> rat" where
  "f64_sign (Fin a) = sgn a"
| "f64_sign PInf = 1"
| "f64_sign NInf = - 1"
| "f64_sign NaN = 0"

fun f64_div :: "f64 \<Rightarrow> f64 \<Rightarrow> f64" where
  "f64_div (Fin a) (Fin b) = (if b = 0 then inf_of_sign a else round64 (a / b))"
| "f64_div NaN _ = NaN"
| "f64_div _ NaN = NaN"
| "f64_div (Fin a) _ = Fin 0"
| "f64_div x (Fin b) = inf_of_sign (f64_sign x * (if b < 0 then - 1 else 1))"
| "f64_div _ _ = NaN"

text \<open>
  Go's \<open>+\<close>, \<open>*\<close>, \<open><\<close> and \<open><=\<close> are the operations of the type classes.  The comparisons are
  false on a NaN, also when both sides are the same NaN, so \<^typ>\<open>f64\<close> is no \<open>preorder\<close>; the quotient
  keeps a name of its own because HOL's \<open>/\<close> is 0 on a zero divisor.
\<close>

instantiation f64 :: "{plus, times, ord}"
begin

fun plus_f64 :: "f64 \<Rightarrow> f64 \<Rightarrow> f64" where
  "plus_f64 (Fin a) (Fin b) = round64 (a + b)"
| "plus_f64 NaN _ = NaN"
| "plus_f64 _ NaN = NaN"
| "plus_f64 PInf NInf = NaN"
| "plus_f64 NInf PInf = NaN"
| "plus_f64 PInf _ = PInf"
| "plus_f64 _ PInf = PInf"
| "plus_f64 NInf _ = NInf"
| "plus_f64 _ NInf = NInf"

fun times_f64 :: "f64 \<Rightarrow> f64 \<Rightarrow> f64" where
  "times_f64 (Fin a) (Fin b) = round64 (a * b)"
| "times_f64 NaN _ = NaN"
| "times_f64 _ NaN = NaN"
| "times_f64 x y = inf_of_sign (f64_sign x * f64_sign y)"

fun less_f64 :: "f64 \<Rightarrow> f64 \<Rightarrow> bool" where
  "less_f64 (Fin a) (Fin b) \<longleftrightarrow> a < b"
| "less_f64 NaN _ \<longleftrightarrow> False"
| "less_f64 _ NaN \<longleftrightarrow> False"
| "less_f64 x PInf \<longleftrightarrow> x \<noteq> PInf"
| "less_f64 PInf _ \<longleftrightarrow> False"
| "less_f64 NInf y \<longleftrightarrow> y \<noteq> NInf"
| "less_f64 _ NInf \<longleftrightarrow> False"

definition less_eq_f64 :: "f64 \<Rightarrow> f64 \<Rightarrow> bool" where
  "x \<le> y \<longleftrightarrow> x < y \<or> (x = y \<and> x \<noteq> NaN)" for x y :: f64

instance ..

end

text \<open>
  \<open>int64(f)\<close>: the integer part.  Outside the range of \<open>int64\<close> the result is left to the
  implementation, which is \<^const>\<open>None\<close> here.
\<close>

definition trunc_rat :: "rat \<Rightarrow> int" where
  "trunc_rat a = (if a < 0 then - \<lfloor>- a\<rfloor> else \<lfloor>a\<rfloor>)"

fun int64_of_f64 :: "f64 \<Rightarrow> int option" where
  "int64_of_f64 (Fin a) = (if in_int64 (trunc_rat a) then Some (trunc_rat a) else None)"
| "int64_of_f64 _ = None"

section \<open>Rounding is monotone and exact on small integers\<close>

lemma nbits_bounds: "0 < n \<Longrightarrow> 0 < nbits n \<and> 2 ^ (nbits n - 1) \<le> n \<and> n < 2 ^ nbits n"
proof (induction n rule: nbits.induct)
  case (1 n)
  have n: "nbits n = Suc (nbits (n div 2))"
    using 1 by (subst nbits.simps) simp
  show ?case
  proof (cases "n = 1")
    case True
    moreover have "nbits 0 = 0" by (subst nbits.simps) simp
    ultimately show ?thesis using n by simp
  next
    case False
    with 1 have "0 < nbits (n div 2)" "2 ^ (nbits (n div 2) - 1) \<le> n div 2"
        "n div 2 < 2 ^ nbits (n div 2)"
      by auto
    then show ?thesis
      unfolding n by (cases "nbits (n div 2)") auto
  qed
qed

lemma nbits_powi:
  assumes "0 < p"
  shows "(2::rat) powi (int (nbits p) - 1) \<le> of_int p"
    and "of_int p < (2::rat) powi int (nbits p)"
proof -
  have b: "0 < nbits p" "2 ^ (nbits p - 1) \<le> p" "p < 2 ^ nbits p"
    using nbits_bounds [OF assms] by auto
  then have e: "int (nbits p) - 1 = int (nbits p - 1)"
    by simp
  have "(of_int (2 ^ (nbits p - 1)) :: rat) \<le> of_int p"
    using b(2) by (simp only: of_int_le_iff)
  then show "(2::rat) powi (int (nbits p) - 1) \<le> of_int p"
    unfolding e by simp
  have "of_int p < (of_int (2 ^ nbits p) :: rat)"
    using b(3) by (simp only: of_int_less_iff)
  then show "of_int p < (2::rat) powi int (nbits p)"
    by simp
qed

lemma powi_2_mono: "a \<le> b \<Longrightarrow> (2::rat) powi a \<le> 2 powi b"
  by (rule power_int_increasing) auto

lemma powi_2_add: "(2::rat) powi (a + b) = 2 powi a * 2 powi b"
  by (simp add: power_int_add)

lemma powi_2_pos [simp]: "(0::rat) < 2 powi a"
  by simp

lemma expo_bounds:
  assumes "0 < r"
  shows "2 powi expo r \<le> r" and "r < 2 powi (expo r + 1)"
proof -
  obtain p q where pq: "quotient_of r = (p, q)" by (cases "quotient_of r")
  have q: "0 < q" using quotient_of_denom_pos [OF pq] .
  have r: "r = of_int p / of_int q" using quotient_of_div [OF pq] .
  have p: "0 < p" using assms q unfolding r by (simp add: zero_less_divide_iff)
  define e where "e = int (nbits p) - int (nbits q)"
  have "r < 2 powi int (nbits p) / 2 powi (int (nbits q) - 1)"
    unfolding r using nbits_powi [OF p] nbits_powi [OF q] p q
    by (intro frac_less) auto
  also have "\<dots> = 2 powi (e + 1)"
    by (simp add: e_def power_int_diff power_int_add)
  finally have up: "r < 2 powi (e + 1)" .
  have "2 powi (int (nbits p) - 1) / 2 powi int (nbits q) < r"
    unfolding r using nbits_powi [OF p] nbits_powi [OF q] p q
    by (intro frac_less2) auto
  moreover have "2 powi (int (nbits p) - 1) / 2 powi int (nbits q) = (2::rat) powi (e - 1)"
    by (simp add: e_def power_int_diff)
  ultimately have low: "2 powi (e - 1) < r" by simp
  have "expo r = (if 2 powi e \<le> r then e else e - 1)"
    by (simp add: expo_def pq e_def Let_def)
  with up low show "2 powi expo r \<le> r" and "r < 2 powi (expo r + 1)"
    by auto
qed

lemma expo_eqI: "0 < r \<Longrightarrow> 2 powi e \<le> r \<Longrightarrow> r < 2 powi (e + 1) \<Longrightarrow> expo r = e"
proof (rule ccontr)
  assume r: "0 < r" "2 powi e \<le> r" "r < 2 powi (e + 1)" and "expo r \<noteq> e"
  then consider "expo r + 1 \<le> e" | "e + 1 \<le> expo r" by linarith
  then show False
    using r expo_bounds [OF r(1)] powi_2_mono [of "expo r + 1" e] powi_2_mono [of "e + 1" "expo r"]
    by cases auto
qed

lemma expo_mono:
  assumes "0 < a" "a \<le> b"
  shows "expo a \<le> expo b"
proof (rule ccontr)
  assume "\<not> expo a \<le> expo b"
  then have "(2::rat) powi (expo b + 1) \<le> 2 powi expo a"
    by (intro powi_2_mono) simp
  moreover have "2 powi expo a \<le> a" "b < 2 powi (expo b + 1)"
    using expo_bounds assms by auto
  ultimately show False using assms(2) by linarith
qed

lemma round_half_even_of_int [simp]: "round_half_even (of_int n) = n"
  by (simp add: round_half_even_def)

lemma round_half_even_numeral [simp]: "round_half_even (numeral n) = numeral n"
  using round_half_even_of_int [of "numeral n"] by (simp only: of_int_numeral)

lemma round_half_even_floor: "\<lfloor>x\<rfloor> \<le> round_half_even x \<and> round_half_even x \<le> \<lfloor>x\<rfloor> + 1"
  by (simp add: round_half_even_def Let_def)

lemma round_half_even_mono:
  assumes "x \<le> y"
  shows "round_half_even x \<le> round_half_even y"
proof (cases "\<lfloor>x\<rfloor> = \<lfloor>y\<rfloor>")
  case True
  with assms show ?thesis
    by (auto simp: round_half_even_def Let_def)
next
  case False
  with assms have "\<lfloor>x\<rfloor> + 1 \<le> \<lfloor>y\<rfloor>"
    using floor_mono [OF assms] by linarith
  then show ?thesis
    using round_half_even_floor [of x] round_half_even_floor [of y] by linarith
qed

lemma ulp_pos [simp]: "0 < ulp r"
  by (simp add: ulp_def)

lemma rnd_pos_upper:
  assumes "0 < a"
  shows "rnd_pos a \<le> 2 powi (max (expo a) (- 1022) + 1)"
proof -
  let ?m = "max (expo a) (- 1022)"
  have "a \<le> 2 powi (?m + 1)"
    using expo_bounds(2) [OF assms] powi_2_mono [of "expo a + 1" "?m + 1"] by simp
  also have "\<dots> = of_int (2 ^ 53) * ulp a"
    by (simp add: ulp_def power_int_add power_int_diff)
  finally have "a / ulp a \<le> of_int (2 ^ 53)"
    by (simp only: pos_divide_le_eq [OF ulp_pos])
  then have "round_half_even (a / ulp a) \<le> 2 ^ 53"
    using round_half_even_mono [of "a / ulp a" "of_int (2 ^ 53)"] by (simp only: round_half_even_of_int)
  then have "rnd_pos a \<le> of_int (2 ^ 53) * ulp a"
    unfolding rnd_pos_def by (intro mult_right_mono) (simp_all only: of_int_le_iff less_imp_le [OF ulp_pos])
  also have "\<dots> = 2 powi (?m + 1)"
    by (simp add: ulp_def power_int_add power_int_diff)
  finally show ?thesis .
qed

lemma rnd_pos_lower:
  assumes "0 < b" "- 1022 \<le> expo b"
  shows "2 powi expo b \<le> rnd_pos b"
proof -
  have u: "(2::rat) powi expo b = of_int (2 ^ 52) * ulp b"
    using assms(2) by (simp add: ulp_def power_int_diff max_def)
  have "of_int (2 ^ 52) \<le> b / ulp b"
    using expo_bounds(1) [OF assms(1)] unfolding u by (simp only: pos_le_divide_eq [OF ulp_pos])
  then have "2 ^ 52 \<le> round_half_even (b / ulp b)"
    using round_half_even_mono [of "of_int (2 ^ 52)" "b / ulp b"] by (simp only: round_half_even_of_int)
  then show ?thesis
    unfolding u rnd_pos_def by (intro mult_right_mono) (simp_all only: of_int_le_iff less_imp_le [OF ulp_pos])
qed

lemma rnd_pos_mono:
  assumes "0 < a" "a \<le> b"
  shows "rnd_pos a \<le> rnd_pos b"
proof (cases "max (expo a) (- 1022) = max (expo b) (- 1022)")
  case True
  then have u: "ulp a = ulp b" by (simp add: ulp_def)
  have "a / ulp b \<le> b / ulp b"
    using assms(2) by (simp add: divide_right_mono less_imp_le)
  then have "round_half_even (a / ulp a) \<le> round_half_even (b / ulp b)"
    unfolding u by (rule round_half_even_mono)
  then show ?thesis
    unfolding rnd_pos_def u by (intro mult_right_mono) (simp_all add: less_imp_le)
next
  case False
  have b: "0 < b" using assms by simp
  from False have e: "max (expo a) (- 1022) + 1 \<le> expo b" "- 1022 \<le> expo b"
    using expo_mono [OF assms] by auto
  have "rnd_pos a \<le> 2 powi (max (expo a) (- 1022) + 1)"
    by (rule rnd_pos_upper [OF assms(1)])
  also have "\<dots> \<le> 2 powi expo b" using e(1) by (rule powi_2_mono)
  also have "\<dots> \<le> rnd_pos b" using rnd_pos_lower [OF b e(2)] .
  finally show ?thesis .
qed

text \<open>Integers below \<open>2 ^ 53\<close> are float64 values.\<close>

lemma rnd_pos_small_int:
  assumes "0 < n" "n < 2 ^ 53"
  shows "rnd_pos (of_int n) = of_int n"
proof -
  let ?r = "of_int n :: rat"
  have r: "0 < ?r" and one: "1 \<le> ?r"
    using assms by simp_all
  have "expo ?r < 53"
  proof (rule ccontr)
    assume "\<not> expo ?r < 53"
    then have "(2::rat) powi 53 \<le> 2 powi expo ?r" by (intro powi_2_mono) simp
    with expo_bounds(1) [OF r] have "(2::rat) powi 53 \<le> ?r" by linarith
    then have "of_int (2 ^ 53) \<le> ?r" by simp
    with assms(2) show False by (simp only: of_int_le_iff not_le [symmetric])
  qed
  moreover have "0 \<le> expo ?r"
  proof (rule ccontr)
    assume "\<not> 0 \<le> expo ?r"
    then have "(2::rat) powi (expo ?r + 1) \<le> 2 powi 0" by (intro powi_2_mono) simp
    with expo_bounds(2) [OF r] one show False by simp
  qed
  moreover define k where "k = nat (52 - expo ?r)"
  ultimately have k: "max (expo ?r) (- 1022) - 52 = - int k"
    by simp
  have u: "ulp ?r = 1 / of_int (2 ^ k)"
    unfolding ulp_def k by (simp add: power_int_minus divide_inverse)
  have "?r / ulp ?r = of_int (n * 2 ^ k)"
    unfolding u by simp
  then have "round_half_even (?r / ulp ?r) = n * 2 ^ k"
    by (simp only: round_half_even_of_int)
  then show ?thesis
    unfolding rnd_pos_def u by simp
qed

section \<open>Rates: an unsigned count divided by a signed duration\<close>

text \<open>Four constants, rounded: the literal \<open>0.1\<close> and the bounds the proofs below need.\<close>

lemma rnd_pos_tenth: "rnd_pos (1 / 10) = 3602879701896397 / 36028797018963968"
proof -
  have e: "expo (1 / 10) = - 4"
    by (rule expo_eqI) (simp_all add: power_int_def power_divide)
  have f: "\<lfloor>36028797018963968 / 5 :: rat\<rfloor> = 7205759403792793"
    by (rule floor_unique) simp_all
  show ?thesis
    by (simp add: rnd_pos_def ulp_def e power_int_def power_divide round_half_even_def Let_def f)
qed

lemma rnd_pos_over_tenth:
  "rnd_pos (1 / 10) < rnd_pos (1 / 10 + 1 / (10 * 2 ^ 50))"
proof -
  have c: "1 / 10 + 1 / (10 * 2 ^ 50) = (225179981368525 / 2251799813685248 :: rat)"
    by simp
  have e: "expo (225179981368525 / 2251799813685248) = - 4"
    by (rule expo_eqI) (simp_all add: power_int_def power_divide)
  show ?thesis
    unfolding rnd_pos_tenth c
    by (simp add: rnd_pos_def ulp_def e power_int_def power_divide round_half_even_def Let_def)
qed

lemma rnd_pos_power: "- 1022 \<le> e \<Longrightarrow> rnd_pos (2 powi e) = 2 powi e"
proof -
  assume e: "- 1022 \<le> e"
  have x: "expo (2 powi e) = e"
    by (rule expo_eqI) (simp_all add: power_int_add)
  have "(2::rat) powi e / 2 powi (e - 52) = of_int (2 ^ 52)"
    by (simp add: power_int_diff)
  then show ?thesis
    using e unfolding rnd_pos_def ulp_def x
    by (simp add: max_def power_int_diff)
qed

lemma rnd_pos_pos: "2 powi (- 1022) \<le> r \<Longrightarrow> 0 < rnd_pos r"
  using rnd_pos_mono [of "2 powi (- 1022)" r] rnd_pos_power [of "- 1022"] powi_2_pos [of "- 1022"]
  by linarith

lemma round64_between:
  assumes "2 powi a \<le> r" "r \<le> 2 powi b" "- 1022 \<le> a" "b < 1024"
  shows "round64 r = Fin (rnd_pos r) \<and> 2 powi a \<le> rnd_pos r \<and> rnd_pos r \<le> 2 powi b"
proof -
  have r: "0 < r" using assms(1) powi_2_pos [of a] by linarith
  have ab: "a \<le> b"
  proof (rule ccontr)
    assume "\<not> a \<le> b"
    then have "(2::rat) powi b < 2 powi a" by (intro power_int_strict_increasing) auto
    with assms show False by linarith
  qed
  have lo: "2 powi a \<le> rnd_pos r"
    using rnd_pos_mono [OF powi_2_pos assms(1)] rnd_pos_power [OF assms(3)] by simp
  have hi: "rnd_pos r \<le> 2 powi b"
    using rnd_pos_mono [OF r assms(2)] rnd_pos_power [of b] ab assms(3) by simp
  also have "(2::rat) powi b < 2 powi 1024"
    using assms(4) by (intro power_int_strict_increasing) auto
  finally have "rnd_pos r < 2 ^ 1024" by (simp only: power_int_numeral)
  then show ?thesis
    using lo hi r by (simp add: round64_def Let_def)
qed

lemma round64_0 [simp]: "round64 0 = Fin 0"
  by (simp add: round64_def)

lemma round64_uminus:
  "0 < r \<Longrightarrow> round64 r = Fin x \<Longrightarrow> round64 (- r) = Fin (- x)"
  by (auto simp: round64_def Let_def split: if_splits)

text \<open>Converting a count: at least 1 unless it is 0, at most \<open>2 ^ 64\<close>, exact below \<open>2 ^ 53\<close>.\<close>

lemma round64_int:
  assumes "1 \<le> n" "n \<le> 2 ^ 64"
  shows "round64 (of_int n) = Fin (rnd_pos (of_int n)) \<and> 1 \<le> rnd_pos (of_int n) \<and> rnd_pos (of_int n) \<le> 2 ^ 64"
proof -
  have "(of_int n :: rat) \<le> of_int (2 ^ 64)"
    using assms(2) by (simp only: of_int_le_iff)
  then show ?thesis
    using round64_between [of 0 "of_int n" 64] assms(1) by simp
qed

lemma f64_of_u64_cases:
  obtains (zero) "w = 0" "f64_of_u64 w = Fin 0"
    | (pos) x where "w \<noteq> 0" "f64_of_u64 w = Fin x" "1 \<le> x" "x \<le> 2 ^ 64"
        "x = rnd_pos (of_int (uint w))"
proof (cases "w = 0")
  case True
  then show ?thesis using zero by (simp add: f64_of_u64_def)
next
  case False
  then have "1 \<le> uint w"
    using uint_0_iff [of w] uint_ge_0 [of w] by linarith
  moreover have "uint w \<le> 2 ^ 64"
    using uint_bounded [of w] by simp
  ultimately show ?thesis
    using pos False round64_int [of "uint w"] by (simp add: f64_of_u64_def)
qed

lemma f64_of_int64_pos:
  assumes "0 < d" "in_int64 d"
  obtains y where "f64_of_int64 d = Fin y" "1 \<le> y" "y \<le> 2 ^ 64"
proof -
  have "1 \<le> d" "d \<le> 2 ^ 64"
    using assms by (auto simp: in_int64_def)
  from round64_int [OF this] that show ?thesis
    by (simp add: f64_of_int64_def)
qed

lemma f64_of_int64_neg:
  assumes "d < 0" "in_int64 d"
  obtains y where "f64_of_int64 d = Fin (- y)" "1 \<le> y" "y \<le> 2 ^ 64"
proof -
  have "1 \<le> - d" "- d \<le> 2 ^ 64"
    using assms by (auto simp: in_int64_def)
  note r = round64_int [OF this]
  have "round64 (- of_int (- d)) = Fin (- rnd_pos (of_int (- d)))"
    using r assms(1) by (intro round64_uminus) simp_all
  with r that show ?thesis
    by (simp add: f64_of_int64_def)
qed

lemma quotient_between:
  assumes "1 \<le> x" "x \<le> 2 ^ 64" "1 \<le> y" "y \<le> (2::rat) ^ 64"
  shows "2 powi (- 64) \<le> x / y" and "x / y \<le> 2 powi 64"
proof -
  have "1 / 2 ^ 64 \<le> x / y"
    using assms by (intro frac_le) auto
  then show "2 powi (- 64) \<le> x / y" by (simp add: power_int_def power_divide)
  have "x / y \<le> 2 ^ 64 / 1"
    using assms by (intro frac_le) auto
  then show "x / y \<le> 2 powi 64" by (simp add: power_int_def)
qed

lemma f64_div_pos:
  assumes "1 \<le> x" "x \<le> 2 ^ 64" "1 \<le> y" "y \<le> 2 ^ 64"
  shows "f64_div (Fin x) (Fin y) = Fin (rnd_pos (x / y))" and "0 < rnd_pos (x / y)"
    and "f64_div (Fin x) (Fin (- y)) = Fin (- rnd_pos (x / y))"
proof -
  note b = quotient_between [OF assms]
  have r: "round64 (x / y) = Fin (rnd_pos (x / y))" "2 powi (- 64) \<le> rnd_pos (x / y)"
    using round64_between [OF b] by simp_all
  then show "f64_div (Fin x) (Fin y) = Fin (rnd_pos (x / y))"
    using assms by simp
  show "0 < rnd_pos (x / y)"
    using r(2) powi_2_pos [of "- 64"] by linarith
  show "f64_div (Fin x) (Fin (- y)) = Fin (- rnd_pos (x / y))"
    using round64_uminus [OF _ r(1)] assms by (simp add: divide_pos_pos)
qed

text \<open>The sign of a rate: the test \<open>rate > 0.0\<close>.\<close>

lemma rate_positive_iff [go_float]:
  assumes "in_int64 d"
  shows "Fin 0 < f64_div (f64_of_u64 w) (f64_of_int64 d) \<longleftrightarrow> w \<noteq> 0 \<and> 0 \<le> d"
proof -
  consider "d = 0" | "0 < d" | "d < 0" by linarith
  then show ?thesis
  proof cases
    case 1
    then show ?thesis
      by (cases w rule: f64_of_u64_cases) (auto simp: f64_of_int64_def inf_of_sign_def)
  next
    case 2
    from f64_of_int64_pos [OF 2 assms] obtain y where y: "f64_of_int64 d = Fin y" "1 \<le> y" "y \<le> 2 ^ 64" .
    show ?thesis
      using 2 y f64_div_pos by (cases w rule: f64_of_u64_cases) auto
  next
    case 3
    from f64_of_int64_neg [OF 3 assms] obtain y where y: "f64_of_int64 d = Fin (- y)" "1 \<le> y" "y \<le> 2 ^ 64" .
    show ?thesis
    proof (cases w rule: f64_of_u64_cases)
      case zero
      with 3 y show ?thesis by simp
    next
      case (pos x)
      have "f64_div (Fin x) (Fin (- y)) = Fin (- rnd_pos (x / y))" "0 < rnd_pos (x / y)"
        using f64_div_pos [OF pos(3,4) y(2,3)] by simp_all
      with 3 pos y show ?thesis by simp
    qed
  qed
qed

text \<open>
  The test \<open>rate <= 0.1\<close> is exact for windows up to \<open>2 ^ 50\<close> nanoseconds (thirteen days):
  the two roundings and the rounding of the literal do not change its answer.
\<close>

definition f64_tenth :: f64 where
  "f64_tenth = round64 (1 / 10)"

lemma f64_tenth_eq: "f64_tenth = Fin (rnd_pos (1 / 10))"
proof -
  have "round64 (1 / 10) = Fin (rnd_pos (1 / 10))"
    using round64_between [of "- 4" "1 / 10" 0] by (simp add: power_int_def power_divide)
  then show ?thesis by (simp add: f64_tenth_def)
qed

text \<open>A count over a tenth of the window exceeds it by a unit, also after its conversion.\<close>

lemma over_tenth_gap:
  assumes "0 < d" "d \<le> 2 ^ 50" "d < 10 * uint w"
  shows "1 / 10 + 1 / (10 * 2 ^ 50) \<le> rnd_pos (of_int (uint w)) / of_int d"
proof -
  let ?x = "rnd_pos (of_int (uint w))"
  have pos: "0 < uint w" using assms by linarith
  have "of_int d + 1 \<le> 10 * ?x"
  proof (cases "uint w < 2 ^ 53")
    case True
    then have x: "?x = of_int (uint w)"
      using pos rnd_pos_small_int [of "uint w"] by simp
    have "(of_int (d + 1) :: rat) \<le> of_int (10 * uint w)"
      unfolding of_int_le_iff using assms(3) by simp
    then show ?thesis unfolding x by simp
  next
    case False
    then have "(of_int (2 ^ 53) :: rat) \<le> of_int (uint w)" by (simp only: of_int_le_iff)
    then have "2 powi 53 \<le> (of_int (uint w) :: rat)" by (simp only: power_int_numeral of_int_power of_int_numeral)
    from rnd_pos_mono [OF powi_2_pos this] have "2 powi 53 \<le> ?x"
      by (simp only: rnd_pos_power)
    then have "2 ^ 53 \<le> ?x" by (simp only: power_int_numeral)
    moreover have "(of_int d :: rat) \<le> of_int (2 ^ 50)"
      using assms by (simp only: of_int_le_iff)
    ultimately show ?thesis by simp
  qed
  moreover have "(of_int d :: rat) \<le> of_int (2 ^ 50)" "0 < (of_int d :: rat)"
    using assms by (simp_all only: of_int_le_iff of_int_0_less_iff)
  ultimately show ?thesis by (simp add: field_simps)
qed

lemma under_tenth:
  assumes "0 < d" "0 < uint w" "10 * uint w \<le> d" "d < 2 ^ 53"
  shows "0 < rnd_pos (of_int (uint w)) / of_int d" "rnd_pos (of_int (uint w)) / of_int d \<le> 1 / 10"
proof -
  have x: "rnd_pos (of_int (uint w)) = of_int (uint w)"
    using assms rnd_pos_small_int [of "uint w"] by simp
  have "10 * (of_int (uint w) :: rat) \<le> of_int d"
    using assms(3) by (metis of_int_le_iff of_int_mult of_int_numeral)
  then show "rnd_pos (of_int (uint w)) / of_int d \<le> 1 / 10"
    unfolding x using assms by (simp add: field_simps)
  show "0 < rnd_pos (of_int (uint w)) / of_int d"
    unfolding x by (rule divide_pos_pos) (simp_all only: of_int_0_less_iff assms)
qed

lemma rate_le_tenth_iff [go_float]:
  assumes "0 < d" "d \<le> 2 ^ 50"
  shows "f64_div (f64_of_u64 w) (f64_of_int64 d) \<le> f64_tenth \<longleftrightarrow> 10 * uint w \<le> d"
proof -
  have "1 \<le> d" "d < 2 ^ 53" "d \<le> 2 ^ 64"
    using assms by simp_all
  then have y: "f64_of_int64 d = Fin (of_int d)" "1 \<le> (of_int d :: rat)" "(of_int d :: rat) \<le> 2 ^ 64"
    using round64_int [of d] rnd_pos_small_int [of d] by (simp_all add: f64_of_int64_def)
  have t: "0 < rnd_pos (1 / 10)"
    unfolding rnd_pos_tenth by simp
  show ?thesis
  proof (cases w rule: f64_of_u64_cases)
    case zero
    with y t assms show ?thesis by (simp add: f64_tenth_eq less_eq_f64_def)
  next
    case (pos x)
    have w: "0 < uint w" using pos(1) uint_0_iff [of w] uint_ge_0 [of w] by linarith
    have "f64_div (f64_of_u64 w) (f64_of_int64 d) = Fin (rnd_pos (x / of_int d))"
      unfolding pos(2) y(1) by (rule f64_div_pos [OF pos(3,4) y(2,3)])
    then have le: "f64_div (f64_of_u64 w) (f64_of_int64 d) \<le> f64_tenth \<longleftrightarrow>
        rnd_pos (x / of_int d) \<le> rnd_pos (1 / 10)"
      by (auto simp: f64_tenth_eq less_eq_f64_def)
    show ?thesis
    proof (cases "10 * uint w \<le> d")
      case True
      then show ?thesis
        using under_tenth [OF assms(1) w True \<open>d < 2 ^ 53\<close>] rnd_pos_mono le unfolding pos(5) by simp
    next
      case False
      then have "rnd_pos (1 / 10 + 1 / (10 * 2 ^ 50)) \<le> rnd_pos (x / of_int d)"
        unfolding pos(5) by (intro rnd_pos_mono over_tenth_gap assms) simp_all
      then show ?thesis
        using rnd_pos_over_tenth le False by linarith
    qed
  qed
qed

section \<open>Exact values\<close>

text \<open>Integers and halves of integers below \<open>2 ^ 53\<close> are computed without rounding.\<close>

lemma rnd_pos_half:
  assumes "0 < r" "- 1021 \<le> expo r"
  shows "rnd_pos (r / 2) = rnd_pos r / 2"
proof -
  have e: "expo (r / 2) = expo r - 1"
    using expo_bounds [OF assms(1)] assms(1)
    by (intro expo_eqI) (simp_all add: power_int_diff power_int_add)
  have u: "ulp (r / 2) = ulp r / 2"
  proof -
    have "max (expo r - 1) (- 1022) - 52 = (max (expo r) (- 1022) - 52) - 1"
      using assms(2) by linarith
    then show ?thesis unfolding ulp_def e by (simp add: power_int_diff)
  qed
  show ?thesis
    by (simp add: rnd_pos_def u)
qed

lemma expo_of_int_nonneg: "1 \<le> n \<Longrightarrow> 0 \<le> expo (of_int n)"
proof (rule ccontr)
  assume n: "1 \<le> n" and "\<not> 0 \<le> expo (of_int n)"
  then have "(2::rat) powi (expo (of_int n) + 1) \<le> 2 powi 0" by (intro powi_2_mono) simp
  moreover have "(1::rat) \<le> of_int n" using n by simp
  ultimately show False using expo_bounds(2) [of "of_int n"] by simp
qed

lemma round64_small_int [go_float]:
  assumes "0 < n" "n < 2 ^ 53"
  shows "round64 (of_int n) = Fin (of_int n)"
proof -
  have "1 \<le> n" "n \<le> 2 ^ 64" using assms by simp_all
  from round64_int [OF this] rnd_pos_small_int [OF assms] show ?thesis by simp
qed

lemma round64_half_int [go_float]:
  assumes "0 < n" "n < 2 ^ 53"
  shows "round64 (of_int n / 2) = Fin (of_int n / 2)"
proof -
  have "1 \<le> n" using assms by simp
  then have h: "rnd_pos (of_int n / 2) = of_int n / 2"
    using rnd_pos_half [of "of_int n"] expo_of_int_nonneg [of n] rnd_pos_small_int [OF assms] by simp
  have "(of_int n :: rat) \<le> of_int (2 ^ 53)" "(1 :: rat) \<le> of_int n"
    using assms by (simp_all only: of_int_le_iff of_int_1_le_iff)
  then have "(2::rat) powi (- 1) \<le> of_int n / 2" "of_int n / 2 \<le> (2::rat) powi 53"
    by (simp_all add: power_int_def)
  from round64_between [OF this] h show ?thesis by simp
qed

lemma int64_of_f64_int [go_float]: "in_int64 n \<Longrightarrow> int64_of_f64 (Fin (of_int n)) = Some n"
  by (simp add: trunc_rat_def)

section \<open>Accuracy\<close>

text \<open>A rounded value is within half the distance of its neighbours, that is \<open>2 ^ (- 53)\<close> of the value.\<close>

lemma round_half_even_error: "\<bar>of_int (round_half_even x) - x\<bar> \<le> 1 / 2"
proof -
  have "of_int \<lfloor>x\<rfloor> \<le> x" "x < of_int \<lfloor>x\<rfloor> + 1" by linarith+
  then show ?thesis unfolding round_half_even_def Let_def abs_le_iff by (simp split: if_split) linarith
qed

lemma rnd_pos_error:
  assumes "2 powi (- 1022) \<le> r"
  shows "\<bar>rnd_pos r - r\<bar> \<le> r * (1 / 2 ^ 53)"
proof -
  have r: "0 < r" using assms powi_2_pos [of "- 1022"] by linarith
  have "- 1022 \<le> expo r"
  proof (rule ccontr)
    assume "\<not> - 1022 \<le> expo r"
    then have "(2::rat) powi (expo r + 1) \<le> 2 powi (- 1022)" by (intro powi_2_mono) simp
    with expo_bounds(2) [OF r] assms show False by linarith
  qed
  then have "ulp r = 2 powi expo r * (1 / 2 ^ 52)"
    by (simp add: ulp_def power_int_diff max_def)
  with expo_bounds(1) [OF r] have u: "ulp r \<le> r * (1 / 2 ^ 52)" by simp
  have "rnd_pos r - r = (of_int (round_half_even (r / ulp r)) - r / ulp r) * ulp r"
    using less_imp_neq [OF ulp_pos [of r]] by (simp add: rnd_pos_def left_diff_distrib)
  then have "\<bar>rnd_pos r - r\<bar> = \<bar>of_int (round_half_even (r / ulp r)) - r / ulp r\<bar> * ulp r"
    using ulp_pos [of r] by (simp only: abs_mult abs_of_pos)
  also have "\<dots> \<le> 1 / 2 * ulp r"
    by (rule mult_right_mono [OF round_half_even_error less_imp_le [OF ulp_pos]])
  also have "\<dots> \<le> r * (1 / 2 ^ 53)" using u by simp
  finally show ?thesis .
qed

lemma quotient_error:
  fixes e :: rat
  assumes "0 < e" "5 * e \<le> 1" "0 < x" "0 < y"
    and "\<bar>x' - x\<bar> \<le> x * e" "\<bar>y' - y\<bar> \<le> y * e" "\<bar>q - x' / y'\<bar> \<le> x' / y' * e"
  shows "\<bar>q - x / y\<bar> \<le> x / y * (4 * e)"
proof -
  have e: "5 * e * e \<le> 1 * e" using assms(1,2) by (intro mult_right_mono) simp_all
  have pos: "0 < x / y" "0 < 1 - e" "0 < 1 + e" using assms(1-4) by simp_all
  have b: "x * (1 - e) \<le> x'" "x' \<le> x * (1 + e)" "y * (1 - e) \<le> y'" "y' \<le> y * (1 + e)"
    using assms(5,6) by (simp_all add: algebra_simps abs_le_iff)
  have xy: "0 < x * (1 - e)" "0 < y * (1 - e)" "0 < y * (1 + e)" using assms(3,4) pos by simp_all
  have up: "x' / y' \<le> x / y * ((1 + e) / (1 - e))"
    using frac_le [OF _ b(2) xy(2) b(3)] assms(3) pos(3) by simp
  have lo: "x / y * ((1 - e) / (1 + e)) \<le> x' / y'"
    using frac_le [of x' "x * (1 - e)" y' "y * (1 + e)"] b xy by simp
  have "q \<le> x' / y' * (1 + e)" "x' / y' * (1 - e) \<le> q"
    using assms(7) by (simp_all only: abs_le_iff distrib_left right_diff_distrib mult_1_right, linarith+)
  moreover have "x' / y' * (1 + e) \<le> x / y * ((1 + e) / (1 - e)) * (1 + e)"
    by (rule mult_right_mono [OF up]) (use pos in simp)
  moreover have "x / y * ((1 - e) / (1 + e)) * (1 - e) \<le> x' / y' * (1 - e)"
    by (rule mult_right_mono [OF lo]) (use pos in simp)
  moreover have "(1 + e) / (1 - e) * (1 + e) \<le> 1 + 4 * e"
    using pos(2) e by (simp add: pos_divide_le_eq algebra_simps)
  then have "x / y * ((1 + e) / (1 - e) * (1 + e)) \<le> x / y * (1 + 4 * e)"
    using pos(1) by (intro mult_left_mono) simp_all
  moreover have "(1 - 4 * e) * (1 + e) \<le> (1 - e) * (1 - e)"
    using assms(1) mult_nonneg_nonneg [of e e] by (simp add: algebra_simps)
  then have "1 - 4 * e \<le> (1 - e) / (1 + e) * (1 - e)"
    by (simp only: times_divide_eq_left pos_le_divide_eq [OF pos(3)])
  then have "x / y * (1 - 4 * e) \<le> x / y * ((1 - e) / (1 + e) * (1 - e))"
    using pos(1) by (intro mult_left_mono) simp_all
  ultimately show ?thesis
    by (simp only: abs_le_iff mult.assoc) (simp only: algebra_simps, linarith)
qed

text \<open>A rate, the quotient of two converted integers, is exact up to \<open>2 ^ (- 51)\<close> of its value.\<close>

lemma rate_accurate:
  assumes "0 < d" "in_int64 d"
  shows "\<exists>r. f64_div (f64_of_u64 w) (f64_of_int64 d) = Fin r \<and>
    \<bar>r - of_int (uint w) / of_int d\<bar> \<le> of_int (uint w) / of_int d * (1 / 2 ^ 51)"
proof -
  have d: "1 \<le> d" "d \<le> 2 ^ 64" using assms by (auto simp: in_int64_def)
  let ?y = "rnd_pos (of_int d)"
  have y: "f64_of_int64 d = Fin ?y" "1 \<le> ?y" "?y \<le> 2 ^ 64"
    using round64_int [OF d] by (simp_all add: f64_of_int64_def)
  have small: "(2::rat) powi (- 1022) \<le> 1" "(2::rat) powi (- 1022) \<le> 2 powi (- 64)"
    using powi_2_mono [of "- 1022" 0] powi_2_mono [of "- 1022" "- 64"] by (simp_all only: power_int_0_right)
  show ?thesis
  proof (cases w rule: f64_of_u64_cases)
    case zero
    with y show ?thesis by simp
  next
    case (pos x)
    have w: "(1::rat) \<le> of_int (uint w)"
    proof -
      have "1 \<le> uint w" using pos(1) uint_0_iff [of w] uint_ge_0 [of w] by linarith
      then show ?thesis by (simp only: of_int_1_le_iff)
    qed
    have "\<bar>x - of_int (uint w)\<bar> \<le> of_int (uint w) * (1 / 2 ^ 53)"
      unfolding pos(5) by (intro rnd_pos_error order_trans [OF small(1) w])
    moreover have "\<bar>?y - of_int d\<bar> \<le> of_int d * (1 / 2 ^ 53)"
      by (intro rnd_pos_error order_trans [OF small(1)]) (simp only: of_int_1_le_iff d(1))
    moreover have "\<bar>rnd_pos (x / ?y) - x / ?y\<bar> \<le> x / ?y * (1 / 2 ^ 53)"
      by (intro rnd_pos_error order_trans [OF small(2) quotient_between(1) [OF pos(3,4) y(2,3)]])
    ultimately have "\<bar>rnd_pos (x / ?y) - of_int (uint w) / of_int d\<bar> \<le> of_int (uint w) / of_int d * (4 * (1 / 2 ^ 53))"
      using w d(1) by (intro quotient_error) simp_all
    then show ?thesis
      using f64_div_pos(1) [OF pos(3,4) y(2,3)] by (simp add: pos(2) y(1))
  qed
qed

end
