(* ===== verification/Kube_Types.thy ===== *)
theory Kube_Types
  imports Go_Prelude
begin

text \<open>
  The fields of the Kubernetes objects that the source reads or writes.  A Go map that may
  be nil is an option of a map; a map that is only read is a plain map (reading a nil map
  finds nothing).
\<close>

text \<open>\<open>corev1.ResourceList\<close>: resource name to quantity.\<close>

type_synonym 'q resource_list = "string \<rightharpoonup> 'q"

text \<open>\<open>corev1.Container\<close> with \<open>Resources.Limits\<close> and \<open>Resources.Requests\<close>.\<close>

record 'q container =
  cName :: string
  cLimits :: "'q resource_list"
  cRequests :: "'q resource_list"

text \<open>\<open>corev1.Pod\<close>.\<close>

record 'q pod =
  pName :: string
  pNamespace :: string
  pUID :: string
  pLabels :: "string \<rightharpoonup> string"
  pAnnotations :: "(string \<rightharpoonup> string) option"
  pNodeName :: string
  pContainers :: "'q container list"

text \<open>\<open>&corev1.Pod{}\<close>: every field has its zero value.\<close>

definition empty_pod :: "'q pod" where
  "empty_pod =
     \<lparr>pName = [], pNamespace = [], pUID = [], pLabels = Map.empty, pAnnotations = None,
      pNodeName = [], pContainers = []\<rparr>"

text \<open>Reading \<open>pod.Annotations[k]\<close>.\<close>

definition annotation :: "'q pod \<Rightarrow> string \<rightharpoonup> string" where
  "annotation p k = (case pAnnotations p of None \<Rightarrow> None | Some m \<Rightarrow> m k)"

text \<open>\<open>types.NamespacedName\<close> of a reconcile request.\<close>

record namespaced_name =
  nnNamespace :: string
  nnName :: string

end
