(* ===== verification/Quota.thy ===== *)
theory Quota
  imports Quantity Go_Float Kube_Types
begin

text \<open>
  \<^verbatim>\<open>pkg/config/quota.go\<close>: quotas, the configuration derived from a quota, the table of
  quotas that \<open>init\<close> builds, and the five searches in the table that the pod worker uses to
  choose the next quota.

  The package-level variables are a record \<open>quota_vars\<close>.  The searches share one shape, a
  loop that keeps the best entry seen so far; the locale \<open>scan_loop\<close> proves once what such a
  loop returns and is interpreted on each of the five.
\<close>

section \<open>Data\<close>

record 'q Quota =
  Cpu :: 'q
  Memory :: 'q

record 'q QuotaConfig =
  GOMaxProcs :: 'q
  MemoryCache :: 'q
  DiskCache :: 'q
  DiskIOPS :: int
  DiskBandWidth :: 'q

record 'q quota_vars =
  DeltaMemory :: 'q
  Quota2Config :: "string \<rightharpoonup> 'q QuotaConfig"
  allQuotas :: "'q Quota list"
  GiBQuantity :: 'q
  BasicGiBValue :: int
  maxQuota :: "'q Quota"
  minQuota :: "'q Quota"

section \<open>The configuration of a quota\<close>

definition GetQuotaKey :: "'q quantity_api \<Rightarrow> 'q Quota \<Rightarrow> string" where
  "GetQuotaKey Q quota = QString Q (Cpu quota) @ ''-'' @ QString Q (Memory quota)"

text \<open>The division panics when \<open>BasicGiBValue\<close> is 0.\<close>

definition CalculatedQuotaConfig ::
    "'q quantity_api \<Rightarrow> 'q quota_vars \<Rightarrow> 'q Quota \<Rightarrow> 'q QuotaConfig outcome" where
  "CalculatedQuotaConfig Q v quota =
     (let cpuMilli = MilliValue Q (Cpu quota);
          memQuota = Value Q (Memory quota)
      in if BasicGiBValue v = 0 then Panics DivideByZero
         else Returns
           \<lparr>GOMaxProcs = NewMilliQuantity Q (wrap64 (cpuMilli + 500)),
            MemoryCache = DeepCopy Q (Memory quota),
            DiskCache = SetValue Q (DeepCopy Q (Memory quota)) (wrap64 (memQuota * 10)),
            DiskIOPS = wrap64 (quot64 memQuota (BasicGiBValue v) * 500),
            DiskBandWidth =
              SetValue Q (DeepCopy Q (Memory quota)) (quot64 (wrap64 (memQuota * 50)) 1024)\<rparr>)"

definition GetQuotaConfig ::
    "'q quantity_api \<Rightarrow> 'q quota_vars \<Rightarrow> 'q Quota \<Rightarrow> 'q QuotaConfig outcome" where
  "GetQuotaConfig Q v quota =
     (case Quota2Config v (GetQuotaKey Q quota) of
        None \<Rightarrow> CalculatedQuotaConfig Q v quota
      | Some cfg \<Rightarrow> Returns cfg)"

section \<open>The printed form of a quota and its configuration\<close>

record 'q GeneratedQuotaConfig =
  gen_quota :: "'q Quota"
  gen_cfg :: "'q QuotaConfig"
  gen_Cpu :: string
  gen_Memory :: string
  gen_GOMaxProcs :: string
  gen_MemoryCache :: string
  gen_DiskCache :: string
  gen_DiskIOPS :: int
  gen_DiskBandWidth :: string

definition Format :: "'q quantity_api \<Rightarrow> 'q GeneratedQuotaConfig \<Rightarrow> 'q GeneratedQuotaConfig" where
  "Format Q c = c\<lparr>
     gen_Cpu := QString Q (Cpu (gen_quota c)),
     gen_Memory := QString Q (Memory (gen_quota c)),
     gen_GOMaxProcs := QString Q (GOMaxProcs (gen_cfg c)),
     gen_MemoryCache := QString Q (MemoryCache (gen_cfg c)),
     gen_DiskCache := QString Q (DiskCache (gen_cfg c)),
     gen_DiskIOPS := DiskIOPS (gen_cfg c),
     gen_DiskBandWidth := QString Q (DiskBandWidth (gen_cfg c))\<rparr>"

definition NewGeneratedQuotaConfig ::
    "'q quantity_api \<Rightarrow> 'q Quota \<Rightarrow> 'q QuotaConfig \<Rightarrow> 'q GeneratedQuotaConfig" where
  "NewGeneratedQuotaConfig Q quota cfg = Format Q
     \<lparr>gen_quota = quota, gen_cfg = cfg, gen_Cpu = [], gen_Memory = [], gen_GOMaxProcs = [],
      gen_MemoryCache = [], gen_DiskCache = [], gen_DiskIOPS = 0, gen_DiskBandWidth = []\<rparr>"

text \<open>\<open>apires.MustParse\<close> as a step of a function body.\<close>

definition must_parse :: "'q quantity_api \<Rightarrow> string \<Rightarrow> 'q outcome" where
  "must_parse Q s =
     (case MustParse Q s of None \<Rightarrow> Panics (PanicText ''cannot parse quantity'') | Some q \<Rightarrow> Returns q)"

definition Parse ::
    "'q quantity_api \<Rightarrow> 'q GeneratedQuotaConfig \<Rightarrow> 'q GeneratedQuotaConfig outcome" where
  "Parse Q c =
     bind_outcome (must_parse Q (gen_Cpu c)) (\<lambda>cpu.
     bind_outcome (must_parse Q (gen_Memory c)) (\<lambda>mem.
     bind_outcome (must_parse Q (gen_GOMaxProcs c)) (\<lambda>procs.
     bind_outcome (must_parse Q (gen_MemoryCache c)) (\<lambda>cache.
     bind_outcome (must_parse Q (gen_DiskCache c)) (\<lambda>disk.
     bind_outcome (must_parse Q (gen_DiskBandWidth c)) (\<lambda>bw.
       Returns (c\<lparr>gen_quota := \<lparr>Cpu = cpu, Memory = mem\<rparr>,
                  gen_cfg := \<lparr>GOMaxProcs = procs, MemoryCache = cache, DiskCache = disk,
                              DiskIOPS = gen_DiskIOPS c, DiskBandWidth = bw\<rparr>\<rparr>)))))))"

section \<open>The searches\<close>

text \<open>One loop per function: the entry kept so far, then the rest of \<open>allQuotas\<close>.\<close>

fun up_cpu_loop :: "'q quantity_api \<Rightarrow> 'q Quota \<Rightarrow> 'q Quota \<Rightarrow> 'q Quota list \<Rightarrow> 'q Quota" where
  "up_cpu_loop Q quota target [] = target"
| "up_cpu_loop Q quota target (q # qs) =
     (if MilliValue Q (Cpu q) \<le> MilliValue Q (Cpu quota) then up_cpu_loop Q quota target qs
      else if Value Q (Memory q) < Value Q (Memory target) then up_cpu_loop Q quota q qs
      else up_cpu_loop Q quota target qs)"

definition GetScaleUpCpuQuota :: "'q quantity_api \<Rightarrow> 'q quota_vars \<Rightarrow> 'q Quota \<Rightarrow> 'q Quota" where
  "GetScaleUpCpuQuota Q v quota =
     (let target = up_cpu_loop Q quota (maxQuota v) (allQuotas v)
      in if target = maxQuota v then quota else target)"

fun up_mem_loop :: "'q quantity_api \<Rightarrow> 'q Quota \<Rightarrow> 'q Quota \<Rightarrow> 'q Quota list \<Rightarrow> 'q Quota" where
  "up_mem_loop Q quota target [] = target"
| "up_mem_loop Q quota target (q # qs) =
     (if Value Q (Memory q) \<le> Value Q (Memory quota) then up_mem_loop Q quota target qs
      else if MilliValue Q (Cpu q) < MilliValue Q (Cpu target) then up_mem_loop Q quota q qs
      else up_mem_loop Q quota target qs)"

definition GetScaleUpMemoryQuota :: "'q quantity_api \<Rightarrow> 'q quota_vars \<Rightarrow> 'q Quota \<Rightarrow> 'q Quota" where
  "GetScaleUpMemoryQuota Q v quota =
     (let target = up_mem_loop Q quota (maxQuota v) (allQuotas v)
      in if target = maxQuota v then quota else target)"

fun down_cpu_loop :: "'q quantity_api \<Rightarrow> 'q Quota \<Rightarrow> 'q Quota \<Rightarrow> 'q Quota list \<Rightarrow> 'q Quota" where
  "down_cpu_loop Q quota target [] = target"
| "down_cpu_loop Q quota target (q # qs) =
     (if MilliValue Q (Cpu q) \<ge> MilliValue Q (Cpu quota) then down_cpu_loop Q quota target qs
      else if Value Q (Memory q) > Value Q (Memory target) then down_cpu_loop Q quota q qs
      else down_cpu_loop Q quota target qs)"

definition GetScaleDownCpuQuota :: "'q quantity_api \<Rightarrow> 'q quota_vars \<Rightarrow> 'q Quota \<Rightarrow> 'q Quota" where
  "GetScaleDownCpuQuota Q v quota =
     (let target = down_cpu_loop Q quota (minQuota v) (allQuotas v)
      in if target = minQuota v then quota else target)"

fun down_mem_loop :: "'q quantity_api \<Rightarrow> 'q Quota \<Rightarrow> 'q Quota \<Rightarrow> 'q Quota list \<Rightarrow> 'q Quota" where
  "down_mem_loop Q quota target [] = target"
| "down_mem_loop Q quota target (q # qs) =
     (if Value Q (Memory q) \<ge> Value Q (Memory quota) then down_mem_loop Q quota target qs
      else if MilliValue Q (Cpu q) > MilliValue Q (Cpu target) then down_mem_loop Q quota q qs
      else down_mem_loop Q quota target qs)"

text \<open>The search starts, and is compared, with \<open>maxQuota\<close>, as the source has it.\<close>

definition GetScaleDownMemoryQuota :: "'q quantity_api \<Rightarrow> 'q quota_vars \<Rightarrow> 'q Quota \<Rightarrow> 'q Quota" where
  "GetScaleDownMemoryQuota Q v quota =
     (let target = down_mem_loop Q quota (maxQuota v) (allQuotas v)
      in if target = maxQuota v then quota else target)"

fun floor_loop :: "'q quantity_api \<Rightarrow> 'q Quota \<Rightarrow> 'q Quota \<Rightarrow> 'q Quota list \<Rightarrow> 'q Quota" where
  "floor_loop Q quota target [] = target"
| "floor_loop Q quota target (q # qs) =
     (if MilliValue Q (Cpu q) \<noteq> MilliValue Q (Cpu quota) then floor_loop Q quota target qs
      else if Value Q (Memory q) > Value Q (Memory quota) then floor_loop Q quota target qs
      else if Value Q (Memory q) > Value Q (Memory target) then floor_loop Q quota q qs
      else floor_loop Q quota target qs)"

definition GetFloorMemoryQuota :: "'q quantity_api \<Rightarrow> 'q quota_vars \<Rightarrow> 'q Quota \<Rightarrow> 'q Quota" where
  "GetFloorMemoryQuota Q v quota =
     (let target = floor_loop Q quota (quota\<lparr>Memory := SetValue Q (Memory quota) 0\<rparr>) (allQuotas v)
      in if Value Q (Memory target) = 0 then quota else target)"

section \<open>The quota of a pod\<close>

fun pod_quota_loop ::
    "'q quantity_api \<Rightarrow> 'q container list \<Rightarrow> 'q Quota \<times> bool \<Rightarrow> 'q Quota \<times> bool" where
  "pod_quota_loop Q [] acc = acc"
| "pod_quota_loop Q (c # cs) acc =
     (if cName c = ''main''
      then pod_quota_loop Q cs
             (\<lparr>Cpu = DeepCopy Q (ListCpu Q (cLimits c)),
               Memory = DeepCopy Q (ListMemory Q (cLimits c))\<rparr>, True)
      else pod_quota_loop Q cs acc)"

definition GetQuotaFromPod :: "'q quantity_api \<Rightarrow> 'q pod \<Rightarrow> 'q Quota \<times> bool" where
  "GetQuotaFromPod Q cr =
     pod_quota_loop Q (pContainers cr) (\<lparr>Cpu = ZeroQuantity Q, Memory = ZeroQuantity Q\<rparr>, False)"

section \<open>Package initialisation\<close>

text \<open>
  The loop of \<open>init\<close>, over the float64 counter \<open>cpu\<close>.  The fuel bounds the number of
  iterations; \<^const>\<open>None\<close> is "not finished", or a conversion whose result Go leaves to the
  implementation.  Sixty-five units are enough (\<open>init_table\<close> below).
\<close>

fun init_loop ::
    "'q quantity_api \<Rightarrow> 'q \<Rightarrow> nat \<Rightarrow> f64 \<Rightarrow> 'q Quota list \<Rightarrow> 'q Quota list option" where
  "init_loop Q gib 0 cpu quotas = None"
| "init_loop Q gib (Suc fuel) cpu quotas =
     (if cpu \<le> Fin 32
      then (let mem = cpu * Fin 2; memQuota = DeepCopy Q gib
            in case (int64_of_f64 (f64_of_int64 (Value Q memQuota) * mem),
                     int64_of_f64 (cpu * Fin 100)) of
                 (Some m, Some c) \<Rightarrow>
                   init_loop Q gib fuel (cpu + Fin (1 / 2))
                     (quotas @ [\<lparr>Cpu = NewMilliQuantity Q c, Memory = SetValue Q memQuota m\<rparr>])
               | _ \<Rightarrow> None)
      else Some quotas)"

definition init_fuel :: nat where
  "init_fuel = 65"

text \<open>The package variables after \<open>init\<close>; \<^const>\<open>None\<close> when a \<open>MustParse\<close> panics.\<close>

definition init_quota_vars :: "'q quantity_api \<Rightarrow> 'q quota_vars option" where
  "init_quota_vars Q =
     (case (MustParse Q ''64Mi'', MustParse Q ''1Gi'', MustParse Q ''1000'', MustParse Q ''1000Gi'',
            MustParse Q ''0'', MustParse Q ''0Gi'') of
        (Some delta, Some gib, Some maxc, Some maxm, Some minc, Some minm) \<Rightarrow>
          (case init_loop Q gib init_fuel (Fin (1 / 2)) [] of
             None \<Rightarrow> None
           | Some quotas \<Rightarrow> Some
               \<lparr>DeltaMemory = delta, Quota2Config = Map.empty, allQuotas = quotas,
                GiBQuantity = gib, BasicGiBValue = Value Q gib,
                maxQuota = \<lparr>Cpu = maxc, Memory = maxm\<rparr>,
                minQuota = \<lparr>Cpu = minc, Memory = minm\<rparr>\<rparr>)
      | _ \<Rightarrow> None)"

section \<open>What the searches return\<close>

locale scan_loop =
  fixes loop :: "'a \<Rightarrow> 'a list \<Rightarrow> 'a"
    and skip :: "'a \<Rightarrow> bool"
    and key :: "'a \<Rightarrow> int"
  assumes loop_Nil: "loop t [] = t"
    and loop_Cons: "loop t (x # xs) =
      (if skip x then loop t xs else if key x < key t then loop x xs else loop t xs)"
begin

lemma loop_cases:
  "loop t xs = t \<or> (loop t xs \<in> set xs \<and> \<not> skip (loop t xs) \<and> key (loop t xs) < key t)"
proof (induction xs arbitrary: t)
  case (Cons x xs)
  consider "skip x \<or> \<not> key x < key t" | "\<not> skip x" "key x < key t" by blast
  then show ?case
  proof cases
    case 1
    then show ?thesis using Cons.IH [of t] by (auto simp: loop_Cons)
  next
    case 2
    then have "loop t (x # xs) = loop x xs" by (simp add: loop_Cons)
    with 2 Cons.IH [of x] show ?thesis by fastforce
  qed
qed (simp add: loop_Nil)

lemma loop_key_le: "key (loop t xs) \<le> key t"
  using loop_cases [of t xs] by auto

lemma loop_least: "x \<in> set xs \<Longrightarrow> \<not> skip x \<Longrightarrow> key (loop t xs) \<le> key x"
proof (induction xs arbitrary: t)
  case (Cons y ys)
  then show ?case
    using loop_key_le [of y ys] loop_key_le [of t ys] by (auto simp: loop_Cons intro: order_trans)
qed simp

lemma loop_none: "\<forall>x\<in>set xs. skip x \<or> key t \<le> key x \<Longrightarrow> loop t xs = t"
  using loop_cases [of t xs] by fastforce

lemma loop_unique:
  assumes "b \<in> set xs" "\<not> skip b" "key b < key t"
    and "\<And>x. x \<in> set xs \<Longrightarrow> \<not> skip x \<Longrightarrow> x = b \<or> key b < key x"
  shows "loop t xs = b"
  using loop_cases [of t xs] loop_least [OF assms(1,2), of t] assms(3,4)
  by (metis linorder_not_less order_le_less_trans)

text \<open>The candidate found is the first one of the list among those of its key.\<close>

lemma loop_append: "loop t (xs @ ys) = loop (loop t xs) ys"
  by (induction xs arbitrary: t) (auto simp: loop_Nil loop_Cons)

lemma loop_first:
  "loop t xs \<noteq> t \<Longrightarrow>
    \<exists>ys zs. xs = ys @ loop t xs # zs \<and> (\<forall>y\<in>set ys. skip y \<or> key (loop t xs) < key y)"
proof (induction xs rule: rev_induct)
  case (snoc x xs)
  let ?r = "loop t xs"
  have step: "loop t (xs @ [x]) = (if skip x then ?r else if key x < key ?r then x else ?r)"
    by (simp add: loop_append loop_Nil loop_Cons)
  show ?case
  proof (cases "\<not> skip x \<and> key x < key ?r")
    case True
    then have "\<forall>y\<in>set xs. skip y \<or> key x < key y"
      using loop_least [of _ xs t] by fastforce
    with True show ?thesis unfolding step by auto
  next
    case False
    then have r: "loop t (xs @ [x]) = ?r" unfolding step by auto
    with snoc obtain ys zs where "xs = ys @ ?r # zs" "\<forall>y\<in>set ys. skip y \<or> key ?r < key y"
      by auto
    then have "xs @ [x] = ys @ ?r # (zs @ [x])" "\<forall>y\<in>set ys. skip y \<or> key ?r < key y"
      by simp_all
    then show ?thesis unfolding r by blast
  qed
qed (simp add: loop_Nil)

end

interpretation up_cpu: scan_loop "up_cpu_loop Q quota"
  "\<lambda>q. MilliValue Q (Cpu q) \<le> MilliValue Q (Cpu quota)" "\<lambda>q. Value Q (Memory q)" for Q quota
  by unfold_locales auto

interpretation up_mem: scan_loop "up_mem_loop Q quota"
  "\<lambda>q. Value Q (Memory q) \<le> Value Q (Memory quota)" "\<lambda>q. MilliValue Q (Cpu q)" for Q quota
  by unfold_locales auto

interpretation down_cpu: scan_loop "down_cpu_loop Q quota"
  "\<lambda>q. MilliValue Q (Cpu q) \<ge> MilliValue Q (Cpu quota)" "\<lambda>q. - Value Q (Memory q)" for Q quota
  by unfold_locales auto

interpretation down_mem: scan_loop "down_mem_loop Q quota"
  "\<lambda>q. Value Q (Memory q) \<ge> Value Q (Memory quota)" "\<lambda>q. - MilliValue Q (Cpu q)" for Q quota
  by unfold_locales auto

interpretation floor: scan_loop "floor_loop Q quota"
  "\<lambda>q. MilliValue Q (Cpu q) \<noteq> MilliValue Q (Cpu quota) \<or> Value Q (Memory q) > Value Q (Memory quota)"
  "\<lambda>q. - Value Q (Memory q)" for Q quota
  by unfold_locales auto

section \<open>The table that \<open>init\<close> builds\<close>

text \<open>Entry \<open>k\<close> of the table: \<open>50 * k\<close> thousandths of a CPU and \<open>k\<close> GiB.\<close>

definition rung :: "'q quantity_api \<Rightarrow> 'q \<Rightarrow> int \<Rightarrow> 'q Quota" where
  "rung Q gib k =
     \<lparr>Cpu = NewMilliQuantity Q (50 * k), Memory = SetValue Q (DeepCopy Q gib) (k * 2 ^ 30)\<rparr>"

lemma init_loop_step:
  assumes "quantity Q" "Value Q gib = 2 ^ 30" "1 \<le> k" "k \<le> 64"
  shows "init_loop Q gib (Suc n) (Fin (of_int k / 2)) acc =
    init_loop Q gib n (Fin (of_int (k + 1) / 2)) (acc @ [rung Q gib k])"
proof -
  have g: "Value Q (DeepCopy Q gib) = 2 ^ 30"
    using assms(2) by (simp add: quantity.Value_DeepCopy [OF assms(1)])
  have le: "Fin (of_int k / 2) \<le> Fin 32"
    using assms(4) by (auto simp: less_eq_f64_def)
  have m: "Fin (of_int k / 2) * Fin 2 = Fin (of_int k)"
    using round64_small_int [of k] assms by simp
  have "f64_of_int64 (2 ^ 30) = Fin (of_int (2 ^ 30))"
    unfolding f64_of_int64_def by (rule round64_small_int) simp_all
  then have gm: "f64_of_int64 (2 ^ 30) * Fin (of_int k) = Fin (of_int (k * 2 ^ 30))"
    using round64_small_int [of "k * 2 ^ 30"] assms by (simp add: mult.commute)
  have c: "Fin (of_int k / 2) * Fin 100 = Fin (of_int (50 * k))"
    using round64_small_int [of "50 * k"] assms by simp
  have a: "Fin (of_int k / 2) + Fin (1 / 2) = Fin (of_int (k + 1) / 2)"
    using round64_half_int [of "k + 1"] assms by (simp add: add_divide_distrib)
  have r: "in_int64 (k * 2 ^ 30)" "in_int64 (50 * k)"
    using assms by (simp_all add: in_int64_def)
  show ?thesis
    by (simp only: init_loop.simps le if_True Let_def g m gm c a int64_of_f64_int [OF r(1)]
        int64_of_f64_int [OF r(2)] prod.case option.case rung_def)
qed

lemma init_loop_from:
  assumes "quantity Q" "Value Q gib = 2 ^ 30"
  shows "1 \<le> k \<Longrightarrow> k \<le> 65 \<Longrightarrow> nat (66 - k) \<le> n \<Longrightarrow>
    init_loop Q gib n (Fin (of_int k / 2)) acc = Some (acc @ map (rung Q gib) [k..64])"
proof (induction n arbitrary: k acc)
  case (Suc n)
  show ?case
  proof (cases "k = 65")
    case True
    then show ?thesis by (simp add: less_eq_f64_def)
  next
    case False
    with Suc.prems have k: "1 \<le> k" "k \<le> 64" by simp_all
    have "[k..64] = k # [k + 1..64]" using k by (simp add: upto_rec1)
    then show ?thesis
      unfolding init_loop_step [OF assms k] using Suc.IH [of "k + 1"] k Suc.prems(3) by simp
  qed
qed simp

lemma init_loop_short:
  assumes "quantity Q" "Value Q gib = 2 ^ 30"
  shows "1 \<le> k \<Longrightarrow> k \<le> 65 \<Longrightarrow> int n < 66 - k \<Longrightarrow> init_loop Q gib n (Fin (of_int k / 2)) acc = None"
proof (induction n arbitrary: k acc)
  case (Suc n)
  then have k: "1 \<le> k" "k \<le> 64" by simp_all
  show ?case
    unfolding init_loop_step [OF assms k] using Suc.IH [of "k + 1"] k Suc.prems(3) by simp
qed simp

context quantity
begin

text \<open>Initialisation does not panic, and its loop ends within the fuel.\<close>

lemma init_values:
  "\<exists>v. init_quota_vars Q = Some v \<and> Value Q (GiBQuantity v) = 2 ^ 30 \<and>
    BasicGiBValue v = 2 ^ 30 \<and> Value Q (DeltaMemory v) = 2 ^ 26 \<and>
    allQuotas v = map (rung Q (GiBQuantity v)) [1..64] \<and> Quota2Config v = Map.empty \<and>
    MilliValue Q (Cpu (maxQuota v)) = 1000000 \<and> Value Q (Memory (maxQuota v)) = 1000 * 2 ^ 30 \<and>
    MilliValue Q (Cpu (minQuota v)) = 0 \<and> Value Q (Memory (minQuota v)) = 0"
proof -
  obtain delta gib maxc maxm minc minm where p:
      "MustParse Q ''64Mi'' = Some delta" "Value Q delta = 2 ^ 26"
      "MustParse Q ''1Gi'' = Some gib" "Value Q gib = 2 ^ 30"
      "MustParse Q ''1000'' = Some maxc" "MilliValue Q maxc = 1000000"
      "MustParse Q ''1000Gi'' = Some maxm" "Value Q maxm = 1000 * 2 ^ 30"
      "MustParse Q ''0'' = Some minc" "MilliValue Q minc = 0"
      "MustParse Q ''0Gi'' = Some minm" "Value Q minm = 0"
    using Parse_64Mi Parse_1Gi Parse_1000 Parse_1000Gi Parse_0 Parse_0Gi by metis
  have "init_loop Q gib init_fuel (Fin (1 / 2)) [] = Some (map (rung Q gib) [1..64])"
    using init_loop_from [OF quantity_axioms p(4), of 1 init_fuel "[]"] by (simp add: init_fuel_def)
  then show ?thesis
    by (simp add: init_quota_vars_def p)
qed

end

text \<open>The package variables after a successful initialisation.\<close>

locale quota_table = quantity Q for Q :: "'q quantity_api" +
  fixes v :: "'q quota_vars"
  assumes init: "init_quota_vars Q = Some v"
begin

lemma init_parts:
  shows gib_value: "Value Q (GiBQuantity v) = 2 ^ 30"
    and basic_gib: "BasicGiBValue v = 2 ^ 30"
    and delta_value: "Value Q (DeltaMemory v) = 2 ^ 26"
    and table: "allQuotas v = map (rung Q (GiBQuantity v)) [1..64]"
    and no_config: "Quota2Config v = Map.empty"
    and max_cpu: "MilliValue Q (Cpu (maxQuota v)) = 1000000"
    and max_mem: "Value Q (Memory (maxQuota v)) = 1000 * 2 ^ 30"
    and min_cpu: "MilliValue Q (Cpu (minQuota v)) = 0"
    and min_mem: "Value Q (Memory (minQuota v)) = 0"
  using init_values init by auto

lemma rung_cpu: "1 \<le> k \<Longrightarrow> k \<le> 64 \<Longrightarrow> MilliValue Q (Cpu (rung Q g k)) = 50 * k"
  by (simp add: rung_def MilliValue_New in_int64_def)

lemma rung_mem: "1 \<le> k \<Longrightarrow> k \<le> 64 \<Longrightarrow> Value Q (Memory (rung Q g k)) = k * 2 ^ 30"
  by (simp add: rung_def Value_SetValue in_int64_def)

lemma rung_not_max: "1 \<le> k \<Longrightarrow> k \<le> 64 \<Longrightarrow> rung Q g k \<noteq> maxQuota v"
  using rung_cpu [of k g] max_cpu by auto

lemma rung_not_min: "1 \<le> k \<Longrightarrow> k \<le> 64 \<Longrightarrow> rung Q g k \<noteq> minQuota v"
  using rung_cpu [of k g] min_cpu by auto

lemma in_table: "x \<in> set (allQuotas v) \<longleftrightarrow> (\<exists>k. 1 \<le> k \<and> k \<le> 64 \<and> x = rung Q (GiBQuantity v) k)"
  by (auto simp: table)

text \<open>A search of the table ends at entry \<open>k\<close> when no other candidate is as good.\<close>

lemma table_search:
  assumes "scan_loop loop skip key" "1 \<le> k" "k \<le> 64"
    and "\<not> skip (rung Q (GiBQuantity v) k)" "key (rung Q (GiBQuantity v) k) < key t"
    and "\<And>j. 1 \<le> j \<Longrightarrow> j \<le> 64 \<Longrightarrow> j \<noteq> k \<Longrightarrow> \<not> skip (rung Q (GiBQuantity v) j) \<Longrightarrow>
      key (rung Q (GiBQuantity v) k) < key (rung Q (GiBQuantity v) j)"
  shows "loop t (allQuotas v) = rung Q (GiBQuantity v) k"
  by (rule scan_loop.loop_unique [OF assms(1)]) (use assms(2-) in \<open>auto simp: in_table\<close>)

lemma table_search_none:
  assumes "scan_loop loop skip key"
    and "\<And>j. 1 \<le> j \<Longrightarrow> j \<le> 64 \<Longrightarrow> \<not> skip (rung Q (GiBQuantity v) j) \<Longrightarrow>
      key t \<le> key (rung Q (GiBQuantity v) j)"
  shows "loop t (allQuotas v) = t"
proof (rule scan_loop.loop_none [OF assms(1)], rule ballI)
  fix x
  assume "x \<in> set (allQuotas v)"
  then show "skip x \<or> key t \<le> key x"
    using assms(2) unfolding in_table by blast
qed

lemmas table_values = rung_cpu rung_mem max_cpu max_mem min_cpu min_mem

lemma up_cpu_rung:
  "GetScaleUpCpuQuota Q v quota =
    (if MilliValue Q (Cpu quota) < 3200
     then rung Q (GiBQuantity v) (max 1 (MilliValue Q (Cpu quota) div 50 + 1)) else quota)"
proof (cases "MilliValue Q (Cpu quota) < 3200")
  case True
  define k where "k = max 1 (MilliValue Q (Cpu quota) div 50 + 1)"
  have k: "1 \<le> k" "k \<le> 64" "MilliValue Q (Cpu quota) < 50 * k"
      "\<And>j. 1 \<le> j \<Longrightarrow> MilliValue Q (Cpu quota) < 50 * j \<Longrightarrow> k \<le> j"
    using True next_multiple [of 50 k "MilliValue Q (Cpu quota)"] k_def by (simp_all add: mult.commute)
  have "up_cpu_loop Q quota (maxQuota v) (allQuotas v) = rung Q (GiBQuantity v) k"
    by (rule table_search [OF up_cpu.scan_loop_axioms k(1,2)])
      (use k in \<open>auto simp: table_values not_le intro: le_neq_trans\<close>)
  then show ?thesis
    using True rung_not_max [OF k(1,2)] by (simp add: GetScaleUpCpuQuota_def k_def)
next
  case False
  have "up_cpu_loop Q quota (maxQuota v) (allQuotas v) = maxQuota v"
    by (rule table_search_none [OF up_cpu.scan_loop_axioms])
      (use False in \<open>auto simp: table_values\<close>)
  then show ?thesis
    using False by (simp add: GetScaleUpCpuQuota_def)
qed

lemma up_mem_rung:
  "GetScaleUpMemoryQuota Q v quota =
    (if Value Q (Memory quota) < 64 * 2 ^ 30
     then rung Q (GiBQuantity v) (max 1 (Value Q (Memory quota) div 2 ^ 30 + 1)) else quota)"
proof (cases "Value Q (Memory quota) < 64 * 2 ^ 30")
  case True
  define k where "k = max 1 (Value Q (Memory quota) div 2 ^ 30 + 1)"
  have k: "1 \<le> k" "k \<le> 64" "Value Q (Memory quota) < k * 2 ^ 30"
      "\<And>j. 1 \<le> j \<Longrightarrow> Value Q (Memory quota) < j * 2 ^ 30 \<Longrightarrow> k \<le> j"
    using True next_multiple [of "2 ^ 30" k "Value Q (Memory quota)"] k_def by simp_all
  have "up_mem_loop Q quota (maxQuota v) (allQuotas v) = rung Q (GiBQuantity v) k"
    by (rule table_search [OF up_mem.scan_loop_axioms k(1,2)])
      (use k in \<open>auto simp: table_values not_le intro: le_neq_trans\<close>)
  then show ?thesis
    using True rung_not_max [OF k(1,2)] by (simp add: GetScaleUpMemoryQuota_def k_def)
next
  case False
  have "up_mem_loop Q quota (maxQuota v) (allQuotas v) = maxQuota v"
    by (rule table_search_none [OF up_mem.scan_loop_axioms])
      (use False in \<open>auto simp: table_values\<close>)
  then show ?thesis
    using False by (simp add: GetScaleUpMemoryQuota_def)
qed

lemma down_cpu_rung:
  "GetScaleDownCpuQuota Q v quota =
    (if 50 < MilliValue Q (Cpu quota)
     then rung Q (GiBQuantity v) (min 64 ((MilliValue Q (Cpu quota) - 1) div 50)) else quota)"
proof (cases "50 < MilliValue Q (Cpu quota)")
  case True
  define k where "k = min 64 ((MilliValue Q (Cpu quota) - 1) div 50)"
  have k: "1 \<le> k" "k \<le> 64" "50 * k < MilliValue Q (Cpu quota)"
      "\<And>j. j \<le> 64 \<Longrightarrow> 50 * j < MilliValue Q (Cpu quota) \<Longrightarrow> j \<le> k"
    using True unfolding k_def by linarith+
  have "down_cpu_loop Q quota (minQuota v) (allQuotas v) = rung Q (GiBQuantity v) k"
    by (rule table_search [OF down_cpu.scan_loop_axioms k(1,2)])
      (use k in \<open>auto simp: table_values not_le intro: le_neq_trans\<close>)
  then show ?thesis
    using True rung_not_min [OF k(1,2)] by (simp add: GetScaleDownCpuQuota_def k_def)
next
  case False
  have "down_cpu_loop Q quota (minQuota v) (allQuotas v) = minQuota v"
    by (rule table_search_none [OF down_cpu.scan_loop_axioms])
      (use False in \<open>auto simp: table_values\<close>)
  then show ?thesis
    using False by (simp add: GetScaleDownCpuQuota_def)
qed

text \<open>No entry has more CPU than \<open>maxQuota\<close>, so the search for less memory finds nothing.\<close>

lemma down_mem_same: "GetScaleDownMemoryQuota Q v quota = quota"
proof -
  have "down_mem_loop Q quota (maxQuota v) (allQuotas v) = maxQuota v"
    by (rule table_search_none [OF down_mem.scan_loop_axioms]) (auto simp: table_values)
  then show ?thesis by (simp add: GetScaleDownMemoryQuota_def)
qed

text \<open>
  The floor of a quota: the entry of the same CPU, if the table has one and the quota has
  at least its memory; otherwise the quota itself.
\<close>

lemma floor_rung:
  "GetFloorMemoryQuota Q v quota =
    (let m = MilliValue Q (Cpu quota); k = m div 50
     in if m = 50 * k \<and> 1 \<le> k \<and> k \<le> 64 \<and> k * 2 ^ 30 \<le> Value Q (Memory quota)
        then rung Q (GiBQuantity v) k else quota)"
proof -
  define m where "m = MilliValue Q (Cpu quota)"
  define k where "k = m div 50"
  let ?t = "quota\<lparr>Memory := SetValue Q (Memory quota) 0\<rparr>"
  have t: "Value Q (Memory ?t) = 0"
    by (simp add: Value_SetValue in_int64_def)
  show ?thesis
  proof (cases "m = 50 * k \<and> 1 \<le> k \<and> k \<le> 64 \<and> k * 2 ^ 30 \<le> Value Q (Memory quota)")
    case True
    then have k: "1 \<le> k" "k \<le> 64" by simp_all
    have "floor_loop Q quota ?t (allQuotas v) = rung Q (GiBQuantity v) k"
      by (rule table_search [OF floor.scan_loop_axioms k])
        (use True t in \<open>auto simp: table_values m_def [symmetric]\<close>)
    then show ?thesis
      using True k by (simp add: GetFloorMemoryQuota_def Let_def m_def [symmetric] k_def [symmetric] rung_mem)
  next
    case False
    have "floor_loop Q quota ?t (allQuotas v) = ?t"
      by (rule table_search_none [OF floor.scan_loop_axioms])
        (use False t in \<open>auto simp: table_values m_def [symmetric] k_def\<close>)
    then show ?thesis
      using False t unfolding GetFloorMemoryQuota_def Let_def m_def [symmetric] k_def [symmetric] by auto
  qed
qed

end

interpretation ref_table: quota_table ref_quantity "the (init_quota_vars ref_quantity)"
  using ref.init_values by unfold_locales auto


section \<open>Properties\<close>

lemmas ref_table_axioms = ref.quantity_axioms ref_table.init

lemma quota_table_intro: "quantity Q \<Longrightarrow> init_quota_vars Q = Some v \<Longrightarrow> quota_table Q v"
  by (simp add: quota_table_def quota_table_axioms_def)

text \<open>The concrete quota of \<open>c\<close> thousandths of a CPU and \<open>b\<close> bytes, for the witnesses.\<close>

abbreviation ref_quota :: "int \<Rightarrow> int \<Rightarrow> amount Quota" where
  "ref_quota c b \<equiv> \<lparr>Cpu = Amount (c * 1000000) False, Memory = Amount (b * nano_unit) True\<rparr>"

abbreviation ref_vars :: "amount quota_vars" where
  "ref_vars \<equiv> the (init_quota_vars ref_quantity)"

text \<open>
  C3: scaling up the CPU of any quota moves to the lowest entry of the table with strictly
  more CPU: entry \<open>m div 50 + 1\<close> for \<open>m\<close> thousandths (entry 1 below that), and the quota is
  kept when no entry has more.
\<close>

theorem scale_up_cpu_next:
  assumes "quantity Q" "init_quota_vars Q = Some v"
  shows "GetScaleUpCpuQuota Q v quota =
    (let m = MilliValue Q (Cpu quota)
     in if m < 3200 then rung Q (GiBQuantity v) (max 1 (m div 50 + 1)) else quota)"
  using quota_table.up_cpu_rung [OF quota_table_intro [OF assms]] by (simp add: Let_def)

theorem scale_up_cpu_next_witness:
  "GetScaleUpCpuQuota ref_quantity ref_vars (ref_quota 1000 (2 * 2 ^ 30)) =
     rung ref_quantity (GiBQuantity ref_vars) 21"
proof -
  have "MilliValue ref_quantity (Cpu (ref_quota 1000 (2 * 2 ^ 30))) = 1000" by code_simp
  then show ?thesis
    using scale_up_cpu_next [OF ref_table_axioms, of "ref_quota 1000 (2 * 2 ^ 30)"] by (simp add: Let_def)
qed

text \<open>
  Scaling up the memory of any quota moves to the lowest entry of the table with strictly
  more memory, and the quota is kept from 64 GiB on.
\<close>

theorem scale_up_memory_next:
  assumes "quantity Q" "init_quota_vars Q = Some v"
  shows "GetScaleUpMemoryQuota Q v quota =
    (let b = Value Q (Memory quota)
     in if b < 64 * 2 ^ 30 then rung Q (GiBQuantity v) (max 1 (b div 2 ^ 30 + 1)) else quota)"
  using quota_table.up_mem_rung [OF quota_table_intro [OF assms]] by (simp add: Let_def)

theorem scale_up_memory_next_witness:
  "GetScaleUpMemoryQuota ref_quantity ref_vars (ref_quota 1000 (2 * 2 ^ 30)) =
     rung ref_quantity (GiBQuantity ref_vars) 3"
proof -
  have "Value ref_quantity (Memory (ref_quota 1000 (2 * 2 ^ 30))) = 2 * 2 ^ 30" by code_simp
  then show ?thesis
    using scale_up_memory_next [OF ref_table_axioms, of "ref_quota 1000 (2 * 2 ^ 30)"]
    by (simp add: Let_def)
qed

text \<open>
  Scaling down the CPU of any quota moves to the highest entry of the table with strictly
  less CPU, and the quota is kept at 50 thousandths and below.
\<close>

theorem scale_down_cpu_next:
  assumes "quantity Q" "init_quota_vars Q = Some v"
  shows "GetScaleDownCpuQuota Q v quota =
    (let m = MilliValue Q (Cpu quota)
     in if 50 < m then rung Q (GiBQuantity v) (min 64 ((m - 1) div 50)) else quota)"
  using quota_table.down_cpu_rung [OF quota_table_intro [OF assms]] by (simp add: Let_def)

theorem scale_down_cpu_next_witness:
  "GetScaleDownCpuQuota ref_quantity ref_vars (ref_quota 1000 (2 * 2 ^ 30)) =
     rung ref_quantity (GiBQuantity ref_vars) 19"
proof -
  have "MilliValue ref_quantity (Cpu (ref_quota 1000 (2 * 2 ^ 30))) = 1000" by code_simp
  then show ?thesis
    using scale_down_cpu_next [OF ref_table_axioms, of "ref_quota 1000 (2 * 2 ^ 30)"] by (simp add: Let_def)
qed

text \<open>
  Scaling down the memory never changes a quota.  The search starts at \<open>maxQuota\<close> and
  asks for more CPU than it, which no entry of the table has; the scale-down it is named for
  does not happen.
\<close>

theorem scale_down_memory_is_identity:
  assumes "quantity Q" "init_quota_vars Q = Some v"
  shows "GetScaleDownMemoryQuota Q v quota = quota"
  using quota_table.down_mem_same [OF quota_table_intro [OF assms]] .

theorem scale_down_memory_is_identity_witness:
  "GetScaleDownMemoryQuota ref_quantity ref_vars (ref_quota 1000 (64 * 2 ^ 30)) =
     ref_quota 1000 (64 * 2 ^ 30)"
  by (rule scale_down_memory_is_identity [OF ref_table_axioms])

text \<open>
  C22: package initialisation does not panic and its float64 loop ends within its fuel.  It
  builds 64 entries; entry \<open>k\<close> holds \<open>k\<close> GiB but \<open>50 * k\<close> thousandths of a CPU, a tenth of the
  \<open>k / 2\<close> CPUs the loop counter stands for (\<open>int64(cpu*100)\<close> is handed to \<open>NewMilliQuantity\<close>).
\<close>

theorem init_table:
  assumes "quantity Q"
  shows "\<exists>v. init_quota_vars Q = Some v \<and> length (allQuotas v) = 64 \<and>
    map (\<lambda>q. MilliValue Q (Cpu q)) (allQuotas v) = map (\<lambda>k. 50 * k) [1..64] \<and>
    map (\<lambda>q. Value Q (Memory q)) (allQuotas v) = map (\<lambda>k. k * 2 ^ 30) [1..64]"
proof -
  obtain v where v: "init_quota_vars Q = Some v"
    using quantity.init_values [OF assms] by blast
  note t = quota_table_intro [OF assms v]
  show ?thesis
    using v quota_table.table [OF t] quota_table.rung_cpu [OF t] quota_table.rung_mem [OF t]
    by (intro exI [of _ v]) simp
qed

theorem init_table_witness:
  "\<exists>v. init_quota_vars ref_quantity = Some v \<and> length (allQuotas v) = 64 \<and>
    map (\<lambda>q. MilliValue ref_quantity (Cpu q)) (allQuotas v) = map (\<lambda>k. 50 * k) [1..64] \<and>
    map (\<lambda>q. Value ref_quantity (Memory q)) (allQuotas v) = map (\<lambda>k. k * 2 ^ 30) [1..64]"
  by (rule init_table [OF ref.quantity_axioms])

text \<open>
  C23: the float64 loop of the initialisation ends: its counter steps by exact halves, so it runs 64 times
  and stops at its 65th test, neither earlier nor later, whatever more it is allowed to run.
\<close>

theorem init_loop_terminates:
  assumes "quantity Q" "Value Q gib = 2 ^ 30"
  shows "init_loop Q gib fuel (Fin (1 / 2)) [] = (if 65 \<le> fuel then Some (map (rung Q gib) [1..64]) else None)"
  using init_loop_from [OF assms, of 1 fuel "[]"] init_loop_short [OF assms, of 1 fuel "[]"] by simp

theorem init_loop_terminates_witness:
  "init_loop ref_quantity (GiBQuantity ref_vars) 64 (Fin (1 / 2)) [] = None \<and>
   (\<exists>qs. init_loop ref_quantity (GiBQuantity ref_vars) 1000 (Fin (1 / 2)) [] = Some qs \<and> length qs = 64)"
  by (simp add: init_loop_terminates [OF ref.quantity_axioms ref_table.gib_value])

context quota_table
begin

lemma up_cpu_from_rung:
  assumes "1 \<le> k" "k \<le> 64"
  shows "GetScaleUpCpuQuota Q v (rung Q (GiBQuantity v) k) = rung Q (GiBQuantity v) (min 64 (k + 1))"
  using assms up_cpu_rung [of "rung Q (GiBQuantity v) k"] by (cases "k = 64") (simp_all add: rung_cpu)

lemma down_cpu_from_rung:
  assumes "1 \<le> k" "k \<le> 64"
  shows "GetScaleDownCpuQuota Q v (rung Q (GiBQuantity v) k) = rung Q (GiBQuantity v) (max 1 (k - 1))"
proof (cases "k = 1")
  case False
  have "(50 * k - 1) div 50 = k - 1"
    by presburger
  then show ?thesis
    using False assms down_cpu_rung [of "rung Q (GiBQuantity v) k"] by (simp add: rung_cpu)
qed (use down_cpu_rung [of "rung Q (GiBQuantity v) k"] in \<open>simp add: rung_cpu\<close>)

lemma up_mem_from_rung:
  assumes "1 \<le> k" "k \<le> 64"
  shows "GetScaleUpMemoryQuota Q v (rung Q (GiBQuantity v) k) = rung Q (GiBQuantity v) (min 64 (k + 1))"
  using assms up_mem_rung [of "rung Q (GiBQuantity v) k"] by (cases "k = 64") (simp_all add: rung_mem)

lemma up_cpu_iterate:
  assumes "1 \<le> k" "k \<le> 64"
  shows "(GetScaleUpCpuQuota Q v ^^ n) (rung Q (GiBQuantity v) k) =
    rung Q (GiBQuantity v) (min 64 (k + int n))"
proof (induction n)
  case (Suc n)
  have "min 64 (min 64 (k + int n) + 1) = min 64 (k + int (Suc n))"
    by simp
  then show ?case
    using assms Suc up_cpu_from_rung [of "min 64 (k + int n)"] by simp
qed (use assms in simp)

lemma down_cpu_iterate:
  assumes "1 \<le> k" "k \<le> 64"
  shows "(GetScaleDownCpuQuota Q v ^^ n) (rung Q (GiBQuantity v) k) =
    rung Q (GiBQuantity v) (max 1 (k - int n))"
proof (induction n)
  case (Suc n)
  have "max 1 (max 1 (k - int n) - 1) = max 1 (k - int (Suc n))"
    by simp
  then show ?case
    using assms Suc down_cpu_from_rung [of "max 1 (k - int n)"] by simp
qed (use assms in simp)

end

text \<open>
  C26: repeated CPU scale-ups climb the table one entry at a time and stop at its top; repeated
  scale-downs descend one entry at a time and stop at its bottom.  Down undoes up below the top.
\<close>

theorem cpu_ladder:
  assumes "quantity Q" "init_quota_vars Q = Some v" "1 \<le> k" "k \<le> 64"
  shows "(GetScaleUpCpuQuota Q v ^^ n) (rung Q (GiBQuantity v) k) =
      rung Q (GiBQuantity v) (min 64 (k + int n)) \<and>
    (GetScaleDownCpuQuota Q v ^^ n) (rung Q (GiBQuantity v) k) =
      rung Q (GiBQuantity v) (max 1 (k - int n)) \<and>
    (k < 64 \<longrightarrow> GetScaleDownCpuQuota Q v (GetScaleUpCpuQuota Q v (rung Q (GiBQuantity v) k)) =
      rung Q (GiBQuantity v) k)"
proof -
  note t = quota_table_intro [OF assms(1,2)]
  have "GetScaleDownCpuQuota Q v (GetScaleUpCpuQuota Q v (rung Q (GiBQuantity v) k)) =
      rung Q (GiBQuantity v) k" if "k < 64"
    using that assms quota_table.up_cpu_from_rung [OF t, of k]
      quota_table.down_cpu_from_rung [OF t, of "k + 1"] by simp
  then show ?thesis
    using quota_table.up_cpu_iterate [OF t assms(3,4)] quota_table.down_cpu_iterate [OF t assms(3,4)]
    by simp
qed

theorem cpu_ladder_witness:
  "(GetScaleUpCpuQuota ref_quantity ref_vars ^^ 100) (rung ref_quantity (GiBQuantity ref_vars) 20) =
     rung ref_quantity (GiBQuantity ref_vars) 64"
proof -
  have "(1::int) \<le> 20" "(20::int) \<le> 64" by simp_all
  from cpu_ladder [OF ref_table_axioms this, of 100] show ?thesis by simp
qed

text \<open>
  For every table and every quantity implementation the searches move in their own
  direction or not at all: up never loses CPU or memory, down never gains it.
\<close>

theorem scale_direction:
  "MilliValue Q (Cpu quota) \<le> MilliValue Q (Cpu (GetScaleUpCpuQuota Q v quota)) \<and>
   Value Q (Memory quota) \<le> Value Q (Memory (GetScaleUpMemoryQuota Q v quota)) \<and>
   MilliValue Q (Cpu (GetScaleDownCpuQuota Q v quota)) \<le> MilliValue Q (Cpu quota) \<and>
   Value Q (Memory (GetScaleDownMemoryQuota Q v quota)) \<le> Value Q (Memory quota)"
  using up_cpu.loop_cases [of Q quota "maxQuota v" "allQuotas v"]
    up_mem.loop_cases [of Q quota "maxQuota v" "allQuotas v"]
    down_cpu.loop_cases [of Q quota "minQuota v" "allQuotas v"]
    down_mem.loop_cases [of Q quota "maxQuota v" "allQuotas v"]
  by (auto simp: GetScaleUpCpuQuota_def GetScaleUpMemoryQuota_def GetScaleDownCpuQuota_def
      GetScaleDownMemoryQuota_def Let_def)

text \<open>
  For every table, a CPU scale-up that changes the quota returns the first entry, in
  table order, with the least memory among the entries with strictly more CPU.
\<close>

theorem scale_up_cpu_best:
  assumes "GetScaleUpCpuQuota Q v quota \<noteq> quota"
  shows "\<exists>ys zs. allQuotas v = ys @ GetScaleUpCpuQuota Q v quota # zs \<and>
    MilliValue Q (Cpu quota) < MilliValue Q (Cpu (GetScaleUpCpuQuota Q v quota)) \<and>
    (\<forall>q\<in>set (allQuotas v). MilliValue Q (Cpu quota) < MilliValue Q (Cpu q) \<longrightarrow>
       Value Q (Memory (GetScaleUpCpuQuota Q v quota)) \<le> Value Q (Memory q)) \<and>
    (\<forall>q\<in>set ys. MilliValue Q (Cpu quota) < MilliValue Q (Cpu q) \<longrightarrow>
       Value Q (Memory (GetScaleUpCpuQuota Q v quota)) < Value Q (Memory q))"
proof -
  let ?r = "up_cpu_loop Q quota (maxQuota v) (allQuotas v)"
  have r: "GetScaleUpCpuQuota Q v quota = ?r" "?r \<noteq> maxQuota v"
    using assms by (auto simp: GetScaleUpCpuQuota_def Let_def split: if_splits)
  have least: "Value Q (Memory ?r) \<le> Value Q (Memory q)"
    if "q \<in> set (allQuotas v)" "MilliValue Q (Cpu quota) < MilliValue Q (Cpu q)" for q
    using up_cpu.loop_least [OF that(1)] that(2) by (simp add: not_le)
  obtain ys zs where "allQuotas v = ys @ ?r # zs"
      "\<forall>y\<in>set ys. MilliValue Q (Cpu y) \<le> MilliValue Q (Cpu quota) \<or> Value Q (Memory ?r) < Value Q (Memory y)"
    using up_cpu.loop_first [OF r(2)] by blast
  moreover have "MilliValue Q (Cpu quota) < MilliValue Q (Cpu ?r)"
    using up_cpu.loop_cases [of Q quota "maxQuota v" "allQuotas v"] r(2) by auto
  ultimately show ?thesis
    unfolding r(1) using least by (intro exI [of _ ys] exI [of _ zs]) auto
qed

theorem scale_up_cpu_best_witness:
  "\<exists>ys zs. allQuotas ref_vars = ys @ rung ref_quantity (GiBQuantity ref_vars) 21 # zs"
proof -
  have m: "MilliValue ref_quantity (Cpu (ref_quota 1000 (2 * 2 ^ 30))) = 1000" by code_simp
  then have r: "GetScaleUpCpuQuota ref_quantity ref_vars (ref_quota 1000 (2 * 2 ^ 30)) =
      rung ref_quantity (GiBQuantity ref_vars) 21"
    using ref_table.up_cpu_rung [of "ref_quota 1000 (2 * 2 ^ 30)"] by simp
  have "MilliValue ref_quantity (Cpu (rung ref_quantity (GiBQuantity ref_vars) 21)) = 1050"
    using ref_table.rung_cpu [of 21] by simp
  with m have "rung ref_quantity (GiBQuantity ref_vars) 21 \<noteq> ref_quota 1000 (2 * 2 ^ 30)" by auto
  then show ?thesis
    using scale_up_cpu_best [of ref_quantity ref_vars "ref_quota 1000 (2 * 2 ^ 30)"] unfolding r by blast
qed

text \<open>
  C28: the floor of a quota is the entry of the table with exactly its CPU, provided the quota
  has at least that entry's memory; in every other case the quota is kept.
\<close>

theorem floor_memory_quota:
  assumes "quantity Q" "init_quota_vars Q = Some v"
  shows "GetFloorMemoryQuota Q v quota =
    (let m = MilliValue Q (Cpu quota); k = m div 50
     in if m = 50 * k \<and> 1 \<le> k \<and> k \<le> 64 \<and> k * 2 ^ 30 \<le> Value Q (Memory quota)
        then rung Q (GiBQuantity v) k else quota)"
  using quota_table.floor_rung [OF quota_table_intro [OF assms]] .

theorem floor_memory_quota_witness:
  "GetFloorMemoryQuota ref_quantity ref_vars (ref_quota 1000 (21 * 2 ^ 30)) =
     rung ref_quantity (GiBQuantity ref_vars) 20 \<and>
   GetFloorMemoryQuota ref_quantity ref_vars (ref_quota 1000 (2 * 2 ^ 30)) = ref_quota 1000 (2 * 2 ^ 30)"
proof -
  have "MilliValue ref_quantity (Amount (1000 * 1000000) False) = 1000" by code_simp
  moreover have "Value ref_quantity (Memory (ref_quota 1000 (21 * 2 ^ 30))) = 21 * 2 ^ 30"
    "Value ref_quantity (Memory (ref_quota 1000 (2 * 2 ^ 30))) = 2 * 2 ^ 30" by code_simp+
  ultimately show ?thesis
    using floor_memory_quota [OF ref_table_axioms, of "ref_quota 1000 (21 * 2 ^ 30)"]
      floor_memory_quota [OF ref_table_axioms, of "ref_quota 1000 (2 * 2 ^ 30)"]
    by (simp add: Let_def)
qed

lemma computed_config:
  assumes "quantity Q" "init_quota_vars Q = Some v"
    and "0 \<le> Value Q (Memory quota)" "50 * Value Q (Memory quota) < 2 ^ 63"
  obtains cfg where "GetQuotaConfig Q v quota = Returns cfg"
    "GOMaxProcs cfg = NewMilliQuantity Q (wrap64 (MilliValue Q (Cpu quota) + 500))"
    "Value Q (MemoryCache cfg) = Value Q (Memory quota)"
    "Value Q (DiskCache cfg) = 10 * Value Q (Memory quota)"
    "DiskIOPS cfg = 500 * (Value Q (Memory quota) div 2 ^ 30)"
    "Value Q (DiskBandWidth cfg) = 50 * Value Q (Memory quota) div 1024"
proof -
  note t = quota_table_intro [OF assms(1,2)]
  define b where "b = Value Q (Memory quota)"
  have r: "in_int64 (b * 10)" "in_int64 (b * 50)" "in_int64 b"
    using assms(3,4) by (simp_all add: b_def in_int64_def)
  have d: "quot64 b (2 ^ 30) = b div 2 ^ 30" "quot64 (b * 50) 1024 = b * 50 div 1024"
    using r assms(3) by (simp_all add: quot64_pos b_def)
  have "0 \<le> b div 2 ^ 30" "b div 2 ^ 30 \<le> b" "0 \<le> b * 50 div 1024" "b * 50 div 1024 \<le> b * 50"
    using assms(3) by (simp_all add: b_def int_div_le pos_imp_zdiv_nonneg_iff)
  moreover have "b div 2 ^ 30 * 500 \<le> b div 2 ^ 30 * 2 ^ 30" "b div 2 ^ 30 * 2 ^ 30 \<le> b"
    using calculation(1) div_mult_mod_eq [of b "2 ^ 30"] pos_mod_sign [of "2 ^ 30" b] by simp_all
  ultimately have i: "in_int64 (b div 2 ^ 30 * 500)" "in_int64 (b * 50 div 1024)"
    using r by (simp_all add: in_int64_def)
  have "GetQuotaConfig Q v quota = Returns
      \<lparr>GOMaxProcs = NewMilliQuantity Q (wrap64 (MilliValue Q (Cpu quota) + 500)), MemoryCache = DeepCopy Q (Memory quota),
       DiskCache = SetValue Q (DeepCopy Q (Memory quota)) (b * 10), DiskIOPS = b div 2 ^ 30 * 500,
       DiskBandWidth = SetValue Q (DeepCopy Q (Memory quota)) (b * 50 div 1024)\<rparr>"
    using r d i by (simp add: GetQuotaConfig_def CalculatedQuotaConfig_def quota_table.no_config [OF t]
        quota_table.basic_gib [OF t] b_def [symmetric])
  then show thesis
    by (rule that) (use r i in \<open>simp_all add: b_def [symmetric] quantity.quantity_values [OF assms(1)] mult.commute\<close>)
qed

text \<open>
  C38: the configuration of a quota.  After initialisation every quota is computed (the
  override table is empty): GOMAXPROCS is the CPU plus half a CPU, the memory cache the memory,
  the disk cache ten times the memory, the disk bandwidth 50/1024 of the memory, and 500 IOPS per
  whole GiB; no operation wraps while fifty times the memory fits an int64.
\<close>

theorem quota_config:
  assumes "quantity Q" "init_quota_vars Q = Some v"
    and "in_int64 (MilliValue Q (Cpu quota) + 500)"
    and "0 \<le> Value Q (Memory quota)" "50 * Value Q (Memory quota) < 2 ^ 63"
  shows "\<exists>cfg. GetQuotaConfig Q v quota = Returns cfg \<and>
    MilliValue Q (GOMaxProcs cfg) = MilliValue Q (Cpu quota) + 500 \<and>
    Value Q (GOMaxProcs cfg) = milli_up (MilliValue Q (Cpu quota) + 500) \<and>
    Value Q (MemoryCache cfg) = Value Q (Memory quota) \<and>
    Value Q (DiskCache cfg) = 10 * Value Q (Memory quota) \<and>
    DiskIOPS cfg = 500 * (Value Q (Memory quota) div 2 ^ 30) \<and>
    Value Q (DiskBandWidth cfg) = 50 * Value Q (Memory quota) div 1024"
proof -
  obtain cfg where "GetQuotaConfig Q v quota = Returns cfg"
    "GOMaxProcs cfg = NewMilliQuantity Q (wrap64 (MilliValue Q (Cpu quota) + 500))"
    "Value Q (MemoryCache cfg) = Value Q (Memory quota)" "Value Q (DiskCache cfg) = 10 * Value Q (Memory quota)"
    "DiskIOPS cfg = 500 * (Value Q (Memory quota) div 2 ^ 30)"
    "Value Q (DiskBandWidth cfg) = 50 * Value Q (Memory quota) div 1024"
    by (rule computed_config [OF assms(1,2,4,5)])
  then show ?thesis
    using assms(3) by (simp add: quantity.quantity_values [OF assms(1)])
qed

text \<open>The witness is the case of the repository's own test: 1 CPU and 2 GiB.\<close>

theorem quota_config_witness:
  "\<exists>cfg. GetQuotaConfig ref_quantity ref_vars (ref_quota 1000 (2 * 2 ^ 30)) = Returns cfg \<and>
    Value ref_quantity (GOMaxProcs cfg) = 2 \<and> Value ref_quantity (DiskCache cfg) = 20 * 2 ^ 30 \<and>
    DiskIOPS cfg = 1000 \<and> Value ref_quantity (DiskBandWidth cfg) = 100 * 2 ^ 20"
proof -
  have q: "MilliValue ref_quantity (Cpu (ref_quota 1000 (2 * 2 ^ 30))) = 1000"
    "Value ref_quantity (Memory (ref_quota 1000 (2 * 2 ^ 30))) = 2 * 2 ^ 30" by code_simp+
  have h: "in_int64 (MilliValue ref_quantity (Cpu (ref_quota 1000 (2 * 2 ^ 30))) + 500)"
    "0 \<le> Value ref_quantity (Memory (ref_quota 1000 (2 * 2 ^ 30)))"
    "50 * Value ref_quantity (Memory (ref_quota 1000 (2 * 2 ^ 30))) < 2 ^ 63"
    unfolding q by (simp_all add: in_int64_def)
  show ?thesis
    using quota_config [OF ref_table_axioms h] unfolding q by (auto simp: milli_up_def)
qed

text \<open>
  A generated configuration that was printed is read back to quantities of the same values:
  \<open>Parse\<close> succeeds on what \<open>Format\<close> wrote.
\<close>

theorem generated_roundtrip:
  assumes "quantity_text Q"
  shows "\<exists>c. Parse Q (NewGeneratedQuotaConfig Q quota cfg) = Returns c \<and>
    MilliValue Q (Cpu (gen_quota c)) = MilliValue Q (Cpu quota) \<and>
    Value Q (Memory (gen_quota c)) = Value Q (Memory quota) \<and>
    MilliValue Q (GOMaxProcs (gen_cfg c)) = MilliValue Q (GOMaxProcs cfg) \<and>
    Value Q (MemoryCache (gen_cfg c)) = Value Q (MemoryCache cfg) \<and>
    Value Q (DiskCache (gen_cfg c)) = Value Q (DiskCache cfg) \<and>
    DiskIOPS (gen_cfg c) = DiskIOPS cfg \<and>
    Value Q (DiskBandWidth (gen_cfg c)) = Value Q (DiskBandWidth cfg)"
proof -
  obtain rd where rd: "must_parse Q (QString Q q) = Returns (rd q)" "Value Q (rd q) = Value Q q"
      "MilliValue Q (rd q) = MilliValue Q q" for q
  proof -
    have "\<forall>q. \<exists>q'. must_parse Q (QString Q q) = Returns q' \<and> Value Q q' = Value Q q \<and>
        MilliValue Q q' = MilliValue Q q"
    proof
      fix q
      show "\<exists>q'. must_parse Q (QString Q q) = Returns q' \<and> Value Q q' = Value Q q \<and>
          MilliValue Q q' = MilliValue Q q"
        using quantity_text.MustParse_QString [OF assms, of q] by (auto simp: must_parse_def)
    qed
    then show ?thesis using that by metis
  qed
  show ?thesis
    by (simp add: Parse_def NewGeneratedQuotaConfig_def Format_def rd)
qed

theorem generated_roundtrip_witness:
  "\<exists>c. Parse ref_quantity (NewGeneratedQuotaConfig ref_quantity (ref_quota 1500 (2 * 2 ^ 30))
      \<lparr>GOMaxProcs = Amount (2 * nano_unit) False, MemoryCache = Amount (2 ^ 31 * nano_unit) True,
       DiskCache = Amount (20 * 2 ^ 30 * nano_unit) True, DiskIOPS = 1000,
       DiskBandWidth = Amount (100 * 2 ^ 20 * nano_unit) True\<rparr>) = Returns c \<and>
    DiskIOPS (gen_cfg c) = 1000"
  (is "\<exists>c. Parse _ (NewGeneratedQuotaConfig _ _ ?cfg) = _ \<and> _")
  using generated_roundtrip [OF ref.quantity_text_axioms, of "ref_quota 1500 (2 * 2 ^ 30)" ?cfg] by auto

text \<open>
  The quota of a pod is that of its last container named main; it is found exactly when
  there is one.
\<close>

theorem quota_from_pod:
  "snd (GetQuotaFromPod Q p) = (''main'' \<in> cName ` set (pContainers p)) \<and>
   (\<forall>us c vs. pContainers p = us @ c # vs \<longrightarrow> cName c = ''main'' \<longrightarrow>
      ''main'' \<notin> cName ` set vs \<longrightarrow>
      GetQuotaFromPod Q p =
        (\<lparr>Cpu = DeepCopy Q (ListCpu Q (cLimits c)), Memory = DeepCopy Q (ListMemory Q (cLimits c))\<rparr>, True))"
proof -
  have none: "pod_quota_loop Q cs acc = acc" if "''main'' \<notin> cName ` set cs" for cs acc
    using that by (induction cs) auto
  have app: "pod_quota_loop Q (us @ cs) acc = pod_quota_loop Q cs (pod_quota_loop Q us acc)" for us cs acc
    by (induction us arbitrary: acc) auto
  have found: "snd (pod_quota_loop Q cs acc) \<longleftrightarrow> snd acc \<or> ''main'' \<in> cName ` set cs" for cs acc
    by (induction cs arbitrary: acc) auto
  show ?thesis
    by (auto simp: GetQuotaFromPod_def found app none)
qed

theorem quota_from_pod_witness:
  "GetQuotaFromPod ref_quantity (empty_pod\<lparr>pContainers :=
     [\<lparr>cName = ''log'', cLimits = Map.empty, cRequests = Map.empty\<rparr>,
      \<lparr>cName = ''main'', cLimits = [''cpu'' \<mapsto> Amount nano_unit False], cRequests = Map.empty\<rparr>]\<rparr>) =
   (\<lparr>Cpu = Amount nano_unit False, Memory = Amount 0 True\<rparr>, True)"
  (is "GetQuotaFromPod _ ?p = _")
proof -
  have "pContainers ?p = [\<lparr>cName = ''log'', cLimits = Map.empty, cRequests = Map.empty\<rparr>] @
      \<lparr>cName = ''main'', cLimits = [''cpu'' \<mapsto> Amount nano_unit False], cRequests = Map.empty\<rparr> # []"
    by simp
  from quota_from_pod [THEN conjunct2, rule_format, OF this] show ?thesis
    by (simp add: ref_quantity_def)
qed


end
