(* ===== verification/Go_Path.thy ===== *)
theory Go_Path
  imports Go_Prelude
begin

text \<open>
  Go's \<open>path.Clean\<close> and \<open>path.Join\<close> (and \<open>path/filepath\<close>'s, which are the same on Unix):
  the purely lexical rules of the package documentation.  The source joins a namespace and
  a pod name into a cache key, and a mount point and a cgroup name into a directory.
\<close>

section \<open>Clean and Join\<close>

text \<open>
  One pass over the components: empty components and \<open>.\<close> are dropped, \<open>..\<close> removes the
  component before it, is dropped at the root, and is kept at the start of a relative path.
\<close>

fun clean_stack :: "bool \<Rightarrow> string list \<Rightarrow> string list \<Rightarrow> string list" where
  "clean_stack rooted st [] = rev st"
| "clean_stack rooted st (c # cs) =
     (if c = '''' \<or> c = ''.'' then clean_stack rooted st cs
      else if c = ''..'' then
        (case st of
           [] \<Rightarrow> if rooted then clean_stack rooted [] cs else clean_stack rooted [''..''] cs
         | s # ss \<Rightarrow> if s = ''..'' then clean_stack rooted (''..'' # st) cs
                    else clean_stack rooted ss cs)
      else clean_stack rooted (c # st) cs)"

definition path_Clean :: "string \<Rightarrow> string" where
  "path_Clean p =
     (if p = [] then ''.''
      else if hd p = CHR ''/''
      then CHR ''/'' # join_with (CHR ''/'') (clean_stack True [] (strings_Split p (CHR ''/'')))
      else (case clean_stack False [] (strings_Split p (CHR ''/'')) of
              [] \<Rightarrow> ''.''
            | ws \<Rightarrow> join_with (CHR ''/'') ws))"

definition path_Join :: "string list \<Rightarrow> string" where
  "path_Join es =
     (case filter (\<lambda>e. e \<noteq> []) es of
        [] \<Rightarrow> []
      | ws \<Rightarrow> path_Clean (join_with (CHR ''/'') ws))"

section \<open>Plain components\<close>

text \<open>A component that \<open>Clean\<close> keeps as it is.\<close>

definition plain_comp :: "string \<Rightarrow> bool" where
  "plain_comp c \<longleftrightarrow> c \<noteq> [] \<and> c \<noteq> ''.'' \<and> c \<noteq> ''..'' \<and> CHR ''/'' \<notin> set c"

text \<open>An absolute path from its components.\<close>

definition rooted_path :: "string list \<Rightarrow> string" where
  "rooted_path cs = CHR ''/'' # join_with (CHR ''/'') cs"

lemma clean_stack_plain [go_string]:
  "\<forall>c\<in>set cs. plain_comp c \<Longrightarrow> clean_stack rooted st cs = rev st @ cs"
  by (induction cs arbitrary: st) (auto simp: plain_comp_def)

lemma clean_stack_skip_Nil [simp]: "clean_stack rooted st ([] # cs) = clean_stack rooted st cs"
  by simp

lemma clean_stack_append_plain [go_string]:
  "\<forall>c\<in>set us. plain_comp c \<Longrightarrow> clean_stack rooted st (us @ cs) = clean_stack rooted (rev us @ st) cs"
  by (induction us arbitrary: st) (auto simp: plain_comp_def)

lemma strings_Split_plain:
  "cs \<noteq> [] \<Longrightarrow> \<forall>c\<in>set cs. plain_comp c \<Longrightarrow> strings_Split (join_with (CHR ''/'') cs) (CHR ''/'') = cs"
  unfolding strings_Split_def by (rule split_by_join_with) (auto simp: plain_comp_def)

lemma split_by_append_join:
  "p s \<Longrightarrow> split_by p (u @ s # v) = split_by p u @ split_by p v"
  by (induction u) (auto split: list.splits)

lemma strings_Split_append:
  "strings_Split (u @ s # v) s = strings_Split u s @ strings_Split v s"
  by (simp add: strings_Split_def split_by_append_join)

lemma strings_Split_rooted:
  "cs \<noteq> [] \<Longrightarrow> \<forall>c\<in>set cs. plain_comp c \<Longrightarrow> strings_Split (rooted_path cs) (CHR ''/'') = [] # cs"
  using strings_Split_append [of "[]" "CHR ''/''"] strings_Split_plain
  by (simp add: rooted_path_def strings_Split_def)

lemma join_with_not_Nil: "cs \<noteq> [] \<Longrightarrow> \<forall>c\<in>set cs. c \<noteq> [] \<Longrightarrow> join_with sep cs \<noteq> []"
  by (induction sep cs rule: join_with.induct) auto

lemma hd_notin: "c \<noteq> [] \<Longrightarrow> x \<notin> set c \<Longrightarrow> hd (c @ ys) \<noteq> x"
  by (cases c) auto

lemma join_with_hd:
  "cs \<noteq> [] \<Longrightarrow> \<forall>c\<in>set cs. c \<noteq> [] \<and> sep \<notin> set c \<Longrightarrow> hd (join_with sep cs) \<noteq> sep"
  by (induction sep cs rule: join_with.induct) (auto simp: hd_notin dest: list.set_sel(1))

text \<open>Two plain components are joined by one slash, so the result determines them.\<close>

lemma path_Join_plain [go_string]:
  assumes "plain_comp a" "plain_comp b"
  shows "path_Join [a, b] = a @ CHR ''/'' # b"
proof -
  have j: "join_with (CHR ''/'') [a, b] = a @ CHR ''/'' # b" by simp
  have s: "strings_Split (a @ CHR ''/'' # b) (CHR ''/'') = [a, b]"
    using strings_Split_plain [of "[a, b]"] assms by simp
  have "hd (a @ CHR ''/'' # b) \<noteq> CHR ''/''"
    using join_with_hd [of "[a, b]" "CHR ''/''"] assms by (simp add: plain_comp_def)
  then have "path_Clean (a @ CHR ''/'' # b) = a @ CHR ''/'' # b"
    using assms by (simp add: path_Clean_def s clean_stack_plain del: clean_stack.simps)
  then show ?thesis
    using assms by (simp add: path_Join_def plain_comp_def)
qed

lemma plain_append_inject:
  assumes "CHR ''/'' \<notin> set a" "CHR ''/'' \<notin> set c" "a @ CHR ''/'' # b = c @ CHR ''/'' # d"
  shows "a = c \<and> b = d"
  using assms by (induction a arbitrary: c) (auto simp: Cons_eq_append_conv append_eq_Cons_conv)

lemma path_Join_plain_inject [go_string]:
  "plain_comp a \<Longrightarrow> plain_comp b \<Longrightarrow> plain_comp c \<Longrightarrow> plain_comp d \<Longrightarrow>
     path_Join [a, b] = path_Join [c, d] \<longleftrightarrow> a = c \<and> b = d"
  by (auto simp: path_Join_plain dest: plain_append_inject [rotated 2] simp: plain_comp_def)

text \<open>A mount point and an absolute cgroup name: their components one after the other.\<close>

lemma path_Join_rooted [go_string]:
  assumes "us \<noteq> []" "vs \<noteq> []" "\<forall>c\<in>set us. plain_comp c" "\<forall>c\<in>set vs. plain_comp c"
  shows "path_Join [rooted_path us, rooted_path vs] = rooted_path (us @ vs)"
proof -
  let ?s = "rooted_path us @ CHR ''/'' # rooted_path vs"
  have "strings_Split ?s (CHR ''/'') = [] # us @ [] # vs"
    using assms by (simp add: strings_Split_append strings_Split_rooted)
  then have "clean_stack True [] (strings_Split ?s (CHR ''/'')) = us @ vs"
    using assms by (simp add: clean_stack_append_plain clean_stack_plain del: clean_stack.simps(2))
  then have "path_Clean ?s = rooted_path (us @ vs)"
    by (simp add: path_Clean_def rooted_path_def)
  then show ?thesis
    by (simp add: path_Join_def rooted_path_def)
qed

lemma rooted_path_inject [go_string]:
  assumes "us \<noteq> []" "vs \<noteq> []" "\<forall>c\<in>set us. plain_comp c" "\<forall>c\<in>set vs. plain_comp c"
  shows "rooted_path us = rooted_path vs \<longleftrightarrow> us = vs"
  using strings_Split_rooted assms by (metis list.inject)

end
