(* ===== verification/Cgroup_Paths.thy ===== *)
theory Cgroup_Paths
  imports Go_Path
begin

text \<open>
  The cgroup directories and the CPU files of \<^verbatim>\<open>pkg/kubelet/cmd.go\<close>: \<open>BuildCgroupPaths\<close>,
  \<open>setCgroupCpuConfig\<close> and \<open>setCgroupv2CpuConfig\<close>, and the stub of
  \<^verbatim>\<open>pkg/kubelet/cmd_unsupported.go\<close>.

  A \<open>cm.CgroupName\<close> is the list of its components.  Its two textual forms, the conversion
  from shares to weight and the text of an unlimited quota belong to Kubernetes and are the
  fields of \<open>cgroup_api\<close>.  A file system is a value of type \<open>'fs\<close> with a write operation
  that returns the new file system and an error.
\<close>

record cgroup_api =
  ToCgroupfs :: "string list \<Rightarrow> string"
  ToSystemd :: "string list \<Rightarrow> string"
  CpuSharesToCpuWeight :: "u64 \<Rightarrow> u64"
  MilliCPUToShares :: "int \<Rightarrow> u64"
  cmMaxCpuLimit :: string

type_synonym 'fs write_file = "'fs \<Rightarrow> string \<Rightarrow> string \<Rightarrow> 'fs \<times> go_error option"

definition CgroupDriverSystemd :: string where "CgroupDriverSystemd = ''systemd''"
definition CgroupControllerCpu :: string where "CgroupControllerCpu = ''cpu''"
definition CgroupControllerMemory :: string where "CgroupControllerMemory = ''memory''"
definition CgroupControllerIO :: string where "CgroupControllerIO = ''io''"
definition CPUPeriodUs :: int where "CPUPeriodUs = 100000"

section \<open>Directories\<close>

definition BuildCgroupPaths ::
    "cgroup_api \<Rightarrow> string list \<Rightarrow> string \<Rightarrow> (string \<rightharpoonup> string) \<Rightarrow> string \<rightharpoonup> string" where
  "BuildCgroupPaths A name cgroupDriver mountPoints =
     (let adapted = (if cgroupDriver = CgroupDriverSystemd then ToSystemd A name else ToCgroupfs A name)
      in (\<lambda>key. map_option (\<lambda>val. path_Join [val, adapted]) (mountPoints key)))"

text \<open>Reading a Go map of strings: the empty string for a missing key.\<close>

definition path_of :: "(string \<rightharpoonup> string) \<Rightarrow> string \<Rightarrow> string" where
  "path_of m k = (case m k of None \<Rightarrow> [] | Some p \<Rightarrow> p)"

text \<open>The build for other systems than Linux has no paths.\<close>

definition BuildCgroupPaths_unsupported ::
    "string list \<Rightarrow> string \<Rightarrow> (string \<rightharpoonup> string) \<Rightarrow> string \<rightharpoonup> string" where
  "BuildCgroupPaths_unsupported name cgroupDriver mountPoints = Map.empty"

section \<open>The CPU files\<close>

record resource_config =
  CPUQuota :: "int option"
  CPUPeriod :: "u64 option"
  CPUShares :: "u64 option"

text \<open>The second half of the function: \<open>cpu.weight\<close>, when shares are given.\<close>

definition write_cpu_weight ::
    "cgroup_api \<Rightarrow> 'fs write_file \<Rightarrow> 'fs \<Rightarrow> string \<Rightarrow> resource_config \<Rightarrow> 'fs \<times> go_error option" where
  "write_cpu_weight A wr fs cgroupPath rc =
     (case CPUShares rc of
        None \<Rightarrow> (fs, None)
      | Some shares \<Rightarrow>
          (case wr fs (path_Join [cgroupPath, ''cpu.weight'']) (FormatInt (uint (CpuSharesToCpuWeight A shares))) of
             (fs', None) \<Rightarrow> (fs', None)
           | (fs', Some e) \<Rightarrow> (fs', Some (Wrapf ''failed to write cpu.weight'' e))))"

definition setCgroupv2CpuConfig ::
    "cgroup_api \<Rightarrow> 'fs write_file \<Rightarrow> 'fs \<Rightarrow> string \<Rightarrow> resource_config \<Rightarrow> 'fs \<times> go_error option" where
  "setCgroupv2CpuConfig A wr fs cgroupPath rc =
     (case CPUQuota rc of
        None \<Rightarrow> write_cpu_weight A wr fs cgroupPath rc
      | Some quota \<Rightarrow>
          (case CPUPeriod rc of
             None \<Rightarrow> (fs, Some (Errorf ''CpuPeriod must be specified in order to set CpuLimit''))
           | Some period \<Rightarrow>
               (let limit = (if quota > - 1 then FormatInt quota else cmMaxCpuLimit A);
                    cpuMaxStr = limit @ '' '' @ FormatInt (uint period)
                in case wr fs (path_Join [cgroupPath, ''cpu.max'']) cpuMaxStr of
                     (fs', Some e) \<Rightarrow> (fs', Some (Wrapf ''failed to write cpu.max'' e))
                   | (fs', None) \<Rightarrow> write_cpu_weight A wr fs' cgroupPath rc)))"

text \<open>\<open>isV2\<close> is the answer of \<open>libcontainercgroups.IsCgroup2UnifiedMode\<close>.\<close>

definition setCgroupCpuConfig ::
    "cgroup_api \<Rightarrow> bool \<Rightarrow> 'fs write_file \<Rightarrow> 'fs \<Rightarrow> string \<Rightarrow> resource_config \<Rightarrow> 'fs \<times> go_error option" where
  "setCgroupCpuConfig A isV2 wr fs cgroupPath rc =
     (if isV2 then setCgroupv2CpuConfig A wr fs cgroupPath rc else (fs, Some (Errorf ''NOT IMPLEMENTED'')))"

section \<open>Lemmas\<close>

text \<open>
  What Kubernetes documents of the cgroupfs form: the components of the name below the root.
  The conversions the CPU configuration uses keep their ranges; nothing else is assumed.
\<close>

locale cgroupfs_names =
  fixes A :: cgroup_api
  assumes ToCgroupfs_rooted: "ToCgroupfs A name = rooted_path name"
begin

lemma cgroupfs_directory:
  assumes "cgroupDriver \<noteq> CgroupDriverSystemd" "mountPoints key = Some (rooted_path mnt)"
    and "mnt \<noteq> []" "\<forall>c\<in>set mnt. plain_comp c" "name \<noteq> []" "\<forall>c\<in>set name. plain_comp c"
  shows "BuildCgroupPaths A name cgroupDriver mountPoints key = Some (rooted_path (mnt @ name))"
  using assms by (simp add: BuildCgroupPaths_def ToCgroupfs_rooted path_Join_rooted)

lemma directories_inject:
  assumes "driver \<noteq> CgroupDriverSystemd" "mounts key = Some (rooted_path mnt)" "mounts key' = Some (rooted_path mnt)"
    and "mnt \<noteq> []" "\<forall>c\<in>set mnt. plain_comp c"
    and "name1 \<noteq> []" "\<forall>c\<in>set name1. plain_comp c" "name2 \<noteq> []" "\<forall>c\<in>set name2. plain_comp c"
  shows "path_of (BuildCgroupPaths A name1 driver mounts) key =
      path_of (BuildCgroupPaths A name2 driver mounts) key' \<longleftrightarrow> name1 = name2"
proof -
  have d: "BuildCgroupPaths A name1 driver mounts key = Some (rooted_path (mnt @ name1))"
    "BuildCgroupPaths A name2 driver mounts key' = Some (rooted_path (mnt @ name2))"
    by (rule cgroupfs_directory; use assms in simp)+
  have "\<forall>c\<in>set (mnt @ name1). plain_comp c" "\<forall>c\<in>set (mnt @ name2). plain_comp c"
    using assms(5,7,9) by auto
  then show ?thesis
    using assms(4) by (simp add: path_of_def d rooted_path_inject)
qed

end

lemma dom_BuildCgroupPaths: "dom (BuildCgroupPaths A name driver mounts) = dom mounts"
  by (auto simp: BuildCgroupPaths_def Let_def dom_def)

text \<open>A cgroup api that satisfies the documentation, and a file system that records its writes.\<close>

definition ref_cgroup_api :: cgroup_api where
  "ref_cgroup_api =
     \<lparr>ToCgroupfs = rooted_path, ToSystemd = rooted_path, CpuSharesToCpuWeight = (\<lambda>s. s),
      MilliCPUToShares = (\<lambda>m. of_int m), cmMaxCpuLimit = ''max''\<rparr>"

interpretation ref_cgroup: cgroupfs_names ref_cgroup_api
  by unfold_locales (simp add: ref_cgroup_api_def)

type_synonym write_log = "(string \<times> string) list"

definition log_write :: "write_log write_file" where
  "log_write fs p s = (fs @ [(p, s)], None)"

text \<open>
  The cgroupfs directories of two pods never coincide: below one mount point, the paths of
  two different cgroup names are different, so a limit written for one pod is never written
  into the directory of another.
\<close>

theorem cgroup_paths_distinct:
  assumes "cgroupfs_names A" "driver \<noteq> CgroupDriverSystemd"
    and "mounts key = Some (rooted_path mnt)" "mnt \<noteq> []" "\<forall>c\<in>set mnt. plain_comp c"
    and "name1 \<noteq> []" "\<forall>c\<in>set name1. plain_comp c" "name2 \<noteq> []" "\<forall>c\<in>set name2. plain_comp c"
  shows "path_of (BuildCgroupPaths A name1 driver mounts) key =
      path_of (BuildCgroupPaths A name2 driver mounts) key \<longleftrightarrow> name1 = name2"
  by (rule cgroupfs_names.directories_inject [where mounts = mounts and key = key and key' = key and mnt = mnt])
    (fact assms)+

theorem cgroup_paths_distinct_witness:
  "path_of (BuildCgroupPaths ref_cgroup_api [''kubepods'', ''pod1''] ''cgroupfs''
      [''cpu'' \<mapsto> ''/sys/fs/cgroup'']) ''cpu'' \<noteq>
   path_of (BuildCgroupPaths ref_cgroup_api [''kubepods'', ''pod2''] ''cgroupfs''
      [''cpu'' \<mapsto> ''/sys/fs/cgroup'']) ''cpu''"
  using cgroup_paths_distinct [OF ref_cgroup.cgroupfs_names_axioms,
      where key = "''cpu''" and mounts = "[''cpu'' \<mapsto> ''/sys/fs/cgroup'']" and driver = "''cgroupfs''"
        and mnt = "[''sys'', ''fs'', ''cgroup'']"
        and ?name1.0 = "[''kubepods'', ''pod1'']" and ?name2.0 = "[''kubepods'', ''pod2'']"]
  by (simp add: CgroupDriverSystemd_def plain_comp_def rooted_path_def)

text \<open>
  What the CPU configuration writes, on every branch.  A quota without a period is an error
  and writes nothing; otherwise \<open>cpu.max\<close> gets the quota (the text for unlimited when negative)
  and the period, then \<open>cpu.weight\<close> gets the converted shares; a part that is not given is not
  written; on cgroup v1 nothing is written.
\<close>

theorem cpu_config_writes:
  "setCgroupCpuConfig A isV2 log_write [] path rc =
    (if \<not> isV2 then ([], Some (Errorf ''NOT IMPLEMENTED''))
     else if CPUQuota rc \<noteq> None \<and> CPUPeriod rc = None
     then ([], Some (Errorf ''CpuPeriod must be specified in order to set CpuLimit''))
     else ((case (CPUQuota rc, CPUPeriod rc) of
              (Some q, Some p) \<Rightarrow>
                [(path_Join [path, ''cpu.max''],
                  (if q < 0 then cmMaxCpuLimit A else FormatInt q) @ '' '' @ FormatInt (uint p))]
            | _ \<Rightarrow> []) @
           (case CPUShares rc of
              Some s \<Rightarrow> [(path_Join [path, ''cpu.weight''], FormatInt (uint (CpuSharesToCpuWeight A s)))]
            | None \<Rightarrow> []), None))"
  by (auto simp: setCgroupCpuConfig_def setCgroupv2CpuConfig_def write_cpu_weight_def log_write_def
      Let_def split: option.splits)

end
