(* ===== verification/Go_Time.thy ===== *)
theory Go_Time
  imports Go_Prelude
begin

text \<open>
  The parts of Go's package \<open>time\<close> and of its goroutine loops that the source uses: instants
  with a wall clock and a monotonic reading, \<open>Time.Sub\<close>, tickers, and the ways a
  \<open>for { select ... }\<close> loop can stand.
\<close>

section \<open>Instants\<close>

text \<open>Nanoseconds.  \<open>time.Now()\<close> has a monotonic reading, the zero \<open>time.Time{}\<close> has none.\<close>

record go_time =
  wall :: int
  mono :: "int option"

definition zero_time :: go_time where
  "zero_time = \<lparr>wall = 0, mono = None\<rparr>"

definition time_Sub :: "go_time \<Rightarrow> go_time \<Rightarrow> int" where
  "time_Sub a b =
     (case (mono a, mono b) of
        (Some x, Some y) \<Rightarrow> sat64 (x - y)
      | _ \<Rightarrow> sat64 (wall a - wall b))"

lemma in_int64_time_Sub [simp, intro]: "in_int64 (time_Sub a b)"
  by (auto simp: time_Sub_def split: option.splits)

section \<open>Tickers\<close>

text \<open>A nil \<open>*time.Ticker\<close>, a zero \<open>time.Ticker\<close>, and one made by \<open>time.NewTicker\<close>.\<close>

datatype ticker = NilTicker | ZeroTicker | Running int

definition ticker_Reset :: "ticker \<Rightarrow> int \<Rightarrow> ticker outcome" where
  "ticker_Reset t d =
     (if d \<le> 0 then Panics TickerNonPositive
      else case t of
             NilTicker \<Rightarrow> Panics NilDeref
           | ZeroTicker \<Rightarrow> Panics TickerUninitialised
           | Running _ \<Rightarrow> Returns (Running d))"

section \<open>Loops of goroutines\<close>

text \<open>
  Where a \<open>select\<close> loop stands after a finite script of ready cases: waiting for the next
  one, ended, crashed (a panic ends the process), the process exited, or blocked forever inside
  a case.  \<open>settle\<close> is what a loop makes of the outcome of a call in one of its cases.
\<close>

datatype 's run = Waiting 's | Ended 's | Crashed go_panic | Exited int | Stuck 's

fun settle :: "'s \<Rightarrow> 'a outcome \<Rightarrow> ('a \<Rightarrow> 's run) \<Rightarrow> 's run" where
  "settle s (Returns x) f = f x"
| "settle s (Panics p) f = Crashed p"
| "settle s (Exits n) f = Exited n"
| "settle s Blocks f = Stuck s"

lemma settle_Waiting_iff: "settle s r f = Waiting t \<longleftrightarrow> (\<exists>x. r = Returns x \<and> f x = Waiting t)"
  by (cases r) auto

end
