(* ===== verification/Host_Util.thy ===== *)
theory Host_Util
  imports Go_Prelude
begin

text \<open>
  \<^verbatim>\<open>pkg/util\<close>: the process list of the host (\<open>ps.go\<close>), the change of root (\<open>chroot_unix.go\<close>,
  \<open>chroot_windows.go\<close>), the alert tag (\<open>tag.go\<close>) and the byte views of strings (\<open>usafe.go\<close>).
  What the operating system answers is a record of functions.
\<close>

section \<open>The operating system\<close>

record os_env =
  Getenv :: "string \<Rightarrow> string"
  sysChroot :: "string \<Rightarrow> go_error option"
  osChdir :: "string \<Rightarrow> go_error option"
  execOutput :: "string \<Rightarrow> string list \<Rightarrow> go_error + string"

definition EnvRootfs :: string where "EnvRootfs = ''ROOTFS''"
definition DefaultRootfs :: string where "DefaultRootfs = ''/rootfs''"

definition GetRootFS :: "os_env \<Rightarrow> string" where
  "GetRootFS os = (let v = Getenv os EnvRootfs in if v = [] then DefaultRootfs else v)"

definition Chroot :: "os_env \<Rightarrow> string \<Rightarrow> go_error option" where
  "Chroot os rootfs =
     (case sysChroot os rootfs of
        Some e \<Rightarrow> Some (Wrapf (''unable to chroot to '' @ rootfs) e)
      | None \<Rightarrow>
          (case osChdir os ''/'' of
             Some e \<Rightarrow> Some (Wrapf ''unable to chdir to /'' e)
           | None \<Rightarrow> None))"

definition Chroot_windows :: "string \<Rightarrow> go_error option" where
  "Chroot_windows rootfs = Some (Errorf ''chroot is not implemented on Windows'')"

section \<open>Processes\<close>

record ProcessCmdLine =
  Comm :: string
  Args :: "string list"

definition getPsOutput :: "os_env \<Rightarrow> bool \<Rightarrow> string \<Rightarrow> go_error + string" where
  "getPsOutput os inHostNamespace fmt =
     (let command = (if inHostNamespace then ''ps'' else ''/usr/sbin/chroot'');
          args = (if inHostNamespace then [] else [GetRootFS os, ''ps'']) @ [''-e'', ''-o'', fmt]
      in case execOutput os command args of
           Inl e \<Rightarrow> Inl (Errorf (''failed to execute '' @ quoted command @ '' command: '' @ errcode_text e))
         | Inr out \<Rightarrow> Inr out)"

text \<open>The loop over the lines; \<open>ret\<close> is the slice built so far.\<close>

fun process_loop :: "string list \<Rightarrow> ProcessCmdLine list \<Rightarrow> go_error + ProcessCmdLine list" where
  "process_loop [] ret = Inr ret"
| "process_loop (line # lines) ret =
     (if length line = 0 then process_loop lines ret
      else (let fields = strings_Fields line
            in if length fields < 2 then Inl (Errorf (''invalid format: '' @ line))
               else process_loop lines (ret @ [\<lparr>Comm = fields ! 0, Args = drop 2 fields\<rparr>])))"

definition GetProcessList :: "os_env \<Rightarrow> bool \<Rightarrow> go_error + ProcessCmdLine list" where
  "GetProcessList os inHostNamespace =
     bind_err (getPsOutput os inHostNamespace ''comm,cmd'')
       (\<lambda>out. process_loop (strings_Split out (CHR 0x0A)) [])"

definition GetProcessList_windows :: "go_error + ProcessCmdLine list" where
  "GetProcessList_windows = Inl (Errorf ''NOT SUPPORT.'')"

section \<open>The logger variable\<close>

text \<open>The package variable \<open>logger\<close> of \<^verbatim>\<open>log.go\<close>: the zero value until it is set, for a logger of any type.\<close>

definition SetLogger :: "'l \<Rightarrow> 'l option \<Rightarrow> 'l option" where
  "SetLogger l logger = Some l"

definition GetLogger :: "'l option \<Rightarrow> 'l option" where
  "GetLogger logger = logger"

section \<open>The alert tag and byte views\<close>

text \<open>A line of the error log: the error (nil allowed) and the message.\<close>

datatype log_line = LogError "go_error option" string

definition TagNeedAlert :: "log_line list" where
  "TagNeedAlert = [LogError (Some ErrNeedAlert) ''tag: this code need alert'']"

text \<open>A byte slice that may be nil; the empty string has the nil slice.\<close>

definition UnsafeBytesToString :: "char list option \<Rightarrow> string" where
  "UnsafeBytesToString b = (case b of None \<Rightarrow> [] | Some bs \<Rightarrow> if length bs = 0 then [] else bs)"

definition UnsafeStringToBytes :: "string \<Rightarrow> char list option" where
  "UnsafeStringToBytes s = (if length s = 0 then None else Some s)"

section \<open>Lemmas\<close>

lemma process_loop_append:
  "process_loop (ls @ ms) ret = bind_err (process_loop ls ret) (process_loop ms)"
  by (induction ls arbitrary: ret) (auto simp: Let_def)

lemma process_loop_Inr:
  "process_loop ls ret = Inr ps \<longleftrightarrow>
     (\<forall>l\<in>set ls. l \<noteq> [] \<longrightarrow> 2 \<le> length (strings_Fields l)) \<and>
     ps = ret @ map (\<lambda>l. \<lparr>Comm = hd (strings_Fields l), Args = drop 2 (strings_Fields l)\<rparr>)
                  (filter (\<lambda>l. l \<noteq> []) ls)"
proof (induction ls arbitrary: ret)
  case (Cons l ls)
  show ?case
  proof (cases "length l = 0 \<or> length (strings_Fields l) < 2")
    case False
    then have "strings_Fields l ! 0 = hd (strings_Fields l)"
      by (cases "strings_Fields l") auto
    with False Cons.IH show ?thesis by (auto simp: Let_def)
  qed (use Cons.IH in \<open>auto simp: Let_def\<close>)
qed auto

text \<open>Words joined by spaces are read back by \<open>strings.Fields\<close>.\<close>

definition word :: "string \<Rightarrow> bool" where
  "word w \<longleftrightarrow> w \<noteq> [] \<and> (\<forall>c\<in>set w. \<not> is_space c)"

lemma strings_Fields_join:
  "\<forall>w\<in>set ws. word w \<Longrightarrow> strings_Fields (join_with (CHR '' '') ws) = ws"
proof (induction ws rule: induct_list012)
  case (3 w v ws)
  have "is_space (CHR '' '')" by (simp add: is_space_def)
  with 3 show ?case by (simp add: word_def strings_Fields_append)
qed (auto simp: word_def strings_Fields_word)

lemma join_no_newline:
  "\<forall>w\<in>set ws. word w \<Longrightarrow> c \<in> set (join_with (CHR '' '') ws) \<Longrightarrow> c \<noteq> CHR 0x0A"
  by (induction ws rule: induct_list012) (auto simp: word_def is_space_def)

text \<open>
  A process table as \<open>ps -e -o comm,cmd\<close> of procps prints it: a header line, then one line for each process, its name padded with
  spaces to the width of its column (15), a space and its command line; each line ends with a newline.
\<close>

definition ps_row :: "nat \<Rightarrow> string \<times> string list \<Rightarrow> string" where
  "ps_row width p =
     (case p of (c, cmd) \<Rightarrow> c @ replicate (width - length c) (CHR '' '') @ CHR '' '' # join_with (CHR '' '') cmd)"

definition ps_table :: "nat \<Rightarrow> (string \<times> string list) list \<Rightarrow> string" where
  "ps_table width procs = join_with (CHR 0x0A) (map (ps_row width) ((''COMMAND'', [''CMD'']) # procs) @ [[]])"

abbreviation ps_output :: "(string \<times> string list) list \<Rightarrow> string" where
  "ps_output \<equiv> ps_table 15"

lemma strings_Fields_spaces: "strings_Fields (replicate n (CHR '' '') @ s) = strings_Fields s"
  by (induction n) (simp_all add: strings_Fields_space is_space_def)

lemma strings_Fields_row:
  assumes "word c" "\<forall>w\<in>set cmd. word w"
  shows "strings_Fields (ps_row width (c, cmd)) = c # cmd"
proof -
  have "ps_row width (c, cmd) = c @ CHR '' '' # replicate (width - length c) (CHR '' '') @ join_with (CHR '' '') cmd"
    by (simp add: ps_row_def replicate_app_Cons_same)
  then show ?thesis
    using assms strings_Fields_append [of c "CHR '' ''" "replicate (width - length c) (CHR '' '') @ join_with (CHR '' '') cmd"]
    by (simp add: word_def is_space_def strings_Fields_spaces strings_Fields_join)
qed

lemma row_no_newline:
  "word c \<Longrightarrow> \<forall>w\<in>set cmd. word w \<Longrightarrow> x \<in> set (ps_row width (c, cmd)) \<Longrightarrow> x \<noteq> CHR 0x0A"
  using join_no_newline [of cmd x] by (auto simp: ps_row_def word_def is_space_def)

definition row_ok :: "string \<times> string list \<Rightarrow> bool" where
  "row_ok p \<longleftrightarrow> word (fst p) \<and> snd p \<noteq> [] \<and> (\<forall>w\<in>set (snd p). word w)"

lemma process_rows:
  "list_all row_ok rows \<Longrightarrow> process_loop (map (ps_row width) rows @ [[]]) ret =
     Inr (ret @ map (\<lambda>(c, cmd). \<lparr>Comm = c, Args = tl cmd\<rparr>) rows)"
proof (induction rows arbitrary: ret)
  case (Cons p rows)
  obtain c prog args where p: "p = (c, prog # args)" "word c" "\<forall>w\<in>set (prog # args). word w"
    using Cons.prems by (cases p; cases "snd p") (auto simp: row_ok_def)
  have "ps_row width p \<noteq> []" by (simp add: p(1) ps_row_def)
  with Cons show ?case
    using strings_Fields_row [OF p(2,3), of width] by (simp add: p(1) Let_def)
qed simp

lemma split_rows:
  "list_all row_ok rows \<Longrightarrow>
     strings_Split (join_with (CHR 0x0A) (map (ps_row width) rows @ [[]])) (CHR 0x0A) = map (ps_row width) rows @ [[]]"
  unfolding strings_Split_def
proof (rule split_by_join_with)
  assume r: "list_all row_ok rows"
  have "x \<noteq> CHR 0x0A" if "p \<in> set rows" "x \<in> set (ps_row width p)" for p x
    using r that row_no_newline [of "fst p" "snd p" x width] by (auto simp: list_all_iff row_ok_def)
  then show "\<forall>w\<in>set (map (ps_row width) rows @ [[]]). \<forall>x\<in>set w. x \<noteq> CHR 0x0A" by auto
qed simp

lemma GetProcessList_table:
  assumes "execOutput os ''ps'' [''-e'', ''-o'', ''comm,cmd''] = Inr (ps_table width procs)"
    and "\<forall>(c, cmd)\<in>set procs. word c \<and> cmd \<noteq> [] \<and> (\<forall>w\<in>set cmd. word w)"
  shows "GetProcessList os True =
    Inr (\<lparr>Comm = ''COMMAND'', Args = []\<rparr> # map (\<lambda>(c, cmd). \<lparr>Comm = c, Args = tl cmd\<rparr>) procs)"
proof -
  let ?rows = "(''COMMAND'', [''CMD'']) # procs"
  have "row_ok (''COMMAND'', [''CMD''])" by (simp add: row_ok_def word_def is_space_def)
  moreover have "list_all row_ok procs" using assms(2) by (auto simp: list_all_iff row_ok_def)
  ultimately have "list_all row_ok ?rows" by simp
  from split_rows [OF this, of width] process_rows [OF this, of width "[]"] show ?thesis
    by (simp add: GetProcessList_def getPsOutput_def assms(1) ps_table_def)
qed

definition ref_os :: "string \<Rightarrow> os_env" where
  "ref_os out = \<lparr>Getenv = (\<lambda>_. []), sysChroot = (\<lambda>_. None), osChdir = (\<lambda>_. None), execOutput = (\<lambda>_ _. Inr out)\<rparr>"

section \<open>Properties\<close>

text \<open>
  C39: the process list reads back the table \<open>ps\<close> prints, for any width of its first column and names and
  arguments without white space: every process comes back with its name and with its command line less the program itself, in the
  order of the table.  The header line is not skipped: it comes back first, as a process \<^verbatim>\<open>COMMAND\<close> without arguments.
\<close>

theorem process_list_roundtrip:
  assumes "execOutput os ''ps'' [''-e'', ''-o'', ''comm,cmd''] = Inr (ps_table width procs)"
    and "\<forall>(c, cmd)\<in>set procs. word c \<and> cmd \<noteq> [] \<and> (\<forall>w\<in>set cmd. word w)"
  shows "GetProcessList os True =
    Inr (\<lparr>Comm = ''COMMAND'', Args = []\<rparr> # map (\<lambda>(c, cmd). \<lparr>Comm = c, Args = tl cmd\<rparr>) procs)"
  using assms by (rule GetProcessList_table)

theorem process_list_roundtrip_witness:
  "ps_output [(''kubelet'', [''/bin/kubelet'', ''--v=2''])] =
     ''COMMAND         CMD'' @ CHR 0x0A # ''kubelet         /bin/kubelet --v=2'' @ [CHR 0x0A] \<and>
   GetProcessList (ref_os (ps_output [(''kubelet'', [''/bin/kubelet'', ''--v=2''])])) True =
     Inr [\<lparr>Comm = ''COMMAND'', Args = []\<rparr>, \<lparr>Comm = ''kubelet'', Args = [''--v=2'']\<rparr>]"
proof
  show "ps_output [(''kubelet'', [''/bin/kubelet'', ''--v=2''])] =
     ''COMMAND         CMD'' @ CHR 0x0A # ''kubelet         /bin/kubelet --v=2'' @ [CHR 0x0A]"
    by code_simp
  show "GetProcessList (ref_os (ps_output [(''kubelet'', [''/bin/kubelet'', ''--v=2''])])) True =
     Inr [\<lparr>Comm = ''COMMAND'', Args = []\<rparr>, \<lparr>Comm = ''kubelet'', Args = [''--v=2'']\<rparr>]"
    by (subst process_list_roundtrip [where width = 15 and procs = "[(''kubelet'', [''/bin/kubelet'', ''--v=2''])]"])
      (simp_all add: ref_os_def word_def is_space_def)
qed

end
