(* ===== verification/Cgroup_Toolkit.thy ===== *)
theory Cgroup_Toolkit
  imports Cgroup_Paths Go_Float Go_Time Quota Host_Util
begin

text \<open>
  \<^verbatim>\<open>pkg/util/cgroupv2\<close>: the counters of a cgroup and the toolkit that reads them
  (\<^verbatim>\<open>type.go\<close>, \<^verbatim>\<open>toolkit.go\<close>, \<^verbatim>\<open>toolkit_unsupported.go\<close>).

  The toolkit keeps a window of two samples of \<^verbatim>\<open>cpu.stat\<close>, the last and the current one;
  its loop shifts the window at every tick and the rates are quotients over it.  Opening a
  file, the parser of its lines (runc's \<open>ParseKeyValue\<close>) and \<open>os.IsNotExist\<close> are the fields
  of \<open>file_env\<close>.  The methods that take the mutex are atomic: the loop's update of the window
  is one step and so is each computation of a rate.
\<close>

section \<open>Data\<close>

record ThrottlingData =
  Periods :: u64
  ThrottledPeriods :: u64
  ThrottledTime :: u64

record CpuUsage =
  TotalUsage :: u64
  UsageInKernelmode :: u64
  UsageInUsermode :: u64

record CpuStat =
  stat_CpuUsage :: CpuUsage
  stat_Throttling :: ThrottlingData

record MemoryEvents =
  ev_High :: u64
  ev_Max :: u64
  ev_Low :: u64
  ev_OOM :: u64
  ev_OOMKill :: u64

definition Cgroup2MemoryHigh :: string where "Cgroup2MemoryHigh = ''memory.high''"
definition Cgroup2MemoryEvents :: string where "Cgroup2MemoryEvents = ''memory.events''"
definition Cgroup2CpuStat :: string where "Cgroup2CpuStat = ''cpu.stat''"

definition zero_CpuStat :: CpuStat where
  "zero_CpuStat =
     \<lparr>stat_CpuUsage = \<lparr>TotalUsage = 0, UsageInKernelmode = 0, UsageInUsermode = 0\<rparr>,
      stat_Throttling = \<lparr>Periods = 0, ThrottledPeriods = 0, ThrottledTime = 0\<rparr>\<rparr>"

definition zero_MemoryEvents :: MemoryEvents where
  "zero_MemoryEvents = \<lparr>ev_High = 0, ev_Max = 0, ev_Low = 0, ev_OOM = 0, ev_OOMKill = 0\<rparr>"

record LinuxToolkit =
  tk_name :: "string list"
  tk_driver :: string
  tk_mounts :: "string \<rightharpoonup> string"
  tk_interval :: int
  lastCpuStats :: CpuStat
  lastCpuTime :: go_time
  curCpuStat :: CpuStat
  curCpuTime :: go_time

text \<open>An open file: its bytes, and the error that follows them unless it ends normally.\<close>

type_synonym file_data = "string \<times> go_error option"

record file_env =
  OpenFile :: "string \<Rightarrow> string \<Rightarrow> go_error + file_data"
  IsNotExist :: "go_error \<Rightarrow> bool"
  ParseKeyValue :: "string \<Rightarrow> go_error + (string \<times> u64)"

section \<open>bufio.Scanner\<close>

text \<open>
  The scanner splits at newlines, strips one carriage return, and drops an empty last line.
  A line of 65536 bytes or more does not fit its buffer: it stops there with an error.
\<close>

definition raw_lines :: "string \<Rightarrow> string list" where
  "raw_lines s =
     (let ws = split_by (\<lambda>c. c = CHR 0x0A) s in if last ws = [] then butlast ws else ws)"

definition drop_CR :: "string \<Rightarrow> string" where
  "drop_CR l = (if l \<noteq> [] \<and> last l = CHR 0x0D then butlast l else l)"

definition line_fits :: "string \<Rightarrow> bool" where
  "line_fits l \<longleftrightarrow> length l < 65536"

definition scanner_lines :: "string \<Rightarrow> string list" where
  "scanner_lines s = map drop_CR (takeWhile line_fits (raw_lines s))"

definition scanner_Err :: "file_data \<Rightarrow> go_error option" where
  "scanner_Err fd =
     (if list_all line_fits (raw_lines (fst fd)) then snd fd
      else Some (LibError ''bufio.Scanner: token too long''))"

section \<open>Reading the counters\<close>

text \<open>The loop over the lines: stops at the first line that does not parse.\<close>

fun scan_kv ::
    "(string \<Rightarrow> go_error + (string \<times> u64)) \<Rightarrow> (string \<Rightarrow> u64 \<Rightarrow> 's \<Rightarrow> 's) \<Rightarrow>
       string list \<Rightarrow> 's \<Rightarrow> 's \<times> go_error option" where
  "scan_kv pkv switch [] stats = (stats, None)"
| "scan_kv pkv switch (l # ls) stats =
     (case pkv l of
        Inl e \<Rightarrow> (stats, Some e)
      | Inr (key, v) \<Rightarrow> scan_kv pkv switch ls (switch key v stats))"

definition cpu_switch :: "string \<Rightarrow> u64 \<Rightarrow> CpuStat \<Rightarrow> CpuStat" where
  "cpu_switch key v stats =
     (if key = ''usage_usec'' then
        stats\<lparr>stat_CpuUsage := (stat_CpuUsage stats)\<lparr>TotalUsage := v * 1000\<rparr>\<rparr>
      else if key = ''user_usec'' then
        stats\<lparr>stat_CpuUsage := (stat_CpuUsage stats)\<lparr>UsageInUsermode := v * 1000\<rparr>\<rparr>
      else if key = ''system_usec'' then
        stats\<lparr>stat_CpuUsage := (stat_CpuUsage stats)\<lparr>UsageInKernelmode := v * 1000\<rparr>\<rparr>
      else if key = ''nr_periods'' then
        stats\<lparr>stat_Throttling := (stat_Throttling stats)\<lparr>Periods := v\<rparr>\<rparr>
      else if key = ''nr_throttled'' then
        stats\<lparr>stat_Throttling := (stat_Throttling stats)\<lparr>ThrottledPeriods := v\<rparr>\<rparr>
      else if key = ''throttled_usec'' then
        stats\<lparr>stat_Throttling := (stat_Throttling stats)\<lparr>ThrottledTime := v * 1000\<rparr>\<rparr>
      else stats)"

definition mem_switch :: "string \<Rightarrow> u64 \<Rightarrow> MemoryEvents \<Rightarrow> MemoryEvents" where
  "mem_switch key v stats =
     (if key = ''high'' then stats\<lparr>ev_High := v\<rparr>
      else if key = ''max'' then stats\<lparr>ev_Max := v\<rparr>
      else if key = ''low'' then stats\<lparr>ev_Low := v\<rparr>
      else if key = ''oom'' then stats\<lparr>ev_OOM := v\<rparr>
      else if key = ''oom_kill'' then stats\<lparr>ev_OOMKill := v\<rparr>
      else stats)"

text \<open>The results are the statistics, their time (zero on an error) and the error.\<close>

definition getCpuStat ::
    "cgroup_api \<Rightarrow> file_env \<Rightarrow> go_time \<Rightarrow> LinuxToolkit \<Rightarrow> CpuStat \<times> go_time \<times> go_error option" where
  "getCpuStat A E now t =
     (let cgroupPath = path_of (BuildCgroupPaths A (tk_name t) (tk_driver t) (tk_mounts t)) CgroupControllerCpu
      in case OpenFile E cgroupPath Cgroup2CpuStat of
           Inl e \<Rightarrow> (zero_CpuStat, zero_time, Some e)
         | Inr f \<Rightarrow>
             (case scan_kv (ParseKeyValue E) cpu_switch (scanner_lines (fst f)) zero_CpuStat of
                (stats, Some e) \<Rightarrow> (stats, zero_time, Some e)
              | (stats, None) \<Rightarrow>
                  (case scanner_Err f of
                     Some e \<Rightarrow>
                       if IsNotExist E e then (zero_CpuStat, zero_time, Some e)
                       else (stats, zero_time, Some e)
                   | None \<Rightarrow> (stats, now, None))))"

definition getMemoryEvents ::
    "cgroup_api \<Rightarrow> file_env \<Rightarrow> go_time \<Rightarrow> LinuxToolkit \<Rightarrow> MemoryEvents \<times> go_time \<times> go_error option" where
  "getMemoryEvents A E now t =
     (let cgroupPath = path_of (BuildCgroupPaths A (tk_name t) (tk_driver t) (tk_mounts t)) CgroupControllerMemory
      in case OpenFile E cgroupPath Cgroup2MemoryEvents of
           Inl e \<Rightarrow> (zero_MemoryEvents, zero_time, Some e)
         | Inr f \<Rightarrow>
             (case scan_kv (ParseKeyValue E) mem_switch (scanner_lines (fst f)) zero_MemoryEvents of
                (stats, Some e) \<Rightarrow> (stats, zero_time, Some e)
              | (stats, None) \<Rightarrow>
                  (case scanner_Err f of
                     Some e \<Rightarrow>
                       if IsNotExist E e then (zero_MemoryEvents, zero_time, Some e)
                       else (stats, zero_time, Some e)
                   | None \<Rightarrow> (stats, now, None))))"

definition GetMemoryEvent :: "cgroup_api \<Rightarrow> file_env \<Rightarrow> go_time \<Rightarrow> LinuxToolkit \<Rightarrow> MemoryEvents" where
  "GetMemoryEvent A E now t =
     (case getMemoryEvents A E now t of
        (memEvents, _, None) \<Rightarrow> memEvents
      | (_, _, Some e) \<Rightarrow> zero_MemoryEvents)"

section \<open>Rates\<close>

definition CalculateThrottleRate :: "LinuxToolkit \<Rightarrow> f64" where
  "CalculateThrottleRate t =
     (if lastCpuTime t = curCpuTime t then Fin 0
      else if ThrottledPeriods (stat_Throttling (curCpuStat t)) < ThrottledPeriods (stat_Throttling (lastCpuStats t))
      then Fin 0
      else f64_div
             (f64_of_u64 (ThrottledTime (stat_Throttling (curCpuStat t)) - ThrottledTime (stat_Throttling (lastCpuStats t))))
             (f64_of_int64 (time_Sub (curCpuTime t) (lastCpuTime t))))"

definition CalculateCpuRate :: "LinuxToolkit \<Rightarrow> f64" where
  "CalculateCpuRate t =
     (if lastCpuTime t = curCpuTime t then Fin 0
      else if TotalUsage (stat_CpuUsage (curCpuStat t)) < TotalUsage (stat_CpuUsage (lastCpuStats t))
      then Fin 0
      else f64_div
             (f64_of_u64 (TotalUsage (stat_CpuUsage (curCpuStat t)) - TotalUsage (stat_CpuUsage (lastCpuStats t))))
             (f64_of_int64 (time_Sub (curCpuTime t) (lastCpuTime t))))"

definition GetCpu :: "LinuxToolkit \<Rightarrow> int" where "GetCpu t = 0"
definition GetMemory :: "LinuxToolkit \<Rightarrow> int" where "GetMemory t = 0"

text \<open>A stub in the source (marked TODO there): no high event is ever reported.\<close>

definition HasMemoryHighEvent :: "LinuxToolkit \<Rightarrow> bool" where "HasMemoryHighEvent t = False"

section \<open>Construction, initialisation and the sampling loop\<close>

definition NewToolkit :: "string list \<Rightarrow> string \<Rightarrow> (string \<rightharpoonup> string) \<Rightarrow> LinuxToolkit" where
  "NewToolkit cgroupName driver mounts =
     \<lparr>tk_name = cgroupName, tk_driver = driver, tk_mounts = mounts, tk_interval = 100 * 1000000,
      lastCpuStats = zero_CpuStat, lastCpuTime = zero_time,
      curCpuStat = zero_CpuStat, curCpuTime = zero_time\<rparr>"

text \<open>
  \<open>Init\<close>: the second result is its error; the loop is started exactly when there is none.
  (The value \<open>time.Now()\<close> stored first is overwritten by the results of \<open>getCpuStat\<close>.)
\<close>

definition Init ::
    "cgroup_api \<Rightarrow> file_env \<Rightarrow> go_time \<Rightarrow> LinuxToolkit \<Rightarrow> LinuxToolkit \<times> go_error option" where
  "Init A E now t =
     (case getCpuStat A E now t of
        (stats, ts, Some e) \<Rightarrow> (t\<lparr>lastCpuStats := stats, lastCpuTime := ts\<rparr>, Some e)
      | (stats, ts, None) \<Rightarrow>
          (t\<lparr>lastCpuStats := stats, lastCpuTime := ts, curCpuStat := stats, curCpuTime := ts\<rparr>, None))"

text \<open>The body of the tick case: a failed sample leaves the window as it is.\<close>

definition tick_sample ::
    "cgroup_api \<Rightarrow> file_env \<Rightarrow> go_time \<Rightarrow> LinuxToolkit \<Rightarrow> LinuxToolkit" where
  "tick_sample A E now t =
     (case getCpuStat A E now t of
        (_, _, Some e) \<Rightarrow> t
      | (cpuStats, ts, None) \<Rightarrow>
          t\<lparr>lastCpuStats := curCpuStat t, lastCpuTime := curCpuTime t,
            curCpuStat := cpuStats, curCpuTime := ts\<rparr>)"

text \<open>The ready cases of the loop's \<open>select\<close>: a tick (with the files and the clock then) or \<open>ctx.Done\<close>.\<close>

datatype toolkit_case = Tick file_env go_time | CtxDone

fun toolkit_loop ::
    "cgroup_api \<Rightarrow> ticker \<Rightarrow> LinuxToolkit \<Rightarrow> toolkit_case list \<Rightarrow> LinuxToolkit run" where
  "toolkit_loop A tick t [] =
     (case ticker_Reset tick (tk_interval t) of Returns tick' \<Rightarrow> Waiting t | Panics p \<Rightarrow> Crashed p)"
| "toolkit_loop A tick t (c # cs) =
     (case ticker_Reset tick (tk_interval t) of
        Returns tick' \<Rightarrow>
          (case c of
             Tick E now \<Rightarrow> toolkit_loop A tick' (tick_sample A E now t) cs
           | CtxDone \<Rightarrow> Ended t)
      | Panics p \<Rightarrow> Crashed p)"

text \<open>The loop as \<open>Init\<close> starts it: its ticker is the zero value of \<open>time.Ticker\<close>.\<close>

definition run_loop :: "cgroup_api \<Rightarrow> LinuxToolkit \<Rightarrow> toolkit_case list \<Rightarrow> LinuxToolkit run" where
  "run_loop A t cs = toolkit_loop A ZeroTicker t cs"

section \<open>Limits\<close>

definition numToStr :: "int \<Rightarrow> string" where
  "numToStr value = (if value = 0 then [] else if value = - 1 then ''max'' else FormatInt value)"

definition io_max_line :: "int \<Rightarrow> int \<Rightarrow> string" where
  "io_max_line bps iops =
     ''default rbps='' @ numToStr bps @ '' wbps='' @ numToStr bps @
     '' riops='' @ numToStr iops @ '' wiops='' @ numToStr iops"

text \<open>runc's \<open>cgroups.WriteFile\<close>: a directory, a file in it, the data.\<close>

type_synonym 'fs write_cgroup = "'fs \<Rightarrow> string \<Rightarrow> string \<Rightarrow> string \<Rightarrow> 'fs \<times> go_error option"

text \<open>
  A failed write of \<^verbatim>\<open>memory.high\<close> is returned; a failed write of \<^verbatim>\<open>io.max\<close> only raises the alert,
  which is the second result (the lines of the error log).
\<close>

definition SetCgroupLimit ::
    "cgroup_api \<Rightarrow> 'q quantity_api \<Rightarrow> 'fs write_cgroup \<Rightarrow> 'fs \<Rightarrow> LinuxToolkit \<Rightarrow>
       'q Quota \<Rightarrow> 'q QuotaConfig \<Rightarrow> 'fs \<times> log_line list \<times> go_error option" where
  "SetCgroupLimit A Q wr fs t quota cfg =
     (let paths = BuildCgroupPaths A (tk_name t) (tk_driver t) (tk_mounts t);
          memCgroupPath = path_of paths CgroupControllerMemory;
          ioCgroupPath = path_of paths CgroupControllerIO;
          val = numToStr (Value Q (Memory quota));
          (fs', err) = (if val \<noteq> [] then wr fs memCgroupPath ''memory.high'' val else (fs, None))
      in case err of
           Some e \<Rightarrow> (fs', [], Some e)
         | None \<Rightarrow>
             (case wr fs' ioCgroupPath ''io.max'' (io_max_line (Value Q (DiskBandWidth cfg)) (DiskIOPS cfg)) of
                (fs'', err) \<Rightarrow> (fs'', if err \<noteq> None then TagNeedAlert else [], None)))"

section \<open>The interface\<close>

text \<open>
  The methods of the Go interface \<open>Toolkit\<close> that only read.  \<open>UnsupportedToolkit\<close> is the empty
  struct of the other systems.
\<close>

record 't toolkit_methods =
  CalculateThrottleRate_m :: "'t \<Rightarrow> f64"
  CalculateCpuRate_m :: "'t \<Rightarrow> f64"
  GetCpu_m :: "'t \<Rightarrow> int"
  GetMemory_m :: "'t \<Rightarrow> int"
  HasMemoryHighEvent_m :: "'t \<Rightarrow> bool"

definition linux_methods :: "LinuxToolkit toolkit_methods" where
  "linux_methods =
     \<lparr>CalculateThrottleRate_m = CalculateThrottleRate, CalculateCpuRate_m = CalculateCpuRate,
      GetCpu_m = GetCpu, GetMemory_m = GetMemory, HasMemoryHighEvent_m = HasMemoryHighEvent\<rparr>"

definition unsupported_methods :: "unit toolkit_methods" where
  "unsupported_methods =
     \<lparr>CalculateThrottleRate_m = (\<lambda>_. Fin 0), CalculateCpuRate_m = (\<lambda>_. Fin 0),
      GetCpu_m = (\<lambda>_. 0), GetMemory_m = (\<lambda>_. 0), HasMemoryHighEvent_m = (\<lambda>_. False)\<rparr>"

definition unsupported_Init :: "go_error option" where
  "unsupported_Init = Some ErrNotSupported"

definition unsupported_GetMemoryEvent :: MemoryEvents where
  "unsupported_GetMemoryEvent = zero_MemoryEvents"

definition unsupported_SetCgroupLimit :: "'fs \<Rightarrow> 'q Quota \<Rightarrow> 'q QuotaConfig \<Rightarrow> 'fs \<times> go_error option" where
  "unsupported_SetCgroupLimit fs quota cfg = (fs, None)"

section \<open>Lemmas on the line loop\<close>

text \<open>
  One field of the statistics: the key that sets it and the conversion of its value.  After
  the loop the field holds the last value its key had, converted, or what it held before.
\<close>

locale counter_field =
  fixes switch :: "string \<Rightarrow> u64 \<Rightarrow> 's \<Rightarrow> 's"
    and get :: "'s \<Rightarrow> u64"
    and key :: string
    and conv :: "u64 \<Rightarrow> u64"
  assumes get_hit: "get (switch key v s) = conv v"
    and get_other: "k \<noteq> key \<Longrightarrow> get (switch k v s) = get s"
begin

lemma get_scan:
  assumes "list_all2 (\<lambda>l kv. pkv l = Inr kv) ls kvs"
  shows "get (fst (scan_kv pkv switch ls s)) =
    (case map_of (rev kvs) key of None \<Rightarrow> get s | Some v \<Rightarrow> conv v)"
  using assms
proof (induction arbitrary: s rule: list_all2_induct)
  case (Cons l ls kv kvs)
  obtain k v where kv: "kv = (k, v)" by (cases kv)
  show ?case
    using Cons by (cases "k = key")
      (simp_all add: kv get_hit get_other map_add_def split: option.splits)
qed simp

end

interpretation usage: counter_field cpu_switch "\<lambda>s. TotalUsage (stat_CpuUsage s)" "''usage_usec''" "\<lambda>v. v * 1000"
  by unfold_locales (simp_all add: cpu_switch_def)

interpretation user: counter_field cpu_switch "\<lambda>s. UsageInUsermode (stat_CpuUsage s)" "''user_usec''" "\<lambda>v. v * 1000"
  by unfold_locales (simp_all add: cpu_switch_def)

interpretation kernel: counter_field cpu_switch "\<lambda>s. UsageInKernelmode (stat_CpuUsage s)" "''system_usec''" "\<lambda>v. v * 1000"
  by unfold_locales (simp_all add: cpu_switch_def)

interpretation periods: counter_field cpu_switch "\<lambda>s. Periods (stat_Throttling s)" "''nr_periods''" "\<lambda>v. v"
  by unfold_locales (simp_all add: cpu_switch_def)

interpretation throttled: counter_field cpu_switch "\<lambda>s. ThrottledPeriods (stat_Throttling s)" "''nr_throttled''" "\<lambda>v. v"
  by unfold_locales (simp_all add: cpu_switch_def)

interpretation throttled_time: counter_field cpu_switch "\<lambda>s. ThrottledTime (stat_Throttling s)" "''throttled_usec''" "\<lambda>v. v * 1000"
  by unfold_locales (simp_all add: cpu_switch_def)

interpretation high: counter_field mem_switch ev_High "''high''" "\<lambda>v. v"
  by unfold_locales (simp_all add: mem_switch_def)

interpretation maxi: counter_field mem_switch ev_Max "''max''" "\<lambda>v. v"
  by unfold_locales (simp_all add: mem_switch_def)

interpretation low: counter_field mem_switch ev_Low "''low''" "\<lambda>v. v"
  by unfold_locales (simp_all add: mem_switch_def)

interpretation oom: counter_field mem_switch ev_OOM "''oom''" "\<lambda>v. v"
  by unfold_locales (simp_all add: mem_switch_def)

interpretation oom_kill: counter_field mem_switch ev_OOMKill "''oom_kill''" "\<lambda>v. v"
  by unfold_locales (simp_all add: mem_switch_def)

lemma scan_kv_ok: "list_all2 (\<lambda>l kv. pkv l = Inr kv) ls kvs \<Longrightarrow> snd (scan_kv pkv switch ls s) = None"
  by (induction arbitrary: s rule: list_all2_induct) auto

lemma scan_kv_fails:
  "\<not> (\<forall>l\<in>set ls. \<exists>kv. pkv l = Inr kv) \<Longrightarrow> \<exists>e. snd (scan_kv pkv switch ls s) = Some e"
  by (induction ls arbitrary: s) (auto split: sum.splits)

text \<open>The value of a counter in the parsed lines: the last one, 0 when it is absent.\<close>

definition counter :: "(string \<times> u64) list \<Rightarrow> string \<Rightarrow> u64" where
  "counter kvs k = (case map_of (rev kvs) k of None \<Rightarrow> 0 | Some v \<Rightarrow> v)"

definition cpu_stat_of :: "(string \<times> u64) list \<Rightarrow> CpuStat" where
  "cpu_stat_of kvs =
     \<lparr>stat_CpuUsage = \<lparr>TotalUsage = counter kvs ''usage_usec'' * 1000,
        UsageInKernelmode = counter kvs ''system_usec'' * 1000, UsageInUsermode = counter kvs ''user_usec'' * 1000\<rparr>,
      stat_Throttling = \<lparr>Periods = counter kvs ''nr_periods'', ThrottledPeriods = counter kvs ''nr_throttled'',
        ThrottledTime = counter kvs ''throttled_usec'' * 1000\<rparr>\<rparr>"

definition memory_events_of :: "(string \<times> u64) list \<Rightarrow> MemoryEvents" where
  "memory_events_of kvs =
     \<lparr>ev_High = counter kvs ''high'', ev_Max = counter kvs ''max'', ev_Low = counter kvs ''low'',
      ev_OOM = counter kvs ''oom'', ev_OOMKill = counter kvs ''oom_kill''\<rparr>"

lemma scan_cpu:
  assumes "list_all2 (\<lambda>l kv. pkv l = Inr kv) ls kvs"
  shows "scan_kv pkv cpu_switch ls zero_CpuStat = (cpu_stat_of kvs, None)"
proof -
  have "fst (scan_kv pkv cpu_switch ls zero_CpuStat) = cpu_stat_of kvs"
    by (rule CpuStat.equality; (rule CpuUsage.equality ThrottlingData.equality)?)
      (auto simp: cpu_stat_of_def zero_CpuStat_def counter_def usage.get_scan [OF assms] user.get_scan [OF assms]
        kernel.get_scan [OF assms] periods.get_scan [OF assms] throttled.get_scan [OF assms]
        throttled_time.get_scan [OF assms] split: option.splits)
  then show ?thesis
    using scan_kv_ok [OF assms, of cpu_switch zero_CpuStat] by (simp add: prod_eq_iff)
qed

lemma scan_mem:
  assumes "list_all2 (\<lambda>l kv. pkv l = Inr kv) ls kvs"
  shows "scan_kv pkv mem_switch ls zero_MemoryEvents = (memory_events_of kvs, None)"
proof -
  have "fst (scan_kv pkv mem_switch ls zero_MemoryEvents) = memory_events_of kvs"
    by (rule MemoryEvents.equality)
      (auto simp: memory_events_of_def zero_MemoryEvents_def counter_def high.get_scan [OF assms]
        maxi.get_scan [OF assms] low.get_scan [OF assms] oom.get_scan [OF assms] oom_kill.get_scan [OF assms]
        split: option.splits)
  then show ?thesis
    using scan_kv_ok [OF assms, of mem_switch zero_MemoryEvents] by (simp add: prod_eq_iff)
qed

section \<open>Lemmas on the window\<close>

text \<open>Sampling changes neither the cgroup nor the interval of a toolkit.\<close>

definition same_cgroup :: "LinuxToolkit \<Rightarrow> LinuxToolkit \<Rightarrow> bool" where
  "same_cgroup t u \<longleftrightarrow> tk_name t = tk_name u \<and> tk_driver t = tk_driver u \<and> tk_mounts t = tk_mounts u \<and>
     tk_interval t = tk_interval u"

lemma getCpuStat_cong: "same_cgroup t u \<Longrightarrow> getCpuStat A E now t = getCpuStat A E now u"
  by (simp add: same_cgroup_def getCpuStat_def)

lemma tick_sample_same: "same_cgroup (tick_sample A E now t) t"
  by (auto simp: same_cgroup_def tick_sample_def split: prod.splits option.splits)

lemma same_cgroup_refl [simp]: "same_cgroup t t"
  by (simp add: same_cgroup_def)

lemma same_cgroup_trans: "same_cgroup t u \<Longrightarrow> same_cgroup u w \<Longrightarrow> same_cgroup t w"
  by (simp add: same_cgroup_def)

text \<open>The successful samples of a list of ticks, in order.\<close>

fun good_samples ::
    "cgroup_api \<Rightarrow> LinuxToolkit \<Rightarrow> (file_env \<times> go_time) list \<Rightarrow> (CpuStat \<times> go_time) list" where
  "good_samples A t [] = []"
| "good_samples A t ((E, now) # es) =
     (case getCpuStat A E now t of
        (stats, ts, None) \<Rightarrow> (stats, ts) # good_samples A t es
      | (_, _, Some _) \<Rightarrow> good_samples A t es)"

lemma good_samples_cong: "same_cgroup t u \<Longrightarrow> good_samples A t es = good_samples A u es"
  by (induction es) (auto simp: getCpuStat_cong [of t u])

lemma good_samples_append: "good_samples A t (es @ fs) = good_samples A t es @ good_samples A t fs"
  by (induction es) (auto split: prod.splits option.splits)

text \<open>The window: the last two entries of a list that ends with the current sample.\<close>

definition window :: "LinuxToolkit \<Rightarrow> (CpuStat \<times> go_time) \<times> (CpuStat \<times> go_time)" where
  "window t = ((lastCpuStats t, lastCpuTime t), (curCpuStat t, curCpuTime t))"

definition last_two :: "'a list \<Rightarrow> 'a \<times> 'a" where
  "last_two xs = (xs ! (length xs - 2), xs ! (length xs - 1))"

lemma last_two_Cons: "last_two (a # b # c # xs) = last_two (b # c # xs)"
  by (simp add: last_two_def)

lemma last_two_end: "last_two (xs @ [a, b]) = (a, b)"
  by (simp add: last_two_def nth_append)

lemma tick_sample_window:
  "window (tick_sample A E now t) =
    (case getCpuStat A E now t of
       (stats, ts, None) \<Rightarrow> (snd (window t), (stats, ts))
     | (_, _, Some _) \<Rightarrow> window t)"
  by (auto simp: tick_sample_def window_def split: prod.splits option.splits)

lemma loop_window:
  assumes "0 < tk_interval t"
  shows "\<exists>t'. toolkit_loop A (Running d) t (map (\<lambda>(E, now). Tick E now) es) = Waiting t' \<and>
    same_cgroup t' t \<and>
    window t' = last_two (fst (window t) # snd (window t) # good_samples A t es)"
  using assms
proof (induction es arbitrary: t d)
  case Nil
  then show ?case by (simp add: ticker_Reset_def last_two_def)
next
  case (Cons e es)
  obtain E now where e: "e = (E, now)" by (cases e)
  let ?u = "tick_sample A E now t"
  have same: "same_cgroup ?u t" by (rule tick_sample_same)
  with Cons.prems have "0 < tk_interval ?u" by (simp add: same_cgroup_def)
  from Cons.IH [OF this, of "tk_interval t"] obtain t' where t':
      "toolkit_loop A (Running (tk_interval t)) ?u (map (\<lambda>(E, now). Tick E now) es) = Waiting t'"
      "same_cgroup t' ?u" "window t' = last_two (fst (window ?u) # snd (window ?u) # good_samples A ?u es)"
    by blast
  have "window t' = last_two (fst (window t) # snd (window t) # good_samples A t (e # es))"
    unfolding t'(3) good_samples_cong [OF same] e
    by (auto simp: tick_sample_window last_two_Cons split: prod.splits option.splits)
  then show ?case
    using Cons.prems t' same_cgroup_trans [OF t'(2) same] by (simp add: e ticker_Reset_def)
qed

section \<open>Properties\<close>

text \<open>A cgroup, files and a parser for the witnesses: one \<open>key value\<close> pair per line.\<close>

definition ref_parse :: "string \<Rightarrow> go_error + (string \<times> u64)" where
  "ref_parse l =
     (case strings_Fields l of
        [k, w] \<Rightarrow> (case read_nonneg w of
                     Some n \<Rightarrow> if n < 2 ^ 64 then Inr (k, of_int n) else Inl (LibError ''out of range'')
                   | None \<Rightarrow> Inl (LibError ''invalid syntax''))
      | _ \<Rightarrow> Inl (LibError ''invalid format''))"

abbreviation ref_env :: "string \<Rightarrow> file_env" where
  "ref_env content \<equiv>
     \<lparr>OpenFile = (\<lambda>_ _. Inr (content, None)), IsNotExist = (\<lambda>_. False), ParseKeyValue = ref_parse\<rparr>"

abbreviation ref_toolkit :: LinuxToolkit where
  "ref_toolkit \<equiv> NewToolkit [''kubepods'', ''pod1''] ''cgroupfs'' [''cpu'' \<mapsto> ''/sys/fs/cgroup'']"

abbreviation at_ns :: "int \<Rightarrow> go_time" where
  "at_ns n \<equiv> \<lparr>wall = n, mono = Some n\<rparr>"

lemmas ref_file_simps = scanner_lines_def raw_lines_def line_fits_def drop_CR_def ref_parse_def strings_Fields_def
  is_space_def read_nonneg_def digit_val_def

text \<open>What a readable \<^verbatim>\<open>cpu.stat\<close> with these lines is: the file opens, its lines fit the scanner and parse.\<close>

definition stat_file :: "cgroup_api \<Rightarrow> LinuxToolkit \<Rightarrow> file_env \<Rightarrow> (string \<times> u64) list \<Rightarrow> bool" where
  "stat_file A t E kvs \<longleftrightarrow>
     (\<exists>content. OpenFile E (path_of (BuildCgroupPaths A (tk_name t) (tk_driver t) (tk_mounts t)) ''cpu'') ''cpu.stat''
          = Inr (content, None) \<and>
        list_all line_fits (raw_lines content) \<and>
        list_all2 (\<lambda>l kv. ParseKeyValue E l = Inr kv) (scanner_lines content) kvs)"

lemma getCpuStat_file: "stat_file A t E kvs \<Longrightarrow> getCpuStat A E now t = (cpu_stat_of kvs, now, None)"
  by (auto simp: stat_file_def getCpuStat_def CgroupControllerCpu_def Cgroup2CpuStat_def scanner_Err_def scan_cpu)

text \<open>After any ticks and two more that find readable files, the window is the two files.\<close>

lemma loop_two_files:
  assumes "0 < tk_interval t" "stat_file A t E1 kvs1" "stat_file A t E2 kvs2"
  obtains t' where "toolkit_loop A (Running d) t (map (\<lambda>(E, now). Tick E now) (es @ [(E1, n1), (E2, n2)])) = Waiting t'"
    "same_cgroup t' t" "lastCpuStats t' = cpu_stat_of kvs1" "lastCpuTime t' = n1"
    "curCpuStat t' = cpu_stat_of kvs2" "curCpuTime t' = n2"
proof -
  have "good_samples A t [(E1, n1), (E2, n2)] = [(cpu_stat_of kvs1, n1), (cpu_stat_of kvs2, n2)]"
    using assms(2,3) by (simp add: getCpuStat_file)
  then have "last_two (fst (window t) # snd (window t) # good_samples A t (es @ [(E1, n1), (E2, n2)])) =
      ((cpu_stat_of kvs1, n1), (cpu_stat_of kvs2, n2))"
    using last_two_end [of "fst (window t) # snd (window t) # good_samples A t es"] by (simp add: good_samples_append)
  with loop_window [OF assms(1), of A d "es @ [(E1, n1), (E2, n2)]"] that show thesis
    by (auto simp: window_def)
qed

text \<open>
  C17: reading a well-formed \<^verbatim>\<open>cpu.stat\<close> gives the counters of the file: every field is the last
  value of its key (0 when absent), microseconds become nanoseconds modulo \<open>2 ^ 64\<close>, unknown keys
  are ignored, and the sample carries the time of the reading.
\<close>

theorem getCpuStat_reads_counters:
  assumes "OpenFile E (path_of (BuildCgroupPaths A (tk_name t) (tk_driver t) (tk_mounts t)) ''cpu'') ''cpu.stat''
      = Inr (content, None)"
    and "list_all line_fits (raw_lines content)"
    and "list_all2 (\<lambda>l kv. ParseKeyValue E l = Inr kv) (scanner_lines content) kvs"
  shows "getCpuStat A E now t = (cpu_stat_of kvs, now, None)"
  using getCpuStat_file [of A t E kvs now] assms by (auto simp: stat_file_def)

theorem getCpuStat_reads_counters_witness:
  "getCpuStat ref_cgroup_api (ref_env (''usage_usec 7'' @ [CHR 0x0A] @ ''nr_throttled 2'' @ [CHR 0x0A])) (at_ns 5)
     ref_toolkit = (cpu_stat_of [(''usage_usec'', 7), (''nr_throttled'', 2)], at_ns 5, None)"
proof (rule getCpuStat_reads_counters)
  show "list_all line_fits (raw_lines (''usage_usec 7'' @ [CHR 0x0A] @ ''nr_throttled 2'' @ [CHR 0x0A]))"
    by (simp add: raw_lines_def line_fits_def)
  show "list_all2 (\<lambda>l kv. ParseKeyValue (ref_env (''usage_usec 7'' @ [CHR 0x0A] @ ''nr_throttled 2'' @ [CHR 0x0A])) l = Inr kv)
     (scanner_lines (''usage_usec 7'' @ [CHR 0x0A] @ ''nr_throttled 2'' @ [CHR 0x0A]))
     [(''usage_usec'', 7), (''nr_throttled'', 2)]"
    by (simp add: ref_file_simps)
qed simp

text \<open>
  The memory events: \<open>GetMemoryEvent\<close> returns the last value of each of the five keys of a readable
  \<^verbatim>\<open>memory.events\<close>, and only zeros when the file does not open, although the reader may have seen some lines
  already when a line does not parse: those are dropped as well.
\<close>

theorem memory_events:
  "GetMemoryEvent A E now t =
    (case OpenFile E (path_of (BuildCgroupPaths A (tk_name t) (tk_driver t) (tk_mounts t)) ''memory'') ''memory.events'' of
       Inl e \<Rightarrow> zero_MemoryEvents
     | Inr f \<Rightarrow>
         if (\<forall>l\<in>set (scanner_lines (fst f)). \<exists>kv. ParseKeyValue E l = Inr kv) \<and> scanner_Err f = None
         then memory_events_of (map (projr \<circ> ParseKeyValue E) (scanner_lines (fst f)))
         else zero_MemoryEvents)"
proof -
  note defs = GetMemoryEvent_def getMemoryEvents_def CgroupControllerMemory_def Cgroup2MemoryEvents_def Let_def
  show ?thesis
  proof (cases "OpenFile E (path_of (BuildCgroupPaths A (tk_name t) (tk_driver t) (tk_mounts t)) ''memory'') ''memory.events''")
    case (Inr f)
    let ?ls = "scanner_lines (fst f)"
    show ?thesis
    proof (cases "\<forall>l\<in>set ?ls. \<exists>kv. ParseKeyValue E l = Inr kv")
      case True
      then have "list_all2 (\<lambda>l kv. ParseKeyValue E l = Inr kv) ?ls (map (projr \<circ> ParseKeyValue E) ?ls)"
        by (auto simp: list_all2_conv_all_nth all_set_conv_all_nth)
      from scan_mem [OF this] Inr True show ?thesis
        by (auto simp: defs split: option.splits)
    next
      case False
      from scan_kv_fails [OF this] obtain stats e where
          "scan_kv (ParseKeyValue E) mem_switch ?ls zero_MemoryEvents = (stats, Some e)"
        by (metis prod.collapse)
      moreover have "\<not> ((\<forall>l\<in>set ?ls. \<exists>kv. ParseKeyValue E l = Inr kv) \<and> scanner_Err f = None)"
        using False by blast
      ultimately show ?thesis
        by (simp only: defs Inr sum.case prod.case option.case if_False)
    qed
  qed (simp add: defs)
qed

text \<open>
  C18: the loop, once its ticker runs, keeps the last two successful samples: after any sequence
  of ticks the window is the last two entries of the old window followed by the samples that
  could be read; a failed reading changes nothing, and the cgroup stays the same.
\<close>

theorem sampling_window:
  assumes "0 < tk_interval t"
  shows "\<exists>t'. toolkit_loop A (Running d) t (map (\<lambda>(E, now). Tick E now) es) = Waiting t' \<and>
    same_cgroup t' t \<and>
    ((lastCpuStats t', lastCpuTime t'), (curCpuStat t', curCpuTime t')) =
      last_two ((lastCpuStats t, lastCpuTime t) # (curCpuStat t, curCpuTime t) # good_samples A t es)"
  using loop_window [OF assms] by (simp add: window_def)

theorem sampling_window_witness:
  "\<exists>t'. toolkit_loop ref_cgroup_api (Running 1) ref_toolkit
      [Tick (ref_env ''usage_usec 7'') (at_ns 5), Tick (ref_env ''bad'') (at_ns 6)] = Waiting t' \<and>
    curCpuTime t' = at_ns 5 \<and> lastCpuTime t' = zero_time"
proof -
  have s: "good_samples ref_cgroup_api ref_toolkit
      [(ref_env ''usage_usec 7'', at_ns 5), (ref_env ''bad'', at_ns 6)] =
      [(cpu_stat_of [(''usage_usec'', 7)], at_ns 5)]"
    by (simp add: getCpuStat_def ref_file_simps scanner_Err_def cpu_stat_of_def counter_def cpu_switch_def
        zero_CpuStat_def)
  have "0 < tk_interval ref_toolkit" by (simp add: NewToolkit_def)
  from sampling_window [OF this, of ref_cgroup_api 1
      "[(ref_env ''usage_usec 7'', at_ns 5), (ref_env ''bad'', at_ns 6)]"]
  show ?thesis unfolding s by (auto simp: last_two_def NewToolkit_def)
qed

text \<open>
  The loop that \<open>Init\<close> starts does not take a single sample.  Its ticker is the zero value,
  and resetting that panics in the first iteration, whatever the script of ready cases.
\<close>

theorem init_loop_crashes:
  "run_loop A (fst (Init A E now (NewToolkit name driver mounts))) cs = Crashed TickerUninitialised"
proof -
  have i: "0 < tk_interval (fst (Init A E now (NewToolkit name driver mounts)))"
    by (auto simp: Init_def NewToolkit_def split: prod.splits option.splits)
  then show ?thesis
    by (cases cs) (simp_all add: run_loop_def ticker_Reset_def)
qed

text \<open>
  The throttle rate is positive exactly when the window holds two distinct instants in
  order, the number of throttled periods has not dropped and the throttled time has changed.
  A drop of the throttled time alone is not noticed: the difference wraps and the rate is positive.
\<close>

theorem throttle_rate_positive:
  "Fin 0 < CalculateThrottleRate t \<longleftrightarrow>
     lastCpuTime t \<noteq> curCpuTime t \<and> 0 \<le> time_Sub (curCpuTime t) (lastCpuTime t) \<and>
     ThrottledPeriods (stat_Throttling (lastCpuStats t)) \<le> ThrottledPeriods (stat_Throttling (curCpuStat t)) \<and>
     ThrottledTime (stat_Throttling (lastCpuStats t)) \<noteq> ThrottledTime (stat_Throttling (curCpuStat t))"
  by (auto simp: CalculateThrottleRate_def rate_positive_iff not_less)

text \<open>A file system that refuses the files in \<open>bad\<close> and records every other write.\<close>

definition refusing_write :: "string set \<Rightarrow> (string \<times> string \<times> string) list write_cgroup" where
  "refusing_write bad fs dir file data =
     (if file \<in> bad then (fs, Some (LibError file)) else (fs @ [(dir, file, data)], None))"

text \<open>
  C29: limits.  \<^verbatim>\<open>memory.high\<close> is written first, with the memory of the quota (\<open>max\<close> for -1), unless
  the memory is 0; then \<^verbatim>\<open>io.max\<close> in the io directory.  With a file system that refuses a file,
  a refused \<^verbatim>\<open>memory.high\<close> stops the call with that error before \<^verbatim>\<open>io.max\<close>, and a refused
  \<^verbatim>\<open>io.max\<close> raises the alert and is not reported.
\<close>

theorem cgroup_limit_writes:
  "SetCgroupLimit A Q (refusing_write bad) [] t quota cfg =
    (let paths = BuildCgroupPaths A (tk_name t) (tk_driver t) (tk_mounts t);
         m = Value Q (Memory quota);
         mem = (if m = 0 then []
                else [(path_of paths ''memory'', ''memory.high'', if m = - 1 then ''max'' else FormatInt m)]);
         io = (if ''io.max'' \<in> bad then []
               else [(path_of paths ''io'', ''io.max'',
                      io_max_line (Value Q (DiskBandWidth cfg)) (DiskIOPS cfg))])
     in if m \<noteq> 0 \<and> ''memory.high'' \<in> bad then ([], [], Some (LibError ''memory.high''))
        else (mem @ io, if ''io.max'' \<in> bad then TagNeedAlert else [], None))"
proof -
  have "FormatInt m \<noteq> []" for m
    by (simp add: FormatInt_def)
  then show ?thesis
    by (simp add: SetCgroupLimit_def refusing_write_def numToStr_def Let_def
        CgroupControllerMemory_def CgroupControllerIO_def)
qed

end
