(* ===== verification/Scale.thy ===== *)
theory Scale
  imports Cgroup_Toolkit
begin

text \<open>
  \<^verbatim>\<open>pkg/scale\<close>: the manager that decides from a toolkit's rates whether a pod is to be scaled.
  It knows the toolkit only through its interface; the locale \<open>toolkit_contract\<close> is what both
  implementations promise, and the manager's lemmas are proved from it.
\<close>

section \<open>The manager\<close>

datatype ScaleType = ScaleNone | ScaleUpCpu | ScaleUpMemory | ScaleDownCpu | ScaleDownMemory

record BaseManager =
  lowerCpuRate :: f64

definition NewBaseManager :: BaseManager where
  "NewBaseManager = \<lparr>lowerCpuRate = f64_tenth\<rparr>"

definition CheckScaleUp :: "'t toolkit_methods \<Rightarrow> BaseManager \<Rightarrow> 't \<Rightarrow> bool \<times> ScaleType" where
  "CheckScaleUp M b toolkit =
     (let rate = CalculateThrottleRate_m M toolkit
      in if Fin 0 < rate then (True, ScaleUpCpu)
         else if HasMemoryHighEvent_m M toolkit then (True, ScaleUpMemory)
         else (False, ScaleNone))"

definition CheckScaleDown :: "'t toolkit_methods \<Rightarrow> BaseManager \<Rightarrow> 't \<Rightarrow> bool \<times> ScaleType" where
  "CheckScaleDown M b toolkit =
     (let cpuRate = CalculateCpuRate_m M toolkit
      in if cpuRate \<le> lowerCpuRate b then (True, ScaleDownCpu) else (False, ScaleNone))"

text \<open>The package variables \<open>once\<close> and \<open>mgr\<close>, and the accessor that fills them.\<close>

record scale_vars =
  scale_once :: bool
  scale_mgr :: "BaseManager option"

definition GetManager :: "scale_vars \<Rightarrow> scale_vars \<times> BaseManager option" where
  "GetManager v =
     (case once_Do (scale_once v) (\<lambda>_. Some NewBaseManager) (scale_mgr v) of
        (flag, m) \<Rightarrow> (\<lparr>scale_once = flag, scale_mgr = m\<rparr>, m))"

section \<open>What a toolkit promises\<close>

text \<open>\<open>fresh t\<close>: the toolkit has no window yet, its rates are 0.\<close>

locale toolkit_contract =
  fixes M :: "'t toolkit_methods"
    and fresh :: "'t \<Rightarrow> bool"
  assumes fresh_throttle: "fresh t \<Longrightarrow> CalculateThrottleRate_m M t = Fin 0"
    and fresh_cpu: "fresh t \<Longrightarrow> CalculateCpuRate_m M t = Fin 0"
    and no_memory_event: "\<not> HasMemoryHighEvent_m M t"
begin

lemma up_is_cpu: "CheckScaleUp M b t = (if Fin 0 < CalculateThrottleRate_m M t
    then (True, ScaleUpCpu) else (False, ScaleNone))"
  by (simp add: CheckScaleUp_def no_memory_event)

lemma fresh_up: "fresh t \<Longrightarrow> CheckScaleUp M b t = (False, ScaleNone)"
  by (simp add: up_is_cpu fresh_throttle)

lemma fresh_down: "fresh t \<Longrightarrow> CheckScaleDown M NewBaseManager t = (True, ScaleDownCpu)"
  by (simp add: CheckScaleDown_def fresh_cpu NewBaseManager_def f64_tenth_eq less_eq_f64_def rnd_pos_tenth)

end

lemma linux_methods_simps [simp]:
  "CalculateThrottleRate_m linux_methods = CalculateThrottleRate"
  "CalculateCpuRate_m linux_methods = CalculateCpuRate"
  "HasMemoryHighEvent_m linux_methods = HasMemoryHighEvent"
  by (simp_all add: linux_methods_def)

interpretation linux: toolkit_contract linux_methods "\<lambda>t. lastCpuTime t = curCpuTime t"
  by unfold_locales
    (simp_all add: CalculateThrottleRate_def CalculateCpuRate_def HasMemoryHighEvent_def)

interpretation unsupported: toolkit_contract unsupported_methods "\<lambda>_. True"
  by unfold_locales (simp_all add: unsupported_methods_def)

section \<open>The decisions in integers\<close>

text \<open>
  A window the manager's tests are exact on: it has a length, of at most thirteen days, and neither
  the usage nor the number of throttled periods dropped in it.
\<close>

definition good_window :: "LinuxToolkit \<Rightarrow> bool" where
  "good_window t \<longleftrightarrow>
     lastCpuTime t \<noteq> curCpuTime t \<and>
     0 < time_Sub (curCpuTime t) (lastCpuTime t) \<and> time_Sub (curCpuTime t) (lastCpuTime t) \<le> 2 ^ 50 \<and>
     TotalUsage (stat_CpuUsage (lastCpuStats t)) \<le> TotalUsage (stat_CpuUsage (curCpuStat t)) \<and>
     ThrottledPeriods (stat_Throttling (lastCpuStats t)) \<le> ThrottledPeriods (stat_Throttling (curCpuStat t))"

text \<open>The nanoseconds of CPU used in the window, and whether the pod was throttled in it.\<close>

definition cpu_used :: "LinuxToolkit \<Rightarrow> int" where
  "cpu_used t = uint (TotalUsage (stat_CpuUsage (curCpuStat t))) - uint (TotalUsage (stat_CpuUsage (lastCpuStats t)))"

definition throttled_for :: "LinuxToolkit \<Rightarrow> int" where
  "throttled_for t =
     uint (ThrottledTime (stat_Throttling (curCpuStat t))) - uint (ThrottledTime (stat_Throttling (lastCpuStats t)))"

definition was_throttled :: "LinuxToolkit \<Rightarrow> bool" where
  "was_throttled t \<longleftrightarrow>
     ThrottledTime (stat_Throttling (lastCpuStats t)) \<noteq> ThrottledTime (stat_Throttling (curCpuStat t))"

definition was_idle :: "LinuxToolkit \<Rightarrow> bool" where
  "was_idle t \<longleftrightarrow> 10 * cpu_used t \<le> time_Sub (curCpuTime t) (lastCpuTime t)"

lemma check_down_iff:
  assumes "lastCpuTime t \<noteq> curCpuTime t"
    and "0 < time_Sub (curCpuTime t) (lastCpuTime t)" "time_Sub (curCpuTime t) (lastCpuTime t) \<le> 2 ^ 50"
    and "TotalUsage (stat_CpuUsage (lastCpuStats t)) \<le> TotalUsage (stat_CpuUsage (curCpuStat t))"
  shows "CheckScaleDown linux_methods NewBaseManager t = (if was_idle t then (True, ScaleDownCpu) else (False, ScaleNone))"
proof -
  have "uint (TotalUsage (stat_CpuUsage (curCpuStat t)) - TotalUsage (stat_CpuUsage (lastCpuStats t))) = cpu_used t"
    using assms(4) by (simp add: uint_sub_lem word_le_def cpu_used_def)
  moreover have "\<not> TotalUsage (stat_CpuUsage (curCpuStat t)) < TotalUsage (stat_CpuUsage (lastCpuStats t))"
    using assms(4) by simp
  ultimately show ?thesis
    using assms(1) rate_le_tenth_iff [OF assms(2,3)]
    by (simp add: CheckScaleDown_def CalculateCpuRate_def NewBaseManager_def was_idle_def)
qed

lemma check_up_iff:
  "CheckScaleUp linux_methods b t =
     (if lastCpuTime t \<noteq> curCpuTime t \<and> 0 \<le> time_Sub (curCpuTime t) (lastCpuTime t) \<and>
         ThrottledPeriods (stat_Throttling (lastCpuStats t)) \<le> ThrottledPeriods (stat_Throttling (curCpuStat t)) \<and>
         was_throttled t
      then (True, ScaleUpCpu) else (False, ScaleNone))"
proof -
  have "Fin 0 < CalculateThrottleRate_m linux_methods t \<longleftrightarrow>
     lastCpuTime t \<noteq> curCpuTime t \<and> 0 \<le> time_Sub (curCpuTime t) (lastCpuTime t) \<and>
     ThrottledPeriods (stat_Throttling (lastCpuStats t)) \<le> ThrottledPeriods (stat_Throttling (curCpuStat t)) \<and>
     was_throttled t"
    by (auto simp: CalculateThrottleRate_def rate_positive_iff not_less was_throttled_def)
  then show ?thesis
    by (simp add: linux.up_is_cpu)
qed

lemma good_window_checks:
  assumes "good_window t"
  shows "CheckScaleUp linux_methods b t = (if was_throttled t then (True, ScaleUpCpu) else (False, ScaleNone))"
    and "CheckScaleDown linux_methods NewBaseManager t = (if was_idle t then (True, ScaleDownCpu) else (False, ScaleNone))"
  using assms check_down_iff [of t] by (simp_all add: good_window_def check_up_iff)

section \<open>Properties\<close>

text \<open>A toolkit with a given window, for the witnesses.\<close>

definition windowed :: "u64 \<Rightarrow> u64 \<Rightarrow> int \<Rightarrow> LinuxToolkit" where
  "windowed usage throttled ns = ref_toolkit
     \<lparr>lastCpuTime := at_ns 0, curCpuTime := at_ns ns,
      curCpuStat := cpu_stat_of [(''usage_usec'', usage), (''throttled_usec'', throttled)]\<rparr>"

text \<open>
  C2: the manager asks to scale down exactly when the pod used at most a tenth of one CPU in
  the window: for windows up to \<open>2 ^ 50\<close> nanoseconds in which the usage counter did not drop, the
  float64 test \<open>rate <= 0.1\<close> is the integer test \<open>10 * used <= window\<close>.
\<close>

theorem scale_down_exact:
  assumes "lastCpuTime t \<noteq> curCpuTime t"
    and "0 < time_Sub (curCpuTime t) (lastCpuTime t)" "time_Sub (curCpuTime t) (lastCpuTime t) \<le> 2 ^ 50"
    and "TotalUsage (stat_CpuUsage (lastCpuStats t)) \<le> TotalUsage (stat_CpuUsage (curCpuStat t))"
  shows "CheckScaleDown linux_methods NewBaseManager t =
    (if 10 * (uint (TotalUsage (stat_CpuUsage (curCpuStat t))) - uint (TotalUsage (stat_CpuUsage (lastCpuStats t))))
        \<le> time_Sub (curCpuTime t) (lastCpuTime t)
     then (True, ScaleDownCpu) else (False, ScaleNone))"
  using check_down_iff [OF assms] by (simp add: was_idle_def cpu_used_def)

theorem scale_down_exact_witness:
  "CheckScaleDown linux_methods NewBaseManager (windowed 10000 0 100000000) = (True, ScaleDownCpu) \<and>
   CheckScaleDown linux_methods NewBaseManager (windowed 10001 0 100000000) = (False, ScaleNone)"
proof -
  have w: "lastCpuTime (windowed u 0 100000000) \<noteq> curCpuTime (windowed u 0 100000000)"
    "time_Sub (curCpuTime (windowed u 0 100000000)) (lastCpuTime (windowed u 0 100000000)) = 100000000"
    "TotalUsage (stat_CpuUsage (lastCpuStats (windowed u 0 100000000))) = 0"
    "TotalUsage (stat_CpuUsage (curCpuStat (windowed u 0 100000000))) = u * 1000" for u
    by (simp_all add: windowed_def time_Sub_def sat64_def NewToolkit_def zero_CpuStat_def cpu_stat_of_def counter_def)
  show ?thesis
    using scale_down_exact [of "windowed 10000 0 100000000"] scale_down_exact [of "windowed 10001 0 100000000"]
    by (simp add: w)
qed

text \<open>
  The manager asks to scale the CPU up exactly when the throttle rate is positive, and it
  never asks for memory: neither implementation of the toolkit reports a high event.
\<close>

theorem scale_up_only_cpu:
  "CheckScaleUp linux_methods b t =
     (if lastCpuTime t \<noteq> curCpuTime t \<and> 0 \<le> time_Sub (curCpuTime t) (lastCpuTime t) \<and>
         ThrottledPeriods (stat_Throttling (lastCpuStats t)) \<le> ThrottledPeriods (stat_Throttling (curCpuStat t)) \<and>
         ThrottledTime (stat_Throttling (lastCpuStats t)) \<noteq> ThrottledTime (stat_Throttling (curCpuStat t))
      then (True, ScaleUpCpu) else (False, ScaleNone)) \<and>
   CheckScaleUp unsupported_methods b u = (False, ScaleNone)"
  using check_up_iff [of b t] by (simp add: unsupported.fresh_up was_throttled_def)

lemma uint_times_1000:
  fixes v :: u64
  shows "uint v * 1000 < 2 ^ 64 \<Longrightarrow> uint (v * 1000) = uint v * 1000"
  by (simp add: uint_word_ariths)

text \<open>
  C19: the rates are accurate.  In a window of two instants in order over which no counter dropped, both rates are
  finite, and each is the increase of its counter divided by the length of the window, up to a relative error of
  \<open>2 ^ (- 51)\<close>, whatever the size of the counters and the length of the window.
\<close>

theorem rates_accurate:
  assumes "lastCpuTime t \<noteq> curCpuTime t" "0 < time_Sub (curCpuTime t) (lastCpuTime t)"
    and "TotalUsage (stat_CpuUsage (lastCpuStats t)) \<le> TotalUsage (stat_CpuUsage (curCpuStat t))"
    and "ThrottledPeriods (stat_Throttling (lastCpuStats t)) \<le> ThrottledPeriods (stat_Throttling (curCpuStat t))"
    and "ThrottledTime (stat_Throttling (lastCpuStats t)) \<le> ThrottledTime (stat_Throttling (curCpuStat t))"
  shows "\<exists>c r. CalculateCpuRate t = Fin c \<and> CalculateThrottleRate t = Fin r \<and>
    (let cpu = of_int (cpu_used t) / of_int (time_Sub (curCpuTime t) (lastCpuTime t));
         thr = of_int (throttled_for t) / of_int (time_Sub (curCpuTime t) (lastCpuTime t))
     in \<bar>c - cpu\<bar> \<le> cpu * (1 / 2 ^ 51) \<and> \<bar>r - thr\<bar> \<le> thr * (1 / 2 ^ 51))"
proof -
  have u: "uint (b - a) = uint b - uint a" if "a \<le> b" for a b :: u64
    using that by (simp add: uint_sub_lem word_le_def)
  have f: "\<not> TotalUsage (stat_CpuUsage (curCpuStat t)) < TotalUsage (stat_CpuUsage (lastCpuStats t))"
    "\<not> ThrottledPeriods (stat_Throttling (curCpuStat t)) < ThrottledPeriods (stat_Throttling (lastCpuStats t))"
    using assms(3,4) by (simp_all add: not_less)
  note a = rate_accurate [OF assms(2) in_int64_time_Sub]
  obtain c where "CalculateCpuRate t = Fin c"
    "\<bar>c - of_int (cpu_used t) / of_int (time_Sub (curCpuTime t) (lastCpuTime t))\<bar>
       \<le> of_int (cpu_used t) / of_int (time_Sub (curCpuTime t) (lastCpuTime t)) * (1 / 2 ^ 51)"
    using a [of "TotalUsage (stat_CpuUsage (curCpuStat t)) - TotalUsage (stat_CpuUsage (lastCpuStats t))"]
    unfolding u [OF assms(3)] cpu_used_def CalculateCpuRate_def if_not_P [OF assms(1)] if_not_P [OF f(1)] by blast
  moreover obtain r where "CalculateThrottleRate t = Fin r"
    "\<bar>r - of_int (throttled_for t) / of_int (time_Sub (curCpuTime t) (lastCpuTime t))\<bar>
       \<le> of_int (throttled_for t) / of_int (time_Sub (curCpuTime t) (lastCpuTime t)) * (1 / 2 ^ 51)"
    using a [of "ThrottledTime (stat_Throttling (curCpuStat t)) - ThrottledTime (stat_Throttling (lastCpuStats t))"]
    unfolding u [OF assms(5)] throttled_for_def CalculateThrottleRate_def if_not_P [OF assms(1)] if_not_P [OF f(2)] by blast
  ultimately show ?thesis unfolding Let_def by blast
qed

text \<open>One millisecond of CPU in three: a third is no float64 value.\<close>

theorem rates_accurate_witness:
  "\<exists>c. CalculateCpuRate (windowed 1000 0 3000000) = Fin c \<and> \<bar>c - 1 / 3\<bar> \<le> 1 / 3 * (1 / 2 ^ 51) \<and>
     CalculateThrottleRate (windowed 1000 0 3000000) = Fin 0"
proof -
  let ?t = "windowed 1000 0 3000000"
  have w: "lastCpuTime ?t \<noteq> curCpuTime ?t" "time_Sub (curCpuTime ?t) (lastCpuTime ?t) = 3000000"
    "TotalUsage (stat_CpuUsage (lastCpuStats ?t)) \<le> TotalUsage (stat_CpuUsage (curCpuStat ?t))"
    "ThrottledPeriods (stat_Throttling (lastCpuStats ?t)) \<le> ThrottledPeriods (stat_Throttling (curCpuStat ?t))"
    "ThrottledTime (stat_Throttling (lastCpuStats ?t)) \<le> ThrottledTime (stat_Throttling (curCpuStat ?t))"
    "cpu_used ?t = 1000000" "throttled_for ?t = 0"
    by code_simp+
  have "0 < time_Sub (curCpuTime ?t) (lastCpuTime ?t)" by (simp add: w(2))
  from rates_accurate [OF w(1) this w(3-5)] show ?thesis by (auto simp: w(2,6,7) Let_def)
qed

text \<open>
  C1: from the files to the decision.  Let the sampling loop run with a running ticker through any ticks and
  then two more that find readable \<^verbatim>\<open>cpu.stat\<close> files, the second not older and with no counter dropped.  The
  manager then asks for more CPU exactly when \<^verbatim>\<open>throttled_usec\<close> differs between the two files, and for less exactly when
  ten thousand times the difference of \<^verbatim>\<open>usage_usec\<close> is at most the nanoseconds between the two readings.
\<close>

theorem files_decide:
  assumes "0 < tk_interval t" "stat_file A t E1 kvs1" "stat_file A t E2 kvs2"
    and "0 < time_Sub n2 n1" "time_Sub n2 n1 \<le> 2 ^ 50"
    and "uint (counter kvs1 ''usage_usec'') \<le> uint (counter kvs2 ''usage_usec'')"
    and "uint (counter kvs2 ''usage_usec'') * 1000 < 2 ^ 64"
    and "uint (counter kvs1 ''throttled_usec'') * 1000 < 2 ^ 64" "uint (counter kvs2 ''throttled_usec'') * 1000 < 2 ^ 64"
    and "counter kvs1 ''nr_throttled'' \<le> counter kvs2 ''nr_throttled''"
  shows "\<exists>t'. toolkit_loop A (Running d) t (map (\<lambda>(E, now). Tick E now) (es @ [(E1, n1), (E2, n2)])) = Waiting t' \<and>
    CheckScaleUp linux_methods NewBaseManager t' =
      (if counter kvs1 ''throttled_usec'' \<noteq> counter kvs2 ''throttled_usec'' then (True, ScaleUpCpu) else (False, ScaleNone)) \<and>
    CheckScaleDown linux_methods NewBaseManager t' =
      (if 10000 * (uint (counter kvs2 ''usage_usec'') - uint (counter kvs1 ''usage_usec'')) \<le> time_Sub n2 n1
       then (True, ScaleDownCpu) else (False, ScaleNone))"
proof -
  obtain t' where t': "toolkit_loop A (Running d) t (map (\<lambda>(E, now). Tick E now) (es @ [(E1, n1), (E2, n2)])) = Waiting t'"
    "lastCpuStats t' = cpu_stat_of kvs1" "lastCpuTime t' = n1" "curCpuStat t' = cpu_stat_of kvs2" "curCpuTime t' = n2"
    using loop_two_files [OF assms(1-3)] by metis
  have n: "n1 \<noteq> n2"
    using assms(4) by (auto simp: time_Sub_def sat64_def split: option.splits if_splits)
  have use: "uint (TotalUsage (stat_CpuUsage (cpu_stat_of kvs1))) = uint (counter kvs1 ''usage_usec'') * 1000"
    "uint (TotalUsage (stat_CpuUsage (cpu_stat_of kvs2))) = uint (counter kvs2 ''usage_usec'') * 1000"
    using assms(6,7) by (simp_all add: cpu_stat_of_def uint_times_1000)
  have thr: "ThrottledTime (stat_Throttling (cpu_stat_of kvs1)) = ThrottledTime (stat_Throttling (cpu_stat_of kvs2)) \<longleftrightarrow>
      counter kvs1 ''throttled_usec'' = counter kvs2 ''throttled_usec''"
    using uint_times_1000 [OF assms(8)] uint_times_1000 [OF assms(9)]
    by (auto simp: cpu_stat_of_def intro: word_uint_eqI)
  have good: "good_window t'"
    using t' n assms(4,5,6,10) use by (simp add: good_window_def word_le_def cpu_stat_of_def)
  have "was_throttled t' \<longleftrightarrow> counter kvs1 ''throttled_usec'' \<noteq> counter kvs2 ''throttled_usec''"
    using thr t' by (simp add: was_throttled_def)
  moreover have "was_idle t' \<longleftrightarrow>
      10000 * (uint (counter kvs2 ''usage_usec'') - uint (counter kvs1 ''usage_usec'')) \<le> time_Sub n2 n1"
    using use t' by (simp add: was_idle_def cpu_used_def algebra_simps)
  ultimately show ?thesis
    using t'(1) good_window_checks [OF good] by auto
qed

theorem files_decide_witness:
  "\<exists>t'. toolkit_loop ref_cgroup_api (Running 1) ref_toolkit
      [Tick (ref_env (''usage_usec 10'' @ [CHR 0x0A] @ ''throttled_usec 0'')) (at_ns 0),
       Tick (ref_env (''usage_usec 20'' @ [CHR 0x0A] @ ''throttled_usec 5'')) (at_ns 100000)] = Waiting t' \<and>
     CheckScaleUp linux_methods NewBaseManager t' = (True, ScaleUpCpu) \<and>
     CheckScaleDown linux_methods NewBaseManager t' = (True, ScaleDownCpu)"
proof -
  have f: "stat_file ref_cgroup_api ref_toolkit (ref_env (''usage_usec 10'' @ [CHR 0x0A] @ ''throttled_usec 0''))
      [(''usage_usec'', 10), (''throttled_usec'', 0)]"
    "stat_file ref_cgroup_api ref_toolkit (ref_env (''usage_usec 20'' @ [CHR 0x0A] @ ''throttled_usec 5''))
      [(''usage_usec'', 20), (''throttled_usec'', 5)]"
    by (simp_all add: stat_file_def ref_file_simps)
  show ?thesis
    using files_decide [OF _ f, of "at_ns 100000" "at_ns 0" 1 "[]"]
    by (simp add: NewToolkit_def counter_def time_Sub_def sat64_def)
qed

text \<open>
  A toolkit that was just initialised has no window, and the manager answers its first check
  with a scale-down: the missing rate is reported as 0, which is below the threshold.
\<close>

theorem first_check_scales_down:
  assumes "Init A E now t = (t', None)"
  shows "CheckScaleUp linux_methods b t' = (False, ScaleNone) \<and>
    CheckScaleDown linux_methods NewBaseManager t' = (True, ScaleDownCpu)"
proof -
  have "lastCpuTime t' = curCpuTime t'"
    using assms by (auto simp: Init_def split: prod.splits option.splits)
  then show ?thesis
    using linux.fresh_up linux.fresh_down by simp
qed

theorem first_check_scales_down_witness:
  "CheckScaleDown linux_methods NewBaseManager (fst (Init ref_cgroup_api (ref_env []) (at_ns 5) ref_toolkit))
     = (True, ScaleDownCpu)"
proof -
  have "Init ref_cgroup_api (ref_env []) (at_ns 5) ref_toolkit =
      (fst (Init ref_cgroup_api (ref_env []) (at_ns 5) ref_toolkit), None)"
    by (simp add: Init_def getCpuStat_def scanner_lines_def raw_lines_def scanner_Err_def)
  from first_check_scales_down [OF this] show ?thesis by blast
qed

text \<open>
  One check can ask for both directions at once: in a good window, a pod that was throttled
  and still used at most a tenth of one CPU gets a scale-up and a scale-down request.
\<close>

theorem conflicting_requests:
  assumes "good_window t"
  shows "fst (CheckScaleUp linux_methods NewBaseManager t) \<and> fst (CheckScaleDown linux_methods NewBaseManager t) \<longleftrightarrow>
    ThrottledTime (stat_Throttling (lastCpuStats t)) \<noteq> ThrottledTime (stat_Throttling (curCpuStat t)) \<and>
    10 * (uint (TotalUsage (stat_CpuUsage (curCpuStat t))) - uint (TotalUsage (stat_CpuUsage (lastCpuStats t))))
      \<le> time_Sub (curCpuTime t) (lastCpuTime t)"
  using good_window_checks [OF assms] by (simp add: was_throttled_def was_idle_def cpu_used_def)

theorem conflicting_requests_witness:
  "fst (CheckScaleUp linux_methods NewBaseManager (windowed 10000 500 100000000)) \<and>
   fst (CheckScaleDown linux_methods NewBaseManager (windowed 10000 500 100000000))"
  using conflicting_requests [of "windowed 10000 500 100000000"]
  by (simp add: good_window_def windowed_def time_Sub_def sat64_def NewToolkit_def zero_CpuStat_def cpu_stat_of_def counter_def)

text \<open>
  The scale manager is created once; every later call returns the same manager and leaves
  the package variables as they are.
\<close>

theorem scale_manager_once:
  "snd (GetManager \<lparr>scale_once = False, scale_mgr = None\<rparr>) = Some NewBaseManager \<and>
   (let v1 = fst (GetManager \<lparr>scale_once = False, scale_mgr = None\<rparr>)
    in GetManager v1 = (v1, Some NewBaseManager))"
  by (simp add: GetManager_def once_Do_def)

end
