(* ===== verification/Kubelet_Server.thy ===== *)
theory Kubelet_Server
  imports Cgroup_Paths Quantity Kube_Types Host_Util "HOL-Library.AList" "HOL-Library.FSet"
begin

text \<open>
  \<^verbatim>\<open>pkg/kubelet/server_linux.go\<close>: what the kubelet makes of its configuration before it manages
  cgroups.  Reserved resources and CPUs, the node configuration (built twice in the source, for
  the cgroup manager and for the container manager), the flag sets of the re-parse, the
  configuration file, and the cgroup name of a pod.  The Kubernetes packages are the record
  \<open>kubelet_api\<close>; their objects are values of one type \<open>'o\<close>.
\<close>

section \<open>Kubernetes data\<close>

type_synonym cgroup_name = "string list"

record kubelet_flags =
  RuntimeCgroups :: string
  RootDirectory :: string
  KubeletConfigFile :: string
  KubeletDropinConfigDirectory :: string
  IgnoreEvictionThreshold :: bool

record 'o kubelet_config =
  CgroupsPerQOS :: bool
  CgroupRoot :: string
  CgroupDriver :: string
  KubeletCgroups :: string
  SystemCgroups :: string
  OOMScoreAdj :: int
  ProtectKernelDefaults :: bool
  ReservedSystemCPUs :: string
  KubeReserved :: "string_map option"
  SystemReserved :: "string_map option"
  KubeReservedCgroup :: string
  SystemReservedCgroup :: string
  EnforceNodeAllocatable :: "string list"
  EvictionHard :: "string_map option"
  QOSReserved :: "string_map option"
  CPUManagerPolicy :: string
  CPUManagerPolicyOptions :: "string_map option"
  CPUManagerReconcilePeriod :: int
  MemoryManagerPolicy :: string
  ReservedMemory :: 'o
  PodPidsLimit :: int
  CPUCFSQuota :: bool
  CPUCFSQuotaPeriod :: int
  TopologyManagerPolicy :: string
  TopologyManagerScope :: string
  TopologyManagerPolicyOptions :: "string_map option"
  ContainerRuntimeEndpoint :: string
  LocalStorageCapacityIsolation :: bool
  FailSwapOn :: bool
  FeatureGates :: "(string \<times> bool) list option"

text \<open>\<open>options.KubeletServer\<close> embeds the flags and the configuration.\<close>

record 'o KubeletServer =
  ks_flags :: kubelet_flags
  ks_config :: "'o kubelet_config"

record ('q, 'o) NodeConfig =
  ncRuntimeCgroupsName :: string
  ncSystemCgroupsName :: string
  ncKubeletCgroupsName :: string
  ncKubeletOOMScoreAdj :: int
  ncCgroupsPerQOS :: bool
  ncCgroupRoot :: string
  ncCgroupDriver :: string
  ncKubeletRootDir :: string
  ncProtectKernelDefaults :: bool
  ncKubeReservedCgroupName :: string
  ncSystemReservedCgroupName :: string
  ncEnforceNodeAllocatable :: "string fset"
  ncKubeReserved :: "'q resource_list option"
  ncSystemReserved :: "'q resource_list option"
  ncReservedSystemCPUs :: "int fset"
  ncHardEvictionThresholds :: "'o option"
  ncQOSReserved :: 'o
  ncCPUManagerPolicy :: string
  ncCPUManagerPolicyOptions :: "string_map option"
  ncCPUManagerReconcilePeriod :: int
  ncMemoryManagerPolicy :: string
  ncReservedMemory :: 'o
  ncPodPidsLimit :: int
  ncEnforceCPULimits :: bool
  ncCPUCFSQuotaPeriod :: int
  ncTopologyManagerPolicy :: string
  ncTopologyManagerScope :: string
  ncTopologyManagerPolicyOptions :: "string_map option"

text \<open>\<open>kubelet.Dependencies\<close>: an interface field that is nil is \<^const>\<open>None\<close>.\<close>

record 'o Dependencies =
  CAdvisorInterface :: "'o option"
  ContainerManager :: "'o option"
  Mounter :: 'o
  Recorder :: 'o
  KubeClient :: 'o

record QOSContainersInfo =
  Guaranteed :: cgroup_name
  Burstable :: cgroup_name
  BestEffort :: cgroup_name

section \<open>The Kubernetes packages\<close>

record ('q, 'o) kubelet_api =
  MachineInfo :: "'o \<Rightarrow> go_error + 'o"
  Discover :: "'o \<Rightarrow> go_error + int fset"
  cpuset_Parse :: "string \<Rightarrow> go_error + int fset"
  cpuset_String :: "int fset \<Rightarrow> string"
  ParseThresholdConfig :: "string_map option \<Rightarrow> go_error + 'o"
  ParseQOSReserved :: "string_map option \<Rightarrow> go_error + 'o"
  GateEnabled :: "'o \<Rightarrow> string \<Rightarrow> bool"
  SetFromMap :: "'o \<Rightarrow> (string \<times> bool) list option \<Rightarrow> go_error + 'o"
  GetCgroupSubsystems :: "go_error + (string \<rightharpoonup> string)"
  ParseCgroupfsToCgroupName :: "string \<Rightarrow> cgroup_name"
  NewCgroupName :: "cgroup_name \<Rightarrow> string list \<Rightarrow> cgroup_name"
  NewCgroupManager :: "(string \<rightharpoonup> string) \<Rightarrow> string \<Rightarrow> 'o"
  cgm_Validate :: "nat \<Rightarrow> 'o \<Rightarrow> cgroup_name \<Rightarrow> go_error option"
  cgm_Name :: "'o \<Rightarrow> cgroup_name \<Rightarrow> string"
  cgm_GetCgroupConfig :: "'o \<Rightarrow> cgroup_name \<Rightarrow> string \<Rightarrow> go_error + resource_config"
  NewQOSContainerManager ::
    "nat \<Rightarrow> (string \<rightharpoonup> string) \<Rightarrow> cgroup_name \<Rightarrow> ('q, 'o) NodeConfig \<Rightarrow> 'o \<Rightarrow> go_error + 'o"
  qos_Start :: "nat \<Rightarrow> 'o \<Rightarrow> 'o"
  GetQOSContainersInfo :: "'o \<Rightarrow> QOSContainersInfo"
  NewContainerManager ::
    "'o \<Rightarrow> 'o \<Rightarrow> ('q, 'o) NodeConfig \<Rightarrow> bool \<Rightarrow> 'o \<Rightarrow> 'o \<Rightarrow> 'o option \<times> go_error option"
  GetPodQOS :: "'q pod \<Rightarrow> string"
  GetPodCgroupNameSuffix :: "string \<Rightarrow> string"
  DefaultEvictionHard :: string_map
  filepath_Abs :: "string \<Rightarrow> go_error + string"
  NewFsLoader :: "string \<Rightarrow> go_error + 'o"
  loader_Load :: "'o \<Rightarrow> go_error + 'o kubelet_config"

section \<open>Reserved resources\<close>

definition reservable :: "string \<Rightarrow> bool" where
  "reservable k \<longleftrightarrow> k \<in> set [''cpu'', ''memory'', ''ephemeral-storage'', ''pid'']"

text \<open>The loop over the map; the list is the order in which Go visits the entries.\<close>

fun resource_loop :: "'q quantity_api \<Rightarrow> string_map \<Rightarrow> 'q resource_list \<Rightarrow> go_error + 'q resource_list" where
  "resource_loop Q [] rl = Inr rl"
| "resource_loop Q ((k, v) # m) rl =
     (if reservable k
      then (case ParseQuantity Q v of
              Inl e \<Rightarrow> Inl (Wrapf (''failed to parse quantity '' @ quoted v @ '' for '' @ quoted k @ '' resource'') e)
            | Inr q \<Rightarrow>
                if Sign Q q = - 1
                then Inl (Errorf (''resource quantity for '' @ quoted k @ '' cannot be negative: '' @ v))
                else resource_loop Q m (rl(k \<mapsto> q)))
      else Inl (Errorf (''cannot reserve '' @ quoted k @ '' resource'')))"

definition parseResourceList :: "'q quantity_api \<Rightarrow> string_map option \<Rightarrow> go_error + 'q resource_list option" where
  "parseResourceList Q m =
     (case m of
        None \<Rightarrow> Inr None
      | Some [] \<Rightarrow> Inr None
      | Some es \<Rightarrow> bind_err (resource_loop Q es Map.empty) (\<lambda>rl. Inr (Some rl)))"

definition getReservedCPUs :: "('q, 'o) kubelet_api \<Rightarrow> 'o \<Rightarrow> string \<Rightarrow> go_error + int fset" where
  "getReservedCPUs K machineInfo cpus =
     (if cpus = [] then Inr {||}
      else (case Discover K machineInfo of
              Inl e \<Rightarrow> Inl (Errorf (''unable to discover CPU topology info: '' @ errcode_text e))
            | Inr allCPUSet \<Rightarrow>
                (case cpuset_Parse K cpus of
                   Inl e \<Rightarrow> Inl (Errorf (''unable to parse reserved-cpus list: '' @ errcode_text e))
                 | Inr reservedCPUSet \<Rightarrow>
                     if \<not> reservedCPUSet |\<subseteq>| allCPUSet
                     then Inl (Errorf (''reserved-cpus: '' @ cpus @ '' is not a subset of online-cpus: '' @
                                 cpuset_String K allCPUSet))
                     else Inr reservedCPUSet)))"

section \<open>The node configuration\<close>

text \<open>The two changes both constructors make to the server they are given.\<close>

definition default_cgroup_root :: "'o kubelet_config \<Rightarrow> 'o kubelet_config" where
  "default_cgroup_root c =
     (if CgroupsPerQOS c \<and> CgroupRoot c = [] then c\<lparr>CgroupRoot := ''/''\<rparr> else c)"

definition override_reserved :: "int fset \<Rightarrow> 'o kubelet_config \<Rightarrow> 'o kubelet_config" where
  "override_reserved cpus c =
     (if 0 < fcard cpus
      then c\<lparr>KubeReserved := map_option (AList.delete ''cpu'') (KubeReserved c),
             SystemReserved := Some (AList.update ''cpu'' (FormatInt (int (fcard cpus)))
               (case SystemReserved c of None \<Rightarrow> [] | Some m \<Rightarrow> m))\<rparr>
      else c)"

definition gate_CPUManagerPolicyOptions :: string where
  "gate_CPUManagerPolicyOptions = ''CPUManagerPolicyOptions''"
definition gate_TopologyManagerPolicyOptions :: string where
  "gate_TopologyManagerPolicyOptions = ''TopologyManagerPolicyOptions''"

text \<open>The options of a policy whose feature gate must be on.\<close>

definition gated_options ::
    "('q, 'o) kubelet_api \<Rightarrow> 'o \<Rightarrow> string \<Rightarrow> string \<Rightarrow> string_map option \<Rightarrow> go_error + string_map option" where
  "gated_options K gates gate msg opts =
     (if GateEnabled K gates gate then Inr opts
      else (case opts of None \<Rightarrow> Inr None | Some _ \<Rightarrow> Inl (Errorf msg)))"

text \<open>\<open>newCgroupManager\<close> from the reserved lists to the \<open>NodeConfig\<close>.\<close>

definition cgroup_node_config ::
    "('q, 'o) kubelet_api \<Rightarrow> 'q quantity_api \<Rightarrow> 'o \<Rightarrow> 'o KubeletServer \<Rightarrow> int fset \<Rightarrow> go_error + ('q, 'o) NodeConfig" where
  "cgroup_node_config K Q gates s reservedSystemCPUs =
     (let f = ks_flags s; c = ks_config s in
      bind_err (map_err (Wrapf ''--kube-reserved value failed to parse'') (parseResourceList Q (KubeReserved c))) (\<lambda>kubeReserved.
      bind_err (map_err (Wrapf ''--system-reserved value failed to parse'') (parseResourceList Q (SystemReserved c))) (\<lambda>systemReserved.
      bind_err (if \<not> IgnoreEvictionThreshold f
                then bind_err (ParseThresholdConfig K (EvictionHard c)) (\<lambda>t. Inr (Some t))
                else Inr None) (\<lambda>hardEvictionThresholds.
      bind_err (map_err (Wrapf ''--qos-reserved value failed to parse'') (ParseQOSReserved K (QOSReserved c))) (\<lambda>experimentalQOSReserved.
      bind_err (gated_options K gates gate_CPUManagerPolicyOptions
                  ''CPU Manager policy options require feature gates enabled'' (CPUManagerPolicyOptions c)) (\<lambda>cpuManagerPolicyOptions.
      bind_err (gated_options K gates gate_TopologyManagerPolicyOptions
                  ''topology manager policy options require feature gates enabled'' (TopologyManagerPolicyOptions c)) (\<lambda>topologyManagerPolicyOptions.
        Inr \<lparr>ncRuntimeCgroupsName = RuntimeCgroups f,
             ncSystemCgroupsName = SystemCgroups c,
             ncKubeletCgroupsName = KubeletCgroups c,
             ncKubeletOOMScoreAdj = OOMScoreAdj c,
             ncCgroupsPerQOS = CgroupsPerQOS c,
             ncCgroupRoot = CgroupRoot c,
             ncCgroupDriver = CgroupDriver c,
             ncKubeletRootDir = RootDirectory f,
             ncProtectKernelDefaults = ProtectKernelDefaults c,
             ncKubeReservedCgroupName = KubeReservedCgroup c,
             ncSystemReservedCgroupName = SystemReservedCgroup c,
             ncEnforceNodeAllocatable = fset_of_list (EnforceNodeAllocatable c),
             ncKubeReserved = kubeReserved,
             ncSystemReserved = systemReserved,
             ncReservedSystemCPUs = reservedSystemCPUs,
             ncHardEvictionThresholds = hardEvictionThresholds,
             ncQOSReserved = experimentalQOSReserved,
             ncCPUManagerPolicy = CPUManagerPolicy c,
             ncCPUManagerPolicyOptions = cpuManagerPolicyOptions,
             ncCPUManagerReconcilePeriod = CPUManagerReconcilePeriod c,
             ncMemoryManagerPolicy = MemoryManagerPolicy c,
             ncReservedMemory = ReservedMemory c,
             ncPodPidsLimit = PodPidsLimit c,
             ncEnforceCPULimits = CPUCFSQuota c,
             ncCPUCFSQuotaPeriod = CPUCFSQuotaPeriod c,
             ncTopologyManagerPolicy = TopologyManagerPolicy c,
             ncTopologyManagerScope = TopologyManagerScope c,
             ncTopologyManagerPolicyOptions = topologyManagerPolicyOptions\<rparr>)))))))"

section \<open>The managers\<close>

text \<open>
  The package variables of \<^verbatim>\<open>pkg/kubelet\<close>, with the process-wide feature gates.  \<open>v_builds\<close> is no variable of the code: it counts
  how often managers were built, so that the answers of the operating system may differ from one build to the next.
\<close>

record 'o kubelet_vars =
  v_qosCM :: "'o option"
  v_chrootOnce :: bool
  v_genOnce :: bool
  v_server :: "'o KubeletServer option"
  v_serverErr :: "go_error option"
  v_gates :: 'o
  v_adapt :: string
  v_builds :: nat

definition defaultNodeAllocatableCgroupName :: string where
  "defaultNodeAllocatableCgroupName = ''kubepods''"

text \<open>
  \<open>newCgroupManager\<close> after the node configuration: the started QoS manager, a new one for every build, and the cgroup manager.
  Whether the root exists, whether a manager can be made, and what its \<open>Start\<close> leaves, whose error is dropped, may
  be another answer in every build; the number of the build is their first argument.
\<close>

definition start_cgroup_managers ::
    "('q, 'o) kubelet_api \<Rightarrow> nat \<Rightarrow> ('q, 'o) NodeConfig \<Rightarrow> go_error + 'o \<times> 'o" where
  "start_cgroup_managers K b nodeConfig =
     (case GetCgroupSubsystems K of
        Inl e \<Rightarrow> Inl (Errorf (''failed to get mounted cgroup subsystems: '' @ errcode_text e))
      | Inr subsystems \<Rightarrow>
          (let cgroupRoot = ParseCgroupfsToCgroupName K (ncCgroupRoot nodeConfig);
               cgroupManager = NewCgroupManager K subsystems (ncCgroupDriver nodeConfig)
           in bind_err
                (if ncCgroupsPerQOS nodeConfig
                 then (if ncCgroupRoot nodeConfig = []
                       then Inl (Errorf ''invalid configuration: cgroups-per-qos was specified and cgroup-root was not specified'')
                       else (case cgm_Validate K b cgroupManager cgroupRoot of
                               Some e \<Rightarrow> Inl (Wrapf ''invalid configuration'' e)
                             | None \<Rightarrow> Inr (NewCgroupName K cgroupRoot [defaultNodeAllocatableCgroupName])))
                 else Inr cgroupRoot)
                (\<lambda>root. bind_err (NewQOSContainerManager K b subsystems root nodeConfig cgroupManager)
                   (\<lambda>qos. Inr (qos_Start K b qos, cgroupManager)))))"

text \<open>
  \<open>newCgroupManager\<close>.  The server is changed through its pointer, so it is part of the result
  also when an error is returned; a nil \<open>CAdvisorInterface\<close> panics.
\<close>

definition newCgroupManager ::
    "('q, 'o) kubelet_api \<Rightarrow> 'q quantity_api \<Rightarrow> 'o kubelet_vars \<Rightarrow> 'o KubeletServer \<Rightarrow> 'o Dependencies \<Rightarrow>
       (('o kubelet_vars \<times> 'o KubeletServer) \<times> (go_error + 'o)) outcome" where
  "newCgroupManager K Q v s kubeDeps =
     (let s1 = s\<lparr>ks_config := default_cgroup_root (ks_config s)\<rparr> in
      case CAdvisorInterface kubeDeps of
        None \<Rightarrow> Panics NilDeref
      | Some cadvisor \<Rightarrow> Returns
          (case bind_err (MachineInfo K cadvisor)
                  (\<lambda>machineInfo. getReservedCPUs K machineInfo (ReservedSystemCPUs (ks_config s1))) of
             Inl e \<Rightarrow> ((v, s1), Inl e)
           | Inr reservedSystemCPUs \<Rightarrow>
               (let s2 = s1\<lparr>ks_config := override_reserved reservedSystemCPUs (ks_config s1)\<rparr>;
                    v1 = v\<lparr>v_builds := Suc (v_builds v)\<rparr> in
                case bind_err (cgroup_node_config K Q (v_gates v) s2 reservedSystemCPUs) (start_cgroup_managers K (v_builds v)) of
                  Inl e \<Rightarrow> ((v1, s2), Inl e)
                | Inr (qos, cgroupManager) \<Rightarrow> ((v1\<lparr>v_qosCM := Some qos\<rparr>, s2), Inr cgroupManager))))"

text \<open>The configuration \<open>newContainerManager\<close> builds, from the server as it is then.\<close>

definition container_node_config ::
    "('q, 'o) kubelet_api \<Rightarrow> 'q quantity_api \<Rightarrow> 'o \<Rightarrow> 'o KubeletServer \<Rightarrow> int fset \<Rightarrow> go_error + ('q, 'o) NodeConfig" where
  "container_node_config K Q gates s reservedSystemCPUs =
     (let f = ks_flags s; c = ks_config s in
      case parseResourceList Q (KubeReserved c) of
        Inl e \<Rightarrow> Inl (Wrapf ''--kube-reserved value failed to parse'' e)
      | Inr kubeReserved \<Rightarrow>
      (case parseResourceList Q (SystemReserved c) of
         Inl e \<Rightarrow> Inl (Wrapf ''--system-reserved value failed to parse'' e)
       | Inr systemReserved \<Rightarrow>
      (case (if \<not> IgnoreEvictionThreshold f
             then map_sum id Some (ParseThresholdConfig K (EvictionHard c)) else Inr None) of
         Inl e \<Rightarrow> Inl e
       | Inr hardEvictionThresholds \<Rightarrow>
      (case ParseQOSReserved K (QOSReserved c) of
         Inl e \<Rightarrow> Inl (Wrapf ''--qos-reserved value failed to parse'' e)
       | Inr experimentalQOSReserved \<Rightarrow>
      (case gated_options K gates gate_CPUManagerPolicyOptions
              ''CPU Manager policy options require feature gates enabled'' (CPUManagerPolicyOptions c) of
         Inl e \<Rightarrow> Inl e
       | Inr cpuManagerPolicyOptions \<Rightarrow>
      (case gated_options K gates gate_TopologyManagerPolicyOptions
              ''topology manager policy options require feature gates enabled'' (TopologyManagerPolicyOptions c) of
         Inl e \<Rightarrow> Inl e
       | Inr topologyManagerPolicyOptions \<Rightarrow> Inr
           \<lparr>ncRuntimeCgroupsName = RuntimeCgroups f,
            ncSystemCgroupsName = SystemCgroups c,
            ncKubeletCgroupsName = KubeletCgroups c,
            ncKubeletOOMScoreAdj = OOMScoreAdj c,
            ncCgroupsPerQOS = CgroupsPerQOS c,
            ncCgroupRoot = CgroupRoot c,
            ncCgroupDriver = CgroupDriver c,
            ncKubeletRootDir = RootDirectory f,
            ncProtectKernelDefaults = ProtectKernelDefaults c,
            ncKubeReservedCgroupName = KubeReservedCgroup c,
            ncSystemReservedCgroupName = SystemReservedCgroup c,
            ncEnforceNodeAllocatable = fset_of_list (EnforceNodeAllocatable c),
            ncKubeReserved = kubeReserved,
            ncSystemReserved = systemReserved,
            ncReservedSystemCPUs = reservedSystemCPUs,
            ncHardEvictionThresholds = hardEvictionThresholds,
            ncQOSReserved = experimentalQOSReserved,
            ncCPUManagerPolicy = CPUManagerPolicy c,
            ncCPUManagerPolicyOptions = cpuManagerPolicyOptions,
            ncCPUManagerReconcilePeriod = CPUManagerReconcilePeriod c,
            ncMemoryManagerPolicy = MemoryManagerPolicy c,
            ncReservedMemory = ReservedMemory c,
            ncPodPidsLimit = PodPidsLimit c,
            ncEnforceCPULimits = CPUCFSQuota c,
            ncCPUCFSQuotaPeriod = CPUCFSQuotaPeriod c,
            ncTopologyManagerPolicy = TopologyManagerPolicy c,
            ncTopologyManagerScope = TopologyManagerScope c,
            ncTopologyManagerPolicyOptions = topologyManagerPolicyOptions\<rparr>))))))"

text \<open>
  \<open>newContainerManager\<close>: the last step stores both results of \<open>cm.NewContainerManager\<close>, the
  error in a variable that is not returned.
\<close>

definition newContainerManager ::
    "('q, 'o) kubelet_api \<Rightarrow> 'q quantity_api \<Rightarrow> 'o kubelet_vars \<Rightarrow> 'o KubeletServer \<Rightarrow> 'o Dependencies \<Rightarrow>
       (('o KubeletServer \<times> 'o Dependencies) \<times> go_error option) outcome" where
  "newContainerManager K Q v s kubeDeps =
     (let s1 = s\<lparr>ks_config := default_cgroup_root (ks_config s)\<rparr> in
      case CAdvisorInterface kubeDeps of
        None \<Rightarrow> Panics NilDeref
      | Some cadvisor \<Rightarrow> Returns
          (case MachineInfo K cadvisor of
             Inl e \<Rightarrow> ((s1, kubeDeps), Some e)
           | Inr machineInfo \<Rightarrow>
               (case getReservedCPUs K machineInfo (ReservedSystemCPUs (ks_config s1)) of
                  Inl e \<Rightarrow> ((s1, kubeDeps), Some e)
                | Inr reservedSystemCPUs \<Rightarrow>
                    (let s2 = s1\<lparr>ks_config := override_reserved reservedSystemCPUs (ks_config s1)\<rparr> in
                     case container_node_config K Q (v_gates v) s2 reservedSystemCPUs of
                       Inl e \<Rightarrow> ((s2, kubeDeps), Some e)
                     | Inr nodeConfig \<Rightarrow>
                         (case NewContainerManager K (Mounter kubeDeps) cadvisor nodeConfig
                                 (FailSwapOn (ks_config s2)) (Recorder kubeDeps) (KubeClient kubeDeps) of
                            (mgr, err) \<Rightarrow> ((s2, kubeDeps\<lparr>ContainerManager := mgr\<rparr>), None))))))"

section \<open>The cgroup of a pod\<close>

text \<open>A method call on the package variable \<open>qosCM\<close>: it panics when \<open>qosCM\<close> is nil.\<close>

definition GetPodContainerName ::
    "('q, 'o) kubelet_api \<Rightarrow> 'o kubelet_vars \<Rightarrow> 'q pod \<Rightarrow> 'o \<Rightarrow> (cgroup_name \<times> string) outcome" where
  "GetPodContainerName K v pod cgroupManager =
     (let podQOS = GetPodQOS K pod in
      case v_qosCM v of
        None \<Rightarrow> Panics NilDeref
      | Some qos \<Rightarrow>
          (let info = GetQOSContainersInfo K qos;
               parentContainer =
                 (if podQOS = ''Guaranteed'' then Guaranteed info
                  else if podQOS = ''Burstable'' then Burstable info
                  else if podQOS = ''BestEffort'' then BestEffort info
                  else []);
               podContainer = GetPodCgroupNameSuffix K (pUID pod);
               cgroupName = NewCgroupName K parentContainer [podContainer]
           in Returns (cgroupName, cgm_Name K cgroupManager cgroupName)))"

section \<open>The configuration file and the flag sets\<close>

definition loadConfigFile :: "('q, 'o) kubelet_api \<Rightarrow> string \<Rightarrow> go_error + 'o kubelet_config" where
  "loadConfigFile K name =
     (let fail = (\<lambda>e. Errorf (''failed to load Kubelet config file '' @ name @ '', error '' @ errcode_text e)) in
      bind_err (map_err fail (filepath_Abs K name)) (\<lambda>kubeletConfigFile.
      bind_err (map_err fail (NewFsLoader K kubeletConfigFile)) (\<lambda>loader.
      bind_err (map_err fail (loader_Load K loader)) (\<lambda>kc.
        Inr (if EvictionHard kc = None then kc\<lparr>EvictionHard := Some (DefaultEvictionHard K)\<rparr> else kc)))))"

text \<open>
  Flags of pflag: where a flag stores its value, a message when it is deprecated, and a flag set
  with its error handling.  \<open>add_flag\<close> is \<open>FlagSet.AddFlag\<close>, which panics on a redefinition;
  \<open>AddFlagSet\<close> leaves out the names the set already has.
\<close>

datatype flag_sink = NoOpSink | GlobalSink | FlagsSink | ConfigSink | AdaptSink

record flag =
  flName :: string
  flShorthand :: string
  flUsage :: string
  flSink :: flag_sink
  flDeprecated :: string

datatype error_handling = ContinueOnError | ExitOnError

record flag_set =
  fsName :: string
  fsHandling :: error_handling
  fsWordSep :: bool
  fsFlags :: "flag list"

definition NewFlagSet :: "string \<Rightarrow> error_handling \<Rightarrow> flag_set" where
  "NewFlagSet name h = \<lparr>fsName = name, fsHandling = h, fsWordSep = False, fsFlags = []\<rparr>"

definition add_flag :: "flag_set \<Rightarrow> flag \<Rightarrow> flag_set outcome" where
  "add_flag fs f =
     (if flName f \<in> set (map flName (fsFlags fs)) then Panics (PanicText (''flag redefined: '' @ flName f))
      else Returns (fs\<lparr>fsFlags := fsFlags fs @ [f]\<rparr>))"

fun add_flags :: "flag list \<Rightarrow> flag_set \<Rightarrow> flag_set outcome" where
  "add_flags [] fs = Returns fs"
| "add_flags (f # fl) fs = bind_outcome (add_flag fs f) (add_flags fl)"

fun AddFlagSet :: "flag_set \<Rightarrow> flag list \<Rightarrow> flag_set" where
  "AddFlagSet fs [] = fs"
| "AddFlagSet fs (f # fl) =
     AddFlagSet (if flName f \<in> set (map flName (fsFlags fs)) then fs else fs\<lparr>fsFlags := fsFlags fs @ [f]\<rparr>) fl"

text \<open>The flags that Kubernetes registers, and pflag's parser of the arguments.\<close>

record 'o flag_values =
  fv_flags :: kubelet_flags
  fv_config :: "'o kubelet_config"
  fv_adapt :: string

record 'o flag_api =
  global_flags :: "flag list"
  kubelet_flag_list :: "flag list"
  config_flag_list :: "flag list"
  NewKubeletFlags :: kubelet_flags
  NewKubeletConfiguration :: "go_error + 'o kubelet_config"
  ParseFlags :: "flag_set \<Rightarrow> string list \<Rightarrow> 'o flag_values \<Rightarrow> go_error + ('o flag_values \<times> string list)"

text \<open>\<open>FlagSet.Parse\<close>: a set with \<open>ExitOnError\<close> ends the process on an error.\<close>

definition fs_Parse ::
    "'o flag_api \<Rightarrow> flag_set \<Rightarrow> string list \<Rightarrow> 'o flag_values \<Rightarrow> (go_error + ('o flag_values \<times> string list)) outcome" where
  "fs_Parse F fs args vals =
     (case ParseFlags F fs args vals of
        Inl e \<Rightarrow> (case fsHandling fs of ContinueOnError \<Rightarrow> Returns (Inl e) | ExitOnError \<Rightarrow> Exits 2)
      | Inr r \<Rightarrow> Returns (Inr r))"

definition newFlagSetWithGlobals :: "'o flag_api \<Rightarrow> flag_set outcome" where
  "newFlagSetWithGlobals F = add_flags (global_flags F) ((NewFlagSet [] ExitOnError)\<lparr>fsWordSep := True\<rparr>)"

definition newFakeFlagSet :: "flag_set \<Rightarrow> flag_set outcome" where
  "newFakeFlagSet fs =
     add_flags
       (map (\<lambda>f. \<lparr>flName = flName f, flShorthand = flShorthand f, flUsage = flUsage f,
                  flSink = NoOpSink, flDeprecated = []\<rparr>) (fsFlags fs))
       ((NewFlagSet [] ExitOnError)\<lparr>fsWordSep := fsWordSep fs\<rparr>)"

text \<open>The loop that adds back the feature gates of the file; writing to a nil map panics.\<close>

fun gates_loop :: "(string \<times> bool) list \<Rightarrow> (string \<times> bool) list option \<Rightarrow> (string \<times> bool) list option outcome" where
  "gates_loop [] gates = Returns gates"
| "gates_loop ((k, b) # original) gates =
     (case gates of
        None \<Rightarrow> Panics NilMapWrite
      | Some m \<Rightarrow>
          if map_of m k = None then gates_loop original (Some (AList.update k b m))
          else gates_loop original gates)"

text \<open>The flag set of the re-parse: no-op globals, throwaway kubelet flags, and the configuration.\<close>

definition reparse_flag_set :: "'o flag_api \<Rightarrow> flag_set outcome" where
  "reparse_flag_set F =
     bind_outcome (newFlagSetWithGlobals F) (\<lambda>globals.
     bind_outcome (newFakeFlagSet globals) (\<lambda>fs0.
     bind_outcome (add_flags (kubelet_flag_list F) fs0) (\<lambda>fs1.
       add_flags (config_flag_list F) fs1)))"

definition kubeletConfigFlagPrecedence ::
    "'o flag_api \<Rightarrow> 'o kubelet_config \<Rightarrow> string list \<Rightarrow> ('o kubelet_config \<times> go_error option) outcome" where
  "kubeletConfigFlagPrecedence F kc args =
     bind_outcome (reparse_flag_set F) (\<lambda>fs.
       let original = FeatureGates kc in
       bind_outcome (fs_Parse F fs args \<lparr>fv_flags = NewKubeletFlags F, fv_config = kc, fv_adapt = []\<rparr>) (\<lambda>r.
         case r of
           Inl e \<Rightarrow> Returns (kc, Some e)
         | Inr (vals, rest) \<Rightarrow>
             (let kc' = fv_config vals in
              bind_outcome (gates_loop (case original of None \<Rightarrow> [] | Some m \<Rightarrow> m) (FeatureGates kc'))
                (\<lambda>gates. Returns (kc'\<lparr>FeatureGates := gates\<rparr>, None)))))"

section \<open>Lemmas on the parts\<close>

definition parsed :: "'q quantity_api \<Rightarrow> string \<Rightarrow> 'q option" where
  "parsed Q v =
     (case ParseQuantity Q v of Inl _ \<Rightarrow> None | Inr q \<Rightarrow> if Sign Q q = - 1 then None else Some q)"

lemma resource_loop_Cons:
  "resource_loop Q ((k, v) # m) rl = Inr r \<longleftrightarrow>
     reservable k \<and> (\<exists>q. parsed Q v = Some q \<and> resource_loop Q m (rl(k \<mapsto> q)) = Inr r)"
  by (auto simp: parsed_def split: sum.splits)

lemma resource_loop_Inr:
  "resource_loop Q m rl = Inr r \<longleftrightarrow>
     (\<forall>(k, v)\<in>set m. reservable k \<and> parsed Q v \<noteq> None) \<and>
     r = rl ++ (\<lambda>k. Option.bind (map_of (rev m) k) (parsed Q))"
proof (induction m arbitrary: rl)
  case (Cons e m)
  obtain k v where e: "e = (k, v)" by force
  have u: "rl(k \<mapsto> q) ++ (\<lambda>k. Option.bind (map_of (rev m) k) (parsed Q)) =
      rl ++ (\<lambda>k'. Option.bind (map_of (rev (e # m)) k') (parsed Q))"
    if "parsed Q v = Some q" "\<forall>(k, v)\<in>set m. reservable k \<and> parsed Q v \<noteq> None" for q
  proof (rule ext)
    fix x
    show "(rl(k \<mapsto> q) ++ (\<lambda>k. Option.bind (map_of (rev m) k) (parsed Q))) x =
        (rl ++ (\<lambda>k'. Option.bind (map_of (rev (e # m)) k') (parsed Q))) x"
      using that by (cases "map_of (rev m) x")
        (fastforce simp: e map_add_def dest!: map_of_SomeD split: option.splits)+
  qed
  show ?case
    unfolding e resource_loop_Cons Cons.IH using u by (fastforce simp: e)
qed (auto simp: map_add_def)

lemma map_of_same_entries:
  assumes "distinct (map fst m)" "distinct (map fst m')" "set m = set m'"
  shows "map_of m = map_of m'"
  using assms by (simp add: map_of_inject_set)

lemma delete_idem [simp]: "AList.delete k (AList.delete k m) = AList.delete k m"
  by (simp add: AList.delete_eq)

lemma update_idem [simp]: "AList.update k v (AList.update k v m) = AList.update k v m"
  by (induction m) auto

lemma override_idem [simp]: "override_reserved r (override_reserved r c) = override_reserved r c"
  by (cases "fcard r = 0") (simp_all add: override_reserved_def option.map_comp comp_def del: fcard_0_eq)

lemma default_root_idem [simp]:
  "default_cgroup_root (default_cgroup_root c) = default_cgroup_root c"
  "default_cgroup_root (override_reserved r (default_cgroup_root c)) = override_reserved r (default_cgroup_root c)"
  by (auto simp: default_cgroup_root_def override_reserved_def)

lemma ReservedSystemCPUs_kept [simp]:
  "ReservedSystemCPUs (override_reserved r c) = ReservedSystemCPUs c"
  "ReservedSystemCPUs (default_cgroup_root c) = ReservedSystemCPUs c"
  by (simp_all add: override_reserved_def default_cgroup_root_def)

lemma bind_err_case: "bind_err m f = (case m of Inl e \<Rightarrow> Inl e | Inr x \<Rightarrow> f x)"
  by (cases m) auto

lemma map_err_case: "map_err g m = (case m of Inl e \<Rightarrow> Inl (g e) | Inr x \<Rightarrow> Inr x)"
  by (cases m) auto

lemma node_configs_agree: "container_node_config K Q gates s r = cgroup_node_config K Q gates s r"
  by (simp add: container_node_config_def cgroup_node_config_def Let_def bind_err_case map_err_case split: sum.splits)

lemma outcome_InrE:
  assumes "case r of Returns ((v, s), Inr m) \<Rightarrow> P v s m | _ \<Rightarrow> False"
  obtains v s m where "r = Returns ((v, s), Inr m)" "P v s m"
proof (cases r)
  case (Returns x)
  then show ?thesis
    using assms that by (cases x; cases "fst x"; cases "snd x") auto
qed (use assms in auto)

lemma newCgroupManager_Inr:
  "newCgroupManager K Q v s d = Returns ((v', s'), Inr m) \<longleftrightarrow>
     (\<exists>ca mi r nc qos. CAdvisorInterface d = Some ca \<and> MachineInfo K ca = Inr mi \<and>
        getReservedCPUs K mi (ReservedSystemCPUs (ks_config s)) = Inr r \<and>
        s' = s\<lparr>ks_config := override_reserved r (default_cgroup_root (ks_config s))\<rparr> \<and>
        cgroup_node_config K Q (v_gates v) s' r = Inr nc \<and>
        start_cgroup_managers K (v_builds v) nc = Inr (qos, m) \<and> v' = v\<lparr>v_qosCM := Some qos, v_builds := Suc (v_builds v)\<rparr>)"
  by (auto simp: newCgroupManager_def bind_err_case Let_def split: option.splits sum.splits prod.splits)

lemma add_flags_Returns:
  "add_flags fl fs = Returns fs' \<longleftrightarrow>
     distinct (map flName fl) \<and> set (map flName fl) \<inter> set (map flName (fsFlags fs)) = {} \<and>
     fs' = fs\<lparr>fsFlags := fsFlags fs @ fl\<rparr>"
proof (induction fl arbitrary: fs)
  case (Cons f fl)
  then show ?case by (auto simp: add_flag_def)
qed auto

lemma reparse_flag_set_Returns:
  "reparse_flag_set F = Returns fs \<Longrightarrow> fsHandling fs = ExitOnError \<and>
     fsFlags fs = map (\<lambda>f. f\<lparr>flSink := NoOpSink, flDeprecated := []\<rparr>) (global_flags F) @
       kubelet_flag_list F @ config_flag_list F"
  by (auto simp: reparse_flag_set_def bind_outcome_Returns_iff newFlagSetWithGlobals_def newFakeFlagSet_def
      add_flags_Returns NewFlagSet_def)

lemma gates_loop_map_of:
  "gates_loop original gates = Returns gates' \<Longrightarrow>
     map_of (case gates' of None \<Rightarrow> [] | Some m \<Rightarrow> m) k =
       (case map_of (case gates of None \<Rightarrow> [] | Some m \<Rightarrow> m) k of
          Some b \<Rightarrow> Some b
        | None \<Rightarrow> map_of original k)"
proof (induction original gates arbitrary: gates' rule: gates_loop.induct)
  case (2 k' b original gates)
  then show ?case
  proof (cases gates)
    case (Some m)
    show ?thesis
    proof (cases "map_of m k'")
      case None
      with 2 Some show ?thesis by (simp add: update_conv' split: option.splits)
    next
      case (Some y)
      with 2 \<open>gates = Some m\<close> show ?thesis by (simp split: option.splits)
    qed
  qed simp
qed (auto split: option.splits)

lemma parsed_iff: "parsed Q v \<noteq> None \<longleftrightarrow> (\<exists>q. ParseQuantity Q v = Inr q \<and> Sign Q q \<noteq> - 1)"
  by (auto simp: parsed_def split: sum.splits)

lemma parseResourceList_Inr:
  "parseResourceList Q m = Inr rl \<longleftrightarrow>
     ((m = None \<or> m = Some []) \<and> rl = None) \<or>
     (\<exists>es. m = Some es \<and> es \<noteq> [] \<and> (\<forall>(k, v)\<in>set es. reservable k \<and> parsed Q v \<noteq> None) \<and>
           rl = Some (\<lambda>k. Option.bind (map_of (rev es) k) (parsed Q)))"
  by (auto simp: parseResourceList_def go_outcome resource_loop_Inr split: option.splits list.splits)

text \<open>
  What Kubernetes documents of cgroup names: a name is extended by components at its end, and
  the suffix of a pod is made of its UID.
\<close>

locale cgroup_naming =
  fixes K :: "('q, 'o) kubelet_api"
  assumes NewCgroupName_append: "NewCgroupName K base comps = base @ comps"
    and suffix_inject: "GetPodCgroupNameSuffix K u = GetPodCgroupNameSuffix K w \<longleftrightarrow> u = w"
begin

lemma pod_name_inject:
  "NewCgroupName K p [GetPodCgroupNameSuffix K u] = NewCgroupName K q [GetPodCgroupNameSuffix K w] \<longleftrightarrow>
     p = q \<and> u = w"
  by (simp add: NewCgroupName_append suffix_inject)

end

text \<open>The last step of \<open>newCgroupManager\<close>, when it succeeds.\<close>

lemma start_cgroup_managers_Inr:
  assumes "start_cgroup_managers K b nc = Inr (qos, m)"
  shows "\<exists>subs q. GetCgroupSubsystems K = Inr subs \<and> m = NewCgroupManager K subs (ncCgroupDriver nc) \<and>
    (ncCgroupsPerQOS nc \<longrightarrow> ncCgroupRoot nc \<noteq> []) \<and> qos = qos_Start K b q \<and>
    NewQOSContainerManager K b subs
      (if ncCgroupsPerQOS nc
       then NewCgroupName K (ParseCgroupfsToCgroupName K (ncCgroupRoot nc)) [defaultNodeAllocatableCgroupName]
       else ParseCgroupfsToCgroupName K (ncCgroupRoot nc)) nc m = Inr q"
  using assms
  by (auto simp: start_cgroup_managers_def Let_def go_outcome split: sum.splits if_splits option.splits)

lemma cgroup_node_config_fields:
  "cgroup_node_config K Q gates s r = Inr nc \<Longrightarrow>
     ncCgroupRoot nc = CgroupRoot (ks_config s) \<and> ncCgroupsPerQOS nc = CgroupsPerQOS (ks_config s)"
  by (auto simp: cgroup_node_config_def Let_def go_outcome)

lemma completed_root:
  "CgroupsPerQOS (override_reserved r (default_cgroup_root c)) = CgroupsPerQOS c"
  "CgroupRoot (override_reserved r (default_cgroup_root c)) =
     (if CgroupsPerQOS c \<and> CgroupRoot c = [] then ''/'' else CgroupRoot c)"
  by (simp_all add: override_reserved_def default_cgroup_root_def)

text \<open>The container of a QoS class below the root of the pods.\<close>

definition class_container :: "string \<Rightarrow> cgroup_name" where
  "class_container qos =
     (if qos = ''Burstable'' then [''burstable''] else if qos = ''BestEffort'' then [''besteffort''] else [])"

text \<open>
  What Kubernetes documents of the containers of the QoS classes: once the manager has started, guaranteed
  pods are below its root and the other two classes have a container of their own there; a manager that
  could not start, or that is not to use QoS classes, reports none.
\<close>

definition qos_containers :: "cgroup_name \<Rightarrow> QOSContainersInfo" where
  "qos_containers root =
     \<lparr>Guaranteed = root, Burstable = root @ [''burstable''], BestEffort = root @ [''besteffort'']\<rparr>"

definition no_containers :: QOSContainersInfo where
  "no_containers = \<lparr>Guaranteed = [], Burstable = [], BestEffort = []\<rparr>"

locale qos_layout = cgroup_naming K for K :: "('q, 'o) kubelet_api" +
  assumes containers: "NewQOSContainerManager K b subs root nc cgm = Inr q \<Longrightarrow>
      GetQOSContainersInfo K (qos_Start K b q) = (if ncCgroupsPerQOS nc then qos_containers root else no_containers) \<or>
      GetQOSContainersInfo K (qos_Start K b q) = no_containers"
    and pod_class: "GetPodQOS K p \<in> {''Guaranteed'', ''Burstable'', ''BestEffort''}"
begin

text \<open>The name that is meant: the root of the pods, the container of the class, the pod.\<close>

lemma pod_container:
  assumes "start_cgroup_managers K b nc = Inr (qos, m)" "v_qosCM v = Some qos" "GetPodContainerName K v p m = Returns (n, fsn)"
  shows "n = (if ncCgroupsPerQOS nc
       then ParseCgroupfsToCgroupName K (ncCgroupRoot nc) @ [''kubepods''] @ class_container (GetPodQOS K p) else []) @
       [GetPodCgroupNameSuffix K (pUID p)] \<or>
    n = [GetPodCgroupNameSuffix K (pUID p)]"
proof -
  obtain subs q where q: "NewQOSContainerManager K b subs
      (if ncCgroupsPerQOS nc then ParseCgroupfsToCgroupName K (ncCgroupRoot nc) @ [''kubepods'']
       else ParseCgroupfsToCgroupName K (ncCgroupRoot nc)) nc m = Inr q" "qos = qos_Start K b q"
    using start_cgroup_managers_Inr [OF assms(1)]
    by (auto simp: NewCgroupName_append defaultNodeAllocatableCgroupName_def split: if_splits)
  show ?thesis
    using assms(2,3) containers [OF q(1)] pod_class [of p]
    by (auto simp: GetPodContainerName_def Let_def q(2) qos_containers_def no_containers_def class_container_def
        NewCgroupName_append split: if_splits)
qed

end

text \<open>A concrete API for the witnesses: one CPU set, cgroupfs names, gates that are all off.\<close>

definition ref_kubelet :: "(amount, unit) kubelet_api" where
  "ref_kubelet =
     \<lparr>MachineInfo = Inr, Discover = (\<lambda>_. Inr {|0, 1, 2, 3|}), cpuset_Parse = (\<lambda>_. Inr {|0|}),
      cpuset_String = (\<lambda>_. ''0-3''), ParseThresholdConfig = (\<lambda>_. Inr ()), ParseQOSReserved = (\<lambda>_. Inr ()),
      GateEnabled = (\<lambda>_ _. False), SetFromMap = (\<lambda>g _. Inr g),
      GetCgroupSubsystems = Inr [''cpu'' \<mapsto> ''/sys/fs/cgroup''],
      ParseCgroupfsToCgroupName = (\<lambda>p. filter (\<lambda>c. c \<noteq> []) (strings_Split p (CHR ''/''))),
      NewCgroupName = (@), NewCgroupManager = (\<lambda>_ _. ()), cgm_Validate = (\<lambda>_ _ _. None),
      cgm_Name = (\<lambda>_. rooted_path), cgm_GetCgroupConfig = (\<lambda>_ _ _. Inl (LibError ''not found'')),
      NewQOSContainerManager = (\<lambda>_ _ root nc _. if ncCgroupsPerQOS nc \<and> root = [''kubepods''] then Inr ()
        else Inl (LibError ''no such cgroup'')), qos_Start = (\<lambda>_ q. q),
      GetQOSContainersInfo = (\<lambda>_. \<lparr>Guaranteed = [''kubepods''], Burstable = [''kubepods'', ''burstable''],
        BestEffort = [''kubepods'', ''besteffort'']\<rparr>),
      NewContainerManager = (\<lambda>_ _ _ _ _ _. (None, Some (LibError ''swap is on''))),
      GetPodQOS = (\<lambda>_. ''Burstable''), GetPodCgroupNameSuffix = (\<lambda>u. ''pod'' @ u),
      DefaultEvictionHard = [(''memory.available'', ''100Mi'')],
      filepath_Abs = Inr, NewFsLoader = (\<lambda>_. Inr ()), loader_Load = (\<lambda>_. Inl (LibError ''no file''))\<rparr>"

interpretation ref_naming: qos_layout ref_kubelet
  by unfold_locales (auto simp: ref_kubelet_def qos_containers_def split: if_splits)

definition ref_config :: "unit kubelet_config" where
  "ref_config =
     \<lparr>CgroupsPerQOS = True, CgroupRoot = [], CgroupDriver = ''cgroupfs'', KubeletCgroups = [], SystemCgroups = [],
      OOMScoreAdj = - 999, ProtectKernelDefaults = False, ReservedSystemCPUs = ''0'',
      KubeReserved = Some [(''cpu'', ''100m''), (''memory'', ''1Gi'')], SystemReserved = None,
      KubeReservedCgroup = [], SystemReservedCgroup = [], EnforceNodeAllocatable = [''pods''],
      EvictionHard = None, QOSReserved = None, CPUManagerPolicy = ''none'', CPUManagerPolicyOptions = None,
      CPUManagerReconcilePeriod = 10, MemoryManagerPolicy = ''None'', ReservedMemory = (), PodPidsLimit = - 1,
      CPUCFSQuota = True, CPUCFSQuotaPeriod = 100, TopologyManagerPolicy = ''none'', TopologyManagerScope = ''container'',
      TopologyManagerPolicyOptions = None, ContainerRuntimeEndpoint = [], LocalStorageCapacityIsolation = True,
      FailSwapOn = True, FeatureGates = Some [(''A'', True)]\<rparr>"

definition ref_server :: "unit KubeletServer" where
  "ref_server =
     \<lparr>ks_flags = \<lparr>RuntimeCgroups = [], RootDirectory = ''/var/lib/kubelet'', KubeletConfigFile = [],
        KubeletDropinConfigDirectory = [], IgnoreEvictionThreshold = False\<rparr>,
      ks_config = ref_config\<rparr>"

definition ref_deps :: "unit Dependencies" where
  "ref_deps = \<lparr>CAdvisorInterface = Some (), ContainerManager = None, Mounter = (), Recorder = (), KubeClient = ()\<rparr>"

definition zero_vars :: "'o \<Rightarrow> 'o kubelet_vars" where
  "zero_vars gates =
     \<lparr>v_qosCM = None, v_chrootOnce = False, v_genOnce = False, v_server = None, v_serverErr = None,
      v_gates = gates, v_adapt = [], v_builds = 0\<rparr>"

lemma GetPodContainerName_Returns:
  "GetPodContainerName K v p cgm = Returns (n, fsn) \<Longrightarrow>
     \<exists>parent. n = NewCgroupName K parent [GetPodCgroupNameSuffix K (pUID p)] \<and> fsn = cgm_Name K cgm n"
  by (auto simp: GetPodContainerName_def Let_def split: option.splits)

section \<open>Properties\<close>

text \<open>
  C35: reserved resources.  A non-empty map is accepted exactly when every key is one of the four
  reservable resources and every value parses to a quantity that is not negative; the result then
  maps exactly those keys, each to its parsed value.  An absent or empty map is the nil list.
\<close>

theorem parse_resource_list:
  "parseResourceList Q m = Inr rl \<longleftrightarrow>
     (case m of
        None \<Rightarrow> rl = None
      | Some [] \<Rightarrow> rl = None
      | Some (e # es) \<Rightarrow>
          (\<forall>(k, v)\<in>set (e # es). reservable k \<and>
             (\<exists>q. ParseQuantity Q v = Inr q \<and> Sign Q q \<noteq> - 1)) \<and>
          rl = Some (\<lambda>k. Option.bind (map_of (rev (e # es)) k) (parsed Q)))"
  unfolding parsed_iff [symmetric] by (auto simp: parseResourceList_Inr split: option.splits list.splits)

theorem parse_resource_list_witness:
  "\<exists>rl. parseResourceList ref_quantity (Some [(''cpu'', ''1500m'')]) = Inr (Some rl) \<and>
     rl ''cpu'' = Some (Amount 1500000000 False) \<and> rl ''memory'' = None"
proof -
  have q: "ParseQuantity ref_quantity ''1500m'' = Inr (Amount 1500000000 False)"
    "Sign ref_quantity (Amount 1500000000 False) \<noteq> - 1" "reservable ''cpu''" by code_simp+
  let ?rl = "\<lambda>k. Option.bind (map_of (rev [(''cpu'', ''1500m'')]) k) (parsed ref_quantity)"
  have "parseResourceList ref_quantity (Some [(''cpu'', ''1500m'')]) = Inr (Some ?rl)"
    using parse_resource_list [of ref_quantity "Some [(''cpu'', ''1500m'')]" "Some ?rl"] q by simp
  moreover have "?rl ''cpu'' = Some (Amount 1500000000 False)" "?rl ''memory'' = None"
    using q by (simp_all add: parsed_def)
  ultimately show ?thesis by blast
qed

text \<open>
  The order in which Go visits the reserved resources does not matter: two orders of one map
  (the same entries, no key twice) are accepted together, with the same result.
\<close>

theorem parse_resource_list_order:
  assumes "distinct (map fst es)" "distinct (map fst es')" "set es = set es'"
  shows "parseResourceList Q (Some es) = Inr rl \<longleftrightarrow> parseResourceList Q (Some es') = Inr rl"
proof -
  have "map_of (rev es) = map_of (rev es')"
    using assms by (intro map_of_same_entries) (simp_all add: rev_map [symmetric])
  moreover have "es = [] \<longleftrightarrow> es' = []" using assms(3) by auto
  ultimately show ?thesis using assms(3) by (auto simp: parseResourceList_Inr)
qed

theorem parse_resource_list_order_witness:
  "\<forall>rl. parseResourceList ref_quantity (Some [(''cpu'', ''1''), (''pid'', ''2'')]) = Inr rl \<longleftrightarrow>
    parseResourceList ref_quantity (Some [(''pid'', ''2''), (''cpu'', ''1'')]) = Inr rl"
  by (rule allI, rule parse_resource_list_order) auto

text \<open>
  Reserved CPUs are never invented: an accepted list of reserved CPUs is empty, or it is the
  parsed list and every CPU of it is an online CPU of the machine.
\<close>

theorem reserved_cpus:
  "getReservedCPUs K mi cpus = Inr r \<longleftrightarrow>
     (if cpus = [] then r = {||}
      else cpuset_Parse K cpus = Inr r \<and> (\<exists>online. Discover K mi = Inr online \<and> r |\<subseteq>| online))"
  by (auto simp: getReservedCPUs_def split: sum.splits)

text \<open>
  The cgroup manager is rebuilt on every check, from the one server that the first build
  changed in place.  The changes are made once: whatever dependencies the next build is given and whatever the
  operating system answers it, when it succeeds it leaves the server as the first left it, returns the same cgroup manager, and
  of the package variables changes \<open>qosCM\<close> only.
\<close>

theorem cgroup_manager_stable:
  assumes "newCgroupManager K Q v s d = Returns ((v', s'), Inr m)"
    and "newCgroupManager K Q u s' d' = Returns ((u', s''), Inr m')" "v_gates u = v_gates v"
  shows "s'' = s' \<and> m' = m \<and> (\<exists>qos. u' = u\<lparr>v_qosCM := Some qos, v_builds := Suc (v_builds u)\<rparr>)"
proof -
  obtain mi r nc qos where 1: "getReservedCPUs K mi (ReservedSystemCPUs (ks_config s)) = Inr r"
      "s' = s\<lparr>ks_config := override_reserved r (default_cgroup_root (ks_config s))\<rparr>"
      "cgroup_node_config K Q (v_gates v) s' r = Inr nc" "start_cgroup_managers K (v_builds v) nc = Inr (qos, m)"
    using assms(1) unfolding newCgroupManager_Inr by blast
  obtain mi' r' nc' qos' where 2: "getReservedCPUs K mi' (ReservedSystemCPUs (ks_config s')) = Inr r'"
      "s'' = s'\<lparr>ks_config := override_reserved r' (default_cgroup_root (ks_config s'))\<rparr>"
      "cgroup_node_config K Q (v_gates u) s'' r' = Inr nc'" "start_cgroup_managers K (v_builds u) nc' = Inr (qos', m')"
      "u' = u\<lparr>v_qosCM := Some qos', v_builds := Suc (v_builds u)\<rparr>"
    using assms(2) unfolding newCgroupManager_Inr by blast
  have "r' = r"
    using 1(1) 2(1) unfolding reserved_cpus 1(2) by (auto split: if_splits)
  then have s: "s'' = s'" using 1(2) 2(2) by simp
  moreover have "m' = m"
    using start_cgroup_managers_Inr [OF 1(4)] start_cgroup_managers_Inr [OF 2(4)] 1(3) 2(3) assms(3)
    by (auto simp: s \<open>r' = r\<close>)
  ultimately show ?thesis using 2(5) by blast
qed

theorem cgroup_manager_stable_witness:
  "\<exists>v s u. newCgroupManager ref_kubelet ref_quantity (zero_vars ()) ref_server ref_deps = Returns ((v, s), Inr ()) \<and>
     newCgroupManager ref_kubelet ref_quantity v s ref_deps = Returns ((u, s), Inr ()) \<and> v_builds u = 2"
proof -
  have "case newCgroupManager ref_kubelet ref_quantity (zero_vars ()) ref_server ref_deps of
      Returns ((v, s), Inr m) \<Rightarrow> v_gates v = () \<and> v_builds v = 1 \<and>
        (case newCgroupManager ref_kubelet ref_quantity v s ref_deps of Returns ((u, t), Inr m) \<Rightarrow> True | _ \<Rightarrow> False)
    | _ \<Rightarrow> False"
    by code_simp
  then obtain v s where v: "newCgroupManager ref_kubelet ref_quantity (zero_vars ()) ref_server ref_deps = Returns ((v, s), Inr ())"
      "v_builds v = 1"
      "case newCgroupManager ref_kubelet ref_quantity v s ref_deps of Returns ((u, t), Inr m) \<Rightarrow> True | _ \<Rightarrow> False"
    by (rule outcome_InrE) auto
  from v(3) obtain u t where u: "newCgroupManager ref_kubelet ref_quantity v s ref_deps = Returns ((u, t), Inr ())"
    by (rule outcome_InrE) auto
  from cgroup_manager_stable [OF v(1) u] v u show ?thesis by auto
qed

text \<open>
  Both constructors build the same node configuration, and \<open>newContainerManager\<close> reports a
  failure before its last step only: the server it leaves is the one the cgroup manager leaves,
  and an error of \<open>cm.NewContainerManager\<close> is lost, with a nil container manager in the
  dependencies.
\<close>

theorem container_manager_error_lost:
  assumes "newCgroupManager K Q v s d = Returns ((v', s'), Inr m)" "CAdvisorInterface d = Some ca"
  shows "\<exists>nc r. cgroup_node_config K Q (v_gates v) s' r = Inr nc \<and>
    newContainerManager K Q v s d =
      Returns ((s', d\<lparr>ContainerManager := fst (NewContainerManager K (Mounter d) ca nc
                        (FailSwapOn (ks_config s')) (Recorder d) (KubeClient d))\<rparr>), None)"
  using assms unfolding newCgroupManager_Inr
  by (auto simp: newContainerManager_def node_configs_agree split: prod.splits)

theorem container_manager_error_lost_witness:
  "\<exists>s'. newContainerManager ref_kubelet ref_quantity (zero_vars ()) ref_server ref_deps =
     Returns ((s', ref_deps), None)"
proof -
  have "case newCgroupManager ref_kubelet ref_quantity (zero_vars ()) ref_server ref_deps of
      Returns ((v', s'), Inr m) \<Rightarrow> True | _ \<Rightarrow> False"
    by code_simp
  then obtain v' s' m where "newCgroupManager ref_kubelet ref_quantity (zero_vars ()) ref_server ref_deps =
      Returns ((v', s'), Inr m)"
    by (rule outcome_InrE)
  from container_manager_error_lost [OF this, of "()"] show ?thesis
    by (auto simp: ref_deps_def ref_kubelet_def)
qed

text \<open>
  C31: flag precedence.  The re-parse of the command line never returns an error (its flag set
  ends the process instead); in the configuration it returns, a feature gate has the value the
  command line gave it, and otherwise the value of the configuration file.
\<close>

theorem flag_precedence:
  assumes "kubeletConfigFlagPrecedence F kc args = Returns (kc', err)"
  shows "err = None \<and>
    (\<exists>fs vals rest. ParseFlags F fs args \<lparr>fv_flags = NewKubeletFlags F, fv_config = kc, fv_adapt = []\<rparr> = Inr (vals, rest) \<and>
       (\<forall>g. map_of (case FeatureGates kc' of None \<Rightarrow> [] | Some m \<Rightarrow> m) g =
          (case map_of (case FeatureGates (fv_config vals) of None \<Rightarrow> [] | Some m \<Rightarrow> m) g of
             Some b \<Rightarrow> Some b
           | None \<Rightarrow> map_of (case FeatureGates kc of None \<Rightarrow> [] | Some m \<Rightarrow> m) g)))"
proof -
  obtain fs r where fs: "fsHandling fs = ExitOnError"
      "fs_Parse F fs args \<lparr>fv_flags = NewKubeletFlags F, fv_config = kc, fv_adapt = []\<rparr> = Returns r"
    and c: "(case r of
           Inl e \<Rightarrow> Returns (kc, Some e)
         | Inr (vals, rest) \<Rightarrow>
             bind_outcome (gates_loop (case FeatureGates kc of None \<Rightarrow> [] | Some m \<Rightarrow> m) (FeatureGates (fv_config vals)))
                (\<lambda>gates. Returns ((fv_config vals)\<lparr>FeatureGates := gates\<rparr>, None))) = Returns (kc', err)"
    using assms reparse_flag_set_Returns
    by (auto simp: kubeletConfigFlagPrecedence_def bind_outcome_Returns_iff Let_def)
  from fs obtain vals rest where "r = Inr (vals, rest)"
      "ParseFlags F fs args \<lparr>fv_flags = NewKubeletFlags F, fv_config = kc, fv_adapt = []\<rparr> = Inr (vals, rest)"
    by (cases "ParseFlags F fs args \<lparr>fv_flags = NewKubeletFlags F, fv_config = kc, fv_adapt = []\<rparr>")
      (force simp: fs_Parse_def)+
  moreover from c this obtain gates where g: "gates_loop (case FeatureGates kc of None \<Rightarrow> [] | Some m \<Rightarrow> m)
        (FeatureGates (fv_config vals)) = Returns gates" "kc' = (fv_config vals)\<lparr>FeatureGates := gates\<rparr>" "err = None"
    by (auto simp: bind_outcome_Returns_iff)
  ultimately show ?thesis
    using gates_loop_map_of [OF g(1)] by auto
qed

text \<open>Flags of a concrete Kubernetes: the parser sets gate A off and returns no other argument.\<close>

definition ref_flags :: "unit flag_api" where
  "ref_flags =
     \<lparr>global_flags = [\<lparr>flName = ''v'', flShorthand = ''v'', flUsage = [], flSink = GlobalSink, flDeprecated = []\<rparr>],
      kubelet_flag_list = [\<lparr>flName = ''config'', flShorthand = [], flUsage = [], flSink = FlagsSink, flDeprecated = []\<rparr>],
      config_flag_list = [\<lparr>flName = ''feature-gates'', flShorthand = [], flUsage = [], flSink = ConfigSink, flDeprecated = []\<rparr>],
      NewKubeletFlags = ks_flags ref_server, NewKubeletConfiguration = Inr ref_config,
      ParseFlags = (\<lambda>fs args vals. Inr (vals\<lparr>fv_config := (fv_config vals)\<lparr>FeatureGates := Some [(''B'', False)]\<rparr>\<rparr>, []))\<rparr>"

theorem flag_precedence_witness:
  "\<exists>kc'. kubeletConfigFlagPrecedence ref_flags ref_config [''--feature-gates=B=false''] = Returns (kc', None) \<and>
     map_of (case FeatureGates kc' of None \<Rightarrow> [] | Some m \<Rightarrow> m) ''A'' = Some True \<and>
     map_of (case FeatureGates kc' of None \<Rightarrow> [] | Some m \<Rightarrow> m) ''B'' = Some False"
proof -
  have "kubeletConfigFlagPrecedence ref_flags ref_config [''--feature-gates=B=false''] =
      Returns (ref_config\<lparr>FeatureGates := Some [(''B'', False), (''A'', True)]\<rparr>, None)"
    by (simp add: kubeletConfigFlagPrecedence_def reparse_flag_set_def newFlagSetWithGlobals_def newFakeFlagSet_def
        add_flag_def NewFlagSet_def ref_flags_def ref_config_def fs_Parse_def)
  with flag_precedence [OF this] show ?thesis by (auto simp: ref_flags_def ref_config_def)
qed

text \<open>
  The configuration file.  Loading fails when the path, the loader or the decoding fails; a
  loaded configuration is the decoded one, with the default hard eviction thresholds when the file sets none.
\<close>

theorem load_config_file:
  fixes K :: "('q, 'o) kubelet_api"
  shows "loadConfigFile K name = Inr kc \<longleftrightarrow>
     (\<exists>p l d. filepath_Abs K name = Inr p \<and> NewFsLoader K p = Inr l \<and> loader_Load K l = Inr d \<and>
        kc = d\<lparr>EvictionHard := Some (case EvictionHard d of None \<Rightarrow> DefaultEvictionHard K | Some t \<Rightarrow> t)\<rparr>)"
proof -
  have d: "d\<lparr>EvictionHard := Some (case EvictionHard d of None \<Rightarrow> DefaultEvictionHard K | Some t \<Rightarrow> t)\<rparr> =
      (if EvictionHard d = None then d\<lparr>EvictionHard := Some (DefaultEvictionHard K)\<rparr> else d)" for d :: "'o kubelet_config"
    by (cases d) (simp split: option.split)
  show ?thesis
    unfolding d loadConfigFile_def Let_def bind_err_Inr_iff map_err_Inr_iff sum.inject by blast
qed

end
