(* ===== verification/Kubelet_Cmd.thy ===== *)
theory Kubelet_Cmd
  imports Kubelet_Server
begin

text \<open>
  \<^verbatim>\<open>pkg/kubelet/cmd.go\<close>: the server of the host's kubelet, found once from its command line and
  configuration file, the managers built from it, the cgroup names of pods, and the CPU limit.
  The package variables are \<open>kubelet_vars\<close>; every function returns them with its outcome, so
  that what a panic leaves behind is part of the model.  \<^verbatim>\<open>cmd_unsupported.go\<close> and
  \<^verbatim>\<open>server_unsupported.go\<close> are at the end.
\<close>

section \<open>What the file calls\<close>

text \<open>\<open>UnsecuredDependencies\<close> is called twice in a row; its first argument is the number of the call.\<close>

record ('q, 'o) cmd_api =
  UnsecuredDependencies ::
    "nat \<Rightarrow> 'o KubeletServer option \<Rightarrow> 'o \<Rightarrow> ('o Dependencies option \<times> go_error option) outcome"
  NodeAllocatableRoot :: "string \<Rightarrow> bool \<Rightarrow> string \<Rightarrow> string"
  GetKubeletContainer :: "string \<Rightarrow> go_error + string"
  NewImageFsInfoProvider :: "string \<Rightarrow> 'o"
  UsingLegacyCadvisorStats :: "string \<Rightarrow> bool"
  cadvisor_New :: "'o \<Rightarrow> string \<Rightarrow> string list \<Rightarrow> bool \<Rightarrow> bool \<Rightarrow> go_error + 'o"
  NewPodContainerManager :: "'o \<Rightarrow> 'o"
  pcm_GetPodContainerName :: "'o \<Rightarrow> 'q pod \<Rightarrow> cgroup_name \<times> string"
  filepath_Glob :: "string \<Rightarrow> go_error + string list"
  IsCgroup2UnifiedMode :: bool

record ('q, 'o) kube_world =
  wK :: "('q, 'o) kubelet_api"
  wQ :: "'q quantity_api"
  wF :: "'o flag_api"
  wC :: "('q, 'o) cmd_api"
  wA :: cgroup_api
  wOs :: os_env

section \<open>The cadvisor interface\<close>

definition cgroup_roots :: "('q, 'o) kube_world \<Rightarrow> 'o KubeletServer \<Rightarrow> string list" where
  "cgroup_roots W s =
     (let c = ks_config s; f = ks_flags s in
      [NodeAllocatableRoot (wC W) (CgroupRoot c) (CgroupsPerQOS c) (CgroupDriver c)] @
      (case GetKubeletContainer (wC W) (KubeletCgroups c) of
         Inl e \<Rightarrow> []
       | Inr kubeletCgroup \<Rightarrow> if kubeletCgroup \<noteq> [] then [kubeletCgroup] else []) @
      (if RuntimeCgroups f \<noteq> [] then [RuntimeCgroups f] else []) @
      (if SystemCgroups c \<noteq> [] then [SystemCgroups c] else []))"

text \<open>Its error result is always nil; the dependencies are changed through their pointer.\<close>

definition initCadvisorInterface ::
    "('q, 'o) kube_world \<Rightarrow> 'o KubeletServer \<Rightarrow> 'o Dependencies option \<Rightarrow> 'o Dependencies outcome" where
  "initCadvisorInterface W s kubeDeps =
     (let cgroupRoots = cgroup_roots W s; c = ks_config s in
      case kubeDeps of
        None \<Rightarrow> Panics NilDeref
      | Some d \<Rightarrow>
          (case CAdvisorInterface d of
             Some _ \<Rightarrow> Returns d
           | None \<Rightarrow>
               (case cadvisor_New (wC W) (NewImageFsInfoProvider (wC W) (ContainerRuntimeEndpoint c))
                       (RootDirectory (ks_flags s)) cgroupRoots
                       (UsingLegacyCadvisorStats (wC W) (ContainerRuntimeEndpoint c))
                       (LocalStorageCapacityIsolation c) of
                  Inl e \<Rightarrow> Panics (PanicError e)
                | Inr cadvisor \<Rightarrow> Returns (d\<lparr>CAdvisorInterface := Some cadvisor\<rparr>))))"

definition IsCgroupV2 :: "('q, 'o) kube_world \<Rightarrow> bool" where
  "IsCgroupV2 W = IsCgroup2UnifiedMode (wC W)"

section \<open>The kubelet server\<close>

definition componentKubelet :: string where "componentKubelet = ''kubelet''"

text \<open>The flag of older kubelets that the parser must accept, with its deprecation text.\<close>

definition not_deprecated :: "string list" where
  "not_deprecated = [''notDeprecated-key'']"

definition adapt_flags :: "flag list" where
  "adapt_flags =
     map (\<lambda>f. if flName f \<in> set not_deprecated then f
              else f\<lparr>flDeprecated := ''This parameter should NOT be set in NEW Version.''\<rparr>)
       [\<lparr>flName = ''container-runtime'', flShorthand = [], flUsage = ''adapt 1.23.3 / 1.26 kubelet cmd-line'',
         flSink = AdaptSink, flDeprecated = []\<rparr>]"

definition adaptKubelet_1_23_3_ConfigFlags :: "flag_set \<Rightarrow> flag_set" where
  "adaptKubelet_1_23_3_ConfigFlags mainfs = AddFlagSet mainfs adapt_flags"

definition clean_flag_set :: "'o flag_api \<Rightarrow> flag_set outcome" where
  "clean_flag_set F =
     bind_outcome (add_flags (kubelet_flag_list F) ((NewFlagSet componentKubelet ContinueOnError)\<lparr>fsWordSep := True\<rparr>)) (\<lambda>fs1.
     bind_outcome (add_flags (config_flag_list F) fs1) (\<lambda>fs2.
     bind_outcome (add_flags (global_flags F) fs2) (\<lambda>fs3.
       Returns (adaptKubelet_1_23_3_ConfigFlags fs3))))"

text \<open>Step 1: \<open>chrootOnce\<close> counts as done also when its function panics.\<close>

definition chroot_step :: "os_env \<Rightarrow> 'o kubelet_vars \<Rightarrow> 'o kubelet_vars \<times> unit outcome" where
  "chroot_step os v =
     (if v_chrootOnce v then (v, Returns ())
      else (v\<lparr>v_chrootOnce := True\<rparr>, NoErrOrDie (Chroot os (GetRootFS os))))"

text \<open>Step 2: the arguments of the first process named kubelet.\<close>

fun kubelet_args :: "ProcessCmdLine list \<Rightarrow> string list" where
  "kubelet_args [] = []"
| "kubelet_args (p # ps) = (if Comm p = componentKubelet then Args p else kubelet_args ps)"

text \<open>Steps 4 and 5, on the parsed flags.\<close>

definition load_server ::
    "('q, 'o) kube_world \<Rightarrow> 'o kubelet_vars \<Rightarrow> string list \<Rightarrow> 'o flag_values \<Rightarrow>
       'o kubelet_vars \<times> (go_error + 'o KubeletServer) outcome" where
  "load_server W v args vals =
     (let file = KubeletConfigFile (fv_flags vals) in
      case (if length file > 0
            then map_err (Wrapf (''failed to load kubelet config file, path: '' @ file @ '', error''))
                   (loadConfigFile (wK W) file)
            else Inr (fv_config vals)) of
        Inl e \<Rightarrow> (v, Returns (Inl e))
      | Inr kubeletConfig \<Rightarrow>
          (if length file > 0 \<or> length (KubeletDropinConfigDirectory (fv_flags vals)) > 0
           then bind_state (v, kubeletConfigFlagPrecedence (wF W) kubeletConfig args) (\<lambda>v (kc, err).
             case err of
               Some e \<Rightarrow> (v, Returns (Inl (Wrapf ''failed to precedence kubeletConfigFlag'' e)))
             | None \<Rightarrow>
                 (case SetFromMap (wK W) (v_gates v) (FeatureGates kc) of
                    Inl e \<Rightarrow> (v, Returns (Inl (Wrapf ''failed to set feature gates from initial flags-based config'' e)))
                  | Inr gates \<Rightarrow>
                      (v\<lparr>v_gates := gates\<rparr>, Returns (Inr \<lparr>ks_flags = fv_flags vals, ks_config = kc\<rparr>))))
           else (v, Returns (Inr \<lparr>ks_flags = fv_flags vals, ks_config = kubeletConfig\<rparr>))))"

text \<open>Step 3: the first parse of the command line.\<close>

definition parse_server ::
    "('q, 'o) kube_world \<Rightarrow> 'o kubelet_vars \<Rightarrow> 'o kubelet_config \<Rightarrow> string list \<Rightarrow>
       'o kubelet_vars \<times> (go_error + 'o KubeletServer) outcome" where
  "parse_server W v kubeletConfig args =
     bind_state (v, bind_outcome (clean_flag_set (wF W)) (\<lambda>fs.
         fs_Parse (wF W) fs args
           \<lparr>fv_flags = NewKubeletFlags (wF W), fv_config = kubeletConfig, fv_adapt = v_adapt v\<rparr>)) (\<lambda>v r.
       case r of
         Inl e \<Rightarrow> (v, Returns (Inl (Wrapf ''failed to parse kubelet flag'' e)))
       | Inr (vals, cmds) \<Rightarrow>
           (case cmds of
              cmd # _ \<Rightarrow> (v\<lparr>v_adapt := fv_adapt vals\<rparr>, Returns (Inl (Errorf (''unknown command '' @ cmd))))
            | [] \<Rightarrow> load_server W (v\<lparr>v_adapt := fv_adapt vals\<rparr>) args vals))"

definition getKubeletServer ::
    "('q, 'o) kube_world \<Rightarrow> 'o kubelet_vars \<Rightarrow> 'o kubelet_vars \<times> (go_error + 'o KubeletServer) outcome" where
  "getKubeletServer W v =
     (case NewKubeletConfiguration (wF W) of
        Inl e \<Rightarrow> (v, Exits 1)
      | Inr kubeletConfig \<Rightarrow>
          (case filepath_Glob (wC W) ''/*'' of
             Inl e \<Rightarrow> (v, Panics (PanicError e))
           | Inr filePaths \<Rightarrow>
               bind_state (chroot_step (wOs W) v) (\<lambda>v _.
                 case GetProcessList (wOs W) True of
                   Inl e \<Rightarrow> (v, Panics (PanicError e))
                 | Inr processes \<Rightarrow>
                     (let args = kubelet_args processes in
                      if length args = 0
                      then (v, Panics (PanicError (Errorf ''kubelet cmdline args is empty'')))
                      else parse_server W v kubeletConfig args))))"

text \<open>
  \<open>GetKubeletServer\<close>: the package variables \<open>gKubeletServer\<close> and \<open>gKubeletServerErr\<close>, filled under
  \<open>genKubeletServerOnce\<close>, which counts as done also when \<open>getKubeletServer\<close> panics.
\<close>

definition GetKubeletServer ::
    "('q, 'o) kube_world \<Rightarrow> 'o kubelet_vars \<Rightarrow>
       'o kubelet_vars \<times> ('o KubeletServer option \<times> go_error option) outcome" where
  "GetKubeletServer W v =
     (if v_genOnce v then (v, Returns (v_server v, v_serverErr v))
      else bind_state (case getKubeletServer W v of (v', r) \<Rightarrow> (v'\<lparr>v_genOnce := True\<rparr>, r)) (\<lambda>v r.
        case r of
          Inl e \<Rightarrow> (v\<lparr>v_server := None, v_serverErr := Some e\<rparr>, Returns (None, Some e))
        | Inr s \<Rightarrow> (v\<lparr>v_server := Some s, v_serverErr := None\<rparr>, Returns (Some s, None))))"

section \<open>The managers and the names of cgroups\<close>

text \<open>The dependencies of the first call are used, the error of the second is checked.\<close>

definition buildCgroupMgr ::
    "('q, 'o) kube_world \<Rightarrow> 'o kubelet_vars \<Rightarrow> 'o kubelet_vars \<times> (go_error + 'o) outcome" where
  "buildCgroupMgr W v =
     bind_state (GetKubeletServer W v) (\<lambda>v (kubeletServer, err).
       case err of
         Some e \<Rightarrow> (v, Returns (Inl e))
       | None \<Rightarrow>
           bind_state (v, UnsecuredDependencies (wC W) 0 kubeletServer (v_gates v)) (\<lambda>v (kubeletDeps, _).
           bind_state (v, UnsecuredDependencies (wC W) 1 kubeletServer (v_gates v)) (\<lambda>v (_, err).
             case err of
               Some e \<Rightarrow> (v, Returns (Inl e))
             | None \<Rightarrow>
                 (case kubeletServer of
                    None \<Rightarrow> (v, Panics NilDeref)
                  | Some s \<Rightarrow>
                      bind_state (v, initCadvisorInterface W s kubeletDeps) (\<lambda>v kubeDeps.
                      bind_state (v, newCgroupManager (wK W) (wQ W) v s kubeDeps) (\<lambda>_ ((v, s'), r).
                        (v\<lparr>v_server := Some s'\<rparr>, Returns r)))))))"

definition GetCgroupNames ::
    "('q, 'o) kube_world \<Rightarrow> 'o kubelet_vars \<Rightarrow> 'q pod \<Rightarrow> 'o kubelet_vars \<times> (go_error + cgroup_name) outcome" where
  "GetCgroupNames W v pod =
     bind_state (buildCgroupMgr W v) (\<lambda>v r.
       case r of
         Inl e \<Rightarrow> (v, Returns (Inl e))
       | Inr cgm \<Rightarrow>
           bind_state (v, GetPodContainerName (wK W) v pod cgm) (\<lambda>v (podCgroupName, _).
             (v, Returns (Inr podCgroupName))))"

definition GetCgroupCpu ::
    "('q, 'o) kube_world \<Rightarrow> 'o kubelet_vars \<Rightarrow> 'q pod \<Rightarrow> 'o kubelet_vars \<times> resource_config outcome" where
  "GetCgroupCpu W v pod =
     bind_state (buildCgroupMgr W v) (\<lambda>v r.
       case r of
         Inl e \<Rightarrow> (v, Panics (PanicError e))
       | Inr cgm \<Rightarrow>
           bind_state (v, GetPodContainerName (wK W) v pod cgm) (\<lambda>v (podCgroupName, _).
             case cgm_GetCgroupConfig (wK W) cgm podCgroupName ''cpu'' of
               Inl e \<Rightarrow> (v, Panics (PanicError e))
             | Inr resourceConfig \<Rightarrow> (v, Returns resourceConfig)))"

definition buildContainerMgr ::
    "('q, 'o) kube_world \<Rightarrow> 'o kubelet_vars \<Rightarrow> 'o kubelet_vars \<times> (go_error + 'o Dependencies) outcome" where
  "buildContainerMgr W v =
     bind_state (GetKubeletServer W v) (\<lambda>v (kubeletServer, err).
       case err of
         Some e \<Rightarrow> (v, Exits 1)
       | None \<Rightarrow>
           bind_state (v, UnsecuredDependencies (wC W) 0 kubeletServer (v_gates v)) (\<lambda>v (kubeletDeps, _).
           bind_state (v, UnsecuredDependencies (wC W) 1 kubeletServer (v_gates v)) (\<lambda>v (_, err).
             case err of
               Some e \<Rightarrow> (v, Panics (PanicError (Wrapf ''failed to construct kubelet dependencies'' e)))
             | None \<Rightarrow>
                 (case kubeletServer of
                    None \<Rightarrow> (v, Panics NilDeref)
                  | Some s \<Rightarrow>
                      bind_state (v, initCadvisorInterface W s kubeletDeps) (\<lambda>v kubeDeps.
                      bind_state (v, newContainerManager (wK W) (wQ W) v s kubeDeps) (\<lambda>v ((s', deps), err).
                        (v\<lparr>v_server := Some s'\<rparr>,
                         Returns (case err of Some e \<Rightarrow> Inl e | None \<Rightarrow> Inr deps))))))))"

section \<open>Setting the CPU of a pod\<close>

definition cpu_resource_config :: "cgroup_api \<Rightarrow> resource_config" where
  "cpu_resource_config A =
     \<lparr>CPUQuota = Some CPUPeriodUs, CPUPeriod = Some (of_int CPUPeriodUs),
      CPUShares = Some (MilliCPUToShares A CPUPeriodUs)\<rparr>"

definition setCgroupCpu ::
    "('q, 'o) kube_world \<Rightarrow> 'fs write_file \<Rightarrow> 'fs \<Rightarrow> 'o kubelet_vars \<Rightarrow> 'q pod \<Rightarrow>
       'o kubelet_vars \<times> ('fs \<times> go_error option) outcome" where
  "setCgroupCpu W wr fs v pod =
     bind_state (GetKubeletServer W v) (\<lambda>v (_, err).
       case err of
         Some e \<Rightarrow> (v, Panics (PanicError e))
       | None \<Rightarrow>
           bind_state (buildContainerMgr W v) (\<lambda>v r.
             case r of
               Inl e \<Rightarrow> (v, Panics (PanicError e))
             | Inr kubeDeps \<Rightarrow>
                 (case GetCgroupSubsystems (wK W) of
                    Inl e \<Rightarrow> (v, Panics (PanicError e))
                  | Inr subSystems \<Rightarrow>
                      (case (ContainerManager kubeDeps, v_server v) of
                         (Some cmgr, Some kubeletServer) \<Rightarrow>
                           (let pcm = NewPodContainerManager (wC W) cmgr;
                                podCgroupName = fst (pcm_GetPodContainerName (wC W) pcm pod);
                                cgroupPaths = BuildCgroupPaths (wA W) podCgroupName
                                  (CgroupDriver (ks_config kubeletServer)) subSystems
                            in (v, Returns (setCgroupv2CpuConfig (wA W) wr fs
                                     (path_of cgroupPaths CgroupControllerCpu) (cpu_resource_config (wA W)))))
                       | _ \<Rightarrow> (v, Panics NilDeref)))))"

section \<open>The build for other systems\<close>

definition GetCgroupCpu_unsupported :: "'q pod \<Rightarrow> resource_config option" where
  "GetCgroupCpu_unsupported pod = None"

definition GetKubeletServer_unsupported :: "'o KubeletServer option \<times> go_error option" where
  "GetKubeletServer_unsupported = (None, Some ErrNotSupported)"

definition IsCgroupV2_unsupported :: bool where
  "IsCgroupV2_unsupported = False"

definition GetCgroupNames_unsupported :: "'q pod \<Rightarrow> go_error + cgroup_name" where
  "GetCgroupNames_unsupported pod = Inl ErrNotSupported"

definition newCgroupManager_unsupported :: "go_error + 'o" where
  "newCgroupManager_unsupported = Inl (Errorf ''NOT SUPPORTED'')"

definition newContainerManager_unsupported :: "go_error option" where
  "newContainerManager_unsupported = Some (Errorf ''NOT SUPPORTED'')"

section \<open>Lemmas\<close>

text \<open>The loading of the server changes neither the once flag nor the two result variables.\<close>

definition same_result :: "'o kubelet_vars \<Rightarrow> 'o kubelet_vars \<Rightarrow> bool" where
  "same_result v w \<longleftrightarrow> v_server v = v_server w \<and> v_serverErr v = v_serverErr w \<and> v_qosCM v = v_qosCM w"

lemma same_result_simps [simp]:
  "same_result v v"
  "same_result v (w\<lparr>v_chrootOnce := b\<rparr>) = same_result v w"
  "same_result v (w\<lparr>v_gates := g\<rparr>) = same_result v w"
  "same_result v (w\<lparr>v_adapt := a\<rparr>) = same_result v w"
  by (simp_all add: same_result_def)

lemma bind_state_same:
  "same_result v (fst m) \<Longrightarrow> (\<And>w x. same_result v w \<Longrightarrow> same_result v (fst (f w x))) \<Longrightarrow>
     same_result v (fst (bind_state m f))"
  by (cases m; cases "snd m") auto

lemma load_server_same: "same_result v w \<Longrightarrow> same_result v (fst (load_server W w args vals))"
  unfolding load_server_def Let_def
  by (auto split: sum.splits option.splits intro!: bind_state_same)

lemma parse_server_same: "same_result v w \<Longrightarrow> same_result v (fst (parse_server W w kc args))"
  unfolding parse_server_def
  by (auto split: sum.splits list.splits intro!: bind_state_same load_server_same)

lemma getKubeletServer_same: "same_result v (fst (getKubeletServer W v))"
  unfolding getKubeletServer_def Let_def chroot_step_def
  by (auto split: sum.splits intro!: bind_state_same parse_server_same)

lemma clean_flag_set_Returns:
  "clean_flag_set F = Returns fs \<Longrightarrow>
     (\<exists>fl. fl = kubelet_flag_list F @ config_flag_list F @ global_flags F \<and> distinct (map flName fl) \<and>
        fs = AddFlagSet \<lparr>fsName = ''kubelet'', fsHandling = ContinueOnError, fsWordSep = True, fsFlags = fl\<rparr> adapt_flags)"
  by (auto simp: clean_flag_set_def bind_outcome_Returns_iff add_flags_Returns NewFlagSet_def componentKubelet_def
      adaptKubelet_1_23_3_ConfigFlags_def Int_Un_distrib2 Int_commute)

text \<open>A manager is built from the server that was found, which it changes in place.\<close>

lemma buildCgroupMgr_Inr:
  assumes "buildCgroupMgr W v = (v', Returns (Inr m))"
  obtains w s0 d w' s where "GetKubeletServer W v = (w, Returns (Some s0, None))"
    "newCgroupManager (wK W) (wQ W) w s0 d = Returns ((w', s), Inr m)" "v' = w'\<lparr>v_server := Some s\<rparr>"
  using assms unfolding buildCgroupMgr_def
  by (auto simp: bind_state_Returns_iff split: option.splits prod.splits)

text \<open>The search for the kubelet is done once, also when it finds one.\<close>

lemma GetKubeletServer_found:
  assumes "GetKubeletServer W v = (w, Returns (Some s, None))"
  shows "v_genOnce w" "v_serverErr w = None"
proof -
  have "v_genOnce w \<and> v_serverErr w = None"
  proof (cases "v_genOnce v")
    case True
    then show ?thesis using assms by (auto simp: GetKubeletServer_def)
  next
    case False
    obtain u r where "getKubeletServer W v = (u, r)" by force
    with False assms show ?thesis
      by (cases r) (auto simp: GetKubeletServer_def split: sum.splits)
  qed
  then show "v_genOnce w" "v_serverErr w = None" by blast+
qed

lemma GetCgroupNames_steps:
  assumes "GetCgroupNames W v p = (v', Returns (Inr n))"
  obtains m fsn where "buildCgroupMgr W v = (v', Returns (Inr m))"
    "GetPodContainerName (wK W) v' p m = Returns (n, fsn)"
  using assms unfolding GetCgroupNames_def bind_state_Returns_iff
  by (auto simp: bind_state_Returns_iff sum_case_eq_iff split: prod.splits)

lemma GetCgroupNames_Inr:
  assumes "GetCgroupNames W v p = (v', Returns (Inr n))"
  shows "v_server v' \<noteq> None \<and> v_qosCM v' \<noteq> None \<and>
    (\<exists>parent. n = NewCgroupName (wK W) parent [GetPodCgroupNameSuffix (wK W) (pUID p)])"
proof -
  obtain m fsn where b: "buildCgroupMgr W v = (v', Returns (Inr m))"
      and g: "GetPodContainerName (wK W) v' p m = Returns (n, fsn)"
    by (rule GetCgroupNames_steps [OF assms])
  from b have "v_server v' \<noteq> None \<and> v_qosCM v' \<noteq> None"
    by (rule buildCgroupMgr_Inr) (auto simp: newCgroupManager_Inr)
  with GetPodContainerName_Returns [OF g] show ?thesis by blast
qed

text \<open>The name that is meant for a pod under a configuration, and that a call returns it or the pod's component alone.\<close>

definition pod_name :: "('q, 'o) kubelet_api \<Rightarrow> 'o kubelet_config \<Rightarrow> 'q pod \<Rightarrow> cgroup_name" where
  "pod_name K c p =
     (if CgroupsPerQOS c
      then ParseCgroupfsToCgroupName K (CgroupRoot c) @ [''kubepods''] @ class_container (GetPodQOS K p) else []) @
     [GetPodCgroupNameSuffix K (pUID p)]"

lemma GetCgroupNames_name:
  assumes "qos_layout (wK W)" "GetCgroupNames W v p = (v', Returns (Inr n))"
  obtains w s0 d w' s m where "GetKubeletServer W v = (w, Returns (Some s0, None))"
    "newCgroupManager (wK W) (wQ W) w s0 d = Returns ((w', s), Inr m)" "v' = w'\<lparr>v_server := Some s\<rparr>"
    "n = pod_name (wK W) (ks_config s) p \<or> n = [GetPodCgroupNameSuffix (wK W) (pUID p)]"
proof -
  obtain m fsn where b: "buildCgroupMgr W v = (v', Returns (Inr m))"
      and g: "GetPodContainerName (wK W) v' p m = Returns (n, fsn)"
    by (rule GetCgroupNames_steps [OF assms(2)])
  obtain w s0 d w' s where k: "GetKubeletServer W v = (w, Returns (Some s0, None))"
    and nm: "newCgroupManager (wK W) (wQ W) w s0 d = Returns ((w', s), Inr m)" and v': "v' = w'\<lparr>v_server := Some s\<rparr>"
    by (rule buildCgroupMgr_Inr [OF b])
  from nm obtain r nc qos where nc: "cgroup_node_config (wK W) (wQ W) (v_gates w) s r = Inr nc"
      and st: "start_cgroup_managers (wK W) (v_builds w) nc = Inr (qos, m)"
      and w': "w' = w\<lparr>v_qosCM := Some qos, v_builds := Suc (v_builds w)\<rparr>"
    unfolding newCgroupManager_Inr by blast
  have "v_qosCM v' = Some qos" by (simp add: v' w')
  from qos_layout.pod_container [OF assms(1) st this g] cgroup_node_config_fields [OF nc]
  have "n = pod_name (wK W) (ks_config s) p \<or> n = [GetPodCgroupNameSuffix (wK W) (pUID p)]"
    by (cases "CgroupsPerQOS (ks_config s)") (simp_all add: pod_name_def)
  with k nm v' show thesis by (rule that)
qed

lemma first_args:
  "(let args = (case cs of [] \<Rightarrow> [] | cmd # _ \<Rightarrow> tl cmd) in if length args = 0 then none else f args) =
     (case cs of (prog # arg # args) # _ \<Rightarrow> f (arg # args) | _ \<Rightarrow> none)"
  by (auto split: list.splits)

text \<open>A host with one kubelet, on the concrete API.\<close>

definition ref_world :: "string \<Rightarrow> (amount, unit) kube_world" where
  "ref_world out =
     \<lparr>wK = ref_kubelet, wQ = ref_quantity, wF = ref_flags,
      wC = \<lparr>UnsecuredDependencies = (\<lambda>n s g. Returns (Some ref_deps, None)),
            NodeAllocatableRoot = (\<lambda>_ _ _. ''/kubepods''), GetKubeletContainer = (\<lambda>_. Inr []),
            NewImageFsInfoProvider = (\<lambda>_. ()), UsingLegacyCadvisorStats = (\<lambda>_. False),
            cadvisor_New = (\<lambda>_ _ _ _ _. Inr ()), NewPodContainerManager = (\<lambda>_. ()),
            pcm_GetPodContainerName = (\<lambda>_ p. ([''kubepods'', ''pod'' @ pUID p], [])),
            filepath_Glob = (\<lambda>_. Inr [''/rootfs'']), IsCgroup2UnifiedMode = True\<rparr>,
      wA = ref_cgroup_api, wOs = ref_os out\<rparr>"

definition one_kubelet :: string where
  "one_kubelet = ps_output [(''init'', [''/sbin/init'']), (''kubelet'', [''/usr/bin/kubelet'', ''--v=2''])]"

section \<open>Properties\<close>

text \<open>
  The kubelet server is found once.  After a call of \<open>GetKubeletServer\<close> that returned, with a
  server or with an error, every later call returns the same and changes no package variable.
\<close>

theorem kubelet_server_once:
  assumes "GetKubeletServer W v = (v', Returns r)"
  shows "GetKubeletServer W v' = (v', Returns r)"
  using assms unfolding GetKubeletServer_def
  by (auto simp: bind_state_Returns_iff sum_case_eq_iff split: if_splits prod.splits)

theorem kubelet_server_once_witness:
  "\<exists>v'. GetKubeletServer (ref_world one_kubelet) v' =
     (v', Returns (Some \<lparr>ks_flags = ks_flags ref_server, ks_config = ref_config\<lparr>FeatureGates := Some [(''B'', False)]\<rparr>\<rparr>, None))"
proof -
  let ?s = "\<lparr>ks_flags = ks_flags ref_server, ks_config = ref_config\<lparr>FeatureGates := Some [(''B'', False)]\<rparr>\<rparr>"
  have "GetKubeletServer (ref_world one_kubelet) (zero_vars ()) =
    ((zero_vars ())\<lparr>v_chrootOnce := True, v_genOnce := True, v_server := Some ?s\<rparr>, Returns (Some ?s, None))"
    by code_simp
  from kubelet_server_once [OF this] show ?thesis by blast
qed

text \<open>
  A panic during the search for the kubelet is remembered as a success.  When it is recovered,
  the next call of \<open>GetKubeletServer\<close> returns a nil server and a nil error.
\<close>

theorem panicked_search_is_success:
  assumes "GetKubeletServer W v = (v', Panics p)"
    and "v_server v = None" "v_serverErr v = None"
  shows "GetKubeletServer W v' = (v', Returns (None, None))"
proof -
  obtain w r where g: "getKubeletServer W v = (w, r)" by force
  with getKubeletServer_same [of v W] assms(2,3) have "v_server w = None" "v_serverErr w = None"
    by (simp_all add: same_result_def)
  with assms(1) g show ?thesis
    by (cases r) (auto simp: GetKubeletServer_def split: if_splits sum.splits)
qed

theorem panicked_search_is_success_witness:
  "\<exists>v'. GetKubeletServer (ref_world (ps_output [(''init'', [''/sbin/init''])])) v' = (v', Returns (None, None))"
proof -
  have "GetKubeletServer (ref_world (ps_output [(''init'', [''/sbin/init''])])) (zero_vars ()) =
    ((zero_vars ())\<lparr>v_chrootOnce := True, v_genOnce := True\<rparr>,
     Panics (PanicError (Errorf ''kubelet cmdline args is empty'')))"
    by code_simp
  from panicked_search_is_success [OF this] show ?thesis by (auto simp: zero_vars_def)
qed



text \<open>
  The error of the first \<open>UnsecuredDependencies\<close> is overwritten by the second call.  When only
  the first one fails, its nil dependencies are dereferenced and the build panics instead of
  returning the error.
\<close>

theorem first_error_lost:
  assumes "GetKubeletServer W v = (v', Returns (Some s, None))"
    and "UnsecuredDependencies (wC W) 0 (Some s) (v_gates v') = Returns (None, Some e)"
    and "UnsecuredDependencies (wC W) 1 (Some s) (v_gates v') = Returns (deps, None)"
  shows "buildCgroupMgr W v = (v', Panics NilDeref) \<and> buildContainerMgr W v = (v', Panics NilDeref)"
  using assms by (simp add: buildCgroupMgr_def buildContainerMgr_def initCadvisorInterface_def Let_def)

theorem first_error_lost_witness:
  "snd (buildCgroupMgr
      (ref_world one_kubelet \<lparr>wC := (wC (ref_world one_kubelet))\<lparr>UnsecuredDependencies :=
         (\<lambda>n s g. Returns (if n = 0 then (None, Some (LibError ''tls'')) else (Some ref_deps, None)))\<rparr>\<rparr>)
      ((zero_vars ())\<lparr>v_genOnce := True, v_server := Some ref_server\<rparr>)) = Panics NilDeref"
  by (subst conjunct1 [OF first_error_lost [where s = ref_server and e = "LibError ''tls''" and deps = "Some ref_deps"]])
    (simp_all add: GetKubeletServer_def zero_vars_def)

text \<open>
  C14: the cgroup of a pod.  A name that \<open>GetCgroupNames\<close> returns is made of the kubelet's own cgroup root (\<^verbatim>\<open>/\<close> when it
  is not set), \<^verbatim>\<open>kubepods\<close>, the container of the pod's QoS class and the pod's own component; or of that component
  alone, when the QoS manager could not start, whose error is dropped, or is not to be used.  The server of the kubelet
  that was found is only completed by the root and the reserved CPUs.
\<close>

theorem pod_cgroup_name:
  assumes "qos_layout (wK W)" "GetCgroupNames W v p = (v', Returns (Inr n))"
  shows "\<exists>w s0 r. GetKubeletServer W v = (w, Returns (Some s0, None)) \<and>
    v_server v' = Some (s0\<lparr>ks_config := override_reserved r (default_cgroup_root (ks_config s0))\<rparr>) \<and>
    (let c = ks_config s0; suffix = GetPodCgroupNameSuffix (wK W) (pUID p);
         root = (if CgroupRoot c = [] then ''/'' else CgroupRoot c)
     in n = (if CgroupsPerQOS c
             then ParseCgroupfsToCgroupName (wK W) root @ [''kubepods''] @ class_container (GetPodQOS (wK W) p) @ [suffix]
             else [suffix]) \<or>
        n = [suffix])"
proof -
  obtain w s0 d w' s m where k: "GetKubeletServer W v = (w, Returns (Some s0, None))"
    and nm: "newCgroupManager (wK W) (wQ W) w s0 d = Returns ((w', s), Inr m)" and v': "v' = w'\<lparr>v_server := Some s\<rparr>"
    and n: "n = pod_name (wK W) (ks_config s) p \<or> n = [GetPodCgroupNameSuffix (wK W) (pUID p)]"
    by (rule GetCgroupNames_name [OF assms])
  from nm obtain r where "s = s0\<lparr>ks_config := override_reserved r (default_cgroup_root (ks_config s0))\<rparr>"
    unfolding newCgroupManager_Inr by blast
  with k n show ?thesis
    by (intro exI [of _ w] exI [of _ s0] exI [of _ r]) (auto simp: v' Let_def completed_root pod_name_def)
qed

theorem pod_cgroup_name_witness:
  "\<exists>v' n. GetCgroupNames (ref_world one_kubelet) (zero_vars ()) (empty_pod\<lparr>pUID := ''a''\<rparr>) = (v', Returns (Inr n)) \<and>
     (n = [''kubepods'', ''burstable'', ''poda''] \<or> n = [''poda''])"
proof -
  let ?W = "ref_world one_kubelet"
  have K: "wK ?W = ref_kubelet" "qos_layout (wK ?W)"
    "ParseCgroupfsToCgroupName ref_kubelet ''/'' = []" "GetPodQOS ref_kubelet p = ''Burstable''"
    "GetPodCgroupNameSuffix ref_kubelet u = ''pod'' @ u" for p u
    using ref_naming.qos_layout_axioms by (simp_all add: ref_world_def ref_kubelet_def strings_Split_def)
  have "case GetCgroupNames ?W (zero_vars ()) (empty_pod\<lparr>pUID := ''a''\<rparr>) of (v, Returns (Inr n)) \<Rightarrow> True | _ \<Rightarrow> False"
    by code_simp
  then obtain v n where g: "GetCgroupNames ?W (zero_vars ()) (empty_pod\<lparr>pUID := ''a''\<rparr>) = (v, Returns (Inr n))"
    by (auto split: prod.splits outcome.splits sum.splits)
  moreover have "case GetKubeletServer ?W (zero_vars ()) of (w, Returns (Some s, None)) \<Rightarrow>
      CgroupsPerQOS (ks_config s) \<and> CgroupRoot (ks_config s) = [] | _ \<Rightarrow> False"
    by code_simp
  ultimately show ?thesis
    using pod_cgroup_name [OF K(2) g] by (auto simp: K class_container_def)
qed

text \<open>
  C25: what repeated calls of \<open>GetCgroupNames\<close> keep.  Every check builds its managers again and may be given other answers by the operating
  system.  After a call that returned a name, any later call that returns one, for whatever pod, changes nothing but the package
  variable \<open>qosCM\<close> (\<open>v_builds\<close> counts the calls): the server, which the first call completed in place, stays as it is.  A pod of the
  same UID and quality-of-service class gets the same name, unless one of the two names is the pod's own component alone, as when the
  \<open>Start\<close> of the manager failed in that call, whose error is dropped.
\<close>

theorem cgroup_names_stable:
  assumes "qos_layout (wK W)"
    and "GetCgroupNames W v p = (v', Returns (Inr n))" "GetCgroupNames W v' q = (v'', Returns (Inr n'))"
  shows "(\<exists>qos. v'' = v'\<lparr>v_qosCM := Some qos, v_builds := Suc (v_builds v')\<rparr>) \<and>
    (pUID q = pUID p \<and> GetPodQOS (wK W) q = GetPodQOS (wK W) p \<longrightarrow>
       n' = n \<or> n = [GetPodCgroupNameSuffix (wK W) (pUID p)] \<or> n' = [GetPodCgroupNameSuffix (wK W) (pUID p)])"
proof -
  obtain w s0 d w' s m where k: "GetKubeletServer W v = (w, Returns (Some s0, None))"
    and nm: "newCgroupManager (wK W) (wQ W) w s0 d = Returns ((w', s), Inr m)" and v': "v' = w'\<lparr>v_server := Some s\<rparr>"
    and n: "n = pod_name (wK W) (ks_config s) p \<or> n = [GetPodCgroupNameSuffix (wK W) (pUID p)]"
    by (rule GetCgroupNames_name [OF assms(1,2)])
  obtain u t0 d2 u' t m2 where k2: "GetKubeletServer W v' = (u, Returns (Some t0, None))"
    and nm2: "newCgroupManager (wK W) (wQ W) u t0 d2 = Returns ((u', t), Inr m2)" and v'': "v'' = u'\<lparr>v_server := Some t\<rparr>"
    and n2: "n' = pod_name (wK W) (ks_config t) q \<or> n' = [GetPodCgroupNameSuffix (wK W) (pUID q)]"
    by (rule GetCgroupNames_name [OF assms(1,3)])
  have once: "v_genOnce w" "v_serverErr w = None" by (rule GetKubeletServer_found [OF k])+
  have w': "v_genOnce w' = v_genOnce w" "v_serverErr w' = v_serverErr w" "v_gates w' = v_gates w"
    using nm unfolding newCgroupManager_Inr by auto
  have u: "u = v'" "t0 = s"
    using k2 once w' by (auto simp: v' GetKubeletServer_def)
  have "v_gates u = v_gates w" by (simp add: u(1) v' w'(3))
  from cgroup_manager_stable [OF nm nm2 [unfolded u(2)] this] obtain qos where
    t: "t = s" and u': "u' = u\<lparr>v_qosCM := Some qos, v_builds := Suc (v_builds u)\<rparr>" by blast
  have "v'' = v'\<lparr>v_qosCM := Some qos, v_builds := Suc (v_builds v')\<rparr>"
    by (simp add: v'' u' u(1) t v')
  moreover have "pod_name (wK W) (ks_config t) q = pod_name (wK W) (ks_config s) p"
    if "pUID q = pUID p" "GetPodQOS (wK W) q = GetPodQOS (wK W) p"
    using that by (simp add: pod_name_def t)
  ultimately show ?thesis using n n2 by auto
qed

theorem cgroup_names_stable_witness:
  "\<exists>v n v' n'. GetCgroupNames (ref_world one_kubelet) (zero_vars ()) (empty_pod\<lparr>pUID := ''a''\<rparr>) = (v, Returns (Inr n)) \<and>
     GetCgroupNames (ref_world one_kubelet) v (empty_pod\<lparr>pUID := ''a''\<rparr>) = (v', Returns (Inr n')) \<and> v_server v' = v_server v"
proof -
  let ?W = "ref_world one_kubelet" and ?p = "empty_pod\<lparr>pUID := ''a''\<rparr>"
  have K: "qos_layout (wK ?W)"
    using ref_naming.qos_layout_axioms by (simp add: ref_world_def)
  have "case GetCgroupNames ?W (zero_vars ()) ?p of
      (v, Returns (Inr n)) \<Rightarrow> (case GetCgroupNames ?W v ?p of (_, Returns (Inr _)) \<Rightarrow> True | _ \<Rightarrow> False) | _ \<Rightarrow> False"
    by code_simp
  then obtain v n u n' where g: "GetCgroupNames ?W (zero_vars ()) ?p = (v, Returns (Inr n))"
      "GetCgroupNames ?W v ?p = (u, Returns (Inr n'))"
    by (auto split: prod.splits outcome.splits sum.splits)
  from cgroup_names_stable [OF K g] g show ?thesis by auto
qed

text \<open>
  With both contracts, the directories of two pods differ: one subsystem or another, the same
  mount point.
\<close>

locale pod_directories = cgroup_naming "wK W" + cgroupfs_names "wA W" for W :: "('q, 'o) kube_world"
begin

lemma pods_share_no_name:
  "GetCgroupNames W v p = (v1, Returns (Inr n)) \<Longrightarrow> GetCgroupNames W w q = (w1, Returns (Inr m)) \<Longrightarrow>
     pUID p \<noteq> pUID q \<Longrightarrow> n \<noteq> m \<and> n \<noteq> [] \<and> m \<noteq> []"
  using GetCgroupNames_Inr [of W v p v1 n] GetCgroupNames_Inr [of W w q w1 m] pod_name_inject NewCgroupName_append
  by auto

lemma pods_share_no_directory:
  assumes "GetCgroupNames W v p = (v1, Returns (Inr n))" "GetCgroupNames W w q = (w1, Returns (Inr m))"
    and "pUID p \<noteq> pUID q" "driver \<noteq> CgroupDriverSystemd"
    and "mounts key = Some (rooted_path mnt)" "mounts key' = Some (rooted_path mnt)"
    and "mnt \<noteq> []" "\<forall>c\<in>set mnt. plain_comp c" "\<forall>c\<in>set n. plain_comp c" "\<forall>c\<in>set m. plain_comp c"
  shows "path_of (BuildCgroupPaths (wA W) n driver mounts) key \<noteq> path_of (BuildCgroupPaths (wA W) m driver mounts) key'"
  using pods_share_no_name [OF assms(1-3)] assms(4-) by (simp add: directories_inject)

end

interpretation ref_pods: pod_directories "ref_world one_kubelet"
  by (intro pod_directories.intro) (simp_all add: ref_world_def ref_naming.cgroup_naming_axioms ref_cgroup.cgroupfs_names_axioms)

text \<open>
  C24: two pods never share a cgroup name, across calls of \<open>GetCgroupNames\<close>: every call builds its
  own manager, and whatever quality-of-service classes the managers report, different UIDs give
  different names.  A call that returns a name has a kubelet server and a QoS manager in place.
\<close>

theorem cgroup_names_unique:
  assumes "cgroup_naming (wK W)"
    and "GetCgroupNames W v p = (v1, Returns (Inr n))" "GetCgroupNames W w q = (w1, Returns (Inr m))"
    and "pUID p \<noteq> pUID q"
  shows "n \<noteq> m \<and> v_server v1 \<noteq> None \<and> v_qosCM v1 \<noteq> None"
  using GetCgroupNames_Inr [OF assms(2)] GetCgroupNames_Inr [OF assms(3)] assms(4)
    cgroup_naming.pod_name_inject [OF assms(1)] by auto

theorem cgroup_names_unique_witness:
  "\<exists>n m v w. GetCgroupNames (ref_world one_kubelet) (zero_vars ()) (empty_pod\<lparr>pUID := ''a''\<rparr>) = (v, Returns (Inr n)) \<and>
     GetCgroupNames (ref_world one_kubelet) v (empty_pod\<lparr>pUID := ''b''\<rparr>) = (w, Returns (Inr m)) \<and> n \<noteq> m"
proof -
  let ?W = "ref_world one_kubelet"
  have "case GetCgroupNames ?W (zero_vars ()) (empty_pod\<lparr>pUID := ''a''\<rparr>) of (v, Returns (Inr n)) \<Rightarrow>
      (case GetCgroupNames ?W v (empty_pod\<lparr>pUID := ''b''\<rparr>) of (w, Returns (Inr m)) \<Rightarrow> True | _ \<Rightarrow> False) | _ \<Rightarrow> False"
    by code_simp
  then obtain v n w m where
    "GetCgroupNames ?W (zero_vars ()) (empty_pod\<lparr>pUID := ''a''\<rparr>) = (v, Returns (Inr n))"
    "GetCgroupNames ?W v (empty_pod\<lparr>pUID := ''b''\<rparr>) = (w, Returns (Inr m))"
    by (auto split: prod.splits outcome.splits sum.splits)
  moreover from cgroup_names_unique [OF _ this] have "n \<noteq> m"
    using ref_pods.cgroup_naming_axioms by simp
  ultimately show ?thesis by blast
qed

text \<open>
  The flag set of the first parse.  It returns errors instead of ending the process; its names
  are the flags Kubernetes registers, each once, and the old flag \<open>container-runtime\<close>, which is
  added, marked as deprecated, exactly when Kubernetes does not register it any more.
\<close>

theorem clean_flags:
  assumes "clean_flag_set F = Returns fs"
  shows "fsHandling fs = ContinueOnError \<and> distinct (map flName (fsFlags fs)) \<and>
    (let k8s = kubelet_flag_list F @ config_flag_list F @ global_flags F in
     fsFlags fs = k8s @
       (if ''container-runtime'' \<in> set (map flName k8s) then []
        else [\<lparr>flName = ''container-runtime'', flShorthand = [], flUsage = ''adapt 1.23.3 / 1.26 kubelet cmd-line'',
               flSink = AdaptSink, flDeprecated = ''This parameter should NOT be set in NEW Version.''\<rparr>]))"
  using clean_flag_set_Returns [OF assms]
  by (auto simp: adapt_flags_def not_deprecated_def)

theorem clean_flags_witness:
  "\<exists>fs. clean_flag_set ref_flags = Returns fs \<and> distinct (map flName (fsFlags fs))"
proof -
  have "case clean_flag_set ref_flags of Returns fs \<Rightarrow> True | _ \<Rightarrow> False" by code_simp
  then obtain fs where "clean_flag_set ref_flags = Returns fs" by (auto split: outcome.splits)
  with clean_flags [OF this] show ?thesis by blast
qed

text \<open>
  Setting the CPU of a pod to one CPU.  When the call returns, it reported no error and wrote
  two files of one directory: \<^verbatim>\<open>cpu.max\<close> with the full period as the quota, then \<^verbatim>\<open>cpu.weight\<close>.
\<close>

theorem set_cgroup_cpu:
  assumes "setCgroupCpu W log_write [] v p = (v', Returns (fs, err))"
  shows "err = None \<and> (\<exists>dir. fs =
    [(path_Join [dir, ''cpu.max''], ''100000 100000''),
     (path_Join [dir, ''cpu.weight''],
      FormatInt (uint (CpuSharesToCpuWeight (wA W) (MilliCPUToShares (wA W) 100000))))])"
proof -
  have n: "FormatInt 100000 = ''100000''" by code_simp
  have c: "setCgroupv2CpuConfig A log_write [] dir (cpu_resource_config A) =
     ([(path_Join [dir, ''cpu.max''], ''100000 100000''),
       (path_Join [dir, ''cpu.weight''], FormatInt (uint (CpuSharesToCpuWeight A (MilliCPUToShares A 100000))))], None)"
    for A dir
    by (simp add: setCgroupv2CpuConfig_def write_cpu_weight_def cpu_resource_config_def CPUPeriodUs_def log_write_def n)
  from assms show ?thesis
    by (auto simp: setCgroupCpu_def bind_state_Returns_iff sum_case_eq_iff option_case_eq_iff c Let_def)
qed

theorem set_cgroup_cpu_witness:
  "\<exists>v fs. setCgroupCpu
      (ref_world one_kubelet \<lparr>wK := ref_kubelet\<lparr>NewContainerManager := (\<lambda>_ _ _ _ _ _. (Some (), None))\<rparr>\<rparr>)
      log_write [] (zero_vars ()) (empty_pod\<lparr>pUID := ''a''\<rparr>) = (v, Returns (fs, None)) \<and> length fs = 2"
proof -
  let ?W = "ref_world one_kubelet \<lparr>wK := ref_kubelet\<lparr>NewContainerManager := (\<lambda>_ _ _ _ _ _. (Some (), None))\<rparr>\<rparr>"
  have "case setCgroupCpu ?W log_write [] (zero_vars ()) (empty_pod\<lparr>pUID := ''a''\<rparr>) of
      (v, Returns (fs, err)) \<Rightarrow> True | _ \<Rightarrow> False"
    by code_simp
  then obtain v fs err where
    "setCgroupCpu ?W log_write [] (zero_vars ()) (empty_pod\<lparr>pUID := ''a''\<rparr>) = (v, Returns (fs, err))"
    by (auto split: prod.splits outcome.splits)
  with set_cgroup_cpu [OF this] show ?thesis by auto
qed

end
