(* ===== verification/Config.thy ===== *)
theory Config
  imports Quantity Host_Util "HOL-Library.AList"
begin

text \<open>
  \<^verbatim>\<open>pkg/config\<close> without the quotas: the configuration and its label selector (\<open>config.go\<close>), the
  constants (\<open>const.go\<close>) and the resource-range annotation (\<open>resource_range.go\<close>).  The
  configuration library (viper), the JSON decoder and the selector of apimachinery are parameters.
\<close>

section \<open>Constants\<close>

definition KeyMatrixoneCloudResourceRange :: string where
  "KeyMatrixoneCloudResourceRange = ''matrixone.cloud/resource-range''"
definition AnnotationModifyResource :: string where
  "AnnotationModifyResource = ''matrixone.cloud/modify-resource''"
definition NodeNameAuto :: string where "NodeNameAuto = ''auto''"
definition EnvPodNamespace :: string where "EnvPodNamespace = ''POD_NAMESPACE''"
definition EnvPodName :: string where "EnvPodName = ''HOSTNAME''"
definition K8sFieldNodeName :: string where "K8sFieldNodeName = ''spec.nodeName''"

section \<open>Configuration\<close>

record AppConfig =
  NodeName :: string
  ResourceRangeKey :: string

record MOConfig =
  Labels :: "string list"
  parsedLabels :: string_map

record Configuration =
  App :: AppConfig
  MO :: MOConfig

definition NewAppConfig :: AppConfig where
  "NewAppConfig = \<lparr>NodeName = [], ResourceRangeKey = KeyMatrixoneCloudResourceRange\<rparr>"

definition NewMOConfig :: MOConfig where
  "NewMOConfig = \<lparr>Labels = [], parsedLabels = []\<rparr>"

definition NewConfiguration :: Configuration where
  "NewConfiguration = \<lparr>App = NewAppConfig, MO = NewMOConfig\<rparr>"

definition GetNodeName :: "AppConfig \<Rightarrow> string" where "GetNodeName c = NodeName c"

definition SetNodeName :: "AppConfig \<Rightarrow> string \<Rightarrow> AppConfig" where
  "SetNodeName c name = c\<lparr>NodeName := name\<rparr>"

fun labels_loop :: "string list \<Rightarrow> string_map \<Rightarrow> string_map" where
  "labels_loop [] m = m"
| "labels_loop (e # es) m =
     (if \<not> strings_Contains e (CHR ''='') then labels_loop es (AList.update e [] m)
      else (let kv = strings_Split e (CHR ''='')
            in labels_loop es (AList.update (strings_TrimSpace (kv ! 0)) (strings_TrimSpace (kv ! 1)) m)))"

definition ParseLabelsAsMap :: "string list \<Rightarrow> string_map" where
  "ParseLabelsAsMap labels = labels_loop labels []"

text \<open>apimachinery's \<open>LabelSelectorAsSelector\<close> of a \<open>MatchLabels\<close> map, and \<open>Selector.Matches\<close>.\<close>

record 'sel selector_api =
  LabelSelectorAsSelector :: "string_map \<Rightarrow> go_error + 'sel"
  Matches :: "'sel \<Rightarrow> (string \<rightharpoonup> string) \<Rightarrow> bool"

text \<open>The receiver is a pointer: the parsed labels are kept in it.\<close>

definition GetLabelSelector :: "'sel selector_api \<Rightarrow> MOConfig \<Rightarrow> MOConfig \<times> (go_error + 'sel)" where
  "GetLabelSelector S c =
     (let c' = (if length (parsedLabels c) = 0 then c\<lparr>parsedLabels := ParseLabelsAsMap (Labels c)\<rparr> else c)
      in (c', LabelSelectorAsSelector S (parsedLabels c')))"

definition Validate :: "'sel selector_api \<Rightarrow> Configuration \<Rightarrow> Configuration \<times> go_error option" where
  "Validate S c =
     (case GetLabelSelector S (MO c) of
        (mo, Inl e) \<Rightarrow> (c\<lparr>MO := mo\<rparr>, Some e)
      | (mo, Inr _) \<Rightarrow> (c\<lparr>MO := mo\<rparr>, None))"

text \<open>The package variable \<open>gCfg\<close>.\<close>

type_synonym config_var = "Configuration option"

definition GetConfiguration :: "config_var \<Rightarrow> config_var \<times> Configuration" where
  "GetConfiguration gCfg =
     (case gCfg of None \<Rightarrow> (Some NewConfiguration, NewConfiguration) | Some c \<Rightarrow> (Some c, c))"

definition setConfiguration :: "Configuration \<Rightarrow> config_var" where
  "setConfiguration cfg = Some cfg"

text \<open>viper: a store that reads a file, lists its keys, sets a key, and fills a configuration.\<close>

record 'v viper_api =
  SetConfigFile :: "string \<Rightarrow> 'v \<Rightarrow> 'v"
  ReadInConfig :: "'v \<Rightarrow> go_error + 'v"
  AllKeys :: "'v \<Rightarrow> string list"
  viper_Set :: "string \<Rightarrow> string \<Rightarrow> 'v \<Rightarrow> 'v"
  Unmarshal :: "'v \<Rightarrow> Configuration \<Rightarrow> go_error + Configuration"

fun env_loop :: "'v viper_api \<Rightarrow> os_env \<Rightarrow> string list \<Rightarrow> 'v \<Rightarrow> 'v" where
  "env_loop V os [] v = v"
| "env_loop V os (key # keys) v =
     (let value = Getenv os key
      in env_loop V os keys (if value \<noteq> [] then viper_Set V key value v else v))"

definition InitConfiguration ::
    "'v viper_api \<Rightarrow> os_env \<Rightarrow> string \<Rightarrow> 'v \<Rightarrow> config_var \<Rightarrow> config_var \<times> (go_error + Configuration)" where
  "InitConfiguration V os cfgPath v gCfg =
     (case ReadInConfig V (SetConfigFile V cfgPath v) of
        Inl e \<Rightarrow> (gCfg, Inl e)
      | Inr v' \<Rightarrow>
          (case Unmarshal V (env_loop V os (AllKeys V v') v') NewConfiguration of
             Inl e \<Rightarrow> (gCfg, Inl e)
           | Inr cfg \<Rightarrow> (setConfiguration cfg, Inr cfg)))"

section \<open>Resource ranges\<close>

record 'q Resource =
  resCpu :: string
  resMemory :: string
  cpuVal :: 'q
  memoryVal :: 'q

record 'q ResourceRange =
  Min :: "'q Resource"
  Max :: "'q Resource"

definition GetCpuVal :: "'q Resource \<Rightarrow> 'q" where "GetCpuVal r = cpuVal r"
definition GetMemoryVal :: "'q Resource \<Rightarrow> 'q" where "GetMemoryVal r = memoryVal r"

text \<open>A failed parse leaves the zero quantity in the field.\<close>

definition Resource_Parse :: "'q quantity_api \<Rightarrow> 'q Resource \<Rightarrow> 'q Resource \<times> go_error option" where
  "Resource_Parse Q r =
     (case ParseQuantity Q (resCpu r) of
        Inl e \<Rightarrow> (r\<lparr>cpuVal := ZeroQuantity Q\<rparr>, Some e)
      | Inr c \<Rightarrow>
          (case ParseQuantity Q (resMemory r) of
             Inl e \<Rightarrow> (r\<lparr>cpuVal := c, memoryVal := ZeroQuantity Q\<rparr>, Some e)
           | Inr m \<Rightarrow> (r\<lparr>cpuVal := c, memoryVal := m\<rparr>, None)))"

definition zero_range :: "'q quantity_api \<Rightarrow> 'q ResourceRange" where
  "zero_range Q =
     (let z = \<lparr>resCpu = [], resMemory = [], cpuVal = ZeroQuantity Q, memoryVal = ZeroQuantity Q\<rparr>
      in \<lparr>Min = z, Max = z\<rparr>)"

text \<open>The decoder gets the bytes and the value to fill.\<close>

definition ParseResourceRange ::
    "'q quantity_api \<Rightarrow> (char list option \<Rightarrow> 'q ResourceRange \<Rightarrow> go_error + 'q ResourceRange) \<Rightarrow>
       string \<Rightarrow> go_error + 'q ResourceRange" where
  "ParseResourceRange Q json_Unmarshal jsonStr =
     bind_err (json_Unmarshal (UnsafeStringToBytes jsonStr) (zero_range Q)) (\<lambda>r.
       case Resource_Parse Q (Min r) of
         (_, Some e) \<Rightarrow> Inl e
       | (mn, None) \<Rightarrow>
           (case Resource_Parse Q (Max r) of
              (_, Some e) \<Rightarrow> Inl e
            | (mx, None) \<Rightarrow> Inr (r\<lparr>Min := mn, Max := mx\<rparr>)))"

section \<open>Lemmas\<close>

text \<open>
  What one label means: the text before the first \<open>=\<close> and the text between the first and the
  second, both trimmed; a label without \<open>=\<close> is a key, not trimmed, with the empty value.
\<close>

definition label_entry :: "string \<Rightarrow> string \<times> string" where
  "label_entry e =
     (let eq = (\<lambda>c. c = CHR ''='') in
      case dropWhile (\<lambda>c. \<not> eq c) e of
        [] \<Rightarrow> (e, [])
      | _ # rest \<Rightarrow> (strings_TrimSpace (takeWhile (\<lambda>c. \<not> eq c) e),
                    strings_TrimSpace (takeWhile (\<lambda>c. \<not> eq c) rest)))"

lemma hd_split_by: "split_by p cs ! 0 = takeWhile (\<lambda>c. \<not> p c) cs"
proof (induction cs)
  case (Cons c cs)
  then show ?case by (cases "split_by p cs") auto
qed simp

lemma split_by_second:
  "dropWhile (\<lambda>c. \<not> p c) cs = s # rest \<Longrightarrow> split_by p cs ! 1 = takeWhile (\<lambda>c. \<not> p c) rest"
proof (induction cs)
  case (Cons c cs)
  then show ?case
    using hd_split_by [of p cs] by (cases "split_by p cs") (auto simp: nth_Cons' split: if_splits)
qed simp

lemma labels_loop_step:
  "labels_loop (e # es) m = labels_loop es (AList.update (fst (label_entry e)) (snd (label_entry e)) m)"
proof (cases "CHR ''='' \<in> set e")
  case True
  then obtain s rest where d: "dropWhile (\<lambda>c. c \<noteq> CHR ''='') e = s # rest"
    by (cases "dropWhile (\<lambda>c. c \<noteq> CHR ''='') e") (auto simp: dropWhile_eq_Nil_conv)
  then show ?thesis
    using True split_by_second [of "\<lambda>c. c = CHR ''=''" e s rest]
    by (simp add: label_entry_def strings_Contains_def strings_Split_def hd_split_by)
next
  case False
  then have "dropWhile (\<lambda>c. c \<noteq> CHR ''='') e = []"
    by (auto simp: dropWhile_eq_Nil_conv)
  then show ?thesis
    by (simp only: label_entry_def Let_def list.case fst_conv snd_conv) (simp add: strings_Contains_def False)
qed

declare labels_loop.simps(2) [simp del]

lemma labels_loop_map_of:
  "map_of (labels_loop ls m) = map_of m ++ map_of (rev (map label_entry ls))"
proof (induction ls arbitrary: m)
  case (Cons e es)
  show ?case
    by (rule ext) (auto simp: labels_loop_step Cons.IH update_conv' map_add_def split: option.splits prod.splits)
qed simp

lemma labels_loop_distinct: "distinct (map fst m) \<Longrightarrow> distinct (map fst (labels_loop ls m))"
  by (induction ls arbitrary: m) (simp_all add: labels_loop_step distinct_update)

text \<open>What apimachinery documents of a selector with \<open>MatchLabels\<close> only: every entry is required.\<close>

locale label_selector =
  fixes S :: "'sel selector_api"
  assumes matches: "LabelSelectorAsSelector S m = Inr sel \<Longrightarrow> distinct (map fst m) \<Longrightarrow>
    Matches S sel ls \<longleftrightarrow> (\<forall>(k, v)\<in>set m. ls k = Some v)"
begin

lemma matches_map:
  "LabelSelectorAsSelector S m = Inr sel \<Longrightarrow> distinct (map fst m) \<Longrightarrow>
     Matches S sel ls \<longleftrightarrow> map_of m \<subseteq>\<^sub>m ls"
  by (auto simp: matches map_le_def dom_def split: prod.splits)

end

definition ref_selector :: "string_map selector_api" where
  "ref_selector = \<lparr>LabelSelectorAsSelector = Inr, Matches = (\<lambda>m ls. list_all (\<lambda>(k, v). ls k = Some v) m)\<rparr>"

interpretation ref_sel: label_selector ref_selector
  by unfold_locales (auto simp: ref_selector_def list_all_iff)

text \<open>The settings of a file under an environment.\<close>

definition env_overlay :: "os_env \<Rightarrow> (string \<Rightarrow> 'x) \<Rightarrow> (string \<rightharpoonup> 'x) \<Rightarrow> string \<rightharpoonup> 'x" where
  "env_overlay os text_value m =
     (\<lambda>k. case m k of
            None \<Rightarrow> None
          | Some x \<Rightarrow> Some (if Getenv os k = [] then x else text_value (Getenv os k)))"

text \<open>
  What viper documents of a store: its settings are a map from keys to values, of which \<open>AllKeys\<close> lists
  the keys, in some order; setting a key overrides it, whatever the file says; a configuration is filled from
  the settings, and from nothing else.  \<open>setting\<close> is the abstraction, \<open>text\<close> a string as a value.
\<close>

locale viper_store =
  fixes V :: "'v viper_api"
    and setting :: "'v \<Rightarrow> string \<rightharpoonup> 'x"
    and text_value :: "string \<Rightarrow> 'x"
  assumes keys: "set (AllKeys V v) = dom (setting v)"
    and set_key: "k \<in> dom (setting v) \<Longrightarrow> setting (viper_Set V k s v) = (setting v)(k \<mapsto> text_value s)"
    and unmarshal: "setting v = setting w \<Longrightarrow> Unmarshal V v c = Unmarshal V w c"
begin

text \<open>The file's settings, overlaid with the variables of the environment that are not empty.\<close>

lemma setting_env_loop:
  "set ks \<subseteq> dom (setting v) \<Longrightarrow>
     setting (env_loop V os ks v) =
       (\<lambda>k. if k \<in> set ks \<and> Getenv os k \<noteq> [] then Some (text_value (Getenv os k)) else setting v k)"
proof (induction ks arbitrary: v)
  case (Cons k ks)
  show ?case
  proof (cases "Getenv os k = []")
    case True
    with Cons show ?thesis by (simp add: Let_def fun_eq_iff)
  next
    case False
    have s: "setting (viper_Set V k (Getenv os k) v) = (setting v)(k \<mapsto> text_value (Getenv os k))"
      using Cons.prems by (simp add: set_key)
    then have "set ks \<subseteq> dom (setting (viper_Set V k (Getenv os k) v))"
      using Cons.prems by auto
    from Cons.IH [OF this] False show ?thesis by (simp add: Let_def s fun_eq_iff)
  qed
qed simp

lemma overlay:
  assumes "set ks = set (AllKeys V v)"
  shows "setting (env_loop V os ks v) = env_overlay os text_value (setting v)"
proof -
  have "set ks \<subseteq> dom (setting v)" using assms keys [of v] by simp
  then show ?thesis
    unfolding setting_env_loop [OF \<open>set ks \<subseteq> dom (setting v)\<close>] env_overlay_def assms keys
    by (auto simp: fun_eq_iff split: option.splits)
qed

end

text \<open>A concrete store: the flattened keys and texts of a file, and what the three fields are filled from.\<close>

definition ref_viper :: "string_map \<Rightarrow> string_map viper_api" where
  "ref_viper file =
     \<lparr>SetConfigFile = (\<lambda>_ v. v), ReadInConfig = (\<lambda>_. Inr file), AllKeys = map fst, viper_Set = AList.update,
      Unmarshal = (\<lambda>v c. Inr (c
        \<lparr>App := \<lparr>NodeName = (case map_of v ''app.nodename'' of None \<Rightarrow> NodeName (App c) | Some x \<Rightarrow> x),
                ResourceRangeKey = (case map_of v ''app.resourcerange'' of None \<Rightarrow> ResourceRangeKey (App c) | Some x \<Rightarrow> x)\<rparr>,
         MO := (MO c)\<lparr>Labels := (case map_of v ''mo.labels'' of None \<Rightarrow> Labels (MO c) | Some x \<Rightarrow> strings_Split x (CHR '',''))\<rparr>\<rparr>))\<rparr>"

interpretation ref_store: viper_store "ref_viper file" map_of "\<lambda>s. s"
  by unfold_locales (simp_all add: ref_viper_def dom_map_of_conv_image_fst update_conv')

lemma no_error_Inr [go_outcome]:
  "(case p of (x, None) \<Rightarrow> f x | (x, Some e) \<Rightarrow> Inl e) = Inr r \<longleftrightarrow> (\<exists>x. p = (x, None) \<and> f x = Inr r)"
  by (cases p; cases "snd p") auto

lemma Resource_Parse_None:
  "Resource_Parse Q r = (r', None) \<longleftrightarrow>
     (\<exists>c m. ParseQuantity Q (resCpu r) = Inr c \<and> ParseQuantity Q (resMemory r) = Inr m \<and>
            r' = r\<lparr>cpuVal := c, memoryVal := m\<rparr>)"
  by (auto simp: Resource_Parse_def split: sum.splits)

section \<open>Properties\<close>

text \<open>
  C36: the label selector.  For a configuration whose labels were not parsed yet, the selector
  matches exactly the pods whose labels agree with every configured label, read by
  \<open>label_entry\<close> (later labels override earlier ones with the same key).
\<close>

theorem selector_matches:
  assumes "label_selector S" "GetLabelSelector S c = (c', Inr sel)" "parsedLabels c = []"
  shows "Matches S sel ls \<longleftrightarrow> map_of (rev (map label_entry (Labels c))) \<subseteq>\<^sub>m ls"
proof -
  have "distinct (map fst (ParseLabelsAsMap (Labels c)))"
    by (simp add: ParseLabelsAsMap_def labels_loop_distinct)
  then show ?thesis
    using assms label_selector.matches_map [OF assms(1)]
    by (auto simp: GetLabelSelector_def ParseLabelsAsMap_def labels_loop_map_of)
qed

theorem selector_matches_witness:
  "Matches ref_selector [(''app'', ''mo''), (''tier'', ''cn'')] [''app'' \<mapsto> ''mo'', ''tier'' \<mapsto> ''cn''] \<and>
   \<not> Matches ref_selector [(''app'', ''mo''), (''tier'', ''cn'')] [''app'' \<mapsto> ''mo'']"
proof -
  let ?c = "\<lparr>Labels = [''app=mo'', '' tier = cn''], parsedLabels = []\<rparr>"
  have g: "GetLabelSelector ref_selector ?c =
      (?c\<lparr>parsedLabels := [(''app'', ''mo''), (''tier'', ''cn'')]\<rparr>, Inr [(''app'', ''mo''), (''tier'', ''cn'')])"
    by (simp add: GetLabelSelector_def ParseLabelsAsMap_def labels_loop.simps(2) strings_Contains_def
        strings_Split_def strings_TrimSpace_def is_space_def ref_selector_def)
  have e: "label_entry ''app=mo'' = (''app'', ''mo'')" "label_entry '' tier = cn'' = (''tier'', ''cn'')"
    by (simp_all add: label_entry_def strings_TrimSpace_def is_space_def)
  show ?thesis
    using selector_matches [OF ref_sel.label_selector_axioms g] by (simp add: e map_le_def)
qed

text \<open>
  The parsed labels are a cache: a second request for the selector returns the same selector
  and leaves the configuration as the first left it, and \<open>Validate\<close> fails exactly when the
  request fails.
\<close>

theorem selector_cached:
  "GetLabelSelector S (fst (GetLabelSelector S c)) = GetLabelSelector S c \<and>
   snd (Validate S cfg) = (case snd (GetLabelSelector S (MO cfg)) of Inl e \<Rightarrow> Some e | Inr _ \<Rightarrow> None) \<and>
   fst (Validate S cfg) = cfg\<lparr>MO := fst (GetLabelSelector S (MO cfg))\<rparr>"
  by (auto simp: GetLabelSelector_def Validate_def Let_def split: sum.splits prod.splits)

text \<open>
  Loading the configuration.  A file that cannot be read or decoded leaves the package
  variable untouched and is reported; otherwise the decoded configuration, with the default
  annotation key and empty labels for what the file does not set, is what every later
  \<open>GetConfiguration\<close> returns.  Every key of the file that the environment defines was set to the
  value of the environment, in the order of the keys.
\<close>

theorem init_configuration:
  "InitConfiguration V os path v g =
     (case ReadInConfig V (SetConfigFile V path v) of
        Inl e \<Rightarrow> (g, Inl e)
      | Inr v' \<Rightarrow>
          (case Unmarshal V (fold (\<lambda>k. viper_Set V k (Getenv os k)) [k \<leftarrow> AllKeys V v'. Getenv os k \<noteq> []] v')
                  \<lparr>App = \<lparr>NodeName = [], ResourceRangeKey = ''matrixone.cloud/resource-range''\<rparr>,
                   MO = \<lparr>Labels = [], parsedLabels = []\<rparr>\<rparr> of
             Inl e \<Rightarrow> (g, Inl e)
           | Inr cfg \<Rightarrow> (fst (GetConfiguration (Some cfg)), Inr (snd (GetConfiguration (Some cfg))))))"
proof -
  have "env_loop V os ks u = fold (\<lambda>k. viper_Set V k (Getenv os k)) [k \<leftarrow> ks. Getenv os k \<noteq> []] u" for ks u
    by (induction ks arbitrary: u) (simp_all add: Let_def)
  then show ?thesis
    by (simp add: InitConfiguration_def NewConfiguration_def NewAppConfig_def NewMOConfig_def
        KeyMatrixoneCloudResourceRange_def setConfiguration_def GetConfiguration_def split: sum.splits)
qed

lemma InitConfiguration_overlay:
  assumes "viper_store V setting text_value" "ReadInConfig V (SetConfigFile V path v) = Inr v'"
    and "setting w = env_overlay os text_value (setting v')"
  shows "InitConfiguration V os path v g =
      (case Unmarshal V w NewConfiguration of Inl e \<Rightarrow> (g, Inl e) | Inr cfg \<Rightarrow> (Some cfg, Inr cfg))"
proof -
  have "Unmarshal V (env_loop V os (AllKeys V v') v') c = Unmarshal V w c" for c
    by (rule viper_store.unmarshal [OF assms(1)]) (simp add: viper_store.overlay [OF assms(1) refl] assms(3))
  then show ?thesis
    by (simp add: InitConfiguration_def assms(2) setConfiguration_def split: sum.split)
qed

text \<open>
  C37: the environment overrides the file.  When the file was read, the configuration is what any store holds whose settings are
  those of the file, each replaced by the environment variable of its name where that is not empty; a variable
  adds no key.  The order in which viper lists the keys does not matter.  A file that cannot be read, or
  settings that cannot be decoded, are the error of the call and leave the package variable as it was.
\<close>

theorem env_overrides_file:
  assumes "viper_store V setting text_value"
  shows "(\<forall>e. ReadInConfig V (SetConfigFile V path v) = Inl e \<longrightarrow> InitConfiguration V os path v g = (g, Inl e)) \<and>
    (\<forall>v' w. ReadInConfig V (SetConfigFile V path v) = Inr v' \<and> setting w = env_overlay os text_value (setting v') \<longrightarrow>
       InitConfiguration V os path v g =
         (case Unmarshal V w NewConfiguration of Inl e \<Rightarrow> (g, Inl e) | Inr cfg \<Rightarrow> (Some cfg, Inr cfg)) \<and>
       (\<forall>ks. set ks = set (AllKeys V v') \<longrightarrow> Unmarshal V (env_loop V os ks v') c = Unmarshal V w c))"
proof (intro conjI allI impI)
  fix e
  assume "ReadInConfig V (SetConfigFile V path v) = Inl e"
  then show "InitConfiguration V os path v g = (g, Inl e)"
    by (simp add: InitConfiguration_def)
next
  fix v' w
  assume a: "ReadInConfig V (SetConfigFile V path v) = Inr v' \<and> setting w = env_overlay os text_value (setting v')"
  then show "InitConfiguration V os path v g =
      (case Unmarshal V w NewConfiguration of Inl e \<Rightarrow> (g, Inl e) | Inr cfg \<Rightarrow> (Some cfg, Inr cfg))"
    using InitConfiguration_overlay [OF assms] by blast
  show "Unmarshal V (env_loop V os ks v') c = Unmarshal V w c" if "set ks = set (AllKeys V v')" for ks
    by (rule viper_store.unmarshal [OF assms]) (simp add: viper_store.overlay [OF assms that] a)
qed

theorem env_overrides_file_witness:
  "snd (InitConfiguration (ref_viper [(''app.nodename'', ''auto''), (''mo.labels'', ''app=mo'')])
      (ref_os [] \<lparr>Getenv := (\<lambda>k. if k = ''app.nodename'' then ''n1'' else if k = ''app.resourcerange'' then ''x'' else [])\<rparr>)
      ''cfg.yaml'' [] None) =
    Inr \<lparr>App = \<lparr>NodeName = ''n1'', ResourceRangeKey = ''matrixone.cloud/resource-range''\<rparr>,
      MO = \<lparr>Labels = [''app=mo''], parsedLabels = []\<rparr>\<rparr> \<and>
   InitConfiguration ((ref_viper []) \<lparr>ReadInConfig := (\<lambda>_. Inl (LibError ''no file''))\<rparr>) (ref_os []) ''cfg.yaml'' []
      (Some NewConfiguration) = (Some NewConfiguration, Inl (LibError ''no file''))"
  (is "snd (InitConfiguration ?V ?os _ _ _) = _ \<and> InitConfiguration ?U _ _ _ _ = _")
proof
  have o: "map_of [(''app.nodename'', ''n1''), (''mo.labels'', ''app=mo'')] =
      env_overlay ?os (\<lambda>s. s) (map_of [(''app.nodename'', ''auto''), (''mo.labels'', ''app=mo'')])"
    by (rule ext) (simp add: env_overlay_def)
  have r: "ReadInConfig ?V (SetConfigFile ?V ''cfg.yaml'' []) = Inr [(''app.nodename'', ''auto''), (''mo.labels'', ''app=mo'')]"
    by (simp add: ref_viper_def)
  have "InitConfiguration ?V ?os ''cfg.yaml'' [] None =
      (case Unmarshal ?V [(''app.nodename'', ''n1''), (''mo.labels'', ''app=mo'')] NewConfiguration of
         Inl e \<Rightarrow> (None, Inl e) | Inr cfg \<Rightarrow> (Some cfg, Inr cfg))"
    using env_overrides_file [OF ref_store.viper_store_axioms, of "[(''app.nodename'', ''auto''), (''mo.labels'', ''app=mo'')]"
        "''cfg.yaml''" "[]" ?os None] r o by blast
  then show "snd (InitConfiguration ?V ?os ''cfg.yaml'' [] None) =
    Inr \<lparr>App = \<lparr>NodeName = ''n1'', ResourceRangeKey = ''matrixone.cloud/resource-range''\<rparr>,
      MO = \<lparr>Labels = [''app=mo''], parsedLabels = []\<rparr>\<rparr>"
    by (simp add: ref_viper_def NewConfiguration_def NewAppConfig_def NewMOConfig_def KeyMatrixoneCloudResourceRange_def
        strings_Split_def)
  have s: "viper_store ?U map_of (\<lambda>s. s)"
    by unfold_locales (simp_all add: ref_viper_def dom_map_of_conv_image_fst update_conv')
  show "InitConfiguration ?U (ref_os []) ''cfg.yaml'' [] (Some NewConfiguration) = (Some NewConfiguration, Inl (LibError ''no file''))"
    using env_overrides_file [OF s, of "''cfg.yaml''" "[]" "ref_os []" "Some NewConfiguration"] by (simp add: ref_viper_def)
qed

text \<open>
  A resource range is accepted exactly when the annotation decodes and its four quantities
  parse; the result keeps the texts and holds their values.
\<close>

theorem resource_range_accepted:
  "ParseResourceRange Q U s = Inr r \<longleftrightarrow>
     (\<exists>d c1 m1 c2 m2.
        U (if s = [] then None else Some s) (zero_range Q) = Inr d \<and>
        ParseQuantity Q (resCpu (Min d)) = Inr c1 \<and> ParseQuantity Q (resMemory (Min d)) = Inr m1 \<and>
        ParseQuantity Q (resCpu (Max d)) = Inr c2 \<and> ParseQuantity Q (resMemory (Max d)) = Inr m2 \<and>
        r = d\<lparr>Min := (Min d)\<lparr>cpuVal := c1, memoryVal := m1\<rparr>, Max := (Max d)\<lparr>cpuVal := c2, memoryVal := m2\<rparr>\<rparr>)"
proof -
  have "ParseResourceRange Q U s = Inr r \<longleftrightarrow>
      (\<exists>d mn mx. U (if s = [] then None else Some s) (zero_range Q) = Inr d \<and>
         Resource_Parse Q (Min d) = (mn, None) \<and> Resource_Parse Q (Max d) = (mx, None) \<and>
         r = d\<lparr>Min := mn, Max := mx\<rparr>)"
    by (auto simp: ParseResourceRange_def UnsafeStringToBytes_def go_outcome)
  then show ?thesis by (auto simp: Resource_Parse_None)
qed

end
