(* ===== verification/Pod_Worker.thy ===== *)
theory Pod_Worker
  imports Quota Scale Kubelet_Cmd Config
begin

text \<open>
  \<^verbatim>\<open>pkg/pod\<close>: the worker of one pod (\<open>worker.go\<close>) and the name it is cached by (\<open>util.go\<close>).  The
  worker's \<open>select\<close> loop is a step relation over its state, the toolkit, the package variables it
  reaches through its calls, the cgroup files, the cluster and the error log.
\<close>

section \<open>Names\<close>

definition GetNamespacedName :: "'q pod \<Rightarrow> string" where
  "GetNamespacedName pod = path_Join [pNamespace pod, pName pod]"

section \<open>The manager interface\<close>

text \<open>The one implementation; its operations on pods are not implemented in the source.\<close>

datatype manager = TheDaemonSetManager

definition NewPod :: "manager \<Rightarrow> 'q pod \<Rightarrow> go_error option outcome" where
  "NewPod m pod = (case m of TheDaemonSetManager \<Rightarrow> Panics (PanicText ''implement me''))"

definition DeletePod :: "manager \<Rightarrow> 'q pod \<Rightarrow> go_error option outcome" where
  "DeletePod m pod = (case m of TheDaemonSetManager \<Rightarrow> Panics (PanicText ''implement me''))"

definition EvictPod :: "manager \<Rightarrow> 'q pod \<Rightarrow> unit outcome" where
  "EvictPod m pod = (case m of TheDaemonSetManager \<Rightarrow> Panics (PanicText ''implement me''))"

text \<open>The package variable \<open>gMgr\<close>: no file of the program assigns it.\<close>

definition gMgr :: "manager option" where "gMgr = None"

definition GetManger :: "manager option" where "GetManger = gMgr"

text \<open>A method call on an interface value: it panics when the interface is nil.\<close>

definition on_manager :: "manager option \<Rightarrow> (manager \<Rightarrow> 'a outcome) \<Rightarrow> 'a outcome" where
  "on_manager m call = (case m of None \<Rightarrow> Panics NilDeref | Some x \<Rightarrow> call x)"

section \<open>Events and workers\<close>

datatype EventType =
    EventTypeUnknown | EventTypeNew | EventTypeUpdate | EventTypeDelete | EventTypeScaleUp | EventTypeScaleDown

record 'q Event =
  ev_typ :: EventType
  ev_pod :: "'q pod option"
  scaleType :: ScaleType

text \<open>A channel is nil (\<^const>\<open>None\<close>) or holds the events sent and not received yet.\<close>

record 'q Worker =
  wkEventC :: "'q Event list option"
  wkPod :: "'q pod"
  wkQuota :: "'q Quota"
  wkInterval :: int

definition DefaultCheckInterval :: int where
  "DefaultCheckInterval = 3 * 60 * 1000000000"

text \<open>The literal names neither \<open>eventC\<close> nor \<open>quota\<close>: they have their zero values.\<close>

definition NewWorker :: "'q quantity_api \<Rightarrow> 'q pod \<Rightarrow> 'q Worker" where
  "NewWorker Q pod =
     \<lparr>wkEventC = None, wkPod = pod, wkQuota = \<lparr>Cpu = ZeroQuantity Q, Memory = ZeroQuantity Q\<rparr>,
      wkInterval = DefaultCheckInterval\<rparr>"

text \<open>A send on a nil channel blocks forever.\<close>

definition SendEvent :: "'q Worker \<Rightarrow> 'q Event \<Rightarrow> 'q Worker outcome" where
  "SendEvent w e =
     (case wkEventC w of None \<Rightarrow> Blocks | Some q \<Rightarrow> Returns (w\<lparr>wkEventC := Some (q @ [e])\<rparr>))"

section \<open>Updating the pod in the cluster\<close>

text \<open>
  \<open>Limits.Cpu()\<close> returns a pointer.  A \<open>ResourceList\<close> is a Go map of \<open>Quantity\<close> values, whose elements have no
  address, so the pointer is to a new cell that holds the value; \<open>cells\<close> are these cells.
\<close>

definition new_cell :: "'q \<Rightarrow> 'q list \<Rightarrow> nat \<times> 'q list" where
  "new_cell q cells = (length cells, cells @ [q])"

definition update_cell :: "nat \<Rightarrow> ('q \<Rightarrow> 'q) \<Rightarrow> 'q list \<Rightarrow> 'q list" where
  "update_cell p f cells = cells[p := f (cells ! p)]"

text \<open>\<open>Resources.Limits.Cpu().SetMilli(...)\<close> and its three companions.\<close>

definition set_at_new_cell :: "'q \<Rightarrow> ('q \<Rightarrow> 'q) \<Rightarrow> 'q list \<Rightarrow> 'q list" where
  "set_at_new_cell q f cells = (case new_cell q cells of (p, cells') \<Rightarrow> update_cell p f cells')"

definition set_resources ::
    "'q quantity_api \<Rightarrow> 'q quota_vars \<Rightarrow> 'q Quota \<Rightarrow> 'q container \<Rightarrow> 'q list \<Rightarrow> 'q list" where
  "set_resources Q V quota c cells =
     (let milli = (\<lambda>q. SetMilli Q q (MilliValue Q (Cpu quota)));
          mem = (\<lambda>q. SetValue Q q (wrap64 (Value Q (Memory quota) + Value Q (DeltaMemory V))));
          cells1 = set_at_new_cell (ListCpu Q (cLimits c)) milli cells;
          cells2 = set_at_new_cell (ListCpu Q (cRequests c)) milli cells1;
          cells3 = set_at_new_cell (ListMemory Q (cLimits c)) mem cells2
      in set_at_new_cell (ListMemory Q (cRequests c)) mem cells3)"

text \<open>The loop over the containers: the slice itself is never written.\<close>

fun containers_loop ::
    "'q quantity_api \<Rightarrow> 'q quota_vars \<Rightarrow> 'q Quota \<Rightarrow> 'q container list \<Rightarrow> bool \<times> 'q list \<Rightarrow> bool \<times> 'q list" where
  "containers_loop Q V quota [] acc = acc"
| "containers_loop Q V quota (c # cs) (found, cells) =
     (if cName c = ''main'' then containers_loop Q V quota cs (True, set_resources Q V quota c cells)
      else containers_loop Q V quota cs (found, cells))"

text \<open>The mutate function: the pod it leaves and its error, which is always nil.\<close>

definition mutate_pod ::
    "'q quantity_api \<Rightarrow> 'q quota_vars \<Rightarrow> 'q Quota \<Rightarrow> string \<Rightarrow> 'q pod \<Rightarrow> 'q pod \<times> go_error option" where
  "mutate_pod Q V quota now cr =
     (case containers_loop Q V quota (pContainers cr) (False, []) of
        (found, cells) \<Rightarrow>
          if \<not> found then (cr, None)
          else (let annotations = (case pAnnotations cr of None \<Rightarrow> Map.empty | Some m \<Rightarrow> m)
                in (cr\<lparr>pAnnotations := Some (annotations(AnnotationModifyResource \<mapsto> now))\<rparr>, None)))"

text \<open>The cluster, and \<open>controllerutil.CreateOrUpdate\<close>: it gets the object and the mutate function.\<close>

type_synonym 'q cluster = "string \<times> string \<rightharpoonup> 'q pod"
type_synonym 'q create_or_update =
  "'q cluster \<Rightarrow> 'q pod \<Rightarrow> ('q pod \<Rightarrow> 'q pod \<times> go_error option) \<Rightarrow> 'q cluster \<times> go_error option"

definition updatePodQuota ::
    "'q create_or_update \<Rightarrow> 'q quantity_api \<Rightarrow> 'q quota_vars \<Rightarrow> string \<Rightarrow> 'q cluster \<Rightarrow> 'q Worker \<Rightarrow> 'q Quota \<Rightarrow>
       'q cluster \<times> log_line list \<times> go_error option" where
  "updatePodQuota cou Q V now cl w quota =
     (let cr = empty_pod\<lparr>pName := pName (wkPod w), pNamespace := pNamespace (wkPod w)\<rparr>
      in case cou cl cr (mutate_pod Q V quota now) of
           (cl', Some e) \<Rightarrow> (cl', [LogError (Some e) ''failed to pod Resources''], Some e)
         | (cl', None) \<Rightarrow> (cl', [], None))"

section \<open>The state of a worker's loop\<close>

text \<open>
  What the loop uses and does not change: the Kubernetes packages, the quota table, the cgroup
  writer and the client.  The state has the server and the mount points found at the start of the loop.
\<close>

record ('q, 'o, 'fs) worker_env =
  eWorld :: "('q, 'o) kube_world"
  eQuotas :: "'q quota_vars"
  eWrite :: "'fs write_cgroup"
  eClient :: "'q create_or_update"

record ('q, 'o, 'fs) worker_state =
  sWorker :: "'q Worker"
  sServer :: "'o KubeletServer option"
  sMounts :: "string \<rightharpoonup> string"
  sTicker :: ticker
  sToolkit :: "LinuxToolkit option"
  sKube :: "'o kubelet_vars"
  sScale :: scale_vars
  sFs :: 'fs
  sCluster :: "'q cluster"
  sLog :: "log_line list"
  sSends :: "'q Event list"

text \<open>Appending to the error log.\<close>

definition add_log :: "log_line list \<Rightarrow> ('q, 'o, 'fs) worker_state \<Rightarrow> ('q, 'o, 'fs) worker_state" where
  "add_log ls st = st\<lparr>sLog := sLog st @ ls\<rparr>"

section \<open>Handling one event\<close>

definition handle_new_pod ::
    "('q, 'o, 'fs) worker_env \<Rightarrow> ('q, 'o, 'fs) worker_state \<Rightarrow> 'q Event \<Rightarrow> ('q, 'o, 'fs) worker_state run" where
  "handle_new_pod P st e =
     (let Q = wQ (eWorld P) in
      case ev_pod e of
        None \<Rightarrow> Crashed NilDeref
      | Some pod \<Rightarrow>
          (case GetQuotaFromPod Q pod of
             (quota, False) \<Rightarrow> Waiting (add_log (LogError (Some ErrNotFound) ''pod not found main container'' # TagNeedAlert) st)
           | (quota, True) \<Rightarrow>
               (let w = (sWorker st)\<lparr>wkPod := pod, wkQuota := GetFloorMemoryQuota Q (eQuotas P) quota\<rparr>;
                    st1 = st\<lparr>sWorker := w\<rparr>
                in settle st1 (GetQuotaConfig Q (eQuotas P) (wkQuota w)) (\<lambda>quotaConfig.
                    case sToolkit st of
                      None \<Rightarrow> Crashed NilDeref
                    | Some toolkit \<Rightarrow>
                        (case SetCgroupLimit (wA (eWorld P)) Q (eWrite P) (sFs st) toolkit (wkQuota w) quotaConfig of
                           (fs', alerts, err) \<Rightarrow>
                             Waiting (add_log (alerts @ [LogError err ''failed to set cgroup limit'']) (st1\<lparr>sFs := fs'\<rparr>)))))))"

definition next_quota :: "'q quantity_api \<Rightarrow> 'q quota_vars \<Rightarrow> 'q Event \<Rightarrow> 'q Quota \<Rightarrow> 'q Quota" where
  "next_quota Q V e quota =
     (if ev_typ e = EventTypeScaleUp
      then (if scaleType e = ScaleUpCpu then GetScaleUpCpuQuota Q V quota else GetScaleUpMemoryQuota Q V quota)
      else (if scaleType e = ScaleDownCpu then GetScaleDownCpuQuota Q V quota else GetScaleDownMemoryQuota Q V quota))"

text \<open>The two scale cases: the error of \<open>updatePodQuota\<close> is dropped, the worker's quota is kept.\<close>

definition handle_scale ::
    "('q, 'o, 'fs) worker_env \<Rightarrow> string \<Rightarrow> ('q, 'o, 'fs) worker_state \<Rightarrow> 'q Event \<Rightarrow> ('q, 'o, 'fs) worker_state run" where
  "handle_scale P now st e =
     (let Q = wQ (eWorld P);
          nextQuota = next_quota Q (eQuotas P) e (wkQuota (sWorker st))
      in case updatePodQuota (eClient P) Q (eQuotas P) now (sCluster st) (sWorker st) nextQuota of
           (cl, logs, err) \<Rightarrow> Waiting (add_log logs (st\<lparr>sCluster := cl\<rparr>)))"

definition handle_event ::
    "('q, 'o, 'fs) worker_env \<Rightarrow> string \<Rightarrow> ('q, 'o, 'fs) worker_state \<Rightarrow> 'q Event \<Rightarrow> ('q, 'o, 'fs) worker_state run" where
  "handle_event P now st e =
     (case ev_typ e of
        EventTypeNew \<Rightarrow> handle_new_pod P st e
      | EventTypeUpdate \<Rightarrow> handle_new_pod P st e
      | EventTypeDelete \<Rightarrow>
          settle st (on_manager GetManger (\<lambda>m. EvictPod m (wkPod (sWorker st)))) (\<lambda>_. Ended st)
      | EventTypeScaleUp \<Rightarrow> handle_scale P now st e
      | EventTypeScaleDown \<Rightarrow> handle_scale P now st e
      | EventTypeUnknown \<Rightarrow> Waiting (add_log [LogError (Some ErrUnknownEvent) ''pod worker catch unknown event''] st))"

section \<open>Handling one tick\<close>

text \<open>The two checks; each positive answer starts a goroutine that sends an event.\<close>

definition request :: "EventType \<Rightarrow> bool \<times> ScaleType \<Rightarrow> 'q Event list" where
  "request t answer =
     (case answer of (scale, ty) \<Rightarrow>
        if scale then [\<lparr>ev_typ = t, ev_pod = None, scaleType = ty\<rparr>] else [])"

definition check_scale ::
    "('q, 'o, 'fs) worker_state \<Rightarrow> LinuxToolkit \<Rightarrow> ('q, 'o, 'fs) worker_state run" where
  "check_scale st toolkit =
     (case GetManager (sScale st) of
        (sv, None) \<Rightarrow> Crashed NilDeref
      | (sv, Some scaleManager) \<Rightarrow>
          Waiting (st\<lparr>sScale := sv,
            sSends := sSends st @
              request EventTypeScaleUp (CheckScaleUp linux_methods scaleManager toolkit) @
              request EventTypeScaleDown (CheckScaleDown linux_methods scaleManager toolkit)\<rparr>))"

definition handle_tick ::
    "('q, 'o, 'fs) worker_env \<Rightarrow> file_env \<Rightarrow> go_time \<Rightarrow> ('q, 'o, 'fs) worker_state \<Rightarrow>
       ('q, 'o, 'fs) worker_state run" where
  "handle_tick P E now st =
     (case GetCgroupNames (eWorld P) (sKube st) (wkPod (sWorker st)) of
        (v, r) \<Rightarrow>
          (let st1 = st\<lparr>sKube := v\<rparr> in
           settle st1 r (\<lambda>names.
             case names of
               Inl e \<Rightarrow> Waiting (add_log (LogError (Some e) ''failed to get cgroup names'' # TagNeedAlert) st1)
             | Inr cgroupNames \<Rightarrow>
                 (case sToolkit st1 of
                    Some toolkit \<Rightarrow> check_scale st1 toolkit
                  | None \<Rightarrow>
                      (case sServer st1 of
                         None \<Rightarrow> Crashed NilDeref
                       | Some server \<Rightarrow>
                           (case Init (wA (eWorld P)) E now
                                   (NewToolkit cgroupNames (CgroupDriver (ks_config server)) (sMounts st1)) of
                              (toolkit, Some e) \<Rightarrow>
                                Waiting (add_log [LogError (Some e) ''failed to create cgroup.v2 toolkit''] st1)
                            | (toolkit, None) \<Rightarrow> check_scale (st1\<lparr>sToolkit := Some toolkit\<rparr>) toolkit))))))"

section \<open>The loop\<close>

text \<open>What \<open>loop\<close> does before its \<open>for\<close>: its ticker and its toolkit are nil variables.\<close>

definition worker_start ::
    "('q, 'o, 'fs) worker_env \<Rightarrow> 'o kubelet_vars \<Rightarrow> scale_vars \<Rightarrow> 'fs \<Rightarrow> 'q cluster \<Rightarrow> 'q Worker \<Rightarrow>
       ('q, 'o, 'fs) worker_state run" where
  "worker_start P kube sv fs cl w =
     (case GetKubeletServer (eWorld P) kube of
        (kube', r) \<Rightarrow>
          (let st = \<lparr>sWorker = w, sServer = None, sMounts = Map.empty, sTicker = NilTicker, sToolkit = None,
                     sKube = kube', sScale = sv, sFs = fs, sCluster = cl, sLog = [], sSends = []\<rparr>
           in settle st r (\<lambda>(server, err).
                case err of
                  Some e \<Rightarrow> Ended st
                | None \<Rightarrow>
                    (case GetCgroupSubsystems (wK (eWorld P)) of
                       Inl e \<Rightarrow> Ended st
                     | Inr subSystems \<Rightarrow> Waiting (st\<lparr>sServer := server, sMounts := subSystems\<rparr>)))))"

text \<open>
  One step of a worker that waits in its loop.  Every iteration resets the ticker first; then the
  \<open>select\<close> takes an event of the channel, a tick or the end of the context.  Beside the loop, a goroutine
  may deliver its event, and the goroutine of the toolkit may panic.
\<close>

inductive worker_step ::
    "('q, 'o, 'fs) worker_env \<Rightarrow> ('q, 'o, 'fs) worker_state run \<Rightarrow> ('q, 'o, 'fs) worker_state run \<Rightarrow> bool"
  for P :: "('q, 'o, 'fs) worker_env" where
  reset_panics: "ticker_Reset (sTicker st) (wkInterval (sWorker st)) = Panics p \<Longrightarrow>
     worker_step P (Waiting st) (Crashed p)"
| take_event: "ticker_Reset (sTicker st) (wkInterval (sWorker st)) = Returns t \<Longrightarrow>
     wkEventC (sWorker st) = Some (e # es) \<Longrightarrow>
     worker_step P (Waiting st)
       (handle_event P now (st\<lparr>sTicker := t, sWorker := (sWorker st)\<lparr>wkEventC := Some es\<rparr>\<rparr>) e)"
| take_tick: "ticker_Reset (sTicker st) (wkInterval (sWorker st)) = Returns t \<Longrightarrow>
     worker_step P (Waiting st) (handle_tick P E now' (st\<lparr>sTicker := t\<rparr>))"
| take_done: "ticker_Reset (sTicker st) (wkInterval (sWorker st)) = Returns t \<Longrightarrow>
     worker_step P (Waiting st) (Ended (st\<lparr>sTicker := t\<rparr>))"
| deliver: "sSends st = xs @ e # ys \<Longrightarrow> SendEvent (sWorker st) e = Returns w \<Longrightarrow>
     worker_step P (Waiting st) (Waiting (st\<lparr>sWorker := w, sSends := xs @ ys\<rparr>))"
| toolkit_panics: "sToolkit st = Some tk \<Longrightarrow> run_loop (wA (eWorld P)) tk [] = Crashed p \<Longrightarrow>
     worker_step P (Waiting st) (Crashed p)"

inductive_cases worker_stepE: "worker_step P (Waiting st) r"
inductive_simps worker_step_Ended: "worker_step P (Ended st) r"
inductive_simps worker_step_Crashed: "worker_step P (Crashed p) r"

definition worker_reaches ::
    "('q, 'o, 'fs) worker_env \<Rightarrow> ('q, 'o, 'fs) worker_state run \<Rightarrow> ('q, 'o, 'fs) worker_state run \<Rightarrow> bool" where
  "worker_reaches P r s \<longleftrightarrow> (worker_step P)\<^sup>*\<^sup>* r s"

section \<open>Contracts and lemmas\<close>

text \<open>
  What controller-runtime documents of \<open>CreateOrUpdate\<close>: the object is read, or is the given one when
  the cluster has none of its name; the mutate function's result is written; an error writes nothing.
\<close>

locale create_or_update_contract =
  fixes cou :: "'q create_or_update"
  assumes writes: "cou cl obj f = (cl', None) \<Longrightarrow>
      cl' = cl((pNamespace obj, pName obj) \<mapsto>
        fst (f (case cl (pNamespace obj, pName obj) of None \<Rightarrow> obj | Some p \<Rightarrow> p)))"
    and fails: "cou cl obj f = (cl', Some e) \<Longrightarrow> cl' = cl"
begin

lemma keeps_contents:
  assumes "\<And>p. g (fst (f p)) = g p" "cl k = Some p"
  shows "\<exists>p'. fst (cou cl obj f) k = Some p' \<and> g p' = g p"
proof (cases "cou cl obj f")
  case (Pair cl' r)
  then show ?thesis
    using assms writes [of cl obj f cl'] fails [of cl obj f cl'] by (cases r) auto
qed

end

definition ref_create_or_update :: "'q create_or_update" where
  "ref_create_or_update cl obj f =
     (let k = (pNamespace obj, pName obj);
          r = f (case cl k of None \<Rightarrow> obj | Some p \<Rightarrow> p)
      in case snd r of None \<Rightarrow> (cl(k \<mapsto> fst r), None) | Some e \<Rightarrow> (cl, Some e))"

interpretation ref_cou: create_or_update_contract ref_create_or_update
  by unfold_locales (auto simp: ref_create_or_update_def Let_def split: option.splits)

lemma mutate_pod_eq:
  "mutate_pod Q V quota now p =
     (if ''main'' \<in> cName ` set (pContainers p)
      then p\<lparr>pAnnotations := Some ((case pAnnotations p of None \<Rightarrow> Map.empty | Some m \<Rightarrow> m)
               (AnnotationModifyResource \<mapsto> now))\<rparr>
      else p, None)"
proof -
  have "fst (containers_loop Q V quota cs acc) \<longleftrightarrow> fst acc \<or> ''main'' \<in> cName ` set cs" for cs acc
    by (induction cs arbitrary: acc) (auto split: if_splits)
  from this [of "pContainers p" "(False, [])"] show ?thesis
    by (cases "containers_loop Q V quota (pContainers p) (False, [])") (simp add: mutate_pod_def Let_def)
qed

lemma ticker_Reset_Running [simp]: "0 < d \<Longrightarrow> ticker_Reset (Running i) d = Returns (Running d)"
  by (simp add: ticker_Reset_def)

lemma run_loop_crashes: "0 < tk_interval t \<Longrightarrow> run_loop A t cs = Crashed TickerUninitialised"
  by (cases cs) (simp_all add: run_loop_def ticker_Reset_def)

text \<open>The events a worker sends itself: CPU only.\<close>

definition cpu_event :: "'q Event \<Rightarrow> bool" where
  "cpu_event e \<longleftrightarrow> ev_pod e = None \<and>
     ((ev_typ e = EventTypeScaleUp \<and> scaleType e = ScaleUpCpu) \<or>
      (ev_typ e = EventTypeScaleDown \<and> scaleType e = ScaleDownCpu))"

text \<open>A toolkit for the cgroup of a pod: it has a name that \<open>GetCgroupNames\<close> returns for that pod.\<close>

definition toolkit_of :: "('q, 'o, 'fs) worker_env \<Rightarrow> 'q pod \<Rightarrow> LinuxToolkit \<Rightarrow> bool" where
  "toolkit_of P pod t \<longleftrightarrow> (\<exists>v v'. GetCgroupNames (eWorld P) v pod = (v', Returns (Inr (tk_name t))))"

text \<open>What holds of a worker that waits in its loop.\<close>

definition worker_inv :: "('q, 'o, 'fs) worker_env \<Rightarrow> ('q, 'o, 'fs) worker_state \<Rightarrow> bool" where
  "worker_inv P st \<longleftrightarrow>
     (let Q = wQ (eWorld P); w = sWorker st in
      (wkQuota w = \<lparr>Cpu = ZeroQuantity Q, Memory = ZeroQuantity Q\<rparr> \<or>
       (\<exists>quota. GetQuotaFromPod Q (wkPod w) = (quota, True) \<and>
          wkQuota w = GetFloorMemoryQuota Q (eQuotas P) quota)) \<and>
      list_all cpu_event (sSends st) \<and>
      (\<forall>t. sToolkit st = Some t \<longrightarrow> tk_mounts t = sMounts st \<and> tk_interval t = 100000000 \<and>
         (\<exists>s. sServer st = Some s \<and> tk_driver t = CgroupDriver (ks_config s)) \<and> (\<exists>pod. toolkit_of P pod t)))"

lemma worker_inv_frame [simp]:
  "worker_inv P (st\<lparr>sLog := l\<rparr>) = worker_inv P st"
  "worker_inv P (st\<lparr>sCluster := c\<rparr>) = worker_inv P st"
  "worker_inv P (st\<lparr>sFs := f\<rparr>) = worker_inv P st"
  "worker_inv P (st\<lparr>sKube := k\<rparr>) = worker_inv P st"
  "worker_inv P (st\<lparr>sScale := v\<rparr>) = worker_inv P st"
  "worker_inv P (st\<lparr>sTicker := i\<rparr>) = worker_inv P st"
  "worker_inv P (st\<lparr>sWorker := (sWorker st)\<lparr>wkEventC := q\<rparr>\<rparr>) = worker_inv P st"
  "worker_inv P (st\<lparr>sTicker := i, sWorker := (sWorker st)\<lparr>wkEventC := q\<rparr>\<rparr>) = worker_inv P st"
  "worker_inv P (add_log ls st) = worker_inv P st"
  by (simp_all add: worker_inv_def add_log_def Let_def)

lemma Init_same: "same_cgroup (fst (Init A E now t)) t"
  by (auto simp: Init_def same_cgroup_def split: prod.splits option.splits)

lemma check_scale_cases:
  assumes "check_scale st t = Waiting st'"
  obtains sv es where "st' = st\<lparr>sScale := sv, sSends := sSends st @ es\<rparr>" "list_all cpu_event es"
proof -
  have "list_all cpu_event (request EventTypeScaleUp (CheckScaleUp linux_methods b t) @
      request EventTypeScaleDown (CheckScaleDown linux_methods b t))" for b
    by (simp add: linux.up_is_cpu CheckScaleDown_def Let_def cpu_event_def request_def)
  note cpu = this
  obtain sv m where g: "GetManager (sScale st) = (sv, m)" by force
  with assms obtain b where "m = Some b" by (cases m) (auto simp: check_scale_def)
  with assms g have "st' = st\<lparr>sScale := sv, sSends := sSends st @
      (request EventTypeScaleUp (CheckScaleUp linux_methods b t) @
       request EventTypeScaleDown (CheckScaleDown linux_methods b t))\<rparr>"
    by (simp add: check_scale_def)
  then show thesis using cpu by (rule that)
qed

lemma handle_new_pod_inv:
  assumes "worker_inv P st" "handle_new_pod P st e = Waiting st'"
  shows "worker_inv P st'"
proof (cases "ev_pod e")
  case (Some pod)
  obtain quota found where q: "GetQuotaFromPod (wQ (eWorld P)) pod = (quota, found)" by force
  show ?thesis
  proof (cases found)
    case True
    have "worker_inv P (st\<lparr>sWorker := (sWorker st)\<lparr>wkPod := pod,
        wkQuota := GetFloorMemoryQuota (wQ (eWorld P)) (eQuotas P) quota\<rparr>\<rparr>)"
      using assms(1) q True by (simp add: worker_inv_def Let_def)
    then show ?thesis
      using assms(2) Some q True
      by (auto simp: handle_new_pod_def Let_def settle_Waiting_iff case_prod_unfold split: option.splits)
  qed (use assms Some q in \<open>auto simp: handle_new_pod_def\<close>)
qed (use assms in \<open>simp add: handle_new_pod_def\<close>)

lemma handle_event_inv:
  assumes "worker_inv P st" "handle_event P now st e = Waiting st'"
  shows "worker_inv P st'"
  using assms handle_new_pod_inv
  by (cases "ev_typ e") (auto simp: handle_event_def handle_scale_def Let_def settle_Waiting_iff split: prod.splits)

lemma check_scale_inv:
  "worker_inv P st \<Longrightarrow> check_scale st t = Waiting st' \<Longrightarrow> worker_inv P st'"
  by (erule check_scale_cases) (simp add: worker_inv_def)

lemma handle_tick_inv:
  assumes "worker_inv P st" "handle_tick P E now st = Waiting st'"
  shows "worker_inv P st'"
proof -
  obtain v r where g: "GetCgroupNames (eWorld P) (sKube st) (wkPod (sWorker st)) = (v, r)" by force
  then obtain n where r: "r = Returns n"
    using assms(2) by (auto simp: handle_tick_def Let_def settle_Waiting_iff)
  show ?thesis
  proof (cases n)
    case (Inl e)
    then show ?thesis using assms g r by (auto simp: handle_tick_def)
  next
    case (Inr names)
    show ?thesis
    proof (cases "sToolkit st")
      case (Some t)
      then show ?thesis
        using assms g r Inr by (auto simp: handle_tick_def intro: check_scale_inv [rotated])
    next
      case None
      then obtain s where s: "sServer st = Some s"
        using assms(2) g r Inr by (cases "sServer st") (auto simp: handle_tick_def)
      let ?t = "NewToolkit names (CgroupDriver (ks_config s)) (sMounts st)"
      obtain t err where i: "Init (wA (eWorld P)) E now ?t = (t, err)" by force
      then have "same_cgroup t ?t" using Init_same by (metis fst_conv)
      moreover from this have "toolkit_of P (wkPod (sWorker st)) t"
        using g r Inr by (auto simp: toolkit_of_def same_cgroup_def NewToolkit_def)
      ultimately have "worker_inv P (st\<lparr>sToolkit := Some t\<rparr>)"
        using assms(1) s None by (auto simp: worker_inv_def same_cgroup_def NewToolkit_def Let_def)
      then have "worker_inv P (st\<lparr>sKube := v, sToolkit := Some t\<rparr>)"
        by (simp add: worker_inv_def)
      then show ?thesis
        using assms g r Inr None s i
        by (cases err) (auto simp: handle_tick_def intro: check_scale_inv [rotated])
    qed
  qed
qed

lemma worker_step_inv:
  assumes "worker_step P (Waiting st) (Waiting st')" "worker_inv P st"
  shows "worker_inv P st'"
  using assms(1)
proof cases
  case (take_event t e es now)
  then show ?thesis using assms(2) handle_event_inv [OF _ take_event(1) [symmetric]] by simp
next
  case (take_tick t E now)
  then show ?thesis using assms(2) handle_tick_inv [OF _ take_tick(1) [symmetric]] by simp
next
  case (deliver xs e ys w)
  then show ?thesis using assms(2)
    by (auto simp: worker_inv_def SendEvent_def Let_def split: option.splits)
qed

text \<open>Invariants of a waiting worker: only a waiting worker takes steps.\<close>

lemma worker_reaches_invariant:
  assumes "worker_reaches P (Waiting st) (Waiting st')" "I st"
    and "\<And>s s'. I s \<Longrightarrow> worker_step P (Waiting s) (Waiting s') \<Longrightarrow> I s'"
  shows "I st'"
proof -
  have "\<forall>s. r = Waiting s \<longrightarrow> I s" if "(worker_step P)\<^sup>*\<^sup>* (Waiting st) r" for r
    using that
  proof (induction rule: rtranclp_induct)
    case (step r s)
    then show ?case
      using assms(3) by (cases r) (auto elim: worker_step.cases)
  qed (simp add: assms(2))
  with assms(1) show ?thesis by (simp add: worker_reaches_def)
qed

lemma GetQuotaFromPod_found: "snd (GetQuotaFromPod Q p) \<longleftrightarrow> ''main'' \<in> cName ` set (pContainers p)"
proof -
  have "snd (pod_quota_loop Q cs acc) \<longleftrightarrow> snd acc \<or> ''main'' \<in> cName ` set cs" for cs acc
    by (induction cs arbitrary: acc) auto
  then show ?thesis by (simp add: GetQuotaFromPod_def)
qed

text \<open>The quota a new pod gets: the CPU of its own quota and at most its memory; a configuration exists.\<close>

lemma floor_quota_fits:
  assumes "quantity Q" "init_quota_vars Q = Some V"
  shows "Value Q (Memory (GetFloorMemoryQuota Q V quota)) \<le> Value Q (Memory quota)"
    and "MilliValue Q (Cpu (GetFloorMemoryQuota Q V quota)) = MilliValue Q (Cpu quota)"
  using quota_table.floor_rung [OF quota_table_intro [OF assms], of quota]
    quota_table.rung_mem [OF quota_table_intro [OF assms]] quota_table.rung_cpu [OF quota_table_intro [OF assms]]
  by (auto simp: Let_def)

lemma quota_config_exists:
  assumes "quantity Q" "init_quota_vars Q = Some V"
  shows "\<exists>cfg. GetQuotaConfig Q V quota = Returns cfg"
  using quota_table.no_config [OF quota_table_intro [OF assms]] quota_table.basic_gib [OF quota_table_intro [OF assms]]
  by (simp add: GetQuotaConfig_def CalculatedQuotaConfig_def Let_def)

section \<open>A concrete worker for the witnesses\<close>

definition ref_worker_env :: "(amount, unit, (string \<times> string \<times> string) list) worker_env" where
  "ref_worker_env =
     \<lparr>eWorld = ref_world one_kubelet, eQuotas = ref_vars, eWrite = refusing_write {},
      eClient = ref_create_or_update\<rparr>"

definition main_pod :: "amount pod" where
  "main_pod = empty_pod\<lparr>pName := ''cn-0'', pNamespace := ''mo'', pUID := ''u1'',
     pContainers := [\<lparr>cName = ''main'', cLimits = [''cpu'' \<mapsto> Amount nano_unit False, ''memory'' \<mapsto> Amount (21 * 2 ^ 30 * nano_unit) True],
                      cRequests = Map.empty\<rparr>]\<rparr>"

text \<open>A worker whose variables were made: a channel, a running ticker, and a toolkit or none.\<close>

definition ref_worker ::
    "LinuxToolkit option \<Rightarrow> (amount, unit, (string \<times> string \<times> string) list) worker_state" where
  "ref_worker tk =
     \<lparr>sWorker = (NewWorker ref_quantity main_pod)\<lparr>wkEventC := Some []\<rparr>, sServer = Some ref_server,
      sMounts = [''cpu'' \<mapsto> ''/sys/fs/cgroup''], sTicker = Running 1, sToolkit = tk,
      sKube = (zero_vars ())\<lparr>v_genOnce := True, v_server := Some ref_server\<rparr>,
      sScale = \<lparr>scale_once = False, scale_mgr = None\<rparr>, sFs = [],
      sCluster = [(''mo'', ''cn-0'') \<mapsto> main_pod], sLog = [], sSends = []\<rparr>"

text \<open>The same worker with events in its channel, and after it took the first of them.\<close>

definition ref_waiting ::
    "LinuxToolkit option \<Rightarrow> amount Event list \<Rightarrow> (amount, unit, (string \<times> string \<times> string) list) worker_state" where
  "ref_waiting tk es = (ref_worker tk)\<lparr>sWorker := (sWorker (ref_worker tk))\<lparr>wkEventC := Some es\<rparr>\<rparr>"

lemma ref_waiting_takes:
  assumes "handle_event ref_worker_env now ((ref_waiting tk es)\<lparr>sTicker := Running DefaultCheckInterval\<rparr>) e = Waiting st'"
  shows "worker_reaches ref_worker_env (Waiting (ref_waiting tk (e # es))) (Waiting st')"
proof -
  let ?s = "ref_waiting tk (e # es)"
  have "worker_step ref_worker_env (Waiting ?s) (handle_event ref_worker_env now
      (?s\<lparr>sTicker := Running DefaultCheckInterval, sWorker := (sWorker ?s)\<lparr>wkEventC := Some es\<rparr>\<rparr>) e)"
    by (rule worker_step.take_event) (simp_all add: ref_waiting_def ref_worker_def NewWorker_def DefaultCheckInterval_def)
  moreover have "?s\<lparr>sTicker := Running DefaultCheckInterval, sWorker := (sWorker ?s)\<lparr>wkEventC := Some es\<rparr>\<rparr> =
      (ref_waiting tk es)\<lparr>sTicker := Running DefaultCheckInterval\<rparr>"
    by (simp add: ref_waiting_def ref_worker_def)
  ultimately show ?thesis
    using assms by (simp add: worker_reaches_def r_into_rtranclp)
qed

lemma GetQuotaFromPod_main:
  "GetQuotaFromPod ref_quantity main_pod =
     (\<lparr>Cpu = Amount nano_unit False, Memory = Amount (21 * 2 ^ 30 * nano_unit) True\<rparr>, True)"
  by (simp add: GetQuotaFromPod_def main_pod_def ref_quantity_def)

section \<open>Properties\<close>

text \<open>
  C33: no worker survives its first iteration.  From a worker made by \<open>NewWorker\<close> that got past the
  preparations of its loop, the only step is the panic of \<open>ticker.Reset\<close> on the nil ticker; and nobody can
  send to it, since a send on its nil channel blocks forever.
\<close>

theorem worker_crashes_at_once:
  assumes "worker_start P kube sv fs cl (NewWorker Q pod) = Waiting st"
  shows "(worker_step P (Waiting st) r \<longleftrightarrow> r = Crashed NilDeref) \<and> SendEvent (sWorker st) e = Blocks"
proof -
  have st: "sTicker st = NilTicker" "sToolkit st = None" "sSends st = []" "sWorker st = NewWorker Q pod"
    using assms by (auto simp: worker_start_def Let_def settle_Waiting_iff split: prod.splits option.splits sum.splits)
  then have t: "ticker_Reset (sTicker st) (wkInterval (sWorker st)) = Panics NilDeref"
    by (simp add: ticker_Reset_def NewWorker_def DefaultCheckInterval_def)
  have "worker_step P (Waiting st) r \<longleftrightarrow> r = Crashed NilDeref"
    using st t by (auto intro: worker_step.reset_panics elim!: worker_stepE)
  then show ?thesis
    by (simp add: st SendEvent_def NewWorker_def)
qed

theorem worker_crashes_at_once_witness:
  "\<exists>st. worker_start ref_worker_env ((zero_vars ())\<lparr>v_genOnce := True, v_server := Some ref_server\<rparr>)
       \<lparr>scale_once = False, scale_mgr = None\<rparr> [] Map.empty (NewWorker ref_quantity main_pod) = Waiting st \<and>
     (\<forall>r. worker_step ref_worker_env (Waiting st) r \<longleftrightarrow> r = Crashed NilDeref)"
proof -
  have "\<exists>st. worker_start ref_worker_env ((zero_vars ())\<lparr>v_genOnce := True, v_server := Some ref_server\<rparr>)
       \<lparr>scale_once = False, scale_mgr = None\<rparr> [] Map.empty (NewWorker ref_quantity main_pod) = Waiting st"
    by (simp add: worker_start_def GetKubeletServer_def zero_vars_def ref_worker_env_def ref_world_def ref_kubelet_def)
  then obtain st where st: "worker_start ref_worker_env ((zero_vars ())\<lparr>v_genOnce := True, v_server := Some ref_server\<rparr>)
       \<lparr>scale_once = False, scale_mgr = None\<rparr> [] Map.empty (NewWorker ref_quantity main_pod) = Waiting st" ..
  with worker_crashes_at_once [OF st] show ?thesis by blast
qed

text \<open>
  A new or updated pod.  When the worker has a toolkit and the pod has a main container, the event
  makes the worker hold the pod with its floor quota and writes the limits of that quota and its
  configuration through the toolkit; the quota has the CPU of the pod and at most its memory.  The result
  of the write is logged, and never stops the loop.
\<close>

theorem new_pod_limits:
  assumes "quantity (wQ (eWorld P))" "init_quota_vars (wQ (eWorld P)) = Some (eQuotas P)"
    and "ev_typ e = EventTypeNew \<or> ev_typ e = EventTypeUpdate" "ev_pod e = Some pod" "sToolkit st = Some t"
    and "GetQuotaFromPod (wQ (eWorld P)) pod = (quota, True)"
  shows "\<exists>q cfg. q = GetFloorMemoryQuota (wQ (eWorld P)) (eQuotas P) quota \<and>
    GetQuotaConfig (wQ (eWorld P)) (eQuotas P) q = Returns cfg \<and>
    Value (wQ (eWorld P)) (Memory q) \<le> Value (wQ (eWorld P)) (Memory quota) \<and>
    MilliValue (wQ (eWorld P)) (Cpu q) = MilliValue (wQ (eWorld P)) (Cpu quota) \<and>
    (let r = SetCgroupLimit (wA (eWorld P)) (wQ (eWorld P)) (eWrite P) (sFs st) t q cfg in
     handle_event P now st e = Waiting (st\<lparr>sWorker := (sWorker st)\<lparr>wkPod := pod, wkQuota := q\<rparr>,
       sFs := fst r, sLog := sLog st @ fst (snd r) @ [LogError (snd (snd r)) ''failed to set cgroup limit'']\<rparr>))"
proof -
  obtain cfg where c: "GetQuotaConfig (wQ (eWorld P)) (eQuotas P)
      (GetFloorMemoryQuota (wQ (eWorld P)) (eQuotas P) quota) = Returns cfg"
    using quota_config_exists [OF assms(1,2)] by blast
  have "handle_event P now st e = handle_new_pod P st e"
    using assms(3) by (auto simp: handle_event_def)
  then show ?thesis
    using c assms floor_quota_fits [OF assms(1,2), of quota]
    by (simp add: handle_new_pod_def Let_def add_log_def case_prod_unfold)
qed

theorem new_pod_limits_witness:
  "\<exists>st'. handle_event ref_worker_env [] (ref_worker (Some ref_toolkit))
      \<lparr>ev_typ = EventTypeNew, ev_pod = Some main_pod, scaleType = ScaleNone\<rparr> = Waiting st' \<and>
    MilliValue ref_quantity (Cpu (wkQuota (sWorker st'))) = 1000"
proof -
  let ?e = "\<lparr>ev_typ = EventTypeNew, ev_pod = Some main_pod, scaleType = ScaleNone\<rparr>"
  have h: "quantity (wQ (eWorld ref_worker_env))" "init_quota_vars (wQ (eWorld ref_worker_env)) = Some (eQuotas ref_worker_env)"
    "GetQuotaFromPod (wQ (eWorld ref_worker_env)) main_pod =
       (\<lparr>Cpu = Amount nano_unit False, Memory = Amount (21 * 2 ^ 30 * nano_unit) True\<rparr>, True)"
    using ref_table_axioms by (simp_all add: ref_worker_env_def ref_world_def GetQuotaFromPod_main)
  have m: "MilliValue ref_quantity (Amount nano_unit False) = 1000" by code_simp
  show ?thesis
    using new_pod_limits [OF h(1,2) _ _ _ h(3), of ?e "ref_worker (Some ref_toolkit)" ref_toolkit "[]"]
    by (auto simp: ref_worker_def Let_def m ref_worker_env_def ref_world_def)
qed

text \<open>
  The events that end a worker.  A delete event always crashes the process, as the manager it
  is reported to is never set; a new or updated pod with a main container crashes it while the worker has no
  toolkit, which only a tick makes; without a main container the event changes nothing but the log.
\<close>

theorem fatal_events:
  "(ev_typ e = EventTypeDelete \<longrightarrow> handle_event P now st e = Crashed NilDeref) \<and>
   (\<forall>pod. (ev_typ e = EventTypeNew \<or> ev_typ e = EventTypeUpdate) \<and> ev_pod e = Some pod \<longrightarrow>
      (if ''main'' \<in> cName ` set (pContainers pod)
       then sToolkit st = None \<and> BasicGiBValue (eQuotas P) \<noteq> 0 \<longrightarrow> handle_event P now st e = Crashed NilDeref
       else handle_event P now st e = Waiting (st\<lparr>sLog := sLog st @
              [LogError (Some ErrNotFound) ''pod not found main container'',
               LogError (Some ErrNeedAlert) ''tag: this code need alert'']\<rparr>)))"
proof -
  have cfg: "\<exists>cfg. GetQuotaConfig (wQ (eWorld P)) (eQuotas P) q = Returns cfg" if "BasicGiBValue (eQuotas P) \<noteq> 0" for q
    using that by (auto simp: GetQuotaConfig_def CalculatedQuotaConfig_def Let_def split: option.splits)
  have new: "handle_event P now st e =
      (if ''main'' \<in> cName ` set (pContainers pod) then handle_new_pod P st e
       else Waiting (add_log (LogError (Some ErrNotFound) ''pod not found main container'' # TagNeedAlert) st))"
    if "(ev_typ e = EventTypeNew \<or> ev_typ e = EventTypeUpdate) \<and> ev_pod e = Some pod" for pod
    using that GetQuotaFromPod_found [of "wQ (eWorld P)" pod]
    by (cases "GetQuotaFromPod (wQ (eWorld P)) pod") (auto simp: handle_event_def handle_new_pod_def)
  have crash: "handle_new_pod P st e = Crashed NilDeref"
    if h: "ev_pod e = Some pod" "''main'' \<in> cName ` set (pContainers pod)" "sToolkit st = None"
      "BasicGiBValue (eQuotas P) \<noteq> 0" for pod
  proof -
    obtain quota where "GetQuotaFromPod (wQ (eWorld P)) pod = (quota, True)"
      using h(2) GetQuotaFromPod_found [of "wQ (eWorld P)" pod] by (cases "GetQuotaFromPod (wQ (eWorld P)) pod") simp
    moreover obtain c where "GetQuotaConfig (wQ (eWorld P)) (eQuotas P)
        (GetFloorMemoryQuota (wQ (eWorld P)) (eQuotas P) quota) = Returns c"
      using cfg h(4) by blast
    ultimately show ?thesis using h by (simp add: handle_new_pod_def Let_def)
  qed
  show ?thesis
    using new crash by (auto simp: handle_event_def on_manager_def GetManger_def gMgr_def add_log_def TagNeedAlert_def)
qed

theorem fatal_events_witness:
  "handle_event ref_worker_env [] (ref_worker None)
     \<lparr>ev_typ = EventTypeDelete, ev_pod = None, scaleType = ScaleNone\<rparr> = Crashed NilDeref \<and>
   handle_event ref_worker_env [] (ref_worker None)
     \<lparr>ev_typ = EventTypeNew, ev_pod = Some main_pod, scaleType = ScaleNone\<rparr> = Crashed NilDeref"
proof -
  have "BasicGiBValue (eQuotas ref_worker_env) \<noteq> 0"
    by (simp add: ref_worker_env_def quota_table.basic_gib [OF ref_table.quota_table_axioms])
  then show ?thesis
    using fatal_events [where e = "\<lparr>ev_typ = EventTypeDelete, ev_pod = None, scaleType = ScaleNone\<rparr>"
        and P = ref_worker_env and st = "ref_worker None" and now = "[]"]
      fatal_events [where e = "\<lparr>ev_typ = EventTypeNew, ev_pod = Some main_pod, scaleType = ScaleNone\<rparr>"
        and P = ref_worker_env and st = "ref_worker None" and now = "[]"]
    by (auto simp: main_pod_def ref_worker_def)
qed

text \<open>
  C30: a scale event does not scale.  Whatever the event asks for, every pod of the cluster keeps
  its containers with their limits and requests, and the worker keeps its quota: the new quantities are set
  on copies.  What a pod with a main container can gain is the annotation with the time.
\<close>

theorem scale_changes_no_resources:
  assumes "create_or_update_contract (eClient P)"
    and "ev_typ e = EventTypeScaleUp \<or> ev_typ e = EventTypeScaleDown"
  shows "\<exists>st'. handle_event P now st e = Waiting st' \<and> sWorker st' = sWorker st \<and> sFs st' = sFs st \<and>
    (\<forall>k p. sCluster st k = Some p \<longrightarrow>
       (\<exists>p'. sCluster st' k = Some p' \<and> pContainers p' = pContainers p \<and>
         (\<forall>a. a \<noteq> AnnotationModifyResource \<longrightarrow> annotation p' a = annotation p a)))"
proof -
  let ?Q = "wQ (eWorld P)"
  let ?f = "mutate_pod ?Q (eQuotas P) (next_quota ?Q (eQuotas P) e (wkQuota (sWorker st))) now"
  let ?obj = "empty_pod\<lparr>pName := pName (wkPod (sWorker st)), pNamespace := pNamespace (wkPod (sWorker st))\<rparr>"
  let ?g = "\<lambda>p. (pContainers p, \<lambda>a. if a \<noteq> AnnotationModifyResource then annotation p a else None)"
  have g: "?g (fst (?f p)) = ?g p" for p
    by (auto simp: mutate_pod_eq annotation_def split: option.splits)
  have "handle_event P now st e = handle_scale P now st e"
    using assms(2) by (auto simp: handle_event_def)
  moreover have "\<exists>l. handle_scale P now st e =
      Waiting (st\<lparr>sCluster := fst (eClient P (sCluster st) ?obj ?f), sLog := sLog st @ l\<rparr>)"
  proof (cases "snd (eClient P (sCluster st) ?obj ?f)")
    case None
    then show ?thesis
      by (intro exI [of _ "[]"]) (simp add: handle_scale_def updatePodQuota_def add_log_def Let_def case_prod_unfold)
  next
    case (Some err)
    then show ?thesis
      by (intro exI [of _ "[LogError (Some err) ''failed to pod Resources'']"])
        (simp add: handle_scale_def updatePodQuota_def add_log_def Let_def case_prod_unfold)
  qed
  moreover have "\<exists>p'. fst (eClient P (sCluster st) ?obj ?f) k = Some p' \<and> pContainers p' = pContainers p \<and>
      (\<forall>a. a \<noteq> AnnotationModifyResource \<longrightarrow> annotation p' a = annotation p a)" if "sCluster st k = Some p" for k p
  proof -
    obtain p' where p': "fst (eClient P (sCluster st) ?obj ?f) k = Some p'" "?g p' = ?g p"
      using create_or_update_contract.keeps_contents [where g = ?g and f = ?f, OF assms(1)] g \<open>sCluster st k = Some p\<close>
      by blast
    have "annotation p' a = annotation p a" if "a \<noteq> AnnotationModifyResource" for a
      using fun_cong [OF conjunct2 [OF p'(2) [unfolded prod.inject]], of a] that by simp
    with p' show ?thesis by auto
  qed
  ultimately show ?thesis by auto
qed

theorem scale_changes_no_resources_witness:
  "\<exists>st'. handle_event ref_worker_env ''2024-01-01T00:00:00Z'' (ref_worker None)
      \<lparr>ev_typ = EventTypeScaleUp, ev_pod = None, scaleType = ScaleUpCpu\<rparr> = Waiting st' \<and>
    (\<exists>p'. sCluster st' (''mo'', ''cn-0'') = Some p' \<and> pContainers p' = pContainers main_pod)"
proof -
  have c: "create_or_update_contract (eClient ref_worker_env)"
    by (simp add: ref_worker_env_def ref_cou.create_or_update_contract_axioms)
  have "sCluster (ref_worker None) (''mo'', ''cn-0'') = Some main_pod"
    by (simp add: ref_worker_def)
  then show ?thesis
    using scale_changes_no_resources [OF c, of "\<lparr>ev_typ = EventTypeScaleUp, ev_pod = None, scaleType = ScaleUpCpu\<rparr>"
        "''2024-01-01T00:00:00Z''" "ref_worker None"]
    by (metis Event.select_convs(1))
qed

text \<open>
  Pods are cached by a name of their own: the names of two pods whose namespaces and names are
  plain path components, as Kubernetes requires of them, are equal only for equal namespaces and names.
\<close>

theorem namespaced_name_unique:
  assumes "plain_comp (pNamespace p)" "plain_comp (pName p)" "plain_comp (pNamespace q)" "plain_comp (pName q)"
  shows "GetNamespacedName p = GetNamespacedName q \<longleftrightarrow> pNamespace p = pNamespace q \<and> pName p = pName q"
  using assms by (simp add: GetNamespacedName_def path_Join_plain_inject)

theorem namespaced_name_unique_witness:
  "GetNamespacedName main_pod \<noteq> GetNamespacedName (main_pod\<lparr>pName := ''cn-1''\<rparr>)"
  by (subst namespaced_name_unique) (simp_all add: main_pod_def plain_comp_def)

end
