(* ===== verification/Pod_Manager.thy ===== *)
theory Pod_Manager
  imports Pod_Worker
begin

text \<open>
  \<^verbatim>\<open>pkg/pod/manager.go\<close>: the manager that hands pods to workers, its options, and its loop.  The loop is
  a function of a script of ready \<open>select\<close> cases.
\<close>

section \<open>Configuration\<close>

text \<open>The loggers and clients are opaque values; an option changes the configuration it is applied to.\<close>

record ('l, 'c) ManagerConfig =
  mcLogger :: "'l option"
  mcClient :: "'c option"

type_synonym ('l, 'c) manager_option = "('l, 'c) ManagerConfig \<Rightarrow> ('l, 'c) ManagerConfig"

definition Apply :: "('l, 'c) manager_option \<Rightarrow> ('l, 'c) ManagerConfig \<Rightarrow> ('l, 'c) ManagerConfig" where
  "Apply opt cfg = opt cfg"

definition WithLogger :: "'l \<Rightarrow> ('l, 'c) manager_option" where
  "WithLogger logger = (\<lambda>cfg. cfg\<lparr>mcLogger := Some logger\<rparr>)"

definition WithClient :: "'c \<Rightarrow> ('l, 'c) manager_option" where
  "WithClient cli = (\<lambda>cfg. cfg\<lparr>mcClient := Some cli\<rparr>)"

section \<open>The manager\<close>

text \<open>
  The event channel has a buffer of 16 pods; the cache is a Go map, nil until it is made; the
  mutex is its one bit; \<open>dmLoops\<close> counts the goroutines that run \<open>loop\<close>.
\<close>

record ('q, 'l, 'c) DaemonSetManager =
  dmConfig :: "('l, 'c) ManagerConfig"
  dmCancelled :: bool
  dmOnce :: bool
  dmLoops :: nat
  dmEventC :: "'q pod list"
  dmCap :: nat
  dmLocked :: bool
  dmCache :: "(string \<rightharpoonup> 'q Worker) option"

fun apply_loop :: "('l, 'c) manager_option list \<Rightarrow> ('l, 'c) ManagerConfig \<Rightarrow> ('l, 'c) ManagerConfig" where
  "apply_loop [] cfg = cfg"
| "apply_loop (opt # opts) cfg = apply_loop opts (Apply opt cfg)"

definition NewDaemonSetManager :: "('l, 'c) manager_option list \<Rightarrow> ('q, 'l, 'c) DaemonSetManager" where
  "NewDaemonSetManager options =
     \<lparr>dmConfig = apply_loop options \<lparr>mcLogger = None, mcClient = None\<rparr>, dmCancelled = False, dmOnce = False,
      dmLoops = 0, dmEventC = [], dmCap = 16, dmLocked = False, dmCache = None\<rparr>"

text \<open>Both return a nil error.\<close>

definition Start :: "('q, 'l, 'c) DaemonSetManager \<Rightarrow> ('q, 'l, 'c) DaemonSetManager \<times> go_error option" where
  "Start d =
     (case once_Do (dmOnce d) Suc (dmLoops d) of
        (flag, loops) \<Rightarrow> (d\<lparr>dmOnce := flag, dmLoops := loops\<rparr>, None))"

definition Stop :: "('q, 'l, 'c) DaemonSetManager \<Rightarrow> ('q, 'l, 'c) DaemonSetManager \<times> go_error option" where
  "Stop d = (d\<lparr>dmCancelled := True\<rparr>, None)"

section \<open>The loop\<close>

text \<open>\<open>sync.Mutex.Lock\<close>: a second \<open>Lock\<close> waits for an \<open>Unlock\<close>, which no code of the program calls.\<close>

definition mux_Lock :: "('q, 'l, 'c) DaemonSetManager \<Rightarrow> ('q, 'l, 'c) DaemonSetManager outcome" where
  "mux_Lock d = (if dmLocked d then Blocks else Returns (d\<lparr>dmLocked := True\<rparr>))"

definition cache_write ::
    "string \<Rightarrow> 'q Worker \<Rightarrow> ('q, 'l, 'c) DaemonSetManager \<Rightarrow> ('q, 'l, 'c) DaemonSetManager outcome" where
  "cache_write key worker d =
     (case dmCache d of
        None \<Rightarrow> Panics NilMapWrite
      | Some m \<Rightarrow> Returns (d\<lparr>dmCache := Some (m(key \<mapsto> worker))\<rparr>))"

text \<open>
  The case that receives a pod.  The cached worker is a pointer, so a send that returns changes
  the worker in the cache; the goroutine of a new worker is started before the send.
\<close>

definition manager_event ::
    "'q quantity_api \<Rightarrow> ('q, 'l, 'c) DaemonSetManager \<Rightarrow> 'q pod \<Rightarrow> ('q, 'l, 'c) DaemonSetManager run" where
  "manager_event Q d pod =
     settle d (mux_Lock d) (\<lambda>d1.
       let cachedKey = GetNamespacedName pod in
       case (case dmCache d1 of None \<Rightarrow> None | Some m \<Rightarrow> m cachedKey) of
         Some worker \<Rightarrow>
           settle d1 (SendEvent worker \<lparr>ev_typ = EventTypeUpdate, ev_pod = Some pod, scaleType = ScaleNone\<rparr>) (\<lambda>w.
           settle d1 (cache_write cachedKey w d1) Waiting)
       | None \<Rightarrow>
           (let worker = NewWorker Q pod in
            settle d1 (cache_write cachedKey worker d1) (\<lambda>d2.
            settle d2 (SendEvent worker \<lparr>ev_typ = EventTypeNew, ev_pod = Some pod, scaleType = ScaleNone\<rparr>) (\<lambda>w.
            settle d2 (cache_write cachedKey w d2) Waiting))))"

datatype 'q manager_case = PodEvent "'q pod" | ManagerDone

text \<open>The case of \<open>ctx.Done\<close> is empty: the loop goes on, and the case is ready again.\<close>

fun manager_loop ::
    "'q quantity_api \<Rightarrow> ('q, 'l, 'c) DaemonSetManager \<Rightarrow> 'q manager_case list \<Rightarrow> ('q, 'l, 'c) DaemonSetManager run" where
  "manager_loop Q d [] = Waiting d"
| "manager_loop Q d (PodEvent pod # cs) =
     (case manager_event Q d pod of
        Waiting d' \<Rightarrow> manager_loop Q d' cs
      | r \<Rightarrow> r)"
| "manager_loop Q d (ManagerDone # cs) = manager_loop Q d cs"

section \<open>Lemmas\<close>

lemma NewDaemonSetManager_fresh [simp]:
  "dmLoops (NewDaemonSetManager opts) = 0" "dmLoops (fst (Start (NewDaemonSetManager opts))) = 1"
  "dmEventC (NewDaemonSetManager opts) = []" "dmEventC (fst (Start d)) = dmEventC d"
  "dmCache (NewDaemonSetManager opts) = None" "dmCache (fst (Start d)) = dmCache d"
  by (simp_all add: NewDaemonSetManager_def Start_def once_Do_def split: prod.splits)

lemma manager_event_Waiting:
  "manager_event Q d pod = Waiting d' \<Longrightarrow> \<not> dmLocked d \<and> dmLocked d'"
  by (auto simp: manager_event_def settle_Waiting_iff mux_Lock_def cache_write_def Let_def
      split: if_splits option.splits)

lemma manager_event_not_Ended: "manager_event Q d pod \<noteq> Ended d'"
proof -
  have s: "settle s r f \<noteq> Ended t" if "\<And>x. r = Returns x \<Longrightarrow> f x \<noteq> Ended t" for s :: "('a, 'b, 'c) DaemonSetManager"
      and r :: "'x outcome" and f t
    using that by (cases r) auto
  show ?thesis
    unfolding manager_event_def Let_def by (intro s) (auto split: option.splits intro!: s)
qed

lemma manager_loop_locked: "dmLocked d \<Longrightarrow> PodEvent p \<in> set cs \<Longrightarrow> manager_loop Q d cs = Stuck d"
proof (induction cs)
  case (Cons c cs)
  then show ?case
    by (cases c) (auto simp: manager_event_def mux_Lock_def)
qed simp

section \<open>Properties\<close>

text \<open>
  C34: the manager never handles a pod.  A manager as \<open>NewDaemonSetManager\<close> makes it writes to its nil
  cache on the first pod it receives, whatever the pod and whatever comes before and after it, which
  crashes the process; without a pod it waits, also when its context is done.
\<close>

theorem manager_crashes_on_pod:
  "manager_loop Q (NewDaemonSetManager options) cs =
     (if \<exists>p. PodEvent p \<in> set cs then Crashed NilMapWrite else Waiting (NewDaemonSetManager options))"
proof (induction cs)
  case (Cons c cs)
  then show ?case
    by (cases c) (auto simp: manager_event_def mux_Lock_def cache_write_def NewDaemonSetManager_def Let_def)
qed simp

text \<open>
  The mutex is never released.  With a cache that was made, a loop that handled one pod stands with
  the mutex locked, and the next pod it receives blocks it forever.
\<close>

theorem manager_lock_kept:
  assumes "manager_loop Q d cs = Waiting d'" "PodEvent p \<in> set cs" "PodEvent q \<in> set cs'"
  shows "\<not> dmLocked d \<and> manager_loop Q d (cs @ cs') = Stuck d'"
proof -
  have "dmLocked d' \<and> \<not> dmLocked d \<and> manager_loop Q d (cs @ cs') = manager_loop Q d' cs'"
    using assms(1,2)
  proof (induction cs arbitrary: d)
    case (Cons c cs)
    show ?case
    proof (cases c)
      case (PodEvent r)
      then obtain d1 where d1: "manager_event Q d r = Waiting d1" "manager_loop Q d1 cs = Waiting d'"
        using Cons.prems by (auto split: run.splits)
      moreover have n: "PodEvent s \<notin> set cs" for s
        using manager_event_Waiting [OF d1(1)] manager_loop_locked [of d1 s cs Q] d1(2) by auto
      have "manager_loop Q d1 (us @ cs') = manager_loop Q d1 cs' \<and> manager_loop Q d1 us = Waiting d1"
        if "\<forall>s. PodEvent s \<notin> set us" for us
        using that
      proof (induction us)
        case (Cons u us)
        then show ?case by (cases u) auto
      qed simp
      with n d1 have "d' = d1" "manager_loop Q d1 (cs @ cs') = manager_loop Q d1 cs'" by auto
      with d1 manager_event_Waiting [OF d1(1)] show ?thesis by (simp add: PodEvent)
    next
      case ManagerDone
      with Cons show ?thesis by simp
    qed
  qed simp
  then show ?thesis using manager_loop_locked assms(3) by metis
qed

text \<open>A manager whose cache was made and holds one worker with a channel.\<close>

definition made_manager :: "(amount, unit, unit) DaemonSetManager" where
  "made_manager = (NewDaemonSetManager [])\<lparr>dmCache :=
     Some [''mo/cn-0'' \<mapsto> (NewWorker ref_quantity main_pod)\<lparr>wkEventC := Some []\<rparr>]\<rparr>"

theorem manager_lock_kept_witness:
  "\<exists>d. manager_loop ref_quantity made_manager [PodEvent main_pod] = Waiting d \<and>
    manager_loop ref_quantity made_manager [PodEvent main_pod, PodEvent main_pod] = Stuck d"
proof -
  have k: "GetNamespacedName main_pod = ''mo/cn-0''" by code_simp
  have "\<exists>d. manager_loop ref_quantity made_manager [PodEvent main_pod] = Waiting d"
    by (simp add: manager_event_def mux_Lock_def made_manager_def NewDaemonSetManager_def k SendEvent_def cache_write_def Let_def)
  then obtain d where d: "manager_loop ref_quantity made_manager [PodEvent main_pod] = Waiting d" ..
  with manager_lock_kept [OF d, of main_pod main_pod "[PodEvent main_pod]"] show ?thesis by auto
qed

text \<open>
  The manager's loop never ends: no script of pods and cancellations leads to its end, so
  \<open>Stop\<close> does not stop it, and a cancelled context is polled without end.
\<close>

theorem manager_never_ends:
  "manager_loop Q d cs \<noteq> Ended d' \<and> manager_loop Q (fst (Stop d)) (replicate n ManagerDone) = Waiting (fst (Stop d))"
proof -
  have "manager_loop Q d cs \<noteq> Ended d'"
  proof (induction cs arbitrary: d)
    case (Cons c cs)
    then show ?case
      by (cases c) (auto simp: manager_event_not_Ended split: run.splits)
  qed simp
  moreover have "manager_loop Q e (replicate n ManagerDone) = Waiting e" for e :: "('a, 'b, 'c) DaemonSetManager"
    by (induction n) simp_all
  ultimately show ?thesis by simp
qed

text \<open>
  A new worker is never told of its pod.  With a cache that was made, an unlocked manager that receives a
  pod it does not know caches a worker for it and blocks forever on the send to the worker's nil channel.
\<close>

theorem manager_blocks_on_new_pod:
  assumes "dmCache d = Some m" "m (GetNamespacedName pod) = None" "\<not> dmLocked d"
  shows "manager_loop Q d (PodEvent pod # cs) =
    Stuck (d\<lparr>dmLocked := True, dmCache := Some (m(GetNamespacedName pod \<mapsto> NewWorker Q pod))\<rparr>)"
  using assms by (simp add: manager_event_def mux_Lock_def cache_write_def SendEvent_def NewWorker_def Let_def)

theorem manager_blocks_on_new_pod_witness:
  "\<exists>d. manager_loop ref_quantity (made_manager\<lparr>dmCache := Some Map.empty\<rparr>) [PodEvent main_pod] = Stuck d"
  using manager_blocks_on_new_pod [where d = "made_manager\<lparr>dmCache := Some Map.empty\<rparr>" and m = Map.empty and cs = "[]"]
  by (simp add: made_manager_def NewDaemonSetManager_def)

text \<open>
  Starting is idempotent and options override in order: one loop runs however often the manager
  is started, and the logger and the client are those of the last option that set them.
\<close>

theorem manager_start_and_options:
  fixes opts :: "('l, 'c) manager_option list"
  shows "dmLoops (fst (Start (NewDaemonSetManager opts))) = 1 \<and>
   fst (Start (fst (Start d))) = fst (Start d) \<and>
   mcClient (dmConfig (NewDaemonSetManager (opts @ [WithClient c, WithLogger l]))) = Some c \<and>
   mcLogger (dmConfig (NewDaemonSetManager (opts @ [WithClient c, WithLogger l]))) = Some l"
proof -
  have "apply_loop (us @ vs) cfg = apply_loop vs (apply_loop us cfg)" for us vs :: "('l, 'c) manager_option list" and cfg
    by (induction us arbitrary: cfg) simp_all
  then show ?thesis
    by (simp add: Start_def once_Do_def NewDaemonSetManager_def WithClient_def WithLogger_def Apply_def)
qed

end
