(* ===== verification/Controller.thy ===== *)
theory Controller
  imports Pod_Worker
begin

text \<open>
  \<^verbatim>\<open>pkg/controller/pod_controller.go\<close>: one reconcile request.  The \<open>goto\<close> labels of the source are the
  results \<open>successL\<close> and \<open>errorL\<close>; the configuration is the package variable of \<^verbatim>\<open>pkg/config\<close>, with the parsed
  labels the selector keeps in it.
\<close>

section \<open>The reconciler\<close>

record reconcile_result =
  Requeue :: bool

text \<open>The client's \<open>Get\<close>, apimachinery's \<open>IsNotFound\<close>, the selector library and the JSON decoder.\<close>

record ('q, 'sel) reconcile_env =
  rGet :: "namespaced_name \<Rightarrow> go_error + 'q pod"
  rIsNotFound :: "go_error \<Rightarrow> bool"
  rSelector :: "'sel selector_api"
  rQuantity :: "'q quantity_api"
  rUnmarshal :: "char list option \<Rightarrow> 'q ResourceRange \<Rightarrow> go_error + 'q ResourceRange"

definition successL :: "reconcile_result \<times> go_error option" where
  "successL = (\<lparr>Requeue = False\<rparr>, None)"

definition errorL :: "go_error \<Rightarrow> reconcile_result \<times> go_error option" where
  "errorL err = (\<lparr>Requeue = True\<rparr>, Some err)"

text \<open>The check of the resource range: the \<open>else\<close> branch of the selector's test.\<close>

definition check_range :: "('q, 'sel) reconcile_env \<Rightarrow> Configuration \<Rightarrow> 'q pod \<Rightarrow> go_error option" where
  "check_range R cfg pod =
     (case annotation pod (ResourceRangeKey (App cfg)) of
        None \<Rightarrow> Some ErrNoResourceRange
      | Some resourceJson \<Rightarrow>
          (case ParseResourceRange (rQuantity R) (rUnmarshal R) resourceJson of
             Inl e \<Rightarrow> Some e
           | Inr _ \<Rightarrow> None))"

text \<open>The event for the manager: the last step before the labels.\<close>

definition send_pod :: "'q pod \<Rightarrow> (reconcile_result \<times> go_error option) outcome" where
  "send_pod pod =
     bind_outcome (on_manager GetManger (\<lambda>m. NewPod m pod)) (\<lambda>err.
       case err of Some e \<Rightarrow> Returns (errorL e) | None \<Rightarrow> Returns successL)"

definition Reconcile ::
    "('q, 'sel) reconcile_env \<Rightarrow> config_var \<Rightarrow> namespaced_name \<Rightarrow>
       config_var \<times> (reconcile_result \<times> go_error option) outcome" where
  "Reconcile R gCfg req =
     (case GetConfiguration gCfg of
        (gCfg1, cfg) \<Rightarrow>
          (case rGet R req of
             Inl err \<Rightarrow>
               (gCfg1, Returns (if \<not> rIsNotFound R err then (\<lparr>Requeue = True\<rparr>, Some err)
                                else (\<lparr>Requeue = False\<rparr>, None)))
           | Inr pod \<Rightarrow>
               if pNodeName pod \<noteq> GetNodeName (App cfg) then (gCfg1, Returns (\<lparr>Requeue = False\<rparr>, None))
               else (case GetLabelSelector (rSelector R) (MO cfg) of
                       (mo, sel) \<Rightarrow>
                         (let gCfg2 = setConfiguration (cfg\<lparr>MO := mo\<rparr>) in
                          case sel of
                            Inl err \<Rightarrow> (gCfg2, Returns (errorL err))
                          | Inr selector \<Rightarrow>
                              if \<not> Matches (rSelector R) selector (pLabels pod) then (gCfg2, Returns successL)
                              else (case check_range R cfg pod of
                                      Some err \<Rightarrow> (gCfg2, Returns (errorL err))
                                    | None \<Rightarrow> (gCfg2, send_pod pod))))))"

section \<open>Registration\<close>

text \<open>
  The calls that set up the manager of controller-runtime, in the order they are made.  What the manager
  answers to a call is a parameter.
\<close>

datatype manager_call = CompleteFor string | AddHealthzCheck string | AddReadyzCheck string | IndexField string

definition call_manager ::
    "(manager_call \<Rightarrow> go_error option) \<Rightarrow> manager_call \<Rightarrow> manager_call list \<Rightarrow> manager_call list \<times> go_error option" where
  "call_manager answer c calls = (calls @ [c], answer c)"

definition SetupWithManager ::
    "(manager_call \<Rightarrow> go_error option) \<Rightarrow> manager_call list \<Rightarrow> manager_call list \<times> go_error option" where
  "SetupWithManager answer calls = call_manager answer (CompleteFor ''Pod'') calls"

section \<open>Lemmas\<close>

text \<open>The pods a node takes over: on this node, selected by the labels, with a valid range.\<close>

definition managed :: "('q, 'sel) reconcile_env \<Rightarrow> Configuration \<Rightarrow> 'q pod \<Rightarrow> bool" where
  "managed R cfg pod \<longleftrightarrow> pNodeName pod = NodeName (App cfg) \<and>
     (\<exists>sel. snd (GetLabelSelector (rSelector R) (MO cfg)) = Inr sel \<and> Matches (rSelector R) sel (pLabels pod)) \<and>
     (\<exists>json r. annotation pod (ResourceRangeKey (App cfg)) = Some json \<and>
        ParseResourceRange (rQuantity R) (rUnmarshal R) json = Inr r)"

lemma check_range_None:
  "check_range R cfg pod = None \<longleftrightarrow>
     (\<exists>json r. annotation pod (ResourceRangeKey (App cfg)) = Some json \<and>
        ParseResourceRange (rQuantity R) (rUnmarshal R) json = Inr r)"
  by (auto simp: check_range_def split: option.splits sum.splits)

lemma send_pod_panics: "send_pod pod = Panics NilDeref"
  by (simp add: send_pod_def on_manager_def GetManger_def gMgr_def)

lemma Reconcile_managed:
  assumes "rGet R req = Inr pod" "managed R cfg pod"
  shows "snd (Reconcile R (Some cfg) req) = Panics NilDeref"
  using assms check_range_None [of R cfg pod]
  by (cases "GetLabelSelector (rSelector R) (MO cfg)")
    (auto simp: managed_def Reconcile_def GetConfiguration_def Config.GetNodeName_def Let_def send_pod_panics)

section \<open>Properties\<close>

text \<open>
  C21: the decisions of a reconcile request.  A pod that is gone, on another node or not selected is
  done; an error of the client, of the selector or of the resource range is requeued with that error;
  and the request for a managed pod panics, since the manager it is sent to is nil.
\<close>

theorem reconcile_decisions:
  "snd (Reconcile R (Some cfg) req) =
     (case rGet R req of
        Inl err \<Rightarrow> Returns (if rIsNotFound R err then (\<lparr>Requeue = False\<rparr>, None) else (\<lparr>Requeue = True\<rparr>, Some err))
      | Inr pod \<Rightarrow>
          if managed R cfg pod then Panics NilDeref
          else if pNodeName pod \<noteq> NodeName (App cfg) then Returns (\<lparr>Requeue = False\<rparr>, None)
          else (case snd (GetLabelSelector (rSelector R) (MO cfg)) of
                  Inl err \<Rightarrow> Returns (\<lparr>Requeue = True\<rparr>, Some err)
                | Inr sel \<Rightarrow>
                    if \<not> Matches (rSelector R) sel (pLabels pod) then Returns (\<lparr>Requeue = False\<rparr>, None)
                    else Returns (\<lparr>Requeue = True\<rparr>, check_range R cfg pod)))"
proof (cases "rGet R req")
  case (Inr pod)
  obtain mo s where s: "GetLabelSelector (rSelector R) (MO cfg) = (mo, s)" by force
  show ?thesis
  proof (cases "check_range R cfg pod")
    case None
    then have "managed R cfg pod \<longleftrightarrow> pNodeName pod = NodeName (App cfg) \<and>
        (\<exists>sel. snd (GetLabelSelector (rSelector R) (MO cfg)) = Inr sel \<and> Matches (rSelector R) sel (pLabels pod))"
      using check_range_None [of R cfg pod] by (simp only: managed_def) blast
    with Inr s None show ?thesis
      by (cases s) (auto simp: Reconcile_def GetConfiguration_def Config.GetNodeName_def successL_def
          errorL_def Let_def send_pod_panics)
  next
    case (Some e)
    then have "\<not> managed R cfg pod"
      using check_range_None [of R cfg pod] by (auto simp: managed_def)
    with Inr s Some show ?thesis
      by (cases s) (auto simp: Reconcile_def GetConfiguration_def Config.GetNodeName_def successL_def
          errorL_def Let_def)
  qed
qed (simp add: Reconcile_def GetConfiguration_def)

text \<open>
  Requeueing and errors go together, and the configuration is touched in the label cache only:
  a request that returns asks to be requeued exactly when it returns an error, and leaves the application
  part and the configured labels as they were.
\<close>

theorem reconcile_requeue:
  assumes "Reconcile R gCfg req = (gCfg', Returns (res, err))"
  shows "(Requeue res \<longleftrightarrow> err \<noteq> None) \<and>
    (\<exists>cfg'. gCfg' = Some cfg' \<and> App cfg' = App (snd (GetConfiguration gCfg)) \<and>
       Labels (MO cfg') = Labels (MO (snd (GetConfiguration gCfg))))"
proof -
  have l: "Labels (fst (GetLabelSelector S c)) = Labels c" for S :: "'b selector_api" and c
    by (simp add: GetLabelSelector_def Let_def)
  show ?thesis
    using assms l [of "rSelector R" "MO (snd (GetConfiguration gCfg))"]
    by (auto simp: Reconcile_def GetConfiguration_def successL_def errorL_def setConfiguration_def Let_def
        send_pod_panics split: sum.splits prod.splits option.splits if_splits) metis+
qed

text \<open>A cluster of one pod on this node without an annotation, for the witness.\<close>

definition ref_reconcile :: "(amount, string_map) reconcile_env" where
  "ref_reconcile =
     \<lparr>rGet = (\<lambda>_. Inr main_pod), rIsNotFound = (\<lambda>_. False), rSelector = ref_selector,
      rQuantity = ref_quantity, rUnmarshal = (\<lambda>_ r. Inr r)\<rparr>"

theorem reconcile_requeue_witness:
  "\<exists>g res err. Reconcile ref_reconcile None \<lparr>nnNamespace = ''mo'', nnName = ''cn-0''\<rparr> = (g, Returns (res, err)) \<and>
     Requeue res \<and> err = Some ErrNoResourceRange"
proof -
  let ?req = "\<lparr>nnNamespace = ''mo'', nnName = ''cn-0''\<rparr>"
  have "Reconcile ref_reconcile None ?req = (Some NewConfiguration, Returns (\<lparr>Requeue = True\<rparr>, Some ErrNoResourceRange))"
    by code_simp
  with reconcile_requeue [OF this] show ?thesis by auto
qed

end
