(* ===== verification/Main_Setup.thy ===== *)
theory Main_Setup
  imports Pod_Manager Controller
begin

text \<open>
  \<^verbatim>\<open>cmd/main.go\<close> and \<^verbatim>\<open>cmd/setup\<close>: the start of the process, up to the end of the controller manager, and
  \<^verbatim>\<open>pkg/version/version.go\<close>.  The flags are given as parsed; the steps of controller-runtime (making the
  manager, registering the controller and the health checks, running) are given by their errors.
\<close>

section \<open>The version\<close>

record version_vars =
  GoVersion :: string
  BranchName :: string
  CommitID :: string
  BuildTime :: string
  Version :: string

text \<open>\<open>bytes.NewBuffer\<close> of a slice of 1024 zero bytes is a buffer that already holds them.\<close>

definition GetInfo :: "version_vars \<Rightarrow> string \<Rightarrow> string" where
  "GetInfo V arg0 =
     replicate 1024 (CHR 0x00) @
     (arg0 @ '' build info:'' @ [CHR 0x0A]) @
     (''  The golang version used to build this binary: '' @ GoVersion V @ [CHR 0x0A]) @
     (''  Git branch name: '' @ BranchName V @ [CHR 0x0A]) @
     (''  Git commit ID: '' @ CommitID V @ [CHR 0x0A]) @
     (''  Buildtime: '' @ BuildTime V @ [CHR 0x0A]) @
     (''  Version: '' @ Version V @ [CHR 0x0A])"

definition GetInfoOneLine :: "version_vars \<Rightarrow> string \<Rightarrow> string" where
  "GetInfoOneLine V arg0 =
     arg0 @ '' v'' @ Version V @ '' compiled at '' @ BuildTime V @ '' (revision id: '' @ CommitID V @ ''.'' @
     BranchName V @ '') ('' @ GoVersion V @ '')''"

section \<open>The Kubernetes client and the node\<close>

text \<open>
  What the setup calls: the client configuration (which exits when there is none), the clientset, and
  the reading of a pod by namespace and name.
\<close>

record ('q, 'c) setup_env =
  GetConfigOrDie :: "'c outcome"
  NewForConfig :: "'c \<Rightarrow> go_error + 'c"
  Pods_Get :: "'c \<Rightarrow> string \<Rightarrow> string \<Rightarrow> go_error + 'q pod"

record 'c client_vars =
  getClinetOnce :: bool
  gClientset :: "'c option"

definition make_client :: "('q, 'c) setup_env \<Rightarrow> 'c outcome" where
  "make_client S =
     bind_outcome (GetConfigOrDie S) (\<lambda>config.
       case NewForConfig S config of
         Inl e \<Rightarrow> Panics (PanicText (errcode_text e))
       | Inr clientset \<Rightarrow> Returns clientset)"

definition GetK8sClient :: "('q, 'c) setup_env \<Rightarrow> 'c client_vars \<Rightarrow> 'c client_vars \<times> 'c option outcome" where
  "GetK8sClient S v =
     (if getClinetOnce v then (v, Returns (gClientset v))
      else bind_state (v\<lparr>getClinetOnce := True\<rparr>, make_client S) (\<lambda>v clientset.
        (v\<lparr>gClientset := Some clientset\<rparr>, Returns (Some clientset))))"

definition setup_GetNodeName ::
    "('q, 'c) setup_env \<Rightarrow> os_env \<Rightarrow> 'c client_vars \<Rightarrow> 'c client_vars \<times> (go_error + string) outcome" where
  "setup_GetNodeName S os v =
     bind_state (GetK8sClient S v) (\<lambda>v clientset.
       let podName = Getenv os EnvPodName; podNS = Getenv os EnvPodNamespace in
       if podName = [] then (v, Returns (Inl ErrNoPodName))
       else if podNS = [] then (v, Returns (Inl ErrNoNamespace))
       else (case clientset of
               None \<Rightarrow> (v, Panics NilDeref)
             | Some c \<Rightarrow>
                 (case Pods_Get S c podNS podName of
                    Inl e \<Rightarrow> (v, Returns (Inl e))
                  | Inr pod \<Rightarrow> (v, Returns (Inr (pNodeName pod))))))"

text \<open>The index function of \<open>InitManagerIndexer\<close>, for the field \<open>K8sFieldNodeName\<close>.\<close>

definition node_name_index :: "'q pod \<Rightarrow> string list" where
  "node_name_index obj = (let nodeName = pNodeName obj in if nodeName \<noteq> [] then [nodeName] else [])"

text \<open>The error of \<open>IndexField\<close> is dropped.\<close>

definition InitManagerIndexer :: "(manager_call \<Rightarrow> go_error option) \<Rightarrow> manager_call list \<Rightarrow> manager_call list" where
  "InitManagerIndexer answer calls = fst (call_manager answer (IndexField K8sFieldNodeName) calls)"

section \<open>The kubelet checks\<close>

definition setup_GetKubeletServer ::
    "('q, 'o) kube_world \<Rightarrow> 'o kubelet_vars \<Rightarrow> 'o kubelet_vars \<times> go_error option outcome" where
  "setup_GetKubeletServer W v = bind_state (GetKubeletServer W v) (\<lambda>v (_, err). (v, Returns err))"

definition setup_IsCgroupV2 ::
    "('q, 'o) kube_world \<Rightarrow> 'o kubelet_vars \<Rightarrow> 'o kubelet_vars \<times> (bool \<times> go_error option) outcome" where
  "setup_IsCgroupV2 W v =
     bind_state (setup_GetKubeletServer W v) (\<lambda>v err.
       case err of
         Some e \<Rightarrow> (v, Returns (False, Some e))
       | None \<Rightarrow> (v, Returns (IsCgroupV2 W, None)))"

section \<open>The main function\<close>

definition defaultMetricsAddr :: string where "defaultMetricsAddr = '':8080''"
definition defaultProbeAddr :: string where "defaultProbeAddr = '':8081''"
definition defaultPprofAddr :: string where "defaultPprofAddr = '':8082''"

record main_flags =
  metricsAddr :: string
  probeAddr :: string
  pprofAddr :: string
  enableLeaderElection :: bool
  versionShow :: bool
  cfgPath :: string

definition default_flags :: main_flags where
  "default_flags =
     \<lparr>metricsAddr = defaultMetricsAddr, probeAddr = defaultProbeAddr, pprofAddr = defaultPprofAddr,
      enableLeaderElection = False, versionShow = False, cfgPath = []\<rparr>"

text \<open>The options of the controller manager that the source sets.\<close>

record 'sch ctrl_options =
  optScheme :: 'sch
  optMetricsBindAddress :: string
  optWebhookPort :: int
  optHealthProbeBindAddress :: string
  optPprofBindAddress :: string
  optLeaderElection :: bool
  optLeaderElectionID :: string

definition main_options :: "'sch \<Rightarrow> main_flags \<Rightarrow> 'sch ctrl_options" where
  "main_options scheme f =
     \<lparr>optScheme = scheme, optMetricsBindAddress = metricsAddr f, optWebhookPort = 9443,
      optHealthProbeBindAddress = probeAddr f, optPprofBindAddress = pprofAddr f,
      optLeaderElection = enableLeaderElection f, optLeaderElectionID = ''f67856fc.core.matrixone-cloud''\<rparr>"

record ('q, 'o, 'c, 'sel, 'v, 'sch) main_env =
  mWorld :: "('q, 'o) kube_world"
  mSetup :: "('q, 'c) setup_env"
  mSelector :: "'sel selector_api"
  mViper :: "'v viper_api"
  mViper0 :: 'v
  mVersion :: version_vars
  mArg0 :: string
  mAddToScheme :: "'sch \<Rightarrow> 'sch \<times> go_error option"
  mNewManager :: "'sch ctrl_options \<Rightarrow> go_error option outcome"
  mAnswer :: "manager_call \<Rightarrow> go_error option"
  mElected :: bool
  mStart :: "go_error option"

record ('q, 'o, 'c, 'sch) main_state =
  mConfig :: config_var
  mKube :: "'o kubelet_vars"
  mClient :: "'c client_vars"
  mPodManager :: "('q, unit, unit) DaemonSetManager option"
  mPrinted :: "string list"
  mScheme :: 'sch
  mLogger :: "unit option"
  mCalls :: "manager_call list"

text \<open>\<open>if err != nil { os.Exit(1) }\<close>\<close>

definition exit_on :: "go_error option \<Rightarrow> unit outcome" where
  "exit_on err = (case err of Some e \<Rightarrow> Exits 1 | None \<Rightarrow> Returns ())"

text \<open>The package initialisation: \<open>utilruntime.Must\<close> panics on the error of \<open>AddToScheme\<close>.\<close>

definition main_init ::
    "('q, 'o, 'c, 'sel, 'v, 'sch) main_env \<Rightarrow> ('q, 'o, 'c, 'sch) main_state \<Rightarrow> ('q, 'o, 'c, 'sch) main_state \<times> unit outcome" where
  "main_init E s =
     (case mAddToScheme E (mScheme s) of
        (scheme, err) \<Rightarrow>
          (s\<lparr>mScheme := scheme\<rparr>, case err of None \<Rightarrow> Returns () | Some e \<Rightarrow> Panics (PanicError e)))"

text \<open>Reading the configuration file, and the node name when the file leaves it to the cluster.\<close>

definition main_config ::
    "('q, 'o, 'c, 'sel, 'v, 'sch) main_env \<Rightarrow> main_flags \<Rightarrow> ('q, 'o, 'c, 'sch) main_state \<Rightarrow> ('q, 'o, 'c, 'sch) main_state \<times> unit outcome" where
  "main_config E f s =
     (if cfgPath f \<noteq> []
      then (case InitConfiguration (mViper E) (wOs (mWorld E)) (cfgPath f) (mViper0 E) (mConfig s) of
              (g, Inl e) \<Rightarrow> (s\<lparr>mConfig := g\<rparr>, Exits 1)
            | (g, Inr _) \<Rightarrow>
                (case GetConfiguration g of
                   (g', cfg) \<Rightarrow>
                     (if NodeName (App cfg) = NodeNameAuto
                      then (case setup_GetNodeName (mSetup E) (wOs (mWorld E)) (mClient s) of
                              (cv, r) \<Rightarrow> bind_state (s\<lparr>mConfig := g', mClient := cv\<rparr>, r) (\<lambda>s r.
                                case r of
                                  Inl e \<Rightarrow> (s, Exits 1)
                                | Inr nodeName \<Rightarrow>
                                    (s\<lparr>mConfig := setConfiguration (cfg\<lparr>App := SetNodeName (App cfg) nodeName\<rparr>)\<rparr>, Returns ())))
                      else (s\<lparr>mConfig := g'\<rparr>, Returns ()))))
      else (s, Returns ()))"

definition main_validate ::
    "('q, 'o, 'c, 'sel, 'v, 'sch) main_env \<Rightarrow> ('q, 'o, 'c, 'sch) main_state \<Rightarrow> ('q, 'o, 'c, 'sch) main_state \<times> unit outcome" where
  "main_validate E s =
     (case GetConfiguration (mConfig s) of
        (g, cfg) \<Rightarrow>
          (case Validate (mSelector E) cfg of
             (cfg', err) \<Rightarrow> (s\<lparr>mConfig := setConfiguration cfg'\<rparr>, exit_on err)))"

text \<open>The manager's options: the logger and the client of the process.\<close>

definition main_cgroup ::
    "('q, 'o, 'c, 'sel, 'v, 'sch) main_env \<Rightarrow> ('q, 'o, 'c, 'sch) main_state \<Rightarrow> ('q, 'o, 'c, 'sch) main_state \<times> unit outcome" where
  "main_cgroup E s =
     (case setup_IsCgroupV2 (mWorld E) (mKube s) of
        (kv, r) \<Rightarrow> bind_state (s\<lparr>mKube := kv\<rparr>, r) (\<lambda>s (isCgroupV2, err).
          if \<not> isCgroupV2 then (s, Returns ())
          else (s\<lparr>mPodManager := Some (NewDaemonSetManager [WithLogger (), WithClient ()])\<rparr>, Returns ())))"

text \<open>The registrations: the controller and the two checks, whose errors end the process, then the index.\<close>

definition main_call ::
    "(manager_call list \<Rightarrow> manager_call list \<times> go_error option) \<Rightarrow> ('q, 'o, 'c, 'sch) main_state \<Rightarrow>
       ('q, 'o, 'c, 'sch) main_state \<times> unit outcome" where
  "main_call f s = (case f (mCalls s) of (calls, err) \<Rightarrow> (s\<lparr>mCalls := calls\<rparr>, exit_on err))"

definition main_register ::
    "('q, 'o, 'c, 'sel, 'v, 'sch) main_env \<Rightarrow> ('q, 'o, 'c, 'sch) main_state \<Rightarrow> ('q, 'o, 'c, 'sch) main_state \<times> unit outcome" where
  "main_register E s =
     bind_state (main_call (SetupWithManager (mAnswer E)) s) (\<lambda>s _.
     bind_state (main_call (call_manager (mAnswer E) (AddHealthzCheck ''healthz'')) s) (\<lambda>s _.
     bind_state (main_call (call_manager (mAnswer E) (AddReadyzCheck ''readyz'')) s) (\<lambda>s _.
       (s\<lparr>mCalls := InitManagerIndexer (mAnswer E) (mCalls s)\<rparr>, Returns ()))))"

definition main_start ::
    "('q, 'o, 'c, 'sel, 'v, 'sch) main_env \<Rightarrow> ('q, 'o, 'c, 'sch) main_state \<Rightarrow> ('q, 'o, 'c, 'sch) main_state \<times> unit outcome" where
  "main_start E s =
     (let s1 = (case mPodManager s of
                  Some m \<Rightarrow> if mElected E then s\<lparr>mPodManager := Some (fst (Start m))\<rparr> else s
                | None \<Rightarrow> s)
      in (s1, exit_on (mStart E)))"

definition main ::
    "('q, 'o, 'c, 'sel, 'v, 'sch) main_env \<Rightarrow> main_flags \<Rightarrow> ('q, 'o, 'c, 'sch) main_state \<Rightarrow> ('q, 'o, 'c, 'sch) main_state \<times> unit outcome" where
  "main E f s =
     (if versionShow f then (s\<lparr>mPrinted := mPrinted s @ [GetInfoOneLine (mVersion E) (mArg0 E)]\<rparr>, Exits 0)
      else bind_state (main_config E f (s\<lparr>mLogger := SetLogger () (mLogger s)\<rparr>)) (\<lambda>s _.
           bind_state (main_validate E s) (\<lambda>s _.
           bind_state (case setup_GetKubeletServer (mWorld E) (mKube s) of (kv, r) \<Rightarrow> (s\<lparr>mKube := kv\<rparr>, r)) (\<lambda>s err.
           bind_state (s, exit_on err) (\<lambda>s _.
           bind_state (s, bind_outcome (mNewManager E (main_options (mScheme s) f)) exit_on) (\<lambda>s _.
           bind_state (main_cgroup E s) (\<lambda>s _.
           bind_state (main_register E s) (\<lambda>s _.
             main_start E s))))))))"

text \<open>The process: the initialisation of the package, then \<open>main\<close>.\<close>

definition main_process ::
    "('q, 'o, 'c, 'sel, 'v, 'sch) main_env \<Rightarrow> main_flags \<Rightarrow> ('q, 'o, 'c, 'sch) main_state \<Rightarrow> ('q, 'o, 'c, 'sch) main_state \<times> unit outcome" where
  "main_process E f s = bind_state (main_init E s) (\<lambda>s _. main E f s)"

section \<open>Lemmas\<close>

lemma exit_on_Returns [simp]: "exit_on err = Returns u \<longleftrightarrow> err = None"
  by (simp add: exit_on_def split: option.splits)

lemma GetConfiguration_snd: "GetConfiguration g = (g', c) \<Longrightarrow> g' = Some c"
  by (auto simp: GetConfiguration_def split: option.splits)

lemma GetKubeletServer_after:
  "GetKubeletServer W v = (v', Returns r) \<Longrightarrow> v_genOnce v' \<and> r = (v_server v', v_serverErr v')"
  by (auto simp: GetKubeletServer_def bind_state_Returns_iff sum_case_eq_iff split: if_splits prod.splits)

lemma setup_GetKubeletServer_Returns:
  "setup_GetKubeletServer W v = (v', Returns err) \<Longrightarrow> v_genOnce v' \<and> err = v_serverErr v'"
  using GetKubeletServer_after [of W v] by (auto simp: setup_GetKubeletServer_def bind_state_Returns_iff)

text \<open>The parts of the state that the first steps leave alone.\<close>

lemma main_config_keeps:
  "main_config E f s = (s', Returns u) \<Longrightarrow>
     mPodManager s' = mPodManager s \<and> mCalls s' = mCalls s \<and> mScheme s' = mScheme s"
  by (auto simp: main_config_def bind_state_Returns_iff sum_case_eq_iff split: if_splits prod.splits sum.splits)

lemma main_validate_Returns:
  "main_validate E s = (s', Returns u) \<Longrightarrow>
     mPodManager s' = mPodManager s \<and> mCalls s' = mCalls s \<and> mScheme s' = mScheme s \<and>
     (\<exists>cfg sel. mConfig s' = Some cfg \<and> App cfg = App (snd (GetConfiguration (mConfig s))) \<and>
        LabelSelectorAsSelector (mSelector E) (parsedLabels (MO cfg)) = Inr sel)"
  by (auto simp: main_validate_def Validate_def GetLabelSelector_def setConfiguration_def Let_def
      split: prod.splits sum.splits if_splits)

lemma main_cgroup_Returns:
  assumes "main_cgroup E s = (s', Returns u)" "v_genOnce (mKube s)" "v_serverErr (mKube s) = None"
  shows "mKube s' = mKube s \<and> mConfig s' = mConfig s \<and> mCalls s' = mCalls s \<and>
    (if IsCgroupV2 (mWorld E) then mPodManager s' = Some (NewDaemonSetManager [WithLogger (), WithClient ()])
     else mPodManager s' = mPodManager s)"
  using assms
  by (auto simp: main_cgroup_def setup_IsCgroupV2_def setup_GetKubeletServer_def GetKubeletServer_def split: if_splits)

lemma main_register_Returns:
  "main_register E s = (s', Returns u) \<longleftrightarrow>
     s' = s\<lparr>mCalls := mCalls s @ [CompleteFor ''Pod'', AddHealthzCheck ''healthz'', AddReadyzCheck ''readyz'',
       IndexField ''spec.nodeName'']\<rparr> \<and>
     mAnswer E (CompleteFor ''Pod'') = None \<and> mAnswer E (AddHealthzCheck ''healthz'') = None \<and>
     mAnswer E (AddReadyzCheck ''readyz'') = None"
  by (auto simp: main_register_def main_call_def SetupWithManager_def call_manager_def InitManagerIndexer_def
      K8sFieldNodeName_def bind_state_Returns_iff)

text \<open>The steps of a \<open>main\<close> that returns.\<close>

lemma main_steps:
  assumes "main E f s = (s', Returns u)"
  obtains s1 s2 kv s4 s5 where "\<not> versionShow f"
    "main_config E f (s\<lparr>mLogger := SetLogger () (mLogger s)\<rparr>) = (s1, Returns ())"
    "main_validate E s1 = (s2, Returns ())"
    "setup_GetKubeletServer (mWorld E) (mKube s2) = (kv, Returns None)"
    "mNewManager E (main_options (mScheme s2) f) = Returns None"
    "main_cgroup E (s2\<lparr>mKube := kv\<rparr>) = (s4, Returns ())"
    "main_register E s4 = (s5, Returns ())"
    "main_start E s5 = (s', Returns ())"
  using assms by (auto simp: main_def bind_state_Returns_iff bind_outcome_Returns_iff prod_case_eq_iff split: if_splits)

text \<open>The state it ends in.\<close>

lemma main_Returns:
  assumes "main E f s = (s', Returns u)"
  obtains kv where "\<not> versionShow f" "v_genOnce kv" "v_serverErr kv = None" "mStart E = None"
    "mNewManager E (main_options (mScheme s) f) = Returns None"
    "\<And>c. c \<in> {CompleteFor ''Pod'', AddHealthzCheck ''healthz'', AddReadyzCheck ''readyz''} \<Longrightarrow> mAnswer E c = None"
    "\<exists>cfg sel. mConfig s' = Some cfg \<and> LabelSelectorAsSelector (mSelector E) (parsedLabels (MO cfg)) = Inr sel"
    "mKube s' = kv" "mCalls s' = mCalls s @ [CompleteFor ''Pod'', AddHealthzCheck ''healthz'', AddReadyzCheck ''readyz'',
       IndexField ''spec.nodeName'']"
    "mPodManager s' = map_option (\<lambda>m. if mElected E then fst (Start m) else m)
       (if IsCgroupV2 (mWorld E) then Some (NewDaemonSetManager [WithLogger (), WithClient ()]) else mPodManager s)"
proof -
  obtain s1 s2 kv s4 s5 where
    v: "\<not> versionShow f" and s1: "main_config E f (s\<lparr>mLogger := SetLogger () (mLogger s)\<rparr>) = (s1, Returns ())"
    and s2: "main_validate E s1 = (s2, Returns ())"
    and kv: "setup_GetKubeletServer (mWorld E) (mKube s2) = (kv, Returns None)"
    and nm: "mNewManager E (main_options (mScheme s2) f) = Returns None"
    and s4: "main_cgroup E (s2\<lparr>mKube := kv\<rparr>) = (s4, Returns ())"
    and s5: "main_register E s4 = (s5, Returns ())"
    and s': "main_start E s5 = (s', Returns ())"
    by (rule main_steps [OF assms])
  have k: "v_genOnce kv" "v_serverErr kv = None"
    using setup_GetKubeletServer_Returns [OF kv] by simp_all
  note c1 = main_config_keeps [OF s1] and c2 = main_validate_Returns [OF s2]
    and c4 = main_cgroup_Returns [OF s4, simplified, OF k] and c5 = s5 [unfolded main_register_Returns]
  have "mKube s' = mKube s5 \<and> mConfig s' = mConfig s5 \<and> mCalls s' = mCalls s5 \<and> mStart E = None \<and>
      mPodManager s' = map_option (\<lambda>m. if mElected E then fst (Start m) else m) (mPodManager s5)"
    using s' by (auto simp: main_start_def Let_def split: option.splits if_splits)
  with v k nm c1 c2 c4 c5 show thesis
    by (intro that [of kv]) (auto split: if_splits)
qed

text \<open>The node name of the process's own pod.\<close>

lemma setup_GetNodeName_Inr:
  assumes "setup_GetNodeName S os v = (v', Returns (Inr n))"
  shows "Getenv os ''HOSTNAME'' \<noteq> [] \<and> Getenv os ''POD_NAMESPACE'' \<noteq> [] \<and>
    (\<exists>c pod. gClientset v' = Some c \<and> n = pNodeName pod \<and>
       Pods_Get S c (Getenv os ''POD_NAMESPACE'') (Getenv os ''HOSTNAME'') = Inr pod)"
proof -
  have "GetK8sClient S v = (w, Returns c) \<Longrightarrow> gClientset w = c" for w c
    by (auto simp: GetK8sClient_def bind_state_Returns_iff split: if_splits)
  then show ?thesis
    using assms
    by (auto simp: setup_GetNodeName_def bind_state_Returns_iff EnvPodName_def EnvPodNamespace_def Let_def
        split: if_splits option.splits sum.splits)
qed

lemma main_config_file:
  assumes "main_config E f s = (s', Returns u)" "cfgPath f \<noteq> []"
  obtains g c n where "InitConfiguration (mViper E) (wOs (mWorld E)) (cfgPath f) (mViper0 E) (mConfig s) = (g, Inr c)"
    "mConfig s' = Some (c\<lparr>App := (App c)\<lparr>NodeName := n\<rparr>\<rparr>)"
    "if NodeName (App c) = ''auto'' then setup_GetNodeName (mSetup E) (wOs (mWorld E)) (mClient s) = (mClient s', Returns (Inr n))
     else n = NodeName (App c)"
proof -
  obtain g r where i: "InitConfiguration (mViper E) (wOs (mWorld E)) (cfgPath f) (mViper0 E) (mConfig s) = (g, r)"
    by force
  with assms obtain c where r: "r = Inr c" by (cases r) (auto simp: main_config_def)
  have g: "g = Some c"
    using i r by (auto simp: InitConfiguration_def setConfiguration_def split: sum.splits)
  show thesis
  proof (cases "NodeName (App c) = ''auto''")
    case True
    with assms i r g obtain cv n where "setup_GetNodeName (mSetup E) (wOs (mWorld E)) (mClient s) = (cv, Returns (Inr n))"
      "s' = s\<lparr>mConfig := Some (c\<lparr>App := SetNodeName (App c) n\<rparr>), mClient := cv\<rparr>"
      by (auto simp: main_config_def GetConfiguration_def setConfiguration_def bind_state_Returns_iff NodeNameAuto_def
          sum_case_eq_iff split: prod.splits)
    with True i r show thesis by (intro that [of g c n]) (simp_all add: SetNodeName_def)
  next
    case False
    with assms i r g have "s' = s\<lparr>mConfig := Some c\<rparr>"
      by (auto simp: main_config_def GetConfiguration_def NodeNameAuto_def split: prod.splits)
    with False i r show thesis by (intro that [of g c "NodeName (App c)"]) simp_all
  qed
qed

lemma main_validate_config:
  "main_validate E s = (s', Returns u) \<Longrightarrow> mConfig s = Some cfg \<Longrightarrow>
     mConfig s' = Some (cfg\<lparr>MO := fst (GetLabelSelector (mSelector E) (MO cfg))\<rparr>) \<and> mClient s' = mClient s"
  by (auto simp: main_validate_def Validate_def GetConfiguration_def setConfiguration_def split: prod.splits sum.splits)

lemma main_rest_keeps:
  "main_cgroup E s = (s', Returns u) \<Longrightarrow> mConfig s' = mConfig s \<and> mClient s' = mClient s"
  "main_register E s = (s', Returns u) \<Longrightarrow> mConfig s' = mConfig s \<and> mClient s' = mClient s"
  "main_start E s = (s', Returns u) \<Longrightarrow> mConfig s' = mConfig s \<and> mClient s' = mClient s"
  by (auto simp: main_cgroup_def main_register_Returns main_start_def bind_state_Returns_iff Let_def
      split: prod.splits if_splits option.splits)

section \<open>Properties\<close>

text \<open>
  The node name.  It is asked of the cluster only when both environment variables are set,
  and the missing one is the error otherwise, the pod name first; the client is made once, before.
\<close>

theorem node_name:
  assumes "getClinetOnce v" "gClientset v = Some c"
  shows "setup_GetNodeName S os v = (v, Returns
    (if Getenv os ''HOSTNAME'' = [] then Inl ErrNoPodName
     else if Getenv os ''POD_NAMESPACE'' = [] then Inl ErrNoNamespace
     else map_sum id pNodeName (Pods_Get S c (Getenv os ''POD_NAMESPACE'') (Getenv os ''HOSTNAME''))))"
  using assms
  by (auto simp: setup_GetNodeName_def GetK8sClient_def EnvPodName_def EnvPodNamespace_def Let_def split: sum.splits)

theorem node_name_witness:
  "setup_GetNodeName \<lparr>GetConfigOrDie = Exits 1, NewForConfig = Inr, Pods_Get = (\<lambda>_ _ _. Inr (empty_pod\<lparr>pNodeName := ''n1''\<rparr>))\<rparr>
     (ref_os [] \<lparr>Getenv := (\<lambda>_. ''x'')\<rparr>) \<lparr>getClinetOnce = True, gClientset = Some ()\<rparr> =
   (\<lparr>getClinetOnce = True, gClientset = Some ()\<rparr>, Returns (Inr ''n1''))"
  by (subst node_name) simp_all

text \<open>
  \<^verbatim>\<open>--version\<close> wins: it prints the one line and exits with status 0 before the configuration, the
  kubelet or the cluster is touched.  The line names the five build variables; the longer form of the
  version begins with 1024 zero bytes.
\<close>

theorem version_first:
  "main E (f\<lparr>versionShow := True\<rparr>) s = (s\<lparr>mPrinted := mPrinted s @
      [mArg0 E @ '' v'' @ Version (mVersion E) @ '' compiled at '' @ BuildTime (mVersion E) @ '' (revision id: '' @
       CommitID (mVersion E) @ ''.'' @ BranchName (mVersion E) @ '') ('' @ GoVersion (mVersion E) @ '')'']\<rparr>, Exits 0) \<and>
   take 1024 (GetInfo V a) = replicate 1024 (CHR 0x00)"
  by (simp add: main_def GetInfoOneLine_def GetInfo_def)


text \<open>
  C15: the configuration in force.  When \<open>main\<close> returns and was given a configuration file, every later
  \<open>GetConfiguration\<close> finds what the file and the environment say (\<open>env_overlay\<close>), with its labels parsed; the node name
  is the configured one, or, when that is \<^verbatim>\<open>auto\<close>, the node of the pod that the process runs in.
\<close>

theorem configuration_in_force:
  assumes "main E f s = (s', Returns u)" "cfgPath f \<noteq> []"
    and "viper_store (mViper E) setting text_value"
    and "ReadInConfig (mViper E) (SetConfigFile (mViper E) (cfgPath f) (mViper0 E)) = Inr v'"
    and "setting w = env_overlay (wOs (mWorld E)) text_value (setting v')"
  shows "\<exists>c n. Unmarshal (mViper E) w NewConfiguration = Inr c \<and>
    mConfig s' = Some \<lparr>App = (App c)\<lparr>NodeName := n\<rparr>, MO = fst (GetLabelSelector (mSelector E) (MO c))\<rparr> \<and>
    (if NodeName (App c) = ''auto''
     then \<exists>cl pod. gClientset (mClient s') = Some cl \<and> n = pNodeName pod \<and>
       Pods_Get (mSetup E) cl (Getenv (wOs (mWorld E)) ''POD_NAMESPACE'') (Getenv (wOs (mWorld E)) ''HOSTNAME'') = Inr pod
     else n = NodeName (App c))"
proof -
  let ?os = "wOs (mWorld E)"
  obtain s1 s2 kv s4 s5 where s1: "main_config E f (s\<lparr>mLogger := SetLogger () (mLogger s)\<rparr>) = (s1, Returns ())"
    and s2: "main_validate E s1 = (s2, Returns ())" and s4: "main_cgroup E (s2\<lparr>mKube := kv\<rparr>) = (s4, Returns ())"
    and s5: "main_register E s4 = (s5, Returns ())" and s': "main_start E s5 = (s', Returns ())"
    by (rule main_steps [OF assms(1)])
  let ?s = "s\<lparr>mLogger := SetLogger () (mLogger s)\<rparr>"
  obtain g c n where c: "InitConfiguration (mViper E) ?os (cfgPath f) (mViper0 E) (mConfig ?s) = (g, Inr c)"
      "mConfig s1 = Some (c\<lparr>App := (App c)\<lparr>NodeName := n\<rparr>\<rparr>)"
      "if NodeName (App c) = ''auto'' then setup_GetNodeName (mSetup E) ?os (mClient ?s) = (mClient s1, Returns (Inr n))
       else n = NodeName (App c)"
    by (rule main_config_file [OF s1 assms(2)])
  have "Unmarshal (mViper E) w NewConfiguration = Inr c"
    using c(1) InitConfiguration_overlay [OF assms(3-5), of "mConfig ?s"] by (auto split: sum.splits)
  moreover have "mConfig s' = Some \<lparr>App = (App c)\<lparr>NodeName := n\<rparr>, MO = fst (GetLabelSelector (mSelector E) (MO c))\<rparr>"
      "mClient s' = mClient s1"
    using main_validate_config [OF s2 c(2)] main_rest_keeps(1) [OF s4] main_rest_keeps(2) [OF s5] main_rest_keeps(3) [OF s']
    by simp_all
  ultimately show ?thesis
    using c(3) setup_GetNodeName_Inr [of "mSetup E" ?os "mClient ?s" "mClient s1" n]
    by (intro exI [of _ c] exI [of _ n]) auto
qed

text \<open>A process without a configuration file, on the concrete host.\<close>

definition ref_main :: "(amount, unit, unit, string_map, unit, unit) main_env" where
  "ref_main =
     \<lparr>mWorld = ref_world one_kubelet,
      mSetup = \<lparr>GetConfigOrDie = Exits 1, NewForConfig = Inr, Pods_Get = (\<lambda>_ _ _. Inl (LibError ''no pod''))\<rparr>,
      mSelector = ref_selector,
      mViper = \<lparr>SetConfigFile = (\<lambda>_ v. v), ReadInConfig = Inr, AllKeys = (\<lambda>_. []), viper_Set = (\<lambda>_ _ v. v),
                Unmarshal = (\<lambda>_ c. Inr c)\<rparr>,
      mViper0 = (), mVersion = \<lparr>GoVersion = [], BranchName = [], CommitID = [], BuildTime = [], Version = []\<rparr>,
      mArg0 = ''manager'', mAddToScheme = (\<lambda>s. (s, None)), mNewManager = (\<lambda>_. Returns None),
      mAnswer = (\<lambda>_. None), mElected = True, mStart = None\<rparr>"

definition ref_main_state :: "(amount, unit, unit, unit) main_state" where
  "ref_main_state =
     \<lparr>mConfig = None, mKube = zero_vars (), mClient = \<lparr>getClinetOnce = False, gClientset = None\<rparr>,
      mPodManager = None, mPrinted = [], mScheme = (), mLogger = None, mCalls = []\<rparr>"


text \<open>A process with a configuration file that leaves the node name to the cluster.\<close>

definition ref_main_file :: "(amount, unit, unit, string_map, string_map, unit) main_env" where
  "ref_main_file =
     \<lparr>mWorld = (ref_world one_kubelet)\<lparr>wOs := (ref_os one_kubelet)\<lparr>Getenv := (\<lambda>k.
        if k = ''HOSTNAME'' then ''agent-0'' else if k = ''POD_NAMESPACE'' then ''mo'' else [])\<rparr>\<rparr>,
      mSetup = \<lparr>GetConfigOrDie = Returns (), NewForConfig = Inr, Pods_Get = (\<lambda>_ _ _. Inr (empty_pod\<lparr>pNodeName := ''n1''\<rparr>))\<rparr>,
      mSelector = ref_selector, mViper = ref_viper [(''app.nodename'', ''auto''), (''mo.labels'', ''app=mo'')], mViper0 = [],
      mVersion = \<lparr>GoVersion = [], BranchName = [], CommitID = [], BuildTime = [], Version = []\<rparr>,
      mArg0 = ''manager'', mAddToScheme = (\<lambda>s. (s, None)), mNewManager = (\<lambda>_. Returns None),
      mAnswer = (\<lambda>_. None), mElected = True, mStart = None\<rparr>"

theorem configuration_in_force_witness:
  "\<exists>s'. main ref_main_file (default_flags\<lparr>cfgPath := ''cfg.yaml''\<rparr>) ref_main_state = (s', Returns ()) \<and>
     mConfig s' = Some \<lparr>App = \<lparr>NodeName = ''n1'', ResourceRangeKey = ''matrixone.cloud/resource-range''\<rparr>,
       MO = \<lparr>Labels = [''app=mo''], parsedLabels = [(''app'', ''mo'')]\<rparr>\<rparr>"
proof -
  let ?f = "default_flags\<lparr>cfgPath := ''cfg.yaml''\<rparr>" and ?v = "[(''app.nodename'', ''auto''), (''mo.labels'', ''app=mo'')]"
  have "case main ref_main_file ?f ref_main_state of (s', Returns u) \<Rightarrow> True | _ \<Rightarrow> False"
    by code_simp
  then obtain s' where m: "main ref_main_file ?f ref_main_state = (s', Returns ())"
    by (auto split: prod.splits outcome.splits)
  have r: "ReadInConfig (mViper ref_main_file) (SetConfigFile (mViper ref_main_file) (cfgPath ?f) (mViper0 ref_main_file)) = Inr ?v"
    by (simp add: ref_main_file_def ref_viper_def)
  have w: "map_of ?v = env_overlay (wOs (mWorld ref_main_file)) (\<lambda>s. s) (map_of ?v)"
    by (rule ext) (simp add: env_overlay_def ref_main_file_def)
  have st: "viper_store (mViper ref_main_file) map_of (\<lambda>s. s)"
    using ref_store.viper_store_axioms by (simp add: ref_main_file_def)
  have u: "Unmarshal (mViper ref_main_file) ?v NewConfiguration =
      Inr \<lparr>App = \<lparr>NodeName = ''auto'', ResourceRangeKey = ''matrixone.cloud/resource-range''\<rparr>, MO = \<lparr>Labels = [''app=mo''], parsedLabels = []\<rparr>\<rparr>"
    by (simp add: ref_main_file_def ref_viper_def NewConfiguration_def NewAppConfig_def NewMOConfig_def
        KeyMatrixoneCloudResourceRange_def strings_Split_def)
  have l: "fst (GetLabelSelector (mSelector ref_main_file) \<lparr>Labels = [''app=mo''], parsedLabels = []\<rparr>) =
      \<lparr>Labels = [''app=mo''], parsedLabels = [(''app'', ''mo'')]\<rparr>"
    by code_simp
  have p: "Pods_Get (mSetup ref_main_file) c ns n = Inr pod \<longleftrightarrow> pod = empty_pod\<lparr>pNodeName := ''n1''\<rparr>" for c ns n pod
    by (auto simp: ref_main_file_def)
  show ?thesis
    using configuration_in_force [where setting = map_of and text_value = "\<lambda>s. s", OF m _ st r w] u l
    by (intro exI [of _ s']) (auto simp: m p)
qed

end
