(* ===== verification/Worker_Events.thy ===== *)
theory Worker_Events
  imports Pod_Worker
begin

text \<open>
  What one step of a worker's loop (\<^verbatim>\<open>pkg/pod/worker.go\<close>) can change: the frames of its handlers, the typing of
  its events, the life of its toolkit, and the objects of the cluster it can write.  These facts hold of
  one worker and are used again for all of them together.
\<close>

section \<open>Typed events\<close>

text \<open>The events that wait in a worker's channel.\<close>

definition queued :: "'q Worker \<Rightarrow> 'q Event list" where
  "queued w = (case wkEventC w of None \<Rightarrow> [] | Some q \<Rightarrow> q)"

text \<open>
  The typing of events: the type of an event says which other field it uses.  The \<open>switch\<close> of the loop reads
  the pod of a new or updated pod, and the direction of a scale event.
\<close>

definition wf_event :: "'q Event \<Rightarrow> bool" where
  "wf_event e =
     (case ev_typ e of
        EventTypeUnknown \<Rightarrow> False
      | EventTypeNew \<Rightarrow> ev_pod e \<noteq> None
      | EventTypeUpdate \<Rightarrow> ev_pod e \<noteq> None
      | EventTypeDelete \<Rightarrow> True
      | EventTypeScaleUp \<Rightarrow> scaleType e = ScaleUpCpu \<or> scaleType e = ScaleUpMemory
      | EventTypeScaleDown \<Rightarrow> scaleType e = ScaleDownCpu \<or> scaleType e = ScaleDownMemory)"

lemma cpu_event_wf: "cpu_event e \<Longrightarrow> wf_event e"
  by (auto simp: cpu_event_def wf_event_def)

definition unknown_logged :: "log_line list \<Rightarrow> bool" where
  "unknown_logged ls \<longleftrightarrow> (\<exists>err. LogError err ''pod worker catch unknown event'' \<in> set ls)"

section \<open>The frames of the handlers\<close>

lemma unknown_logged_append [simp]: "unknown_logged (l @ m) \<longleftrightarrow> unknown_logged l \<or> unknown_logged m"
  by (auto simp: unknown_logged_def)

lemma unknown_logged_Cons [simp]:
  "unknown_logged (x # l) \<longleftrightarrow> (\<exists>err. x = LogError err ''pod worker catch unknown event'') \<or> unknown_logged l"
  "\<not> unknown_logged []" "\<not> unknown_logged TagNeedAlert"
  by (auto simp: unknown_logged_def TagNeedAlert_def)

text \<open>The two ways a new or updated pod leaves the loop waiting.\<close>

lemma handle_new_pod_cases:
  assumes "handle_new_pod P st e = Waiting st'"
  obtains (no_main) "st' = add_log (LogError (Some ErrNotFound) ''pod not found main container'' # TagNeedAlert) st"
  | (limits) pod quota t cfg where "ev_pod e = Some pod" "GetQuotaFromPod (wQ (eWorld P)) pod = (quota, True)"
      "sToolkit st = Some t"
      "st' = (let q = GetFloorMemoryQuota (wQ (eWorld P)) (eQuotas P) quota;
                  r = SetCgroupLimit (wA (eWorld P)) (wQ (eWorld P)) (eWrite P) (sFs st) t q cfg
              in add_log (fst (snd r) @ [LogError (snd (snd r)) ''failed to set cgroup limit''])
                   (st\<lparr>sWorker := (sWorker st)\<lparr>wkPod := pod, wkQuota := q\<rparr>, sFs := fst r\<rparr>))"
proof -
  obtain pod where p: "ev_pod e = Some pod"
    using assms by (cases "ev_pod e") (auto simp: handle_new_pod_def)
  obtain quota found where q: "GetQuotaFromPod (wQ (eWorld P)) pod = (quota, found)" by force
  show thesis
  proof (cases found)
    case False
    then show ?thesis using assms p q no_main by (simp add: handle_new_pod_def)
  next
    case True
    then show ?thesis
      using assms p q limits [of pod quota]
      by (cases "sToolkit st")
        (auto simp: handle_new_pod_def Let_def settle_Waiting_iff case_prod_unfold)
  qed
qed

lemma SetCgroupLimit_alerts: "\<not> unknown_logged (fst (snd (SetCgroupLimit A Q wr fs t quota cfg)))"
  by (simp add: SetCgroupLimit_def Let_def split: prod.splits option.splits)

lemma handle_new_pod_frame:
  assumes "handle_new_pod P st e = Waiting st'"
  shows "wkEventC (sWorker st') = wkEventC (sWorker st)" "sSends st' = sSends st" "sToolkit st' = sToolkit st"
    "sCluster st' = sCluster st"
    "sWorker st' = sWorker st \<or> ev_pod e = Some (wkPod (sWorker st'))"
    "unknown_logged (sLog st') \<longleftrightarrow> unknown_logged (sLog st)"
  using assms
  by (cases rule: handle_new_pod_cases; simp add: add_log_def Let_def SetCgroupLimit_alerts)+

lemma handle_scale_frame:
  assumes "handle_scale P now st e = Waiting st'"
  shows "sWorker st' = sWorker st" "sSends st' = sSends st" "sToolkit st' = sToolkit st" "sFs st' = sFs st"
    "unknown_logged (sLog st') \<longleftrightarrow> unknown_logged (sLog st)"
  using assms
  by (auto simp: handle_scale_def updatePodQuota_def add_log_def unknown_logged_def Let_def split: prod.splits option.splits)

lemma handle_event_frame:
  assumes "handle_event P now st e = Waiting st'"
  shows "wkEventC (sWorker st') = wkEventC (sWorker st)" "sSends st' = sSends st" "sToolkit st' = sToolkit st"
    "wkPod (sWorker st') = wkPod (sWorker st) \<or> ev_pod e = Some (wkPod (sWorker st'))"
    "wf_event e \<Longrightarrow> unknown_logged (sLog st') \<longleftrightarrow> unknown_logged (sLog st)"
  using assms handle_new_pod_frame [of P st e st'] handle_scale_frame [of P now st e st']
  by (auto simp: handle_event_def wf_event_def settle_Waiting_iff add_log_def split: EventType.splits)

text \<open>The three ways a tick leaves the loop waiting.\<close>

lemma handle_tick_cases:
  assumes "handle_tick P E now st = Waiting st'"
  obtains (no_names) v e where "GetCgroupNames (eWorld P) (sKube st) (wkPod (sWorker st)) = (v, Returns (Inl e))"
      "st' = add_log (LogError (Some e) ''failed to get cgroup names'' # TagNeedAlert) (st\<lparr>sKube := v\<rparr>)"
  | (not_ready) v names e where "GetCgroupNames (eWorld P) (sKube st) (wkPod (sWorker st)) = (v, Returns (Inr names))"
      "sToolkit st = None"
      "st' = add_log [LogError (Some e) ''failed to create cgroup.v2 toolkit''] (st\<lparr>sKube := v\<rparr>)"
  | (checked) v names t where "GetCgroupNames (eWorld P) (sKube st) (wkPod (sWorker st)) = (v, Returns (Inr names))"
      "sToolkit st = Some t \<or> sToolkit st = None \<and> (\<exists>server. sServer st = Some server \<and>
         Init (wA (eWorld P)) E now (NewToolkit names (CgroupDriver (ks_config server)) (sMounts st)) = (t, None))"
      "check_scale (st\<lparr>sKube := v, sToolkit := Some t\<rparr>) t = Waiting st'"
proof -
  obtain v r where g: "GetCgroupNames (eWorld P) (sKube st) (wkPod (sWorker st)) = (v, Returns r)"
    using assms by (cases "GetCgroupNames (eWorld P) (sKube st) (wkPod (sWorker st))")
      (auto simp: handle_tick_def Let_def settle_Waiting_iff)
  show thesis
  proof (cases r)
    case (Inl e)
    then show ?thesis using assms g no_names by (simp add: handle_tick_def)
  next
    case (Inr names)
    show ?thesis
    proof (cases "sToolkit st")
      case (Some t)
      then have "st\<lparr>sKube := v, sToolkit := Some t\<rparr> = st\<lparr>sKube := v\<rparr>"
        by (cases st) simp
      moreover have "check_scale (st\<lparr>sKube := v\<rparr>) t = Waiting st'"
        using assms g Inr Some by (simp add: handle_tick_def)
      ultimately have "check_scale (st\<lparr>sKube := v, sToolkit := Some t\<rparr>) t = Waiting st'"
        by (simp only:)
      with g Inr Some show ?thesis
        by (intro checked) auto
    next
      case None
      then obtain server where s: "sServer st = Some server"
        using assms g Inr by (cases "sServer st") (auto simp: handle_tick_def)
      obtain t err where i: "Init (wA (eWorld P)) E now
          (NewToolkit names (CgroupDriver (ks_config server)) (sMounts st)) = (t, err)" by force
      show ?thesis
        using assms g Inr None s i not_ready [of v names] checked [of v names t]
        by (cases err) (auto simp: handle_tick_def)
    qed
  qed
qed

lemma handle_tick_shape:
  assumes "handle_tick P E now st = Waiting st'"
  obtains v tk sv es l where
    "st' = st\<lparr>sKube := v, sToolkit := tk, sScale := sv, sSends := sSends st @ es, sLog := sLog st @ l\<rparr>"
    "list_all cpu_event es" "\<not> unknown_logged l" "sToolkit st = None \<or> tk = sToolkit st"
  using assms
proof (cases rule: handle_tick_cases)
  case (no_names v e)
  show ?thesis
    by (rule that [where v = v and tk = "sToolkit st" and sv = "sScale st" and es = "[]"
          and l = "LogError (Some e) ''failed to get cgroup names'' # TagNeedAlert"])
      (simp_all add: no_names(2) add_log_def)
next
  case (not_ready v names e)
  show ?thesis
    by (rule that [where v = v and tk = "sToolkit st" and sv = "sScale st" and es = "[]"
          and l = "[LogError (Some e) ''failed to create cgroup.v2 toolkit'']"])
      (simp_all add: not_ready(3) add_log_def)
next
  case (checked v names t)
  from checked(3) obtain sv es where
      "st' = st\<lparr>sKube := v, sToolkit := Some t, sScale := sv, sSends := sSends st @ es\<rparr>" "list_all cpu_event es"
    by (rule check_scale_cases) simp
  with checked(2) show ?thesis
    by (intro that [where v = v and tk = "Some t" and sv = sv and es = es and l = "[]"]) auto
qed

section \<open>The frame of a step\<close>

text \<open>Where the events of a step come from, which pod its worker holds, and what it logs.\<close>

definition step_frame :: "('q, 'o, 'fs) worker_state \<Rightarrow> ('q, 'o, 'fs) worker_state \<Rightarrow> bool" where
  "step_frame st st' \<longleftrightarrow>
     (wkEventC (sWorker st') = None \<longleftrightarrow> wkEventC (sWorker st) = None) \<and>
     (\<forall>e. e \<in> set (queued (sWorker st')) \<union> set (sSends st') \<longrightarrow>
        e \<in> set (queued (sWorker st)) \<union> set (sSends st) \<or> cpu_event e) \<and>
     (wkPod (sWorker st') = wkPod (sWorker st) \<or>
        (\<exists>e\<in>set (queued (sWorker st)). ev_pod e = Some (wkPod (sWorker st')))) \<and>
     (\<forall>t. sToolkit st = Some t \<longrightarrow> sToolkit st' = Some t) \<and>
     (list_all wf_event (queued (sWorker st)) \<longrightarrow> (unknown_logged (sLog st') \<longleftrightarrow> unknown_logged (sLog st)))"

lemma worker_step_frame:
  assumes "worker_step P (Waiting st) (Waiting st')"
  shows "step_frame st st'"
  using assms
proof cases
  case (take_event t e es now)
  note f = handle_event_frame [OF take_event(1) [symmetric]]
  have q: "queued (sWorker st) = e # es" "queued (sWorker st') = es"
    using take_event(3) f(1) by (simp_all add: queued_def)
  show ?thesis
    using take_event(3) f q by (auto simp: step_frame_def)
next
  case (take_tick t E now)
  from take_tick(1) [symmetric] show ?thesis
    by (rule handle_tick_shape) (auto simp: step_frame_def list_all_iff)
next
  case (deliver xs e ys w)
  obtain q where q: "wkEventC (sWorker st) = Some q" "w = (sWorker st)\<lparr>wkEventC := Some (q @ [e])\<rparr>"
    using deliver(3) by (auto simp: SendEvent_def split: option.splits)
  show ?thesis
    using deliver(1,2) q by (auto simp: step_frame_def queued_def)
qed

lemma handle_event_writes:
  assumes "handle_event P now st e = Waiting st'" "sToolkit st = Some t"
  shows "sFs st' = sFs st \<or>
    (\<exists>q cfg. sFs st' = fst (SetCgroupLimit (wA (eWorld P)) (wQ (eWorld P)) (eWrite P) (sFs st) t q cfg))"
proof -
  have "sFs st' = sFs st \<or>
    (\<exists>q cfg. sFs st' = fst (SetCgroupLimit (wA (eWorld P)) (wQ (eWorld P)) (eWrite P) (sFs st) t q cfg))"
    if "handle_new_pod P st e = Waiting st'"
    using that by (rule handle_new_pod_cases) (use assms(2) in \<open>auto simp: add_log_def Let_def\<close>)
  then show ?thesis
    using assms(1) handle_scale_frame(4) [of P now st e st']
    by (auto simp: handle_event_def settle_Waiting_iff add_log_def split: EventType.splits)
qed

text \<open>A step writes one object of the cluster at most: the one that is named like the worker's pod.\<close>

lemma handle_event_cluster:
  assumes "create_or_update_contract (eClient P)" "handle_event P now st e = Waiting st'"
    and "k \<noteq> (pNamespace (wkPod (sWorker st)), pName (wkPod (sWorker st)))"
  shows "sCluster st' k = sCluster st k"
proof -
  have "sCluster st' k = sCluster st k" if "handle_scale P now st e = Waiting st'"
  proof -
    let ?u = "updatePodQuota (eClient P) (wQ (eWorld P)) (eQuotas P) now (sCluster st) (sWorker st)
        (next_quota (wQ (eWorld P)) (eQuotas P) e (wkQuota (sWorker st)))"
    have "sCluster st' = fst ?u"
      using that by (auto simp: handle_scale_def add_log_def Let_def split: prod.splits)
    moreover have "fst ?u k = sCluster st k"
    proof -
      let ?obj = "empty_pod\<lparr>pName := pName (wkPod (sWorker st)), pNamespace := pNamespace (wkPod (sWorker st))\<rparr>"
      let ?f = "mutate_pod (wQ (eWorld P)) (eQuotas P) (next_quota (wQ (eWorld P)) (eQuotas P) e (wkQuota (sWorker st))) now"
      obtain cl r where c: "eClient P (sCluster st) ?obj ?f = (cl, r)" by force
      have "cl k = sCluster st k"
      proof (cases r)
        case None
        with create_or_update_contract.writes [OF assms(1) c [unfolded None]] assms(3) show ?thesis by simp
      next
        case (Some err)
        with create_or_update_contract.fails [OF assms(1) c [unfolded Some]] show ?thesis by simp
      qed
      with c show ?thesis by (cases r) (simp_all add: updatePodQuota_def Let_def)
    qed
    ultimately show ?thesis by simp
  qed
  then show ?thesis
    using assms(2) handle_new_pod_frame(4) [of P st e st']
    by (auto simp: handle_event_def settle_Waiting_iff add_log_def split: EventType.splits)
qed

lemma worker_step_cluster:
  assumes "create_or_update_contract (eClient P)" "worker_step P (Waiting st) (Waiting st')"
    and "k \<noteq> (pNamespace (wkPod (sWorker st)), pName (wkPod (sWorker st)))"
  shows "sCluster st' k = sCluster st k"
  using assms(2)
proof cases
  case (take_event t e es now)
  from handle_event_cluster [OF assms(1) take_event(1) [symmetric], of k] assms(3) show ?thesis by simp
next
  case (take_tick t E now)
  from take_tick(1) [symmetric] show ?thesis by (rule handle_tick_shape) simp
qed simp

text \<open>How a goroutine goes: at the end of the context, or blocked in a call of a tick; its worker is as it was.\<close>

lemma handle_event_not_gone: "handle_event P now st e \<noteq> Ended st'" "handle_event P now st e \<noteq> Stuck st'"
proof -
  have c: "GetQuotaConfig Q V q \<noteq> Blocks" for Q :: "'a quantity_api" and V q
    by (auto simp: GetQuotaConfig_def CalculatedQuotaConfig_def Let_def split: option.splits)
  have s: "settle s r f = Ended u \<longleftrightarrow> (\<exists>x. r = Returns x \<and> f x = Ended u)"
    "settle s r f = Stuck u \<longleftrightarrow> r = Blocks \<and> s = u \<or> (\<exists>x. r = Returns x \<and> f x = Stuck u)"
    for s u :: "('a, 'b, 'c) worker_state" and r :: "'x outcome" and f
    by (cases r; auto)+
  have n: "handle_new_pod P st e \<noteq> Ended st'" "handle_new_pod P st e \<noteq> Stuck st'"
    using c by (auto simp: handle_new_pod_def Let_def s case_prod_unfold split: option.splits bool.splits)
  show "handle_event P now st e \<noteq> Ended st'" "handle_event P now st e \<noteq> Stuck st'"
    using n by (cases "ev_typ e"; simp add: handle_event_def handle_scale_def on_manager_def GetManger_def gMgr_def
        Let_def case_prod_unfold)+
qed

lemma check_scale_not_gone: "check_scale st t \<noteq> Ended st'" "check_scale st t \<noteq> Stuck st'"
  by (auto simp: check_scale_def split: prod.splits option.splits)

lemma handle_tick_gone:
  assumes "handle_tick P E now st = Ended st' \<or> handle_tick P E now st = Stuck st'"
  shows "sWorker st' = sWorker st \<and> sFs st' = sFs st \<and> sCluster st' = sCluster st"
  using assms
  by (cases "GetCgroupNames (eWorld P) (sKube st) (wkPod (sWorker st))"; cases "snd (GetCgroupNames (eWorld P) (sKube st) (wkPod (sWorker st)))")
    (auto simp: handle_tick_def Let_def check_scale_not_gone split: sum.splits option.splits prod.splits)

lemma worker_step_gone:
  assumes "worker_step P (Waiting st) r" "r = Ended st' \<or> r = Stuck st'"
  shows "sWorker st' = sWorker st \<and> sFs st' = sFs st \<and> sCluster st' = sCluster st"
  using assms(1)
proof cases
  case (take_event t e es now)
  then show ?thesis using assms(2) handle_event_not_gone by metis
next
  case (take_tick t E now)
  then show ?thesis using assms(2) handle_tick_gone [of P E now "st\<lparr>sTicker := t\<rparr>" st'] by auto
qed (use assms(2) in auto)

lemma worker_start_state:
  assumes "worker_start P kube sv fs cl w = r" "r = Waiting st \<or> r = Ended st \<or> r = Stuck st"
  shows "sWorker st = w \<and> sFs st = fs \<and> sCluster st = cl \<and> sSends st = [] \<and> sToolkit st = None"
  using assms
  by (cases "GetKubeletServer (eWorld P) kube"; cases "snd (GetKubeletServer (eWorld P) kube)")
    (auto simp: worker_start_def Let_def split: option.splits sum.splits)

section \<open>The toolkit a tick makes\<close>

lemma tick_makes_toolkit:
  assumes "handle_tick P E now st = Waiting st'" "sToolkit st = None" "sToolkit st' = Some t"
  obtains v names server where "GetCgroupNames (eWorld P) (sKube st) (wkPod (sWorker st)) = (v, Returns (Inr names))"
    "sServer st = Some server" "tk_name t = names" "tk_driver t = CgroupDriver (ks_config server)" "tk_mounts t = sMounts st"
  using assms(1)
proof (cases rule: handle_tick_cases)
  case (checked v names u)
  from checked(3) have "u = t"
    by (rule check_scale_cases) (use assms(3) in simp)
  moreover obtain server where s: "sServer st = Some server"
    "Init (wA (eWorld P)) E now (NewToolkit names (CgroupDriver (ks_config server)) (sMounts st)) = (u, None)"
    using checked(2) assms(2) by auto
  moreover from this(2) have "same_cgroup u (NewToolkit names (CgroupDriver (ks_config server)) (sMounts st))"
    using Init_same by (metis fst_conv)
  ultimately show ?thesis
    using checked(1) that by (simp add: same_cgroup_def NewToolkit_def)
qed (use assms in \<open>auto simp: add_log_def\<close>)

text \<open>A worker keeps its toolkit; the one it makes has the name of the pod it holds then.\<close>

lemma step_toolkit:
  assumes "worker_step P (Waiting u) (Waiting u')" "sToolkit u' = Some t"
  shows "sToolkit u = Some t \<or> sToolkit u = None \<and>
    (\<exists>v. GetCgroupNames (eWorld P) (sKube u) (wkPod (sWorker u)) = (v, Returns (Inr (tk_name t))))"
  using assms(1)
proof cases
  case (take_event x e es now)
  then show ?thesis using handle_event_frame(3) [OF take_event(1) [symmetric]] assms(2) by simp
next
  case (take_tick x E now)
  note h = take_tick(1) [symmetric]
  show ?thesis
  proof (cases "sToolkit u")
    case None
    from tick_makes_toolkit [OF h _ assms(2)] None show ?thesis by auto
  next
    case (Some s)
    from h show ?thesis by (rule handle_tick_shape) (use Some assms(2) in auto)
  qed
next
  case (deliver xs e ys w)
  then show ?thesis using assms(2) by simp
qed

text \<open>The directories a limit is written into.\<close>

lemma SetCgroupLimit_dirs:
  "fst ` set (fst (SetCgroupLimit A Q (refusing_write bad) [] t quota cfg)) \<subseteq>
     {path_of (BuildCgroupPaths A (tk_name t) (tk_driver t) (tk_mounts t)) ''memory'',
      path_of (BuildCgroupPaths A (tk_name t) (tk_driver t) (tk_mounts t)) ''io''}"
  by (auto simp: SetCgroupLimit_def refusing_write_def CgroupControllerMemory_def CgroupControllerIO_def Let_def)

section \<open>Properties\<close>

definition well_typed :: "('q, 'o, 'fs) worker_state \<Rightarrow> bool" where
  "well_typed st \<longleftrightarrow> list_all wf_event (queued (sWorker st)) \<and> list_all wf_event (sSends st)"

lemma step_frame_typed:
  assumes "step_frame st st'" "well_typed st"
  shows "well_typed st'" "unknown_logged (sLog st') \<longleftrightarrow> unknown_logged (sLog st)"
proof -
  show "well_typed st'"
    unfolding well_typed_def list_all_iff
  proof (intro conjI ballI)
    fix e
    have "e \<in> set (queued (sWorker st)) \<union> set (sSends st) \<or> cpu_event e"
      if "e \<in> set (queued (sWorker st')) \<union> set (sSends st')"
      using that assms(1) unfolding step_frame_def by blast
    then have "wf_event e" if "e \<in> set (queued (sWorker st')) \<union> set (sSends st')"
      using that assms(2) cpu_event_wf by (auto simp: well_typed_def list_all_iff)
    then show "e \<in> set (queued (sWorker st')) \<Longrightarrow> wf_event e" "e \<in> set (sSends st') \<Longrightarrow> wf_event e"
      by blast+
  qed
  show "unknown_logged (sLog st') \<longleftrightarrow> unknown_logged (sLog st)"
    using assms by (simp add: step_frame_def well_typed_def)
qed

lemma typed_event_handled:
  assumes "wf_event e" "ev_typ e \<noteq> EventTypeDelete" "sToolkit st \<noteq> None" "BasicGiBValue (eQuotas P) \<noteq> 0"
  shows "\<exists>s. handle_event P now st e = Waiting s"
proof -
  have cfg: "\<exists>cfg. GetQuotaConfig (wQ (eWorld P)) (eQuotas P) q = Returns cfg" for q
    using assms(4) by (auto simp: GetQuotaConfig_def CalculatedQuotaConfig_def Let_def split: option.splits)
  have "\<exists>s. handle_new_pod P st e = Waiting s" if p: "ev_pod e = Some pod" for pod
  proof (cases "GetQuotaFromPod (wQ (eWorld P)) pod")
    case (Pair quota found)
    then show ?thesis
      using p assms(3) cfg [of "GetFloorMemoryQuota (wQ (eWorld P)) (eQuotas P) quota"]
      by (cases found) (auto simp: handle_new_pod_def Let_def case_prod_unfold)
  qed
  then show ?thesis
    using assms(1,2)
    by (cases "ev_typ e") (auto simp: wf_event_def handle_event_def handle_scale_def Let_def case_prod_unfold)
qed

text \<open>
  C16: well-typed events do not go wrong.  A worker whose channel and senders hold well-typed events keeps
  it so in every step, never takes the case of the unknown event, and, once it has its toolkit, handles every event of its
  channel but the deletion without a crash: no field that its \<open>switch\<close> reads is missing.
\<close>

theorem typed_events_do_not_go_wrong:
  assumes "worker_reaches P (Waiting st) (Waiting st')" "well_typed st" "BasicGiBValue (eQuotas P) \<noteq> 0"
  shows "well_typed st' \<and> (unknown_logged (sLog st') \<longleftrightarrow> unknown_logged (sLog st)) \<and>
    (sToolkit st' \<noteq> None \<longrightarrow> (\<forall>e\<in>set (queued (sWorker st')). ev_typ e \<noteq> EventTypeDelete \<longrightarrow>
       (\<forall>now. \<exists>s. handle_event P now st' e = Waiting s)))"
proof -
  have "well_typed st' \<and> (unknown_logged (sLog st') \<longleftrightarrow> unknown_logged (sLog st))"
    by (rule worker_reaches_invariant [OF assms(1)])
      (use assms(2) step_frame_typed worker_step_frame in blast)+
  moreover from this have "\<forall>e\<in>set (queued (sWorker st')). wf_event e"
    by (simp add: well_typed_def list_all_iff)
  ultimately show ?thesis
    using typed_event_handled [where st = st' and P = P] assms(3) by blast
qed

text \<open>A worker with its toolkit that takes a request from its channel, for the witnesses.\<close>

lemma ref_request_taken:
  "\<exists>s2. worker_reaches ref_worker_env (Waiting (ref_waiting (Some ref_toolkit)
      [\<lparr>ev_typ = EventTypeScaleUp, ev_pod = None, scaleType = ScaleUpCpu\<rparr>])) (Waiting s2)"
proof -
  let ?e = "\<lparr>ev_typ = EventTypeScaleUp, ev_pod = None, scaleType = ScaleUpCpu\<rparr>"
  obtain s2 where "handle_event ref_worker_env [] ((ref_waiting (Some ref_toolkit) [])\<lparr>sTicker := Running DefaultCheckInterval\<rparr>) ?e
      = Waiting s2"
    by (auto simp: handle_event_def handle_scale_def Let_def case_prod_unfold)
  from ref_waiting_takes [OF this] show ?thesis by blast
qed

theorem typed_events_do_not_go_wrong_witness:
  "\<exists>s2. worker_reaches ref_worker_env (Waiting (ref_waiting (Some ref_toolkit)
      [\<lparr>ev_typ = EventTypeScaleUp, ev_pod = None, scaleType = ScaleUpCpu\<rparr>])) (Waiting s2) \<and>
    well_typed s2 \<and> \<not> unknown_logged (sLog s2)"
proof -
  let ?s1 = "ref_waiting (Some ref_toolkit) [\<lparr>ev_typ = EventTypeScaleUp, ev_pod = None, scaleType = ScaleUpCpu\<rparr>]"
  obtain s2 where r: "worker_reaches ref_worker_env (Waiting ?s1) (Waiting s2)"
    using ref_request_taken by blast
  have "well_typed ?s1" "\<not> unknown_logged (sLog ?s1)"
    by (simp_all add: well_typed_def queued_def wf_event_def ref_waiting_def ref_worker_def)
  moreover have "BasicGiBValue (eQuotas ref_worker_env) \<noteq> 0"
    by (simp add: ref_worker_env_def ref_table.basic_gib)
  ultimately show ?thesis
    using r typed_events_do_not_go_wrong [OF r] by blast
qed

text \<open>
  C20: a toolkit outlives its pod.  Once a worker has a toolkit it keeps it, whatever pods arrive: the cgroup that is
  read and limited stays the one of the pod for which the toolkit was made, also when an update brings a pod of the same name with
  another UID, whose cgroup is another one.
\<close>

theorem toolkit_outlives_pod:
  assumes "worker_reaches P (Waiting st) (Waiting st')" "sToolkit st = Some t"
  shows "sToolkit st' = Some t \<and>
    (\<forall>now e s. handle_event P now st' e = Waiting s \<longrightarrow> sToolkit s = Some t \<and>
       (sFs s = sFs st' \<or>
        (\<exists>q cfg. sFs s = fst (SetCgroupLimit (wA (eWorld P)) (wQ (eWorld P)) (eWrite P) (sFs st') t q cfg))))"
proof -
  have "sToolkit st' = Some t"
    by (rule worker_reaches_invariant [OF assms(1), of "\<lambda>s. sToolkit s = Some t"])
      (use assms(2) worker_step_frame in \<open>auto simp: step_frame_def\<close>)
  then show ?thesis
    using handle_event_frame(3) handle_event_writes by metis
qed

theorem toolkit_outlives_pod_witness:
  "\<exists>s2. worker_reaches ref_worker_env (Waiting (ref_waiting (Some ref_toolkit)
      [\<lparr>ev_typ = EventTypeScaleUp, ev_pod = None, scaleType = ScaleUpCpu\<rparr>])) (Waiting s2) \<and>
    sToolkit s2 = Some ref_toolkit"
proof -
  obtain s2 where r: "worker_reaches ref_worker_env (Waiting (ref_waiting (Some ref_toolkit)
      [\<lparr>ev_typ = EventTypeScaleUp, ev_pod = None, scaleType = ScaleUpCpu\<rparr>])) (Waiting s2)"
    using ref_request_taken by blast
  with toolkit_outlives_pod [OF r, of ref_toolkit] show ?thesis
    by (auto simp: ref_waiting_def ref_worker_def)
qed

text \<open>
  C13: workers do not write into each other's cgroups.  Let two workers whose pods have different UIDs each
  make a toolkit on a tick, under one kubelet server with another driver than systemd, one mount point for memory and io, and names of
  plain components.  Whatever quotas they set,
  the directories that one of them writes into and those that the other writes into have nothing in common.
\<close>

theorem workers_isolated:
  assumes "cgroup_naming (wK (eWorld P))" "cgroupfs_names (wA (eWorld P))"
    and "handle_tick P E1 n1 st1 = Waiting st1'" "sToolkit st1 = None" "sToolkit st1' = Some t1"
    and "handle_tick P E2 n2 st2 = Waiting st2'" "sToolkit st2 = None" "sToolkit st2' = Some t2"
    and "pUID (wkPod (sWorker st1)) \<noteq> pUID (wkPod (sWorker st2))"
    and "sServer st1 = sServer st2" "tk_driver t1 \<noteq> CgroupDriverSystemd" "sMounts st1 = sMounts st2"
    and "sMounts st1 ''memory'' = Some (rooted_path mnt)" "sMounts st1 ''io'' = Some (rooted_path mnt)"
    and "mnt \<noteq> []" "\<forall>c\<in>set mnt. plain_comp c"
    and "\<forall>c\<in>set (tk_name t1). plain_comp c" "\<forall>c\<in>set (tk_name t2). plain_comp c"
  shows "fst ` set (fst (SetCgroupLimit (wA (eWorld P)) Q (refusing_write bad) [] t1 q1 cfg1)) \<inter>
    fst ` set (fst (SetCgroupLimit (wA (eWorld P)) Q (refusing_write bad) [] t2 q2 cfg2)) = {}"
proof -
  obtain v1 where 1: "GetCgroupNames (eWorld P) (sKube st1) (wkPod (sWorker st1)) = (v1, Returns (Inr (tk_name t1)))"
      "tk_mounts t1 = sMounts st1" "\<And>s. sServer st1 = Some s \<Longrightarrow> tk_driver t1 = CgroupDriver (ks_config s)"
    by (rule tick_makes_toolkit [OF assms(3-5)]) auto
  obtain v2 s where 2: "GetCgroupNames (eWorld P) (sKube st2) (wkPod (sWorker st2)) = (v2, Returns (Inr (tk_name t2)))"
      "tk_mounts t2 = sMounts st2" "sServer st2 = Some s" "tk_driver t2 = CgroupDriver (ks_config s)"
    by (rule tick_makes_toolkit [OF assms(6-8)]) auto
  have driver: "tk_driver t1 = tk_driver t2" using 1(3) 2 assms(10) by simp
  have "path_of (BuildCgroupPaths (wA (eWorld P)) (tk_name t1) (tk_driver t1) (tk_mounts t1)) k \<noteq>
      path_of (BuildCgroupPaths (wA (eWorld P)) (tk_name t2) (tk_driver t2) (tk_mounts t2)) k'"
    if k: "k = ''memory'' \<or> k = ''io''" "k' = ''memory'' \<or> k' = ''io''" for k k'
  proof -
    have "sMounts st1 k = Some (rooted_path mnt)" "sMounts st1 k' = Some (rooted_path mnt)"
      using k assms(13,14) by blast+
    from pod_directories.pods_share_no_directory [OF pod_directories.intro [OF assms(1,2)] 1(1) 2(1) assms(9,11) this assms(15-18)]
    show ?thesis by (simp only: 1(2) 2(2) driver assms(12) not_False_eq_True)
  qed
  then have "\<And>a b. a \<in> {''memory'', ''io''} \<Longrightarrow> b \<in> {''memory'', ''io''} \<Longrightarrow>
      path_of (BuildCgroupPaths (wA (eWorld P)) (tk_name t1) (tk_driver t1) (tk_mounts t1)) a \<noteq>
      path_of (BuildCgroupPaths (wA (eWorld P)) (tk_name t2) (tk_driver t2) (tk_mounts t2)) b"
    by simp
  then show ?thesis
    using Int_mono [OF SetCgroupLimit_dirs SetCgroupLimit_dirs,
        of "wA (eWorld P)" Q bad t1 q1 cfg1 "wA (eWorld P)" Q bad t2 q2 cfg2]
    by simp
qed

text \<open>A worker of a pod with a given UID below the unified mount point, for the witness.\<close>

definition ref_pod_worker :: "string \<Rightarrow> (amount, unit, (string \<times> string \<times> string) list) worker_state" where
  "ref_pod_worker uid = (ref_worker None)
     \<lparr>sWorker := NewWorker ref_quantity (main_pod\<lparr>pUID := uid\<rparr>), sMounts := (\<lambda>_. Some (rooted_path [''sys'', ''fs'', ''cgroup''])),
      sTicker := Running DefaultCheckInterval\<rparr>"

definition ref_pod_tick :: "string \<Rightarrow> (amount, unit, (string \<times> string \<times> string) list) worker_state run" where
  "ref_pod_tick uid = handle_tick ref_worker_env (ref_env []) (at_ns 5) (ref_pod_worker uid)"

lemma ref_pod_names:
  "\<exists>v. GetCgroupNames (ref_world one_kubelet) ((zero_vars ())\<lparr>v_genOnce := True, v_server := Some ref_server\<rparr>)
     (main_pod\<lparr>pUID := ''u1''\<rparr>) = (v, Returns (Inr [''kubepods'', ''burstable'', ''podu1'']))"
  "\<exists>v. GetCgroupNames (ref_world one_kubelet) ((zero_vars ())\<lparr>v_genOnce := True, v_server := Some ref_server\<rparr>)
     (main_pod\<lparr>pUID := ''u2''\<rparr>) = (v, Returns (Inr [''kubepods'', ''burstable'', ''podu2'']))"
proof -
  have "case GetCgroupNames (ref_world one_kubelet) ((zero_vars ())\<lparr>v_genOnce := True, v_server := Some ref_server\<rparr>)
      (main_pod\<lparr>pUID := ''u1''\<rparr>) of (v, Returns (Inr n)) \<Rightarrow> n = [''kubepods'', ''burstable'', ''podu1''] | _ \<Rightarrow> False"
    "case GetCgroupNames (ref_world one_kubelet) ((zero_vars ())\<lparr>v_genOnce := True, v_server := Some ref_server\<rparr>)
      (main_pod\<lparr>pUID := ''u2''\<rparr>) of (v, Returns (Inr n)) \<Rightarrow> n = [''kubepods'', ''burstable'', ''podu2''] | _ \<Rightarrow> False"
    by code_simp+
  then show "\<exists>v. GetCgroupNames (ref_world one_kubelet) ((zero_vars ())\<lparr>v_genOnce := True, v_server := Some ref_server\<rparr>)
     (main_pod\<lparr>pUID := ''u1''\<rparr>) = (v, Returns (Inr [''kubepods'', ''burstable'', ''podu1'']))"
    "\<exists>v. GetCgroupNames (ref_world one_kubelet) ((zero_vars ())\<lparr>v_genOnce := True, v_server := Some ref_server\<rparr>)
     (main_pod\<lparr>pUID := ''u2''\<rparr>) = (v, Returns (Inr [''kubepods'', ''burstable'', ''podu2'']))"
    by (auto split: prod.splits outcome.splits sum.splits)
qed

lemma ref_pod_ticks:
  assumes "GetCgroupNames (ref_world one_kubelet) ((zero_vars ())\<lparr>v_genOnce := True, v_server := Some ref_server\<rparr>)
     (main_pod\<lparr>pUID := uid\<rparr>) = (v, Returns (Inr names))"
  shows "\<exists>s t. ref_pod_tick uid = Waiting s \<and> sToolkit s = Some t \<and> tk_name t = names"
proof -
  have "GetCgroupNames (eWorld ref_worker_env) (sKube (ref_pod_worker uid)) (wkPod (sWorker (ref_pod_worker uid))) =
      (v, Returns (Inr names))"
    using assms by (simp add: ref_worker_env_def ref_pod_worker_def ref_worker_def NewWorker_def)
  moreover obtain t where "Init (wA (eWorld ref_worker_env)) (ref_env []) (at_ns 5)
      (NewToolkit names (CgroupDriver (ks_config ref_server)) (sMounts (ref_pod_worker uid))) = (t, None)" "tk_name t = names"
    by (simp add: Init_def getCpuStat_def scanner_lines_def raw_lines_def scanner_Err_def NewToolkit_def)
  ultimately show ?thesis
    by (simp add: ref_pod_tick_def handle_tick_def ref_pod_worker_def ref_worker_def check_scale_def GetManager_def
        once_Do_def)
qed

theorem workers_isolated_witness:
  "\<exists>s1 t1 s2 t2. ref_pod_tick ''u1'' = Waiting s1 \<and> sToolkit s1 = Some t1 \<and>
     ref_pod_tick ''u2'' = Waiting s2 \<and> sToolkit s2 = Some t2 \<and>
     (\<forall>q cfg. fst ` set (fst (SetCgroupLimit ref_cgroup_api ref_quantity (refusing_write {}) [] t1 q cfg)) \<inter>
        fst ` set (fst (SetCgroupLimit ref_cgroup_api ref_quantity (refusing_write {}) [] t2 q cfg)) = {})"
proof -
  obtain s1 t1 where 1: "ref_pod_tick ''u1'' = Waiting s1" "sToolkit s1 = Some t1"
      "tk_name t1 = [''kubepods'', ''burstable'', ''podu1'']"
    using ref_pod_names(1) ref_pod_ticks by metis
  have d: "tk_driver t1 = ''cgroupfs''"
    by (rule tick_makes_toolkit [OF 1(1) [unfolded ref_pod_tick_def] _ 1(2)])
      (auto simp: ref_pod_worker_def ref_worker_def ref_server_def ref_config_def)
  obtain s2 t2 where 2: "ref_pod_tick ''u2'' = Waiting s2" "sToolkit s2 = Some t2"
      "tk_name t2 = [''kubepods'', ''burstable'', ''podu2'']"
    using ref_pod_names(2) ref_pod_ticks by metis
  have "fst ` set (fst (SetCgroupLimit (wA (eWorld ref_worker_env)) Q (refusing_write bad) [] t1 q1 cfg1)) \<inter>
      fst ` set (fst (SetCgroupLimit (wA (eWorld ref_worker_env)) Q (refusing_write bad) [] t2 q2 cfg2)) = {}"
      for Q :: "amount quantity_api" and bad q1 cfg1 q2 cfg2
    by (rule workers_isolated [OF _ _ 1(1) [unfolded ref_pod_tick_def] _ 1(2) 2(1) [unfolded ref_pod_tick_def] _ 2(2),
          where mnt = "[''sys'', ''fs'', ''cgroup'']"])
      (simp_all add: ref_worker_env_def ref_pods.cgroup_naming_axioms ref_pods.cgroupfs_names_axioms
        ref_pod_worker_def ref_worker_def NewWorker_def 1(3) d 2(3) CgroupDriverSystemd_def plain_comp_def)
  with 1 2 show ?thesis
    by (auto simp: ref_worker_env_def ref_world_def Let_def)
qed

text \<open>
  C5: invariant of the worker's loop.  In every state that a worker in a good state reaches, while
  it waits: its quota is the initial one or the floor quota of the pod it holds; the events its goroutines still want to send are requests about
  the CPU only, so that a worker never asks for more or less memory; and its toolkit has the mount points and the driver found at
  its start and a name of a pod's cgroup.  A toolkit that was not there at first was made on the way, in a state in which
  \<open>GetCgroupNames\<close> returned its name for the pod the worker held then.
\<close>

theorem worker_invariant:
  assumes "worker_reaches P (Waiting st) (Waiting st')" "worker_inv P st"
  shows "worker_inv P st' \<and>
    (\<forall>t. sToolkit st' = Some t \<longrightarrow> sToolkit st = Some t \<or>
       (\<exists>u v. worker_reaches P (Waiting st) (Waiting u) \<and> worker_reaches P (Waiting u) (Waiting st') \<and> sToolkit u = None \<and>
          GetCgroupNames (eWorld P) (sKube u) (wkPod (sWorker u)) = (v, Returns (Inr (tk_name t)))))"
proof -
  let ?made = "\<lambda>s. \<forall>t. sToolkit s = Some t \<longrightarrow> sToolkit st = Some t \<or>
      (\<exists>u v. worker_reaches P (Waiting st) (Waiting u) \<and> worker_reaches P (Waiting u) (Waiting s) \<and> sToolkit u = None \<and>
         GetCgroupNames (eWorld P) (sKube u) (wkPod (sWorker u)) = (v, Returns (Inr (tk_name t))))"
  have "worker_reaches P (Waiting st) (Waiting st') \<and> worker_inv P st' \<and> ?made st'"
    using assms(1)
  proof (rule worker_reaches_invariant)
    show "worker_reaches P (Waiting st) (Waiting st) \<and> worker_inv P st \<and> ?made st"
      using assms(2) by (simp add: worker_reaches_def)
  next
    fix b c
    assume b: "worker_reaches P (Waiting st) (Waiting b) \<and> worker_inv P b \<and> ?made b"
      and s: "worker_step P (Waiting b) (Waiting c)"
    have on: "worker_reaches P r (Waiting c)" if "worker_reaches P r (Waiting b)" for r
      using that s unfolding worker_reaches_def by (rule rtranclp.rtrancl_into_rtrancl)
    have last: "worker_reaches P (Waiting b) (Waiting c)"
      by (rule on) (simp add: worker_reaches_def)
    have "?made c"
    proof (intro allI impI)
      fix t
      assume "sToolkit c = Some t"
      from step_toolkit [OF s this] b on last
      show "sToolkit st = Some t \<or> (\<exists>u v. worker_reaches P (Waiting st) (Waiting u) \<and> worker_reaches P (Waiting u) (Waiting c) \<and>
          sToolkit u = None \<and> GetCgroupNames (eWorld P) (sKube u) (wkPod (sWorker u)) = (v, Returns (Inr (tk_name t))))"
        by blast
    qed
    with b on worker_step_inv [OF s]
    show "worker_reaches P (Waiting st) (Waiting c) \<and> worker_inv P c \<and> ?made c" by blast
  qed
  then show ?thesis by blast
qed

theorem worker_invariant_witness:
  "\<exists>s1 s2 t. worker_reaches ref_worker_env (Waiting s1) (Waiting s2) \<and> worker_inv ref_worker_env s2 \<and> sToolkit s1 = None \<and>
     sToolkit s2 = Some t \<and> (\<exists>u v. worker_reaches ref_worker_env (Waiting s1) (Waiting u) \<and> sToolkit u = None \<and>
       GetCgroupNames (ref_world one_kubelet) (sKube u) (wkPod (sWorker u)) = (v, Returns (Inr (tk_name t))))"
proof -
  let ?s1 = "ref_pod_worker ''u1''"
  obtain s2 t where 2: "ref_pod_tick ''u1'' = Waiting s2" "sToolkit s2 = Some t"
    using ref_pod_names(1) ref_pod_ticks by metis
  have "?s1\<lparr>sTicker := Running (wkInterval (sWorker ?s1))\<rparr> = ?s1"
    "ticker_Reset (sTicker ?s1) (wkInterval (sWorker ?s1)) = Returns (Running (wkInterval (sWorker ?s1)))"
    by (simp_all add: ref_pod_worker_def ref_worker_def NewWorker_def DefaultCheckInterval_def)
  then have "worker_step ref_worker_env (Waiting ?s1) (Waiting s2)"
    using worker_step.take_tick [of ?s1 "Running (wkInterval (sWorker ?s1))" ref_worker_env "ref_env []" "at_ns 5"] 2(1)
    by (simp add: ref_pod_tick_def)
  then have r: "worker_reaches ref_worker_env (Waiting ?s1) (Waiting s2)" by (simp add: worker_reaches_def r_into_rtranclp)
  have i: "worker_inv ref_worker_env ?s1" "sToolkit ?s1 = None"
    by (simp_all add: worker_inv_def ref_pod_worker_def ref_worker_def NewWorker_def ref_worker_env_def ref_world_def)
  have w: "eWorld ref_worker_env = ref_world one_kubelet" by (simp add: ref_worker_env_def)
  from worker_invariant [OF r i(1), unfolded w] i(2) 2(2) obtain u v where
    "worker_inv ref_worker_env s2" "worker_reaches ref_worker_env (Waiting ?s1) (Waiting u)" "sToolkit u = None"
    "GetCgroupNames (ref_world one_kubelet) (sKube u) (wkPod (sWorker u)) = (v, Returns (Inr (tk_name t)))"
    by auto
  with r i(2) 2(2) show ?thesis by blast
qed

end
