(* ===== verification/Pod_Limits.thy ===== *)
theory Pod_Limits
  imports Worker_Events
begin

text \<open>
  From the limits of a pod to the files of its cgroup.  An event with a pod (\<^verbatim>\<open>worker.go\<close>) goes through
  \<open>GetQuotaFromPod\<close>, \<open>GetFloorMemoryQuota\<close>, \<open>GetQuotaConfig\<close> (\<^verbatim>\<open>quota.go\<close>) and \<open>SetCgroupLimit\<close> (\<^verbatim>\<open>toolkit.go\<close>).
\<close>

section \<open>What is written for an amount of memory\<close>

text \<open>The memory of the floor quota, in bytes, from thousandths of a CPU and bytes.\<close>

definition floor_bytes :: "int \<Rightarrow> int \<Rightarrow> int" where
  "floor_bytes cpu mem =
     (let k = cpu div 50 in if cpu = 50 * k \<and> 1 \<le> k \<and> k \<le> 64 \<and> k * 2 ^ 30 \<le> mem then k * 2 ^ 30 else mem)"

text \<open>The line of \<^verbatim>\<open>io.max\<close>: 50/1024 of the bytes, and 500 operations for each whole GiB; 0 is printed as nothing.\<close>

definition io_limits :: "int \<Rightarrow> string" where
  "io_limits mem =
     (let bps = numToStr (50 * mem div 1024); iops = numToStr (500 * (mem div 2 ^ 30))
      in ''default rbps='' @ bps @ '' wbps='' @ bps @ '' riops='' @ iops @ '' wiops='' @ iops)"

text \<open>The two writes, through the directories of a toolkit.\<close>

definition limit_writes :: "cgroup_api \<Rightarrow> LinuxToolkit \<Rightarrow> int \<Rightarrow> (string \<times> string \<times> string) list" where
  "limit_writes A t mem =
     (let paths = BuildCgroupPaths A (tk_name t) (tk_driver t) (tk_mounts t)
      in [(path_of paths ''memory'', ''memory.high'', FormatInt mem), (path_of paths ''io'', ''io.max'', io_limits mem)])"

lemma floor_bytes_bounds: "0 < mem \<Longrightarrow> 0 < floor_bytes cpu mem \<and> floor_bytes cpu mem \<le> mem"
  by (auto simp: floor_bytes_def Let_def)

lemma floor_quota_bytes:
  assumes "quantity Q" "init_quota_vars Q = Some v"
  shows "Value Q (Memory (GetFloorMemoryQuota Q v quota)) = floor_bytes (MilliValue Q (Cpu quota)) (Value Q (Memory quota))"
  using quota_table.rung_mem [OF quota_table_intro [OF assms]]
  by (simp add: quota_table.floor_rung [OF quota_table_intro [OF assms]] floor_bytes_def Let_def)

lemma SetCgroupLimit_accepted:
  "Value Q (Memory quota) > 0 \<Longrightarrow>
   SetCgroupLimit A Q (refusing_write {}) fs t quota cfg =
    (let paths = BuildCgroupPaths A (tk_name t) (tk_driver t) (tk_mounts t) in
     (fs @ [(path_of paths ''memory'', ''memory.high'', FormatInt (Value Q (Memory quota))),
            (path_of paths ''io'', ''io.max'', io_max_line (Value Q (DiskBandWidth cfg)) (DiskIOPS cfg))], [], None))"
  by (simp add: SetCgroupLimit_def refusing_write_def numToStr_def Let_def FormatInt_def
        CgroupControllerMemory_def CgroupControllerIO_def)

lemma new_pod_writes:
  assumes "quantity (wQ (eWorld P))" "init_quota_vars (wQ (eWorld P)) = Some (eQuotas P)" "eWrite P = refusing_write {}"
    and "ev_typ e = EventTypeNew \<or> ev_typ e = EventTypeUpdate" "ev_pod e = Some pod" "sToolkit st = Some t"
    and "GetQuotaFromPod (wQ (eWorld P)) pod = (quota, True)"
    and "MilliValue (wQ (eWorld P)) (Cpu quota) = cpu" "Value (wQ (eWorld P)) (Memory quota) = mem"
    and "0 < mem" "50 * mem < 2 ^ 63"
  shows "handle_event P now st e = Waiting (add_log [LogError None ''failed to set cgroup limit''] (st\<lparr>sWorker := (sWorker st)
      \<lparr>wkPod := pod, wkQuota := GetFloorMemoryQuota (wQ (eWorld P)) (eQuotas P) quota\<rparr>,
     sFs := sFs st @ limit_writes (wA (eWorld P)) t (floor_bytes cpu mem)\<rparr>))"
proof -
  let ?Q = "wQ (eWorld P)" and ?V = "eQuotas P"
  let ?q = "GetFloorMemoryQuota ?Q ?V quota" and ?h = "floor_bytes cpu mem"
  have h: "Value ?Q (Memory ?q) = ?h" "0 < ?h" "50 * ?h < 2 ^ 63"
    using floor_quota_bytes [OF assms(1,2), of quota] floor_bytes_bounds [OF assms(10), of cpu] assms(8-11) by auto
  obtain cfg where c: "GetQuotaConfig ?Q ?V ?q = Returns cfg" "DiskIOPS cfg = 500 * (?h div 2 ^ 30)"
      "Value ?Q (DiskBandWidth cfg) = 50 * ?h div 1024"
    using h(2,3) by (rule_tac quota = ?q in computed_config [OF assms(1,2)]) (simp_all only: h(1) less_imp_le)
  have "handle_event P now st e = handle_new_pod P st e"
    using assms(4) by (auto simp: handle_event_def)
  then show ?thesis
    using assms(3,5-7) c h
    by (simp add: handle_new_pod_def Let_def SetCgroupLimit_accepted limit_writes_def io_limits_def io_max_line_def)
qed

lemma quota_of_main:
  assumes "pContainers p = us @ c # vs" "cName c = ''main''" "''main'' \<notin> cName ` set vs"
  shows "GetQuotaFromPod Q p =
    (\<lparr>Cpu = DeepCopy Q (ListCpu Q (cLimits c)), Memory = DeepCopy Q (ListMemory Q (cLimits c))\<rparr>, True)"
  by (rule quota_from_pod [THEN conjunct2, rule_format]) (fact assms)+

section \<open>Properties\<close>

text \<open>
  C9: from a pod to its cgroup files.  When a worker with a toolkit handles a new or updated pod whose (last)
  container main has limits for CPU and memory, it appends exactly two writes, with exact texts: the bytes of
  the floor quota to \<^verbatim>\<open>memory.high\<close>, and the limits derived from these bytes to \<^verbatim>\<open>io.max\<close>; nothing wraps below
  \<open>2 ^ 63 / 50\<close> bytes.
\<close>

theorem pod_limits_in_files:
  assumes "quantity (wQ (eWorld P))" "init_quota_vars (wQ (eWorld P)) = Some (eQuotas P)" "eWrite P = refusing_write {}"
    and "ev_typ e = EventTypeNew \<or> ev_typ e = EventTypeUpdate" "ev_pod e = Some pod" "sToolkit st = Some t"
    and "pContainers pod = us @ c # vs" "cName c = ''main''" "''main'' \<notin> cName ` set vs"
    and "cLimits c ''cpu'' = Some qc" "cLimits c ''memory'' = Some qm"
    and "0 < Value (wQ (eWorld P)) qm" "50 * Value (wQ (eWorld P)) qm < 2 ^ 63"
  shows "\<exists>st'. handle_event P now st e = Waiting st' \<and> wkPod (sWorker st') = pod \<and> sCluster st' = sCluster st \<and>
    (let h = floor_bytes (MilliValue (wQ (eWorld P)) qc) (Value (wQ (eWorld P)) qm);
         paths = BuildCgroupPaths (wA (eWorld P)) (tk_name t) (tk_driver t) (tk_mounts t)
     in sFs st' = sFs st @ [(path_of paths ''memory'', ''memory.high'', FormatInt h), (path_of paths ''io'', ''io.max'', io_limits h)])"
proof -
  let ?Q = "wQ (eWorld P)"
  have "GetQuotaFromPod ?Q pod = (\<lparr>Cpu = DeepCopy ?Q qc, Memory = DeepCopy ?Q qm\<rparr>, True)"
    unfolding quota_of_main [OF assms(7-9)]
    by (simp add: quantity.ListCpu_Some [OF assms(1), where rl = "cLimits c", OF assms(10)]
      quantity.ListMemory_Some [OF assms(1), where rl = "cLimits c", OF assms(11)])
  from new_pod_writes [OF assms(1-6) this, of "MilliValue ?Q qc" "Value ?Q qm"] assms(12,13) show ?thesis
    by (simp add: quantity.Value_DeepCopy [OF assms(1)] quantity.MilliValue_DeepCopy [OF assms(1)]
        limit_writes_def Let_def add_log_def)
qed

text \<open>One CPU and 21 GiB: the entry of one CPU has 20 GiB.\<close>

theorem pod_limits_in_files_witness:
  "\<exists>st' dir dir'. handle_event ref_worker_env [] (ref_worker (Some ref_toolkit))
      \<lparr>ev_typ = EventTypeNew, ev_pod = Some main_pod, scaleType = ScaleNone\<rparr> = Waiting st' \<and>
    sFs st' = [(dir, ''memory.high'', ''21474836480''),
      (dir', ''io.max'', ''default rbps=1048576000 wbps=1048576000 riops=10000 wiops=10000'')]"
proof -
  let ?e = "\<lparr>ev_typ = EventTypeNew, ev_pod = Some main_pod, scaleType = ScaleNone\<rparr>"
    and ?c = "\<lparr>cName = ''main'', cLimits = [''cpu'' \<mapsto> Amount nano_unit False, ''memory'' \<mapsto> Amount (21 * 2 ^ 30 * nano_unit) True],
      cRequests = Map.empty\<rparr>"
  have h: "quantity (wQ (eWorld ref_worker_env))" "init_quota_vars (wQ (eWorld ref_worker_env)) = Some (eQuotas ref_worker_env)"
    "eWrite ref_worker_env = refusing_write {}"
    using ref_table_axioms by (simp_all add: ref_worker_env_def ref_world_def)
  have q: "wQ (eWorld ref_worker_env) = ref_quantity" by (simp add: ref_worker_env_def ref_world_def)
  have v: "Value (wQ (eWorld ref_worker_env)) (Amount (21 * 2 ^ 30 * nano_unit) True) = 21 * 2 ^ 30"
    "MilliValue (wQ (eWorld ref_worker_env)) (Amount nano_unit False) = 1000"
    unfolding q by code_simp+
  have t: "FormatInt (floor_bytes 1000 (21 * 2 ^ 30)) = ''21474836480''"
    "io_limits (floor_bytes 1000 (21 * 2 ^ 30)) = ''default rbps=1048576000 wbps=1048576000 riops=10000 wiops=10000''"
    by code_simp+
  have "\<exists>st'. handle_event ref_worker_env [] (ref_worker (Some ref_toolkit)) ?e = Waiting st' \<and>
      wkPod (sWorker st') = main_pod \<and> sCluster st' = sCluster (ref_worker (Some ref_toolkit)) \<and>
      (let h = floor_bytes (MilliValue (wQ (eWorld ref_worker_env)) (Amount nano_unit False))
             (Value (wQ (eWorld ref_worker_env)) (Amount (21 * 2 ^ 30 * nano_unit) True));
           paths = BuildCgroupPaths (wA (eWorld ref_worker_env)) (tk_name ref_toolkit) (tk_driver ref_toolkit) (tk_mounts ref_toolkit)
       in sFs st' = sFs (ref_worker (Some ref_toolkit)) @
            [(path_of paths ''memory'', ''memory.high'', FormatInt h), (path_of paths ''io'', ''io.max'', io_limits h)])"
    by (rule pod_limits_in_files [OF h, where us = "[]" and vs = "[]" and c = ?c])
      (simp_all only: v, simp_all add: main_pod_def ref_worker_def)
  moreover have "sFs (ref_worker (Some ref_toolkit)) = []" by (simp add: ref_worker_def)
  ultimately show ?thesis
    unfolding Let_def v t by (auto simp del: append.simps)
qed

end
