(* ===== verification/Agent.thy ===== *)
theory Agent
  imports Pod_Manager Controller Worker_Events
begin

text \<open>
  The process as a whole: the controller of \<^verbatim>\<open>pkg/controller\<close>, the manager's loop and the loops of the workers of
  \<^verbatim>\<open>pkg/pod\<close> as goroutines over one heap.  The steps are those of the components; this theory adds
  what they share: the package variables, the cgroup files, the cluster, and the workers, which the manager's cache and the
  goroutines hold by pointer.  A panic in one goroutine ends the process, as in Go, since no goroutine of the program
  recovers and the controller is made without \<open>RecoverPanic\<close>.
\<close>

section \<open>The shared state\<close>

text \<open>
  \<open>aStarted\<close> are the workers whose goroutine was started (\<open>go worker.loop()\<close>) and did not run yet; \<open>aLoops\<close> is the
  local state of the goroutines that wait in their loops, by the key of their worker.  The worker in such a state and its
  shared parts are not read: they are those of the process.
\<close>

record ('q, 'o, 'fs, 'l, 'c) agent =
  aConfig :: config_var
  aDaemon :: "('q, 'l, 'c) DaemonSetManager option"
  aBlocked :: bool
  aStarted :: "string set"
  aLoops :: "string \<rightharpoonup> ('q, 'o, 'fs) worker_state"
  aKube :: "'o kubelet_vars"
  aScale :: scale_vars
  aFs :: 'fs
  aCluster :: "'q cluster"

text \<open>The worker that the manager's cache holds under a key.\<close>

definition cached :: "('q, 'l, 'c) DaemonSetManager \<Rightarrow> string \<Rightarrow> 'q Worker option" where
  "cached d k = (case dmCache d of None \<Rightarrow> None | Some m \<Rightarrow> m k)"

definition worker_of :: "('q, 'o, 'fs, 'l, 'c) agent \<Rightarrow> string \<Rightarrow> 'q Worker option" where
  "worker_of a k = (case aDaemon a of None \<Rightarrow> None | Some d \<Rightarrow> cached d k)"

text \<open>A goroutine runs on the shared state, and leaves it changed.\<close>

definition attach ::
    "('q, 'o, 'fs, 'l, 'c) agent \<Rightarrow> 'q Worker \<Rightarrow> ('q, 'o, 'fs) worker_state \<Rightarrow> ('q, 'o, 'fs) worker_state" where
  "attach a w st = st\<lparr>sWorker := w, sKube := aKube a, sScale := aScale a, sFs := aFs a, sCluster := aCluster a\<rparr>"

definition detach ::
    "string \<Rightarrow> ('q, 'o, 'fs) worker_state \<Rightarrow> ('q, 'o, 'fs, 'l, 'c) agent \<Rightarrow> ('q, 'o, 'fs, 'l, 'c) agent" where
  "detach k st a = a\<lparr>
     aDaemon := map_option (\<lambda>d. d\<lparr>dmCache := map_option (\<lambda>m. m(k \<mapsto> sWorker st)) (dmCache d)\<rparr>) (aDaemon a),
     aKube := sKube st, aScale := sScale st, aFs := sFs st, aCluster := sCluster st\<rparr>"

section \<open>The steps\<close>

text \<open>The manager received a pod: a worker that its cache did not hold before is started.\<close>

definition after_event ::
    "('q, 'o, 'fs, 'l, 'c) agent \<Rightarrow> ('q, 'l, 'c) DaemonSetManager \<Rightarrow> 'q pod \<Rightarrow> ('q, 'l, 'c) DaemonSetManager run \<Rightarrow>
       ('q, 'o, 'fs, 'l, 'c) agent run" where
  "after_event a d pod r =
     (let k = GetNamespacedName pod;
          go = (\<lambda>d'. if cached d k = None \<and> cached d' k \<noteq> None then insert k (aStarted a) else aStarted a)
      in case r of
           Waiting d' \<Rightarrow> Waiting (a\<lparr>aDaemon := Some d', aStarted := go d'\<rparr>)
         | Stuck d' \<Rightarrow> Waiting (a\<lparr>aDaemon := Some d', aStarted := go d', aBlocked := True\<rparr>)
         | Ended d' \<Rightarrow> Waiting (a\<lparr>aDaemon := Some d', aBlocked := True\<rparr>)
         | Crashed p \<Rightarrow> Crashed p
         | Exited n \<Rightarrow> Exited n)"

text \<open>A goroutine ran: it waits again, or it is gone (ended, or blocked forever).\<close>

definition after_work ::
    "('q, 'o, 'fs, 'l, 'c) agent \<Rightarrow> string \<Rightarrow> ('q, 'o, 'fs) worker_state run \<Rightarrow> ('q, 'o, 'fs, 'l, 'c) agent run" where
  "after_work a k r =
     (case r of
        Waiting st \<Rightarrow> Waiting ((detach k st a)\<lparr>aStarted := aStarted a - {k}, aLoops := (aLoops a)(k \<mapsto> st)\<rparr>)
      | Ended st \<Rightarrow> Waiting ((detach k st a)\<lparr>aStarted := aStarted a - {k}, aLoops := (aLoops a)(k := None)\<rparr>)
      | Stuck st \<Rightarrow> Waiting ((detach k st a)\<lparr>aStarted := aStarted a - {k}, aLoops := (aLoops a)(k := None)\<rparr>)
      | Crashed p \<Rightarrow> Crashed p
      | Exited n \<Rightarrow> Exited n)"

inductive agent_step ::
    "('q, 'o, 'fs) worker_env \<Rightarrow> ('q, 'sel) reconcile_env \<Rightarrow> ('q, 'o, 'fs, 'l, 'c) agent run \<Rightarrow>
       ('q, 'o, 'fs, 'l, 'c) agent run \<Rightarrow> bool"
  for P :: "('q, 'o, 'fs) worker_env" and R :: "('q, 'sel) reconcile_env" where
  reconcile: "Reconcile R (aConfig a) req = (g, r) \<Longrightarrow>
     agent_step P R (Waiting a) (settle (a\<lparr>aConfig := g\<rparr>) r (\<lambda>_. Waiting (a\<lparr>aConfig := g\<rparr>)))"
| receive: "aDaemon a = Some d \<Longrightarrow> 0 < dmLoops d \<Longrightarrow> \<not> aBlocked a \<Longrightarrow> dmEventC d = pod # pods \<Longrightarrow>
     agent_step P R (Waiting a)
       (after_event a d pod (manager_event (wQ (eWorld P)) (d\<lparr>dmEventC := pods\<rparr>) pod))"
| begin_loop: "k \<in> aStarted a \<Longrightarrow> worker_of a k = Some w \<Longrightarrow>
     agent_step P R (Waiting a)
       (after_work a k (worker_start P (aKube a) (aScale a) (aFs a) (aCluster a) w))"
| work: "aLoops a k = Some st \<Longrightarrow> worker_of a k = Some w \<Longrightarrow> worker_step P (Waiting (attach a w st)) r \<Longrightarrow>
     agent_step P R (Waiting a) (after_work a k r)"

definition agent_reaches ::
    "('q, 'o, 'fs) worker_env \<Rightarrow> ('q, 'sel) reconcile_env \<Rightarrow> ('q, 'o, 'fs, 'l, 'c) agent run \<Rightarrow>
       ('q, 'o, 'fs, 'l, 'c) agent run \<Rightarrow> bool" where
  "agent_reaches P R r s \<longleftrightarrow> (agent_step P R)\<^sup>*\<^sup>* r s"

lemma agent_reaches_invariant:
  assumes "agent_reaches P R (Waiting a) (Waiting a')" "I a"
    and "\<And>b b'. I b \<Longrightarrow> agent_step P R (Waiting b) (Waiting b') \<Longrightarrow> I b'"
  shows "I a'"
proof -
  have "\<forall>b. r = Waiting b \<longrightarrow> I b" if "(agent_step P R)\<^sup>*\<^sup>* (Waiting a) r" for r
    using that
  proof (induction rule: rtranclp_induct)
    case (step r s)
    then show ?case
      using assms(3) by (cases r) (auto elim: agent_step.cases)
  qed (simp add: assms(2))
  with assms(1) show ?thesis by (simp add: agent_reaches_def)
qed

section \<open>The invariant\<close>

text \<open>
  An event for the worker of a key: it is well-typed, and the pod it carries has that name.  A
  worker in order: it holds a pod of its name and its initial quota or the floor quota of that pod, and its channel holds
  events for it.
\<close>

definition event_for :: "string \<Rightarrow> 'q Event \<Rightarrow> bool" where
  "event_for k e \<longleftrightarrow> wf_event e \<and> (\<forall>p. ev_pod e = Some p \<longrightarrow> GetNamespacedName p = k)"

definition quota_ok :: "('q, 'o, 'fs) worker_env \<Rightarrow> 'q Worker \<Rightarrow> bool" where
  "quota_ok P w \<longleftrightarrow>
     wkQuota w = \<lparr>Cpu = ZeroQuantity (wQ (eWorld P)), Memory = ZeroQuantity (wQ (eWorld P))\<rparr> \<or>
     (\<exists>quota. GetQuotaFromPod (wQ (eWorld P)) (wkPod w) = (quota, True) \<and>
        wkQuota w = GetFloorMemoryQuota (wQ (eWorld P)) (eQuotas P) quota)"

definition worker_ok :: "('q, 'o, 'fs) worker_env \<Rightarrow> string \<Rightarrow> 'q Worker \<Rightarrow> bool" where
  "worker_ok P k w \<longleftrightarrow> GetNamespacedName (wkPod w) = k \<and> list_all (event_for k) (queued w) \<and> quota_ok P w"

definition loop_ok :: "('q, 'o, 'fs) worker_env \<Rightarrow> ('q, 'o, 'fs) worker_state \<Rightarrow> bool" where
  "loop_ok P st \<longleftrightarrow> list_all cpu_event (sSends st) \<and>
     (\<forall>t. sToolkit st = Some t \<longrightarrow> tk_mounts t = sMounts st \<and> tk_interval t = 100000000 \<and>
        (\<exists>s. sServer st = Some s \<and> tk_driver t = CgroupDriver (ks_config s)) \<and> (\<exists>pod. toolkit_of P pod t))"

definition agent_inv :: "('q, 'o, 'fs) worker_env \<Rightarrow> ('q, 'o, 'fs, 'l, 'c) agent \<Rightarrow> bool" where
  "agent_inv P a \<longleftrightarrow>
     (\<forall>k w. worker_of a k = Some w \<longrightarrow> worker_ok P k w) \<and>
     (\<forall>k st. aLoops a k = Some st \<longrightarrow> worker_of a k \<noteq> None \<and> loop_ok P st)"

lemma worker_inv_iff: "worker_inv P st \<longleftrightarrow> quota_ok P (sWorker st) \<and> loop_ok P st"
  by (auto simp: worker_inv_def quota_ok_def loop_ok_def Let_def)

lemma quota_ok_channel [simp]: "quota_ok P (w\<lparr>wkEventC := q\<rparr>) = quota_ok P w"
  by (simp add: quota_ok_def)

lemma loop_ok_attach [simp]: "loop_ok P (attach a w st) = loop_ok P st"
  by (simp add: loop_ok_def attach_def)

lemma event_for_cpu: "cpu_event e \<Longrightarrow> event_for k e"
  using cpu_event_wf by (auto simp: event_for_def cpu_event_def)

lemma worker_of_detach:
  "worker_of (detach k st a) j = (if worker_of a j = None then None else if j = k then Some (sWorker st) else worker_of a j)"
  if "worker_of a k \<noteq> None"
  using that by (auto simp: worker_of_def cached_def detach_def split: option.splits)

lemma worker_of_update [simp]:
  "worker_of (a\<lparr>aStarted := S\<rparr>) k = worker_of a k" "worker_of (a\<lparr>aLoops := L\<rparr>) k = worker_of a k"
  "worker_of (a\<lparr>aConfig := c\<rparr>) k = worker_of a k" "worker_of (a\<lparr>aDaemon := Some d\<rparr>) k = cached d k"
  "worker_of (a\<lparr>aBlocked := b\<rparr>) k = worker_of a k"
  by (simp_all add: worker_of_def)

lemma NewWorker_simps [simp]:
  "wkEventC (NewWorker Q pod) = None" "wkPod (NewWorker Q pod) = pod"
  "wkQuota (NewWorker Q pod) = \<lparr>Cpu = ZeroQuantity Q, Memory = ZeroQuantity Q\<rparr>"
  by (simp_all add: NewWorker_def)

text \<open>What a received pod makes of the cache.\<close>

lemma manager_event_cached:
  assumes "manager_event Q d pod = Waiting d' \<or> manager_event Q d pod = Stuck d'" "cached d' k = Some w"
  shows "cached d k = Some w \<or> k = GetNamespacedName pod \<and>
    (cached d k = None \<and> w = NewWorker Q pod \<or>
     (\<exists>w0 q. cached d k = Some w0 \<and> wkEventC w0 = Some q \<and>
        w = w0\<lparr>wkEventC := Some (q @ [\<lparr>ev_typ = EventTypeUpdate, ev_pod = Some pod, scaleType = ScaleNone\<rparr>])\<rparr>))"
  using assms
  by (cases "dmCache d"; cases "wkEventC (the (cached d (GetNamespacedName pod)))")
    (auto simp: manager_event_def mux_Lock_def cache_write_def cached_def Let_def SendEvent_def
      split: if_splits option.splits)

lemma manager_event_keeps:
  assumes "manager_event Q d pod = Waiting d' \<or> manager_event Q d pod = Stuck d'" "cached d k \<noteq> None"
  shows "cached d' k \<noteq> None"
  using assms
  by (cases "dmCache d")
    (auto simp: manager_event_def mux_Lock_def cache_write_def cached_def Let_def SendEvent_def
      split: if_splits option.splits)

section \<open>Every step keeps the invariant\<close>

lemma receive_inv:
  assumes "agent_inv P a" "aDaemon a = Some d"
    and "after_event a d pod (manager_event (wQ (eWorld P)) (d\<lparr>dmEventC := pods\<rparr>) pod) = Waiting a'"
  shows "agent_inv P a'"
proof -
  let ?r = "manager_event (wQ (eWorld P)) (d\<lparr>dmEventC := pods\<rparr>) pod"
  have same: "cached (d\<lparr>dmEventC := pods\<rparr>) k = worker_of a k" for k
    by (simp add: cached_def worker_of_def assms(2))
  obtain d' where d': "?r = Waiting d' \<or> ?r = Stuck d'" "aDaemon a' = Some d'" "aLoops a' = aLoops a"
    using assms(3) manager_event_not_Ended by (cases ?r) (auto simp: after_event_def Let_def)
  have new: "worker_of a' k = cached d' k" for k
    by (simp add: worker_of_def d'(2))
  show ?thesis
    unfolding agent_inv_def
  proof (intro conjI allI impI)
    fix k w
    assume "worker_of a' k = Some w"
    then have c: "worker_of a k = Some w \<or> k = GetNamespacedName pod \<and>
      (worker_of a k = None \<and> w = NewWorker (wQ (eWorld P)) pod \<or>
       (\<exists>w0 q. worker_of a k = Some w0 \<and> wkEventC w0 = Some q \<and>
          w = w0\<lparr>wkEventC := Some (q @ [\<lparr>ev_typ = EventTypeUpdate, ev_pod = Some pod, scaleType = ScaleNone\<rparr>])\<rparr>))"
      using manager_event_cached [OF d'(1), of k w] by (simp add: new same)
    have ok: "worker_ok P k w0" if "worker_of a k = Some w0" for w0
      using assms(1) that by (simp add: agent_inv_def)
    from c show "worker_ok P k w"
    proof (elim disjE conjE exE)
      fix w0 q
      assume "k = GetNamespacedName pod" "worker_of a k = Some w0" "wkEventC w0 = Some q"
        "w = w0\<lparr>wkEventC := Some (q @ [\<lparr>ev_typ = EventTypeUpdate, ev_pod = Some pod, scaleType = ScaleNone\<rparr>])\<rparr>"
      with ok show ?thesis
        by (auto simp: worker_ok_def queued_def event_for_def wf_event_def)
    qed (use ok in \<open>simp_all add: worker_ok_def queued_def quota_ok_def\<close>)
  next
    fix k st
    assume "aLoops a' k = Some st"
    then have "worker_of a k \<noteq> None" "loop_ok P st"
      using assms(1) d'(3) by (auto simp: agent_inv_def)
    then show "worker_of a' k \<noteq> None" "loop_ok P st"
      using manager_event_keeps [OF d'(1), of k] by (simp_all add: new same)
  qed
qed

text \<open>A goroutine that leaves its worker in order leaves the process in order.\<close>

lemma after_work_inv:
  assumes "agent_inv P a" "worker_of a k \<noteq> None" "after_work a k r = Waiting a'"
    and "\<And>st. r = Waiting st \<or> r = Ended st \<or> r = Stuck st \<Longrightarrow> worker_ok P k (sWorker st)"
    and "\<And>st. r = Waiting st \<Longrightarrow> loop_ok P st"
  shows "agent_inv P a'"
proof -
  obtain st where r: "r = Waiting st \<or> r = Ended st \<or> r = Stuck st"
    using assms(3) by (cases r) (auto simp: after_work_def)
  have w: "worker_of a' j = (if worker_of a j = None then None else if j = k then Some (sWorker st) else worker_of a j)" for j
    using r assms(2,3) by (auto simp: after_work_def worker_of_detach)
  have l: "aLoops a' j = (if j = k then if r = Waiting st then Some st else None else aLoops a j)" for j
    using r assms(3) by (auto simp: after_work_def detach_def)
  have "aLoops a j = None" if "worker_of a j = None" for j
    using assms(1) that by (cases "aLoops a j") (force simp: agent_inv_def)+
  then show ?thesis
    using assms(1) assms(4) [OF r] assms(5) [of st] assms(2) w l
    by (auto simp: agent_inv_def split: if_splits)
qed

text \<open>A step of a loop keeps its worker in order.\<close>

lemma step_frame_worker:
  assumes "step_frame st st'" "worker_ok P k (sWorker st)" "loop_ok P st"
  shows "GetNamespacedName (wkPod (sWorker st')) = k \<and> list_all (event_for k) (queued (sWorker st'))"
proof -
  have q: "event_for k e" if "e \<in> set (queued (sWorker st)) \<union> set (sSends st)" for e
    using that assms(2,3) event_for_cpu by (auto simp: worker_ok_def loop_ok_def list_all_iff)
  have "event_for k e" if "e \<in> set (queued (sWorker st'))" for e
    using that assms(1) q [of e] event_for_cpu by (auto simp: step_frame_def)
  moreover have "GetNamespacedName (wkPod (sWorker st')) = k"
    using assms(1,2) q by (auto simp: step_frame_def worker_ok_def event_for_def)
  ultimately show ?thesis by (simp add: list_all_iff)
qed

lemma work_inv:
  assumes "agent_inv P a" "aLoops a k = Some st" "worker_of a k = Some w"
    and "worker_step P (Waiting (attach a w st)) r" "after_work a k r = Waiting a'"
  shows "agent_inv P a'"
proof -
  have ok: "worker_ok P k w" "loop_ok P st"
    using assms(1-3) by (auto simp: agent_inv_def)
  have at: "sWorker (attach a w st) = w" by (simp add: attach_def)
  have stays: "worker_ok P k (sWorker u) \<and> loop_ok P u" if r: "r = Waiting u" for u
  proof -
    have "worker_inv P u"
      using worker_step_inv [OF assms(4) [unfolded r]] ok by (simp add: worker_inv_iff at worker_ok_def)
    then show ?thesis
      using step_frame_worker [OF worker_step_frame [OF assms(4) [unfolded r]], of P k] ok
      by (simp add: worker_inv_iff worker_ok_def at)
  qed
  have gone: "worker_ok P k (sWorker u)" if "r = Ended u \<or> r = Stuck u" for u
    using worker_step_gone [OF assms(4) that] ok at by simp
  show ?thesis
    by (rule after_work_inv [OF assms(1) _ assms(5)]) (use assms(3) stays gone in auto)
qed

lemma begin_inv:
  assumes "agent_inv P a" "worker_of a k = Some w"
    and "after_work a k (worker_start P (aKube a) (aScale a) (aFs a) (aCluster a) w) = Waiting a'"
  shows "agent_inv P a'"
proof (rule after_work_inv [OF assms(1) _ assms(3)])
  show "worker_of a k \<noteq> None" using assms(2) by simp
  have "worker_ok P k w" using assms(1,2) by (simp add: agent_inv_def)
  then show "worker_ok P k (sWorker st)" if "worker_start P (aKube a) (aScale a) (aFs a) (aCluster a) w = Waiting st \<or>
      worker_start P (aKube a) (aScale a) (aFs a) (aCluster a) w = Ended st \<or>
      worker_start P (aKube a) (aScale a) (aFs a) (aCluster a) w = Stuck st" for st
    using worker_start_state [OF refl that] by simp
  show "loop_ok P st" if "worker_start P (aKube a) (aScale a) (aFs a) (aCluster a) w = Waiting st" for st
    using worker_start_state [OF that, of st] by (simp add: loop_ok_def)
qed

lemma agent_step_inv:
  assumes "agent_step P R (Waiting a) (Waiting a')" "agent_inv P a"
  shows "agent_inv P a'"
  using assms(1)
proof cases
  case (reconcile req g r)
  then show ?thesis using assms(2) by (cases r) (auto simp: agent_inv_def)
qed (use assms(2) receive_inv begin_inv work_inv in metis)+

text \<open>Workers stay in the cache.\<close>

lemma agent_step_keeps:
  assumes "agent_step P R (Waiting a) (Waiting a')" "worker_of a k \<noteq> None"
  shows "worker_of a' k \<noteq> None"
  using assms(1)
proof cases
  case (reconcile req g r)
  then show ?thesis using assms(2) by (cases r) auto
next
  case (receive d pod pods)
  let ?r = "manager_event (wQ (eWorld P)) (d\<lparr>dmEventC := pods\<rparr>) pod"
  obtain d' where d': "?r = Waiting d' \<or> ?r = Stuck d'" "aDaemon a' = Some d'"
    using receive(1) manager_event_not_Ended by (cases ?r) (auto simp: after_event_def Let_def)
  have "cached (d\<lparr>dmEventC := pods\<rparr>) k \<noteq> None"
    using assms(2) receive(2) by (simp add: worker_of_def cached_def)
  from manager_event_keeps [OF d'(1) this] show ?thesis by (simp add: worker_of_def d'(2))
next
  case (begin_loop j w)
  then show ?thesis
    using assms(2)
    by (cases "worker_start P (aKube a) (aScale a) (aFs a) (aCluster a) w") (auto simp: after_work_def worker_of_detach)
next
  case (work j st w r)
  then show ?thesis using assms(2) by (cases r) (auto simp: after_work_def worker_of_detach)
qed

text \<open>A step writes the objects only that are named like a worker of the cache.\<close>

lemma agent_step_cluster:
  assumes "create_or_update_contract (eClient P)" "agent_inv P a" "agent_step P R (Waiting a) (Waiting a')"
    and "worker_of a (path_Join [ns, n]) = None"
  shows "aCluster a' (ns, n) = aCluster a (ns, n)"
  using assms(3)
proof cases
  case (reconcile req g r)
  then show ?thesis by (cases r) auto
next
  case (receive d pod pods)
  let ?r = "manager_event (wQ (eWorld P)) (d\<lparr>dmEventC := pods\<rparr>) pod"
  show ?thesis
    using receive(1) by (cases ?r) (auto simp: after_event_def Let_def)
next
  case (begin_loop j w)
  let ?r = "worker_start P (aKube a) (aScale a) (aFs a) (aCluster a) w"
  obtain st where "?r = Waiting st \<or> ?r = Ended st \<or> ?r = Stuck st" "aCluster a' = sCluster st"
    using begin_loop(1) by (cases ?r) (auto simp: after_work_def detach_def)
  with worker_start_state [OF refl this(1)] show ?thesis by simp
next
  case (work j st w r)
  have "worker_ok P j w" using assms(2) work(3) by (simp add: agent_inv_def)
  then have other: "(ns, n) \<noteq> (pNamespace (wkPod w), pName (wkPod w))"
    using assms(4) work(3) by (auto simp: worker_ok_def GetNamespacedName_def)
  obtain u where u: "r = Waiting u \<or> r = Ended u \<or> r = Stuck u" "aCluster a' = sCluster u"
    using work(1) by (cases r) (auto simp: after_work_def detach_def)
  have "sCluster u (ns, n) = sCluster (attach a w st) (ns, n)"
  proof (cases "r = Waiting u")
    case True
    from worker_step_cluster [OF assms(1) work(4) [unfolded True], of "(ns, n)"] other show ?thesis
      by (simp add: attach_def)
  next
    case False
    then show ?thesis using u(1) worker_step_gone [OF work(4), of u] by auto
  qed
  then show ?thesis by (simp add: u(2) attach_def)
qed

section \<open>A concrete process for the witnesses\<close>

text \<open>One worker that waits with a request in its channel, in the cache of a manager with one loop.\<close>

abbreviation up_request :: "amount Event" where
  "up_request \<equiv> \<lparr>ev_typ = EventTypeScaleUp, ev_pod = None, scaleType = ScaleUpCpu\<rparr>"

definition ref_agent :: "(amount, unit, (string \<times> string \<times> string) list, unit, unit) agent" where
  "ref_agent =
     \<lparr>aConfig = None,
      aDaemon = Some (made_manager\<lparr>dmLoops := 1, dmCache := Some [''mo/cn-0'' \<mapsto> sWorker (ref_waiting None [up_request])]\<rparr>),
      aBlocked = False, aStarted = {}, aLoops = [''mo/cn-0'' \<mapsto> ref_waiting None [up_request]],
      aKube = sKube (ref_worker None), aScale = sScale (ref_worker None), aFs = [], aCluster = sCluster (ref_worker None)\<rparr>"

lemma ref_agent_worker: "worker_of ref_agent k = (if k = ''mo/cn-0'' then Some (sWorker (ref_waiting None [up_request])) else None)"
  by (simp add: worker_of_def cached_def ref_agent_def)

lemma ref_agent_loops: "aLoops ref_agent k = (if k = ''mo/cn-0'' then Some (ref_waiting None [up_request]) else None)"
  by (simp add: ref_agent_def)

lemma ref_agent_inv: "agent_inv ref_worker_env ref_agent"
proof -
  have k: "GetNamespacedName main_pod = ''mo/cn-0''" by code_simp
  show ?thesis
    by (auto simp: agent_inv_def ref_agent_worker worker_ok_def loop_ok_def quota_ok_def ref_waiting_def ref_worker_def k
        queued_def event_for_def wf_event_def ref_agent_loops ref_worker_env_def ref_world_def NewWorker_def)
qed

lemma ref_agent_step:
  "\<exists>a'. agent_reaches ref_worker_env ref_reconcile (Waiting ref_agent) (Waiting a') \<and>
     aCluster a' (''mo'', ''cn-0'') \<noteq> aCluster ref_agent (''mo'', ''cn-0'')"
proof -
  let ?st = "ref_waiting None [up_request]"
  let ?s = "?st\<lparr>sTicker := Running DefaultCheckInterval, sWorker := (sWorker ?st)\<lparr>wkEventC := Some []\<rparr>\<rparr>"
  have at: "attach ref_agent (sWorker ?st) ?st = ?st"
    by (simp add: attach_def ref_agent_def ref_waiting_def ref_worker_def)
  have main: "''main'' \<in> cName ` set (pContainers main_pod)" "pAnnotations main_pod = None"
    "pName main_pod = ''cn-0''" "pNamespace main_pod = ''mo''"
    by (simp_all add: main_pod_def empty_pod_def)
  have ne: "main_pod\<lparr>pAnnotations := Some x\<rparr> \<noteq> main_pod" for x
  proof
    assume "main_pod\<lparr>pAnnotations := Some x\<rparr> = main_pod"
    from arg_cong [OF this, of pAnnotations] main(2) show False by simp
  qed
  obtain st' where h: "handle_event ref_worker_env [] ?s up_request = Waiting st'"
      "sCluster st' (''mo'', ''cn-0'') \<noteq> Some main_pod"
    using main ne by (auto simp: handle_event_def handle_scale_def updatePodQuota_def ref_worker_env_def ref_create_or_update_def
        mutate_pod_eq add_log_def ref_waiting_def ref_worker_def NewWorker_def empty_pod_def Let_def)
  have "worker_step ref_worker_env (Waiting (attach ref_agent (sWorker ?st) ?st)) (handle_event ref_worker_env [] ?s up_request)"
    unfolding at by (rule worker_step.take_event) (simp_all add: ref_waiting_def ref_worker_def NewWorker_def DefaultCheckInterval_def)
  from agent_step.work [OF _ _ this [unfolded h(1)], of "''mo/cn-0''" ref_reconcile]
  have "agent_step ref_worker_env ref_reconcile (Waiting ref_agent) (after_work ref_agent ''mo/cn-0'' (Waiting st'))"
    by (simp add: ref_agent_worker ref_agent_loops)
  moreover obtain a' where "after_work ref_agent ''mo/cn-0'' (Waiting st') = Waiting a'" "aCluster a' = sCluster st'"
    by (simp add: after_work_def detach_def)
  moreover have "aCluster ref_agent (''mo'', ''cn-0'') = Some main_pod"
    by (simp add: ref_agent_def ref_worker_def)
  ultimately show ?thesis
    using h(2) by (auto simp: agent_reaches_def intro!: exI [of _ a'] r_into_rtranclp)
qed

section \<open>Properties\<close>

text \<open>
  C4: the invariant of the running process.  However the controller, the manager and the workers interleave,
  every worker in the manager's cache holds a pod of the name it is cached by, its channel holds well-typed events for
  that pod only, its quota is the initial one or the floor quota of its pod, and the goroutines send nothing but requests about the CPU.
\<close>

theorem agent_invariant:
  assumes "agent_reaches P R (Waiting a) (Waiting a')" "agent_inv P a"
  shows "agent_inv P a'"
  using assms by (rule agent_reaches_invariant) (rule agent_step_inv)

theorem agent_invariant_witness:
  "\<exists>a'. agent_reaches ref_worker_env ref_reconcile (Waiting ref_agent) (Waiting a') \<and> a' \<noteq> ref_agent \<and>
     agent_inv ref_worker_env a'"
proof -
  obtain a' where a': "agent_reaches ref_worker_env ref_reconcile (Waiting ref_agent) (Waiting a')"
      "aCluster a' (''mo'', ''cn-0'') \<noteq> aCluster ref_agent (''mo'', ''cn-0'')"
    using ref_agent_step by blast
  with agent_invariant [OF a'(1) ref_agent_inv] show ?thesis by auto
qed

text \<open>
  C11: the agent touches only what it was given.  However the process runs, an object of the cluster that is not as it was
  when the process was in order has the name of a worker in the manager's cache, that is of a pod the manager received.
\<close>

theorem agent_touches_received_pods:
  assumes "create_or_update_contract (eClient P)" "agent_inv P a"
    and "agent_reaches P R (Waiting a) (Waiting a')" "aCluster a' (ns, n) \<noteq> aCluster a (ns, n)"
  shows "worker_of a' (path_Join [ns, n]) \<noteq> None"
proof -
  have "agent_inv P a' \<and> (worker_of a' (path_Join [ns, n]) = None \<longrightarrow> aCluster a' (ns, n) = aCluster a (ns, n))"
  proof (rule agent_reaches_invariant [OF assms(3)])
    fix b b'
    assume b: "agent_inv P b \<and> (worker_of b (path_Join [ns, n]) = None \<longrightarrow> aCluster b (ns, n) = aCluster a (ns, n))"
      and s: "agent_step P R (Waiting b) (Waiting b')"
    show "agent_inv P b' \<and> (worker_of b' (path_Join [ns, n]) = None \<longrightarrow> aCluster b' (ns, n) = aCluster a (ns, n))"
      using b agent_step_inv [OF s] agent_step_keeps [OF s, of "path_Join [ns, n]"]
        agent_step_cluster [OF assms(1) _ s, of ns n] by metis
  qed (use assms(2) in simp)
  with assms(4) show ?thesis by blast
qed

theorem agent_touches_received_pods_witness:
  "\<exists>a'. agent_reaches ref_worker_env ref_reconcile (Waiting ref_agent) (Waiting a') \<and>
     worker_of a' (path_Join [''mo'', ''cn-0'']) \<noteq> None"
proof -
  obtain a' where a': "agent_reaches ref_worker_env ref_reconcile (Waiting ref_agent) (Waiting a')"
      "aCluster a' (''mo'', ''cn-0'') \<noteq> aCluster ref_agent (''mo'', ''cn-0'')"
    using ref_agent_step by blast
  have "create_or_update_contract (eClient ref_worker_env)"
    by (simp add: ref_worker_env_def ref_cou.create_or_update_contract_axioms)
  from agent_touches_received_pods [OF this ref_agent_inv a'] a'(1) show ?thesis by blast
qed

end
