(* ===== verification/Worker_History.thy ===== *)
theory Worker_History
  imports Worker_Events
begin

text \<open>
  What a worker's loop (\<^verbatim>\<open>pkg/pod/worker.go\<close>) does to the world, without toolkit, cgroup files, package variables
  and log: it consumes its events in the order they were sent, and each changes the pod and the quota it holds, or the
  cluster.  \<open>accept\<close> is this specification of one event; the loop refines the fold of it over its history.
\<close>

section \<open>The specification of one event\<close>

text \<open>The object and the change that a scale event hands to the client.\<close>

definition update_call ::
    "('q, 'o, 'fs) worker_env \<Rightarrow> string \<Rightarrow> 'q pod \<Rightarrow> 'q Quota \<Rightarrow> 'q cluster \<Rightarrow> 'q cluster" where
  "update_call P now pod quota cl =
     fst (eClient P cl (empty_pod\<lparr>pName := pName pod, pNamespace := pNamespace pod\<rparr>)
       (mutate_pod (wQ (eWorld P)) (eQuotas P) quota now))"

lemma handle_scale_cluster:
  assumes "ev_typ e = EventTypeScaleUp \<or> ev_typ e = EventTypeScaleDown"
  obtains logs where "handle_event P now st e = Waiting (add_log logs (st\<lparr>sCluster :=
    update_call P now (wkPod (sWorker st)) (next_quota (wQ (eWorld P)) (eQuotas P) e (wkQuota (sWorker st))) (sCluster st)\<rparr>))"
proof -
  let ?q = "next_quota (wQ (eWorld P)) (eQuotas P) e (wkQuota (sWorker st))"
  let ?u = "updatePodQuota (eClient P) (wQ (eWorld P)) (eQuotas P) now (sCluster st) (sWorker st) ?q"
  have "fst ?u = update_call P now (wkPod (sWorker st)) ?q (sCluster st)"
    by (auto simp: updatePodQuota_def update_call_def Let_def split: prod.splits option.splits)
  then have "handle_event P now st e = Waiting (add_log (fst (snd ?u)) (st\<lparr>sCluster :=
      update_call P now (wkPod (sWorker st)) ?q (sCluster st)\<rparr>))"
    using assms by (auto simp: handle_event_def handle_scale_def Let_def case_prod_unfold)
  then show thesis by (rule that)
qed

record 'q pod_view =
  vPod :: "'q pod"
  vQuota :: "'q Quota"
  vCluster :: "'q cluster"

definition view :: "('q, 'o, 'fs) worker_state \<Rightarrow> 'q pod_view" where
  "view st = \<lparr>vPod = wkPod (sWorker st), vQuota = wkQuota (sWorker st), vCluster = sCluster st\<rparr>"

text \<open>A pod with a container main replaces pod and quota; a scale event asks the client for the next quota of the one held.\<close>

definition accept :: "('q, 'o, 'fs) worker_env \<Rightarrow> string \<times> 'q Event \<Rightarrow> 'q pod_view \<Rightarrow> 'q pod_view" where
  "accept P ne s =
     (case ne of (now, e) \<Rightarrow>
        if ev_typ e = EventTypeNew \<or> ev_typ e = EventTypeUpdate
        then (case ev_pod e of
                None \<Rightarrow> s
              | Some pod \<Rightarrow>
                  (case GetQuotaFromPod (wQ (eWorld P)) pod of
                     (quota, True) \<Rightarrow> s\<lparr>vPod := pod, vQuota := GetFloorMemoryQuota (wQ (eWorld P)) (eQuotas P) quota\<rparr>
                   | (quota, False) \<Rightarrow> s))
        else if ev_typ e = EventTypeScaleUp \<or> ev_typ e = EventTypeScaleDown
        then s\<lparr>vCluster := update_call P now (vPod s) (next_quota (wQ (eWorld P)) (eQuotas P) e (vQuota s)) (vCluster s)\<rparr>
        else s)"

section \<open>Simulation\<close>

lemma view_frame [simp]:
  "view (add_log l st) = view st" "view (st\<lparr>sFs := f\<rparr>) = view st" "view (st\<lparr>sTicker := t\<rparr>) = view st"
  "view (st\<lparr>sTicker := t, sWorker := (sWorker st)\<lparr>wkEventC := q\<rparr>\<rparr>) = view st"
  by (simp_all add: view_def add_log_def)

lemma handle_event_view:
  assumes "handle_event P now st e = Waiting st'"
  shows "view st' = accept P (now, e) (view st)"
proof -
  have new: "view st' = accept P (now, e) (view st)"
    if "ev_typ e = EventTypeNew \<or> ev_typ e = EventTypeUpdate" "handle_new_pod P st e = Waiting st'"
  proof -
    note h = that
    obtain pod where p: "ev_pod e = Some pod"
      using h(2) by (cases "ev_pod e") (auto simp: handle_new_pod_def)
    obtain quota found where q: "GetQuotaFromPod (wQ (eWorld P)) pod = (quota, found)" by force
    show ?thesis
      using h p q by (cases found)
        (auto simp: handle_new_pod_def accept_def view_def add_log_def settle_Waiting_iff Let_def case_prod_unfold split: option.splits)
  qed
  have scale: "view st' = accept P (now, e) (view st)" if "ev_typ e = EventTypeScaleUp \<or> ev_typ e = EventTypeScaleDown"
  proof -
    note h = that
    obtain logs where "handle_event P now st e = Waiting (add_log logs (st\<lparr>sCluster :=
        update_call P now (wkPod (sWorker st)) (next_quota (wQ (eWorld P)) (eQuotas P) e (wkQuota (sWorker st))) (sCluster st)\<rparr>))"
      by (rule handle_scale_cluster [OF h])
    then show ?thesis using h assms by (auto simp: accept_def view_def add_log_def)
  qed
  show ?thesis
    using assms new scale
    by (cases "ev_typ e") (auto simp: handle_event_def accept_def settle_Waiting_iff on_manager_def GetManger_def gMgr_def)
qed

text \<open>A step takes the first event, or lets one arrive, or is not seen.\<close>

lemma worker_step_view:
  assumes "worker_step P (Waiting st) (Waiting st')" "list_all cpu_event (sSends st)"
  shows "list_all cpu_event (sSends st')"
    and "(\<exists>ne. queued (sWorker st) = snd ne # queued (sWorker st') \<and> view st' = accept P ne (view st)) \<or>
      (\<exists>arrived. queued (sWorker st') = queued (sWorker st) @ arrived \<and> list_all cpu_event arrived \<and> view st' = view st)"
proof -
  let ?seen = "\<lambda>st'. list_all cpu_event (sSends st') \<and>
     ((\<exists>ne. queued (sWorker st) = snd ne # queued (sWorker st') \<and> view st' = accept P ne (view st)) \<or>
      (\<exists>arrived. queued (sWorker st') = queued (sWorker st) @ arrived \<and> list_all cpu_event arrived \<and> view st' = view st))"
  have "?seen st'"
    using assms(1)
  proof cases
    case (take_event t e es now)
    note h = take_event(1) [symmetric]
    have "queued (sWorker st) = e # queued (sWorker st')"
      using take_event(3) handle_event_frame(1) [OF h] by (simp add: queued_def)
    then show ?thesis
      using handle_event_view [OF h] handle_event_frame(2) [OF h] assms(2)
      by (intro conjI disjI1 exI [of _ "(now, e)"]) simp_all
  next
    case (take_tick t E now)
    from take_tick(1) [symmetric] show ?thesis
      by (rule handle_tick_shape) (use assms(2) in \<open>auto simp: view_def intro!: exI [of _ "[]"]\<close>)
  next
    case (deliver xs e ys w)
    then show ?thesis
      using assms(2) by (auto simp: SendEvent_def queued_def view_def split: option.splits intro!: exI [of _ "[e]"])
  qed
  then show "list_all cpu_event (sSends st')"
    and "(\<exists>ne. queued (sWorker st) = snd ne # queued (sWorker st') \<and> view st' = accept P ne (view st)) \<or>
      (\<exists>arrived. queued (sWorker st') = queued (sWorker st) @ arrived \<and> list_all cpu_event arrived \<and> view st' = view st)"
    by blast+
qed

section \<open>Histories\<close>

text \<open>The events taken and those arrived between two states of a worker, and what came of the former.\<close>

definition history ::
    "('q, 'o, 'fs) worker_env \<Rightarrow> ('q, 'o, 'fs) worker_state \<Rightarrow> (string \<times> 'q Event) list \<Rightarrow> 'q Event list \<Rightarrow>
       ('q, 'o, 'fs) worker_state \<Rightarrow> bool" where
  "history P st taken arrived st' \<longleftrightarrow>
     queued (sWorker st) @ arrived = map snd taken @ queued (sWorker st') \<and>
     list_all cpu_event arrived \<and> view st' = fold (accept P) taken (view st)"

lemma history_refl: "history P st [] [] st"
  by (simp add: history_def)

lemma history_take:
  "history P st taken arrived u \<Longrightarrow> queued (sWorker u) = snd ne # queued (sWorker v) \<Longrightarrow> view v = accept P ne (view u) \<Longrightarrow>
     history P st (taken @ [ne]) arrived v"
  by (simp add: history_def)

lemma history_arrive:
  "history P st taken arrived u \<Longrightarrow> queued (sWorker v) = queued (sWorker u) @ es \<Longrightarrow> list_all cpu_event es \<Longrightarrow>
     view v = view u \<Longrightarrow> history P st taken (arrived @ es) v"
  by (simp add: history_def flip: append_assoc)

lemma history_exists:
  assumes "worker_reaches P (Waiting st) (Waiting st')" "list_all cpu_event (sSends st)"
  shows "list_all cpu_event (sSends st') \<and> (\<exists>taken arrived. history P st taken arrived st')"
  using assms(1)
proof (rule worker_reaches_invariant)
  show "list_all cpu_event (sSends st) \<and> (\<exists>taken arrived. history P st taken arrived st)"
    using assms(2) history_refl by blast
next
  fix u v
  assume u: "list_all cpu_event (sSends u) \<and> (\<exists>taken arrived. history P st taken arrived u)"
    and step: "worker_step P (Waiting u) (Waiting v)"
  from worker_step_view [OF step conjunct1 [OF u]] u
  show "list_all cpu_event (sSends v) \<and> (\<exists>taken arrived. history P st taken arrived v)"
    by (blast intro: history_take history_arrive)
qed

section \<open>Properties\<close>

text \<open>
  C6: the history of a worker.  Whatever ticks, deliveries and events interleave, the events that the worker took are, with
  those still in its channel, those that were in the channel at first followed by those that arrived, in this order, none lost,
  none twice; and its pod, its quota and the cluster are what the specification makes of the events taken, one after
  the other.  All that arrives of the worker's own sending are CPU scale events.
\<close>

theorem worker_history:
  assumes "worker_reaches P (Waiting st) (Waiting st')" "list_all cpu_event (sSends st)"
  shows "\<exists>taken arrived. queued (sWorker st) @ arrived = map snd taken @ queued (sWorker st') \<and>
    list_all cpu_event arrived \<and> view st' = fold (accept P) taken (view st)"
  using history_exists [OF assms] unfolding history_def by blast

theorem worker_history_witness:
  "\<exists>s1 s2 e. queued (sWorker s1) = [e] \<and> ev_typ e = EventTypeScaleUp \<and> worker_reaches ref_worker_env (Waiting s1) (Waiting s2) \<and>
     (\<exists>taken arrived. e # arrived = map snd taken @ queued (sWorker s2) \<and>
        view s2 = fold (accept ref_worker_env) taken (view s1))"
proof -
  let ?e = "\<lparr>ev_typ = EventTypeScaleUp, ev_pod = None, scaleType = ScaleUpCpu\<rparr>"
  let ?s1 = "ref_waiting (Some ref_toolkit) [?e]"
  obtain s2 where r: "worker_reaches ref_worker_env (Waiting ?s1) (Waiting s2)"
    using ref_request_taken by blast
  have q: "queued (sWorker ?s1) = [?e]" "list_all cpu_event (sSends ?s1)"
    by (simp_all add: queued_def ref_waiting_def ref_worker_def)
  have t: "ev_typ ?e = EventTypeScaleUp" by simp
  from worker_history [OF r q(2)] have "\<exists>taken arrived. ?e # arrived = map snd taken @ queued (sWorker s2) \<and>
      view s2 = fold (accept ref_worker_env) taken (view ?s1)"
    unfolding q(1) by (simp only: append_Cons append_Nil) blast
  with r q(1) t show ?thesis by blast
qed

end
