(* ===== verification/Agent_History.thy ===== *)
theory Agent_History
  imports Agent Worker_History
begin

text \<open>
  What the whole process makes of the pods sent to the manager (\<^verbatim>\<open>pkg/pod/manager.go\<close> with
  \<^verbatim>\<open>pkg/pod/worker.go\<close>): which of them reach the worker of their name, however the controller, the manager and
  the goroutines interleave, and what the worker holds then.  The loop takes the mutex with every pod and never releases
  it, so of a manager's channel at most one pod is delivered; a new worker has no channel, so none is delivered to it.
\<close>

section \<open>The specification\<close>

text \<open>What one event makes of the pod and the quota that a worker holds; the time and the cluster do not matter for it.\<close>

definition held :: "'q Worker \<Rightarrow> 'q pod \<times> 'q Quota" where
  "held w = (wkPod w, wkQuota w)"

definition hold :: "('q, 'o, 'fs) worker_env \<Rightarrow> 'q Event \<Rightarrow> 'q pod \<times> 'q Quota \<Rightarrow> 'q pod \<times> 'q Quota" where
  "hold P e s =
     (case ev_pod e of
        None \<Rightarrow> s
      | Some pod \<Rightarrow>
          if ev_typ e = EventTypeNew \<or> ev_typ e = EventTypeUpdate
          then (case GetQuotaFromPod (wQ (eWorld P)) pod of
                  (quota, True) \<Rightarrow> (pod, GetFloorMemoryQuota (wQ (eWorld P)) (eQuotas P) quota)
                | (quota, False) \<Rightarrow> s)
          else s)"

lemma hold_accept: "(vPod (accept P ne s), vQuota (accept P ne s)) = hold P (snd ne) (vPod s, vQuota s)"
  by (cases ne) (auto simp: accept_def hold_def split: option.splits prod.splits bool.splits)

lemma hold_cpu [simp]: "cpu_event e \<Longrightarrow> hold P e s = s"
  by (auto simp: hold_def cpu_event_def split: option.splits)

lemma held_view: "held (sWorker st) = (vPod (view st), vQuota (view st))"
  by (simp add: held_def view_def)

lemma held_channel [simp]: "held (w\<lparr>wkEventC := q\<rparr>) = held w"
  by (simp add: held_def)

text \<open>
  The manager's mutex and channel.  Between two states the pod that was delivered is the first of
  the channel, when the mutex was taken in between; \<open>delivered\<close> is what of it is for the worker of a key.
\<close>

definition locked :: "('q, 'o, 'fs, 'l, 'c) agent \<Rightarrow> bool" where
  "locked a = (case aDaemon a of None \<Rightarrow> False | Some d \<Rightarrow> dmLocked d)"

definition pending :: "('q, 'o, 'fs, 'l, 'c) agent \<Rightarrow> 'q pod list" where
  "pending a = (case aDaemon a of None \<Rightarrow> [] | Some d \<Rightarrow> dmEventC d)"

definition delivered ::
    "('q, 'o, 'fs, 'l, 'c) agent \<Rightarrow> ('q, 'o, 'fs, 'l, 'c) agent \<Rightarrow> string \<Rightarrow> 'q pod list" where
  "delivered a a' k =
     (if locked a \<or> \<not> locked a' then [] else filter (\<lambda>p. GetNamespacedName p = k) (take 1 (pending a)))"

abbreviation update_event :: "'q pod \<Rightarrow> 'q Event" where
  "update_event p \<equiv> \<lparr>ev_typ = EventTypeUpdate, ev_pod = Some p, scaleType = ScaleNone\<rparr>"

definition pod_events :: "'q Event list \<Rightarrow> 'q Event list" where
  "pod_events es = filter (\<lambda>e. \<not> cpu_event e) es"

lemma pod_events_simps [simp]:
  "pod_events [] = []" "pod_events (xs @ ys) = pod_events xs @ pod_events ys" "pod_events [update_event p] = [update_event p]"
  by (simp_all add: pod_events_def cpu_event_def)

lemma pod_events_cpu [simp]: "list_all cpu_event es \<Longrightarrow> pod_events es = []"
  by (simp add: pod_events_def list_all_iff filter_empty_conv)

text \<open>The lock, once taken, stays; the channel is not touched before.\<close>

definition lock_grows :: "('q, 'o, 'fs, 'l, 'c) agent \<Rightarrow> ('q, 'o, 'fs, 'l, 'c) agent \<Rightarrow> bool" where
  "lock_grows a a' \<longleftrightarrow> (locked a \<longrightarrow> locked a') \<and> (\<not> locked a' \<longrightarrow> pending a' = pending a)"

lemma lock_grows_trans: "lock_grows a b \<Longrightarrow> lock_grows b c \<Longrightarrow> lock_grows a c"
  by (auto simp: lock_grows_def)

lemma delivered_refl [simp]: "delivered a a k = []"
  by (simp add: delivered_def)

lemma delivered_trans: "lock_grows a b \<Longrightarrow> lock_grows b c \<Longrightarrow> delivered a c k = delivered a b k @ delivered b c k"
  by (auto simp: lock_grows_def delivered_def)

lemma delivered_same [simp]: "locked a' = locked a \<Longrightarrow> delivered a a' k = []"
  by (simp add: delivered_def)

section \<open>One step\<close>

text \<open>What handling a pod does to the mutex, and to a worker that has a channel.\<close>

lemma manager_event_result:
  assumes "manager_event Q d pod = Waiting d' \<or> manager_event Q d pod = Stuck d'"
  shows "dmLocked d'" "dmEventC d' = dmEventC d"
  using assms
  by (cases "dmCache d"; force simp: manager_event_def mux_Lock_def cache_write_def Let_def SendEvent_def
      split: if_splits option.splits)+

lemma manager_event_delivers:
  assumes "manager_event Q d pod = Waiting d' \<or> manager_event Q d pod = Stuck d'"
    and "cached d k = Some w" "wkEventC w = Some q"
  shows "cached d' k = Some (if \<not> dmLocked d \<and> GetNamespacedName pod = k then w\<lparr>wkEventC := Some (q @ [update_event pod])\<rparr> else w)"
  using assms
  by (cases "dmCache d")
    (auto simp: manager_event_def mux_Lock_def cache_write_def cached_def Let_def SendEvent_def
      split: if_splits option.splits)

text \<open>A step of a loop never makes or closes the channel of its worker; without one it changes no worker, file or object.\<close>

lemma worker_step_channel:
  assumes "worker_step P (Waiting st) (Waiting st')"
  shows "wkEventC (sWorker st') = None \<longleftrightarrow> wkEventC (sWorker st) = None"
    and "wkEventC (sWorker st) = None \<Longrightarrow> sWorker st' = sWorker st \<and> sFs st' = sFs st \<and> sCluster st' = sCluster st"
proof -
  have "(wkEventC (sWorker st') = None \<longleftrightarrow> wkEventC (sWorker st) = None) \<and>
    (wkEventC (sWorker st) = None \<longrightarrow> sWorker st' = sWorker st \<and> sFs st' = sFs st \<and> sCluster st' = sCluster st)"
    using assms
  proof cases
    case (take_event t e es now)
    from handle_event_frame(1) [OF take_event(1) [symmetric]] take_event(3) show ?thesis by simp
  next
    case (take_tick t E now)
    from take_tick(1) [symmetric] show ?thesis by (rule handle_tick_shape) simp
  next
    case (deliver xs e ys w)
    then show ?thesis by (auto simp: SendEvent_def split: option.splits)
  qed
  then show "wkEventC (sWorker st') = None \<longleftrightarrow> wkEventC (sWorker st) = None"
    "wkEventC (sWorker st) = None \<Longrightarrow> sWorker st' = sWorker st \<and> sFs st' = sFs st \<and> sCluster st' = sCluster st"
    by blast+
qed

text \<open>The part of a worker's history that the process keeps: pod, quota and channel.\<close>

lemma worker_step_held:
  assumes "worker_step P (Waiting st) (Waiting st')" "list_all cpu_event (sSends st)"
  shows "(\<exists>e. queued (sWorker st) = e # queued (sWorker st') \<and> held (sWorker st') = hold P e (held (sWorker st))) \<or>
    (\<exists>es. queued (sWorker st') = queued (sWorker st) @ es \<and> list_all cpu_event es \<and> held (sWorker st') = held (sWorker st))"
  using worker_step_view(2) [OF assms] by (auto simp: held_view hold_accept)

lemma locked_pending_frame [simp]:
  "locked (detach k st a) = locked a" "locked (a\<lparr>aStarted := S\<rparr>) = locked a" "locked (a\<lparr>aLoops := L\<rparr>) = locked a"
  "locked (a\<lparr>aConfig := c\<rparr>) = locked a"
  "pending (detach k st a) = pending a" "pending (a\<lparr>aStarted := S\<rparr>) = pending a" "pending (a\<lparr>aLoops := L\<rparr>) = pending a"
  "pending (a\<lparr>aConfig := c\<rparr>) = pending a"
  by (simp_all add: locked_def pending_def detach_def split: option.splits)

lemma detach_shared [simp]: "aFs (detach k st a) = sFs st" "aCluster (detach k st a) = sCluster st"
  by (simp_all add: detach_def)

text \<open>After a goroutine ran, only its worker is another one.\<close>

lemma after_work_worker:
  assumes "after_work a k r = Waiting a'" "worker_of a k \<noteq> None"
  obtains st where "r = Waiting st \<or> r = Ended st \<or> r = Stuck st" "aFs a' = sFs st" "aCluster a' = sCluster st"
    "\<And>j. worker_of a' j = (if worker_of a j = None then None else if j = k then Some (sWorker st) else worker_of a j)"
    "locked a' = locked a" "pending a' = pending a"
proof -
  obtain st where r: "r = Waiting st \<or> r = Ended st \<or> r = Stuck st"
    using assms(1) by (cases r) (auto simp: after_work_def)
  show thesis
    by (rule that [OF r])
      (use r assms in \<open>auto simp: after_work_def worker_of_detach\<close>)
qed

text \<open>The manager took a pod: with the mutex it is delivered, without it only the pod is gone.\<close>

lemma receive_result:
  assumes "aDaemon a = Some d" "dmEventC d = pod # pods"
    and "after_event a d pod (manager_event (wQ (eWorld P)) (d\<lparr>dmEventC := pods\<rparr>) pod) = Waiting a'"
  obtains d' where "manager_event (wQ (eWorld P)) (d\<lparr>dmEventC := pods\<rparr>) pod = Waiting d' \<or>
      manager_event (wQ (eWorld P)) (d\<lparr>dmEventC := pods\<rparr>) pod = Stuck d'"
    "aFs a' = aFs a" "aCluster a' = aCluster a" "worker_of a' = cached d'" "worker_of a = cached (d\<lparr>dmEventC := pods\<rparr>)"
    "locked a'" "pending a = pod # pods" "locked a = dmLocked d" "aLoops a' = aLoops a"
proof -
  let ?r = "manager_event (wQ (eWorld P)) (d\<lparr>dmEventC := pods\<rparr>) pod"
  obtain d' where d': "?r = Waiting d' \<or> ?r = Stuck d'" "aDaemon a' = Some d'" "aFs a' = aFs a" "aCluster a' = aCluster a"
      "aLoops a' = aLoops a"
    using assms(3) manager_event_not_Ended by (cases ?r) (auto simp: after_event_def Let_def)
  show thesis
    by (rule that [OF d'(1)])
      (use d' assms(1,2) manager_event_result [OF d'(1)] in
        \<open>auto simp: worker_of_def cached_def locked_def pending_def fun_eq_iff\<close>)
qed

lemma agent_step_lock:
  assumes "agent_step P R (Waiting a) (Waiting a')"
  shows "lock_grows a a'"
  using assms
proof cases
  case (reconcile req g r)
  then show ?thesis by (cases r) (auto simp: lock_grows_def)
next
  case (receive d pod pods)
  from receive_result [OF receive(2,5) receive(1) [symmetric]] show ?thesis
    by (rule) (simp add: lock_grows_def)
next
  case (begin_loop k w)
  then have "worker_of a k \<noteq> None" by simp
  from after_work_worker [OF begin_loop(1) [symmetric] this] show ?thesis
    by (rule) (simp add: lock_grows_def)
next
  case (work k st w r)
  then have "worker_of a k \<noteq> None" by simp
  from after_work_worker [OF work(1) [symmetric] this] show ?thesis
    by (rule) (simp add: lock_grows_def)
qed

text \<open>
  What one step of the process is for a worker with a channel: its first event is taken, or events arrive, of which those that
  carry a pod are the delivered ones.
\<close>

lemma agent_step_history:
  assumes "agent_step P R (Waiting a) (Waiting a')" "agent_inv P a" "worker_of a k = Some w" "wkEventC w \<noteq> None"
  obtains (takes) w' e where "worker_of a' k = Some w'" "wkEventC w' \<noteq> None" "queued w = e # queued w'"
      "held w' = hold P e (held w)" "delivered a a' k = []"
  | (arrives) w' es where "worker_of a' k = Some w'" "wkEventC w' \<noteq> None" "queued w' = queued w @ es"
      "held w' = held w" "pod_events es = map update_event (delivered a a' k)"
proof -
  note same = arrives [where es = "[]"]
  from assms(1) show thesis
  proof cases
    case (reconcile req g r)
    then have "worker_of a' k = Some w" "locked a' = locked a"
      using assms(3) by (cases r; auto)+
    then show ?thesis using assms(4) by (auto intro: same)
  next
    case (receive d pod pods)
    obtain q where q: "wkEventC w = Some q" using assms(4) by auto
    show ?thesis
    proof (rule receive_result [OF receive(2,5) receive(1) [symmetric]])
      fix d'
      assume d': "manager_event (wQ (eWorld P)) (d\<lparr>dmEventC := pods\<rparr>) pod = Waiting d' \<or>
          manager_event (wQ (eWorld P)) (d\<lparr>dmEventC := pods\<rparr>) pod = Stuck d'"
        and w: "worker_of a' = cached d'" "worker_of a = cached (d\<lparr>dmEventC := pods\<rparr>)"
        and l: "locked a'" "pending a = pod # pods" "locked a = dmLocked d"
      show ?thesis
        by (rule arrives [where w' = "if \<not> dmLocked d \<and> GetNamespacedName pod = k then w\<lparr>wkEventC := Some (q @ [update_event pod])\<rparr> else w"
              and es = "if \<not> dmLocked d \<and> GetNamespacedName pod = k then [update_event pod] else []"])
          (use manager_event_delivers [OF d' _ q, of k] assms(3) w l q in
            \<open>auto simp: delivered_def queued_def\<close>)
    qed
  next
    case (begin_loop j w0)
    then have "worker_of a j \<noteq> None" by simp
    then show ?thesis
    proof (rule after_work_worker [OF begin_loop(1) [symmetric]])
      fix st
      assume st: "worker_start P (aKube a) (aScale a) (aFs a) (aCluster a) w0 = Waiting st \<or>
          worker_start P (aKube a) (aScale a) (aFs a) (aCluster a) w0 = Ended st \<or>
          worker_start P (aKube a) (aScale a) (aFs a) (aCluster a) w0 = Stuck st"
        and w: "\<And>i. worker_of a' i = (if worker_of a i = None then None else if i = j then Some (sWorker st) else worker_of a i)"
        and l: "locked a' = locked a"
      from worker_start_state [OF refl st] have "worker_of a' k = Some w"
        using w [of k] assms(3) begin_loop(3) by auto
      then show ?thesis using assms(4) l by (auto intro: same)
    qed
  next
    case (work j st w0 r)
    then have "worker_of a j \<noteq> None" by simp
    then show ?thesis
    proof (rule after_work_worker [OF work(1) [symmetric]])
      fix u
      assume u: "r = Waiting u \<or> r = Ended u \<or> r = Stuck u"
        and w: "\<And>i. worker_of a' i = (if worker_of a i = None then None else if i = j then Some (sWorker u) else worker_of a i)"
        and l: "locked a' = locked a"
      have at: "sWorker (attach a v st) = v" "sSends (attach a v st) = sSends st" for v by (simp_all add: attach_def)
      show ?thesis
      proof (cases "j = k \<and> r = Waiting u")
        case True
        then have k: "w0 = w" "worker_of a' k = Some (sWorker u)" using w [of k] assms(3) work(3) by auto
        have s: "worker_step P (Waiting (attach a w0 st)) (Waiting u)" using work(4) True by simp
        have c: "wkEventC (sWorker u) \<noteq> None"
          using worker_step_channel(1) [OF s] assms(4) unfolding at(1) k(1) by blast
        have "list_all cpu_event (sSends (attach a w0 st))"
          using assms(2) work(2) by (auto simp: agent_inv_def loop_ok_def at)
        from worker_step_held [OF s this, unfolded at(1) k(1)] show ?thesis
        proof (elim disjE exE conjE)
          show thesis if "queued w = e # queued (sWorker u)" "held (sWorker u) = hold P e (held w)" for e
            using takes [OF k(2) c that] l by simp
          show thesis if "queued (sWorker u) = queued w @ es" "list_all cpu_event es" "held (sWorker u) = held w" for es
            using arrives [OF k(2) c that(1,3)] that(2) l by simp
        qed
      next
        case False
        then have "worker_of a' k = Some w"
          using w [of k] assms(3) u worker_step_gone [OF work(4), of u] work(3) at by auto
        then show ?thesis using assms(4) l by (auto intro: same)
      qed
    qed
  qed
qed

section \<open>Runs\<close>

definition agent_story ::
    "('q, 'o, 'fs) worker_env \<Rightarrow> string \<Rightarrow> ('q, 'o, 'fs, 'l, 'c) agent \<Rightarrow> 'q Worker \<Rightarrow> ('q, 'o, 'fs, 'l, 'c) agent \<Rightarrow> 'q Worker \<Rightarrow>
       'q Event list \<Rightarrow> 'q Event list \<Rightarrow> bool" where
  "agent_story P k a w a' w' taken arrived \<longleftrightarrow>
     worker_of a' k = Some w' \<and> wkEventC w' \<noteq> None \<and> queued w @ arrived = taken @ queued w' \<and>
     held w' = fold (hold P) taken (held w) \<and> pod_events arrived = map update_event (delivered a a' k)"

lemma agent_story_exists:
  assumes "agent_reaches P R (Waiting a) (Waiting a')" "agent_inv P a" "worker_of a k = Some w" "wkEventC w \<noteq> None"
  shows "agent_inv P a' \<and> lock_grows a a' \<and> (\<exists>w' taken arrived. agent_story P k a w a' w' taken arrived)"
  using assms(1)
proof (rule agent_reaches_invariant)
  have "agent_story P k a w a w [] []" using assms(3,4) by (simp add: agent_story_def)
  then show "agent_inv P a \<and> lock_grows a a \<and> (\<exists>w' taken arrived. agent_story P k a w a w' taken arrived)"
    using assms(2) by (auto simp: lock_grows_def)
next
  fix b c
  assume b: "agent_inv P b \<and> lock_grows a b \<and> (\<exists>w' taken arrived. agent_story P k a w b w' taken arrived)"
    and s: "agent_step P R (Waiting b) (Waiting c)"
  then obtain u taken arrived where u: "agent_story P k a w b u taken arrived" by blast
  then have v: "worker_of b k = Some u" "wkEventC u \<noteq> None" by (simp_all add: agent_story_def)
  have g: "lock_grows a b" "lock_grows b c" using b agent_step_lock [OF s] by simp_all
  have "agent_inv P b" using b by simp
  from s this v have "\<exists>w' taken arrived. agent_story P k a w c w' taken arrived"
  proof (cases rule: agent_step_history)
    case (takes x e)
    then have "agent_story P k a w c x (taken @ [e]) arrived"
      using u by (simp add: agent_story_def delivered_trans [OF g])
    then show ?thesis by blast
  next
    case (arrives x es)
    then have "agent_story P k a w c x taken (arrived @ es)"
      using u by (simp add: agent_story_def delivered_trans [OF g] flip: append_assoc)
    then show ?thesis by blast
  qed
  then show "agent_inv P c \<and> lock_grows a c \<and> (\<exists>w' taken arrived. agent_story P k a w c w' taken arrived)"
    using b agent_step_inv [OF s] lock_grows_trans [OF g] by blast
qed

section \<open>Workers without a channel\<close>

text \<open>
  A process in which no worker has a channel, as \<open>NewWorker\<close> makes none, since another state of it: files and cluster are as
  they were, and the workers are those of then and at most one more, made of the first pod of the manager's channel.
\<close>

definition unmoved ::
    "('q, 'o, 'fs) worker_env \<Rightarrow> ('q, 'o, 'fs, 'l, 'c) agent \<Rightarrow> ('q, 'o, 'fs, 'l, 'c) agent \<Rightarrow> bool" where
  "unmoved P a b \<longleftrightarrow> aFs b = aFs a \<and> aCluster b = aCluster a \<and>
     (\<forall>k w. worker_of b k = Some w \<longrightarrow> wkEventC w = None \<and>
        (worker_of a k = Some w \<or>
         (\<exists>p ps. pending a = p # ps \<and> k = GetNamespacedName p \<and> w = NewWorker (wQ (eWorld P)) p)))"

lemma unmoved_frame:
  "unmoved P a b \<Longrightarrow> worker_of c = worker_of b \<Longrightarrow> aFs c = aFs b \<Longrightarrow> aCluster c = aCluster b \<Longrightarrow> unmoved P a c"
  by (simp add: unmoved_def)

lemma unmoved_work:
  assumes "unmoved P a b" "worker_of b k = Some w" "after_work b k r = Waiting c"
    and "\<And>st. r = Waiting st \<or> r = Ended st \<or> r = Stuck st \<Longrightarrow> sWorker st = w \<and> sFs st = aFs b \<and> sCluster st = aCluster b"
  shows "unmoved P a c"
proof -
  have "worker_of b k \<noteq> None" using assms(2) by simp
  then show ?thesis
  proof (rule after_work_worker [OF assms(3)])
    fix st
    assume st: "r = Waiting st \<or> r = Ended st \<or> r = Stuck st" "aFs c = sFs st" "aCluster c = sCluster st"
      "\<And>j. worker_of c j = (if worker_of b j = None then None else if j = k then Some (sWorker st) else worker_of b j)"
    from assms(4) [OF st(1)] have "worker_of c = worker_of b" "aFs c = aFs b" "aCluster c = aCluster b"
      using st(2-4) assms(2) by (auto simp: fun_eq_iff)
    with assms(1) show ?thesis by (rule unmoved_frame)
  qed
qed

lemma manager_event_locked: "dmLocked d \<Longrightarrow> manager_event Q d pod = Stuck d"
  by (simp add: manager_event_def mux_Lock_def)

lemma unmoved_step:
  assumes "agent_step P R (Waiting b) (Waiting c)" "unmoved P a b" "lock_grows a b"
  shows "unmoved P a c"
  using assms(1)
proof cases
  case (reconcile req g r)
  then have "worker_of c = worker_of b" "aFs c = aFs b" "aCluster c = aCluster b"
    by (cases r; auto simp: fun_eq_iff)+
  with assms(2) show ?thesis by (rule unmoved_frame)
next
  case (receive d pod pods)
  show ?thesis
  proof (rule receive_result [OF receive(2,5) receive(1) [symmetric]])
    fix d'
    assume d': "manager_event (wQ (eWorld P)) (d\<lparr>dmEventC := pods\<rparr>) pod = Waiting d' \<or>
        manager_event (wQ (eWorld P)) (d\<lparr>dmEventC := pods\<rparr>) pod = Stuck d'"
      and c: "aFs c = aFs b" "aCluster c = aCluster b" "worker_of c = cached d'" "worker_of b = cached (d\<lparr>dmEventC := pods\<rparr>)"
      and l: "pending b = pod # pods" "locked b = dmLocked d"
    show ?thesis
    proof (cases "dmLocked d")
      case True
      then have "d' = d\<lparr>dmEventC := pods\<rparr>"
        using d' manager_event_locked [of "d\<lparr>dmEventC := pods\<rparr>"] by auto
      with c show ?thesis by (auto intro: unmoved_frame [OF assms(2)])
    next
      case False
      then have p: "pending a = pod # pods" using assms(3) l by (simp add: lock_grows_def)
      have "worker_of b k = Some w \<or> k = GetNamespacedName pod \<and> w = NewWorker (wQ (eWorld P)) pod"
        if "worker_of c k = Some w" for k w
        using manager_event_cached [OF d', of k w] that assms(2) unfolding c(3,4) [symmetric]
        by (auto simp: unmoved_def)
      then show ?thesis
        using assms(2) c(1,2) p by (fastforce simp: unmoved_def)
    qed
  qed
next
  case (begin_loop k w)
  show ?thesis
    by (rule unmoved_work [OF assms(2) begin_loop(3) begin_loop(1) [symmetric]])
      (drule worker_start_state [OF refl], simp)
next
  case (work k st w r)
  have at: "sWorker (attach b w st) = w" "sFs (attach b w st) = aFs b" "sCluster (attach b w st) = aCluster b"
    by (simp_all add: attach_def)
  have "wkEventC (sWorker (attach b w st)) = None"
    using assms(2) work(3) by (simp add: unmoved_def at)
  then have "sWorker u = w \<and> sFs u = aFs b \<and> sCluster u = aCluster b" if "r = Waiting u \<or> r = Ended u \<or> r = Stuck u" for u
    using that worker_step_channel(2) [of P "attach b w st" u] worker_step_gone [OF work(4), of u] work(4) at by auto
  then show ?thesis by (rule unmoved_work [OF assms(2) work(3) work(1) [symmetric]])
qed

section \<open>Concrete processes for the witnesses\<close>

text \<open>A manager that is sent the same pod twice, with a cache.\<close>

definition ref_manager :: "(string \<rightharpoonup> amount Worker) \<Rightarrow> (amount, unit, unit) DaemonSetManager" where
  "ref_manager m = made_manager\<lparr>dmLoops := 1, dmCache := Some m, dmEventC := [main_pod, main_pod]\<rparr>"

definition ref_receiving :: "(string \<rightharpoonup> amount Worker) \<Rightarrow> (amount, unit, (string \<times> string \<times> string) list, unit, unit) agent" where
  "ref_receiving m = ref_agent\<lparr>aLoops := Map.empty, aDaemon := Some (ref_manager m)\<rparr>"

abbreviation ref_known :: "string \<rightharpoonup> amount Worker" where
  "ref_known \<equiv> [''mo/cn-0'' \<mapsto> (NewWorker ref_quantity main_pod)\<lparr>wkEventC := Some []\<rparr>]"

lemma main_pod_key: "GetNamespacedName main_pod = ''mo/cn-0''"
  by code_simp

lemma ref_manager_simps:
  "dmEventC (ref_manager m) = [main_pod, main_pod]" "\<not> dmLocked (ref_manager m)" "dmCache (ref_manager m) = Some m"
  "dmLoops (ref_manager m) = 1"
  by (simp_all add: ref_manager_def made_manager_def NewDaemonSetManager_def)

lemma ref_receiving_simps:
  "worker_of (ref_receiving m) = m" "pending (ref_receiving m) = [main_pod, main_pod]" "\<not> locked (ref_receiving m)"
  "aLoops (ref_receiving m) = Map.empty" "aDaemon (ref_receiving m) = Some (ref_manager m)" "\<not> aBlocked (ref_receiving m)"
  by (simp_all add: ref_receiving_def locked_def pending_def worker_of_def cached_def ref_manager_simps fun_eq_iff ref_agent_def)

text \<open>The first pod is taken; it is delivered to a worker of its name or makes one.\<close>

lemma ref_receiving_takes:
  assumes "manager_event ref_quantity ((ref_manager m)\<lparr>dmEventC := [main_pod]\<rparr>) main_pod = r" "r = Waiting d \<or> r = Stuck d"
  obtains a' where "agent_reaches ref_worker_env ref_reconcile (Waiting (ref_receiving m)) (Waiting a')"
    "worker_of a' = cached d" "locked a' = dmLocked d"
proof -
  have q: "wQ (eWorld ref_worker_env) = ref_quantity" by (simp add: ref_worker_env_def ref_world_def)
  obtain a' where a': "after_event (ref_receiving m) (ref_manager m) main_pod r = Waiting a'" "aDaemon a' = Some d"
    using assms(2) by (auto simp: after_event_def Let_def)
  have "agent_step ref_worker_env ref_reconcile (Waiting (ref_receiving m)) (Waiting a')"
    using agent_step.receive [of "ref_receiving m" "ref_manager m" main_pod "[main_pod]" ref_worker_env ref_reconcile] a'(1)
    by (simp add: ref_receiving_simps ref_manager_simps q assms(1))
  then show thesis
    by (intro that [of a']) (auto simp: agent_reaches_def a'(2) worker_of_def locked_def fun_eq_iff)
qed

lemma ref_manager_delivers:
  "manager_event ref_quantity ((ref_manager ref_known)\<lparr>dmEventC := [main_pod]\<rparr>) main_pod =
     Waiting ((ref_manager [''mo/cn-0'' \<mapsto> (NewWorker ref_quantity main_pod)\<lparr>wkEventC := Some [update_event main_pod]\<rparr>])
       \<lparr>dmLocked := True, dmEventC := [main_pod]\<rparr>)"
  by (simp add: manager_event_def mux_Lock_def cache_write_def SendEvent_def main_pod_key ref_manager_def made_manager_def
      NewDaemonSetManager_def)

lemma ref_manager_makes:
  "manager_event ref_quantity ((ref_manager Map.empty)\<lparr>dmEventC := [main_pod]\<rparr>) main_pod =
     Stuck ((ref_manager [''mo/cn-0'' \<mapsto> NewWorker ref_quantity main_pod])\<lparr>dmLocked := True, dmEventC := [main_pod]\<rparr>)"
  by (simp add: manager_event_def mux_Lock_def cache_write_def SendEvent_def main_pod_key ref_manager_def made_manager_def
      NewDaemonSetManager_def)

section \<open>Properties\<close>

text \<open>
  C7: the history of a worker in the running process.  However the controller, the manager and the goroutines interleave, what
  a cached worker with a channel took, followed by what it still has, is what it had, followed by what arrived; its pod and quota are
  what the specification makes of the events taken; and the events that arrived with a pod are one update with the first
  pod of the manager's channel, when that has the worker's name and the manager's mutex was taken in between, and
  otherwise none: the mutex is never released, so no second pod is ever delivered.
\<close>

theorem agent_history:
  assumes "agent_reaches P R (Waiting a) (Waiting a')" "agent_inv P a" "worker_of a k = Some w" "wkEventC w \<noteq> None"
  shows "\<exists>w' taken arrived. worker_of a' k = Some w' \<and> queued w @ arrived = taken @ queued w' \<and>
    held w' = fold (hold P) taken (held w) \<and> pod_events arrived = map update_event (delivered a a' k)"
  using agent_story_exists [OF assms] unfolding agent_story_def by blast

theorem agent_history_witness:
  "\<exists>a' w' taken arrived. agent_reaches ref_worker_env ref_reconcile (Waiting (ref_receiving ref_known)) (Waiting a') \<and>
     worker_of a' ''mo/cn-0'' = Some w' \<and> arrived = taken @ queued w' \<and> pod_events arrived = [update_event main_pod]"
proof -
  let ?w = "(NewWorker ref_quantity main_pod)\<lparr>wkEventC := Some []\<rparr>"
  obtain a' where r: "agent_reaches ref_worker_env ref_reconcile (Waiting (ref_receiving ref_known)) (Waiting a')" "locked a'"
    by (rule ref_receiving_takes [OF ref_manager_delivers disjI1 [OF refl]]) simp
  have i: "agent_inv ref_worker_env (ref_receiving ref_known)"
    by (simp add: agent_inv_def ref_receiving_simps worker_ok_def main_pod_key queued_def quota_ok_def ref_worker_env_def ref_world_def)
  have w: "worker_of (ref_receiving ref_known) ''mo/cn-0'' = Some ?w" by (simp add: ref_receiving_simps)
  have "delivered (ref_receiving ref_known) a' ''mo/cn-0'' = [main_pod]"
    by (simp add: delivered_def ref_receiving_simps r(2) main_pod_key)
  with agent_history [OF r(1) i w] show ?thesis
    using r(1) by (auto simp: queued_def)
qed

text \<open>
  C8: workers as the program makes them do nothing.  In a process whose workers have no channel, as \<open>NewWorker\<close> leaves them,
  no interleaving changes a cgroup file, the cluster or a worker, even with a manager whose cache was made; and of all the pods
  sent to the manager a worker is made for the first at most.
\<close>

theorem workers_without_channel:
  assumes "agent_reaches P R (Waiting a) (Waiting a')" "\<forall>k w. worker_of a k = Some w \<longrightarrow> wkEventC w = None"
  shows "aFs a' = aFs a \<and> aCluster a' = aCluster a \<and>
    (\<forall>k w. worker_of a' k = Some w \<longrightarrow> worker_of a k = Some w \<or>
       (\<exists>p ps. pending a = p # ps \<and> k = GetNamespacedName p \<and> w = NewWorker (wQ (eWorld P)) p))"
proof -
  have "unmoved P a a' \<and> lock_grows a a'"
    using assms(1)
  proof (rule agent_reaches_invariant)
    show "unmoved P a a \<and> lock_grows a a"
      using assms(2) by (simp add: unmoved_def lock_grows_def)
    show "unmoved P a c \<and> lock_grows a c" if "unmoved P a b \<and> lock_grows a b" "agent_step P R (Waiting b) (Waiting c)" for b c
      using that unmoved_step agent_step_lock lock_grows_trans by blast
  qed
  then show ?thesis by (simp add: unmoved_def)
qed

theorem workers_without_channel_witness:
  "\<exists>a'. agent_reaches ref_worker_env ref_reconcile (Waiting (ref_receiving Map.empty)) (Waiting a') \<and>
     worker_of a' ''mo/cn-0'' = Some (NewWorker ref_quantity main_pod) \<and> aCluster a' = aCluster (ref_receiving Map.empty)"
proof -
  obtain a' where r: "agent_reaches ref_worker_env ref_reconcile (Waiting (ref_receiving Map.empty)) (Waiting a')"
      "worker_of a' ''mo/cn-0'' = Some (NewWorker ref_quantity main_pod)"
    by (rule ref_receiving_takes [OF ref_manager_makes disjI2 [OF refl]]) (simp add: cached_def ref_manager_simps)
  have "\<forall>k w. worker_of (ref_receiving Map.empty) k = Some w \<longrightarrow> wkEventC w = None"
    by (simp add: ref_receiving_simps)
  from workers_without_channel [OF r(1) this] r show ?thesis
    by blast
qed

end
