(* ===== verification/Spec2Isabelle.thy ===== *)
theory Spec2Isabelle
  imports Main_Setup Pod_Limits Agent_History
begin

text \<open>
  A model of the scale agent (a Go program that runs on every node of a Kubernetes cluster, watches
  the pods of MatrixOne and changes their CPU and memory between the entries of a quota table) and
  the theorems about it.

  \<^bold>\<open>The program.\<close>  \<^verbatim>\<open>cmd/main.go\<close> reads the flags and the configuration, finds the kubelet of the host,
  makes the pod manager under cgroup v2 and runs a controller.  The controller
  (\<^verbatim>\<open>pkg/controller\<close>) hands every pod of this node that the labels select to the pod manager (\<^verbatim>\<open>pkg/pod/manager.go\<close>),
  which keeps one worker for each pod (\<^verbatim>\<open>pkg/pod/worker.go\<close>).  A worker receives events and ticks: a new pod
  gets the floor quota of its limits (\<^verbatim>\<open>pkg/config/quota.go\<close>) through the toolkit of its cgroup
  (\<^verbatim>\<open>pkg/util/cgroupv2\<close>); on a tick the scale manager (\<^verbatim>\<open>pkg/scale\<close>) compares the toolkit's rates with its
  thresholds, and its answers come back as events that ask for the next quota of the table.  The directories of the
  cgroups come from the kubelet's own configuration (\<^verbatim>\<open>pkg/kubelet\<close>), which is found in the process list of
  the host (\<^verbatim>\<open>pkg/util\<close>).

  \<^bold>\<open>The theories,\<close> in the order they build on each other:
  \<^item> \<open>Go_Prelude\<close>, \<open>Go_Float\<close>, \<open>Go_Path\<close>, \<open>Go_Time\<close>: what the source uses of Go and of its standard library.  Errors
    are values (\<open>go_error\<close>), calls have outcomes (\<open>Returns\<close>, \<open>Panics\<close>, \<open>Exits\<close>, \<open>Blocks\<close>); \<open>bind_outcome\<close>, \<open>bind_err\<close> and
    \<open>bind_state\<close> compose them.  \<open>uint64\<close> is a 64-bit word, \<open>int64\<close> an integer with \<open>wrap64\<close> at each operation that can
    overflow; \<open>float64\<close> is a rational, an infinity or a NaN, with the rounding of IEEE 754 to 53 bits and gradual
    underflow, without negative zero; its sums, products and comparisons are those of the type classes.  Strings are lists of bytes; instants have a wall clock and a monotonic reading.
  \<^item> \<open>Quantity\<close>, \<open>Kube_Types\<close>: Kubernetes quantities are a record of operations with the documented laws as the locale
    \<open>quantity\<close>, interpreted on an implementation that parses, prints and computes; pods have the fields the source touches.
  \<^item> \<open>Quota\<close> (\<^verbatim>\<open>pkg/config/quota.go\<close>): the table, the six searches over it, the computed and the printed configuration, the
    quota of a pod, and the package initialisation.  The locale \<open>scan_loop\<close> is what the five search loops share and
    \<open>quota_table\<close> what holds after initialisation.
  \<^item> \<open>Host_Util\<close> (\<^verbatim>\<open>pkg/util\<close>), \<open>Config\<close> (the rest of \<^verbatim>\<open>pkg/config\<close>; the locales \<open>label_selector\<close> and
    \<open>viper_store\<close>, which is a store of settings seen through its map from keys to values).
  \<^item> \<open>Cgroup_Paths\<close> (the directories and CPU files of \<^verbatim>\<open>pkg/kubelet/cmd.go\<close>; \<open>cgroupfs_names\<close>), \<open>Cgroup_Toolkit\<close>
    (\<^verbatim>\<open>pkg/util/cgroupv2\<close>; the locale \<open>counter_field\<close> is interpreted for every field of the two statistics), \<open>Scale\<close>
    (\<^verbatim>\<open>pkg/scale\<close>; \<open>toolkit_contract\<close> is what both implementations of the toolkit promise the manager).
  \<^item> \<open>Kubelet_Server\<close> (\<^verbatim>\<open>server_linux.go\<close>; \<open>cgroup_naming\<close> and \<open>qos_layout\<close>) and \<open>Kubelet_Cmd\<close> (\<^verbatim>\<open>cmd.go\<close>; \<open>pod_directories\<close>
    joins the contracts of names and of directories; and the stubs for other
    systems): the kubelet's configuration, its flag sets, the managers and the cgroup names of pods.
  \<^item> \<open>Pod_Worker\<close> (\<^verbatim>\<open>worker.go\<close>, \<^verbatim>\<open>util.go\<close>; \<open>create_or_update_contract\<close>), \<open>Worker_Events\<close> (what one step of a worker can
    change: the typing of events, the frames of the handlers, the life of the toolkit), \<open>Pod_Manager\<close> (\<^verbatim>\<open>manager.go\<close>),
    \<open>Controller\<close> (\<^verbatim>\<open>pod_controller.go\<close>), \<open>Main_Setup\<close> (\<^verbatim>\<open>cmd\<close> and \<^verbatim>\<open>pkg/version\<close>).
  \<^item> \<open>Worker_History\<close>: the specification \<open>accept\<close> of one event on pod, quota and cluster, which the loop of a worker refines.
  \<^item> \<open>Pod_Limits\<close>: the way from the limits of a pod to the files of its cgroup, with exact texts
    (\<^verbatim>\<open>quota.go\<close>, \<^verbatim>\<open>worker.go\<close>, \<^verbatim>\<open>toolkit.go\<close>).
  \<^item> \<open>Agent\<close>: the controller, the manager's loop and the loops of the workers as goroutines of one process, over the package
    variables, the cgroup files, the cluster and the workers that the cache and the goroutines share.
  \<^item> \<open>Agent_History\<close>: what the process makes of the pods sent to the manager, against the specification \<open>hold\<close> of one event.

  \<^bold>\<open>State.\<close>  Package variables are records that the functions take and return (\<open>quota_vars\<close>, \<open>scale_vars\<close>, \<open>kubelet_vars\<close>,
  \<open>config_var\<close>, \<open>client_vars\<close>); \<open>sync.Once\<close> is a flag that is set also when its function panics.  A nil pointer, map, channel or
  interface is \<^const>\<open>None\<close>, and its use the panic, or the block, that Go has there.  Loops with \<open>select\<close> run on
  scripts of ready cases (\<open>toolkit_loop\<close>, \<open>manager_loop\<close>) or are step relations (\<open>worker_step\<close>, \<open>agent_step\<close> for all of them) and end in a value of
  \<open>run\<close>: waiting, ended, crashed, exited or stuck.

  \<^bold>\<open>What the lemmas show.\<close>  For the quota table: its entries after initialisation, the exact entry each search finds, that scaling walks the table
  one entry at a time, and that scaling the memory down never does anything.  For the toolkit: the counters are read to the last value of each key, the window
  always holds the last two good samples, the float64 rates have a relative error of at most \<open>2 ^ (- 51)\<close>, the float64 comparisons of the scale manager are exact integer
  comparisons, and the limits are written in order.  For the kubelet: process list and command line, the precedence of flags over the file, that later builds of the managers change
  nothing but the QoS manager, which name a pod's cgroup gets, and that pods get distinct cgroups.  For the configuration: which settings are in force when \<open>main\<close> serves.  For the worker: the inductive invariant of its loop, the effect
  of each event, and that its history is the fold of a specification over the events it took in their order.  For the manager and
  the controller: every script, and every decision.  Across components (\<open>Worker_Events\<close>, \<open>Agent\<close> and the end of this theory): well-typed
  events do not go wrong, workers of different pods write into different directories, an invariant of the process holds under every
  interleaving, nothing but received pods is touched, at most one pod of the manager's channel is delivered, workers as the program makes them do
  nothing, and the process as \<open>main\<close> leaves it changes nothing; what one regular
  check of a worker sends itself is read off the integers of its toolkit's window (\<open>window_requests\<close>), and however many scale requests a
  worker handles, each asks the client for the level it holds or a neighbour of it (\<open>requested_level\<close>), because the worker keeps its quota.  Several theorems state faults the code has, because that is what the code does: a nil ticker, a mutex that is never
  released, a manager that is never set, quantities set on copies, errors that are overwritten.

  \<^bold>\<open>Calls of the outside\<close> that can answer differently each time take what tells the calls apart: the QoS manager, its \<open>Start\<close>, whose error
  the code drops, and the check of the cgroup root take the number of the build (\<open>v_builds\<close>), the two calls for the kubelet's dependencies
  their position.  The output of \<open>ps\<close> is an arbitrary text for the model; the theorems that read it take the table procps prints (\<open>ps_table\<close>), header included.

  \<^bold>\<open>Bounds and fuel.\<close>  \<open>init_loop\<close> takes fuel, one unit for each iteration; \<open>init_fuel\<close> is 65, for 64 entries and the last test, and \<open>init_quota_vars\<close> is
  shown to be defined with it (\<open>init_loop_terminates\<close>: no less is enough and no more changes anything).  The comparison of rates is exact for windows up to \<open>2 ^ 50\<close> nanoseconds, thirteen days.

  \<^bold>\<open>Not modelled.\<close>  Log output, except the error log and the alerts of the worker; what controller-runtime does with the registrations and
  the options it is given (the calls are recorded, their answers are parameters); the Kubernetes, runc, pflag and viper packages (records of functions, with
  documented behaviour as named laws); the Go memory model: the steps of \<open>worker_step\<close> and \<open>agent_step\<close> are atomic; tests, charts and build files.
\<close>

section \<open>From a tick to the cluster\<close>

text \<open>
  What the worker of a pod sends itself after a tick, read off the window of its toolkit; the requests
  of \<open>worker.go\<close> without float64 and without the calls that compute them.
\<close>

definition window_requests :: "LinuxToolkit \<Rightarrow> 'q Event list" where
  "window_requests t =
     (if was_throttled t then [\<lparr>ev_typ = EventTypeScaleUp, ev_pod = None, scaleType = ScaleUpCpu\<rparr>] else []) @
     (if was_idle t then [\<lparr>ev_typ = EventTypeScaleDown, ev_pod = None, scaleType = ScaleDownCpu\<rparr>] else [])"

lemma check_scale_good:
  assumes "good_window t" "GetManager (sScale st) = (sv, Some NewBaseManager)"
  shows "check_scale st t = Waiting (st\<lparr>sScale := sv, sSends := sSends st @ window_requests t\<rparr>)"
  using good_window_checks [OF assms(1)] assms(2)
  by (simp add: check_scale_def request_def window_requests_def)

lemma tick_good:
  assumes "sToolkit st = Some t" "good_window t"
    and "GetCgroupNames (eWorld P) (sKube st) (wkPod (sWorker st)) = (v, Returns (Inr names))"
    and "GetManager (sScale st) = (sv, Some NewBaseManager)"
  shows "handle_tick P E now st =
    Waiting (st\<lparr>sKube := v, sScale := sv, sSends := sSends st @ window_requests t\<rparr>)"
  using assms check_scale_good [of t "st\<lparr>sKube := v\<rparr>" sv] by (simp add: handle_tick_def)

text \<open>
  The level a scale event asks for, of a worker that holds the entry of level \<open>k\<close> of the table: the one above or the one
  below, between 1 and 64.  A request for less memory asks for the level the worker has.
\<close>

definition requested_level :: "'q Event \<Rightarrow> int \<Rightarrow> int" where
  "requested_level e k =
     (if ev_typ e = EventTypeScaleUp then min 64 (k + 1)
      else if scaleType e = ScaleDownCpu then max 1 (k - 1) else k)"

lemma next_quota_rung:
  assumes "quota_table Q V" "1 \<le> k" "k \<le> 64"
  shows "next_quota Q V e (rung Q (GiBQuantity V) k) = rung Q (GiBQuantity V) (requested_level e k)"
  using assms(2,3) quota_table.up_cpu_from_rung [OF assms] quota_table.up_mem_from_rung [OF assms]
    quota_table.down_cpu_from_rung [OF assms] quota_table.down_mem_same [OF assms(1)]
  by (simp add: next_quota_def requested_level_def)

definition scale_event :: "'q Event \<Rightarrow> bool" where
  "scale_event e \<longleftrightarrow> ev_typ e = EventTypeScaleUp \<or> ev_typ e = EventTypeScaleDown"

lemma cpu_event_scale: "list_all cpu_event es \<Longrightarrow> list_all scale_event es"
  by (auto simp: list_all_iff cpu_event_def scale_event_def)

text \<open>The calls of the client for a list of scale events that a worker took, with the times they were taken at.\<close>

definition level_calls ::
    "('q, 'o, 'fs) worker_env \<Rightarrow> 'q pod \<Rightarrow> int \<Rightarrow> (string \<times> 'q Event) list \<Rightarrow> 'q cluster \<Rightarrow> 'q cluster" where
  "level_calls P pod k =
     fold (\<lambda>(now, e). update_call P now pod (rung (wQ (eWorld P)) (GiBQuantity (eQuotas P)) (requested_level e k)))"

lemma accept_scale_events:
  assumes "quota_table (wQ (eWorld P)) (eQuotas P)" "1 \<le> k" "k \<le> 64"
    and "vQuota s = rung (wQ (eWorld P)) (GiBQuantity (eQuotas P)) k" "list_all scale_event (map snd taken)"
  shows "fold (accept P) taken s = s\<lparr>vCluster := level_calls P (vPod s) k taken (vCluster s)\<rparr>"
  using assms(4,5)
proof (induction taken arbitrary: s)
  case (Cons ne taken)
  obtain now e where ne: "ne = (now, e)" by force
  have "accept P ne s = s\<lparr>vCluster := update_call P now (vPod s)
      (rung (wQ (eWorld P)) (GiBQuantity (eQuotas P)) (requested_level e k)) (vCluster s)\<rparr>"
    using Cons.prems next_quota_rung [OF assms(1-3), of e] by (auto simp: accept_def ne scale_event_def)
  with Cons.IH [of "accept P ne s"] Cons.prems show ?case
    by (simp add: level_calls_def ne)
qed (simp add: level_calls_def)

text \<open>The worker of the witnesses finds the names of its pod.\<close>

lemma ref_worker_names:
  "\<exists>v names. GetCgroupNames (eWorld ref_worker_env) (sKube (ref_worker tk)) (wkPod (sWorker (ref_worker tk))) =
     (v, Returns (Inr names))"
proof -
  have "case GetCgroupNames (ref_world one_kubelet) ((zero_vars ())\<lparr>v_genOnce := True, v_server := Some ref_server\<rparr>) main_pod of
      (v, Returns (Inr names)) \<Rightarrow> True | _ \<Rightarrow> False"
    by code_simp
  then show ?thesis
    by (auto simp: ref_worker_def ref_worker_env_def NewWorker_def split: prod.splits outcome.splits sum.splits)
qed

lemma good_windowed:
  "good_window (windowed 10000 500 100000000)" "was_throttled (windowed 10000 500 100000000)"
  "was_idle (windowed 10000 500 100000000)"
  "good_window (windowed 50000 500 100000000)" "was_throttled (windowed 50000 500 100000000)"
  "\<not> was_idle (windowed 50000 500 100000000)"
  by (simp_all add: good_window_def was_throttled_def was_idle_def cpu_used_def windowed_def time_Sub_def sat64_def
      NewToolkit_def zero_CpuStat_def cpu_stat_of_def counter_def)

lemma ref_worker_parts [simp]:
  "wQ (eWorld ref_worker_env) = ref_quantity" "eQuotas ref_worker_env = ref_vars"
  "sToolkit (ref_worker tk) = tk" "sTicker (ref_worker tk) = Running 1" "sSends (ref_worker tk) = []"
  "sWorker (ref_worker tk) = (NewWorker ref_quantity main_pod)\<lparr>wkEventC := Some []\<rparr>"
  "GetManager (sScale (ref_worker tk)) = (\<lparr>scale_once = True, scale_mgr = Some NewBaseManager\<rparr>, Some NewBaseManager)"
  by (simp_all add: ref_worker_def ref_worker_env_def ref_world_def GetManager_def once_Do_def)

text \<open>The process that \<open>main\<close> leaves running, over the cgroup files and the cluster it finds.\<close>

definition main_agent ::
    "('q, 'o, 'c, 'sch) main_state \<Rightarrow> 'fs \<Rightarrow> 'q cluster \<Rightarrow> ('q, 'o, 'fs, unit, unit) agent" where
  "main_agent s fs cl =
     \<lparr>aConfig = mConfig s, aDaemon = mPodManager s, aBlocked = False, aStarted = {}, aLoops = Map.empty,
      aKube = mKube s, aScale = \<lparr>scale_once = False, scale_mgr = None\<rparr>, aFs = fs, aCluster = cl\<rparr>"

text \<open>A process without workers whose manager has nothing to receive.\<close>

definition inert :: "'fs \<Rightarrow> 'q cluster \<Rightarrow> ('q, 'o, 'fs, 'l, 'c) agent \<Rightarrow> bool" where
  "inert fs cl a \<longleftrightarrow> aStarted a = {} \<and> aLoops a = Map.empty \<and> aFs a = fs \<and> aCluster a = cl \<and>
     (\<forall>d. aDaemon a = Some d \<longrightarrow> dmEventC d = [])"

lemma inert_step: "agent_step P R (Waiting a) (Waiting a') \<Longrightarrow> inert fs cl a \<Longrightarrow> inert fs cl a'"
proof (erule agent_step.cases, goal_cases)
  case (1 b req g r)
  then show ?case by (cases r) (auto simp: inert_def)
qed (auto simp: inert_def)

lemma main_process_inert:
  assumes "main_process E f s = (s', Returns u)" "mPodManager s = None"
  shows "inert fs cl (main_agent s' fs cl)"
proof -
  obtain s1 where "main E f s1 = (s', Returns u)" "mPodManager s1 = None"
    using assms by (auto simp: main_process_def main_init_def bind_state_Returns_iff split: prod.splits option.splits)
  then show ?thesis
    by (auto elim!: main_Returns simp: inert_def main_agent_def split: if_splits)
qed

section \<open>Properties that span components\<close>

text \<open>
  C27: what the scale events of a worker come to.  Let a worker hold the entry of level \<open>k\<close>, with nothing but scale events in its channel.
  However it runs, as long as no other event is sent to it, it keeps its pod and its quota, so that however many requests it handles, and in
  whatever order, each one calls the client with the level above \<open>k\<close>, at most 64, for a scale up, with the level below, at least 1, for a
  CPU scale down, and with \<open>k\<close> itself for a memory scale down (\<open>requested_level\<close>): a second request asks for what the first one of its kind asked
  for, and the cluster is what these calls make of it.
\<close>

theorem scale_requests_refine_levels:
  assumes "quantity (wQ (eWorld P))" "init_quota_vars (wQ (eWorld P)) = Some (eQuotas P)" "1 \<le> k" "k \<le> 64"
    and "worker_reaches P (Waiting st) (Waiting st')" "list_all cpu_event (sSends st)"
    and "list_all scale_event (queued (sWorker st))"
    and "wkQuota (sWorker st) = rung (wQ (eWorld P)) (GiBQuantity (eQuotas P)) k"
  shows "wkPod (sWorker st') = wkPod (sWorker st) \<and> wkQuota (sWorker st') = wkQuota (sWorker st) \<and>
    (\<exists>taken arrived. queued (sWorker st) @ arrived = map snd taken @ queued (sWorker st') \<and>
       sCluster st' = level_calls P (wkPod (sWorker st)) k taken (sCluster st))"
proof -
  obtain taken arrived where h: "queued (sWorker st) @ arrived = map snd taken @ queued (sWorker st')"
      "list_all cpu_event arrived" "view st' = fold (accept P) taken (view st)"
    using history_exists [OF assms(5,6)] unfolding history_def by blast
  have "list_all scale_event (queued (sWorker st) @ arrived)"
    using assms(7) cpu_event_scale [OF h(2)] by simp
  then have "list_all scale_event (map snd taken)"
    unfolding h(1) list_all_append by (rule conjunct1)
  from accept_scale_events [OF quota_table_intro [OF assms(1,2)] assms(3,4) _ this, of "view st"] h(3) assms(8)
  have "view st' = (view st)\<lparr>vCluster := level_calls P (wkPod (sWorker st)) k taken (sCluster st)\<rparr>"
    by (simp add: view_def)
  with h(1) show ?thesis by (auto simp: view_def)
qed

theorem scale_requests_refine_levels_witness:
  "\<exists>s1 s2 taken arrived. queued (sWorker s1) = [up_request, up_request] \<and> queued (sWorker s2) = [up_request] \<and>
     worker_reaches ref_worker_env (Waiting s1) (Waiting s2) \<and> up_request # up_request # arrived = map snd taken @ [up_request] \<and>
     sCluster s2 = level_calls ref_worker_env main_pod 21 taken [(''mo'', ''cn-0'') \<mapsto> main_pod]"
proof -
  let ?q = "rung (wQ (eWorld ref_worker_env)) (GiBQuantity (eQuotas ref_worker_env)) 21"
  let ?s1 = "(ref_worker (Some ref_toolkit))\<lparr>sWorker := (NewWorker ref_quantity main_pod)
      \<lparr>wkEventC := Some [up_request, up_request], wkQuota := ?q\<rparr>\<rparr>"
  let ?s = "?s1\<lparr>sTicker := Running DefaultCheckInterval, sWorker := (sWorker ?s1)\<lparr>wkEventC := Some [up_request]\<rparr>\<rparr>"
  have up: "ev_typ up_request = EventTypeScaleUp \<or> ev_typ up_request = EventTypeScaleDown" by simp
  obtain s2 where s2: "handle_event ref_worker_env [] ?s up_request = Waiting s2"
    by (rule handle_scale_cluster [OF up])
  have "worker_step ref_worker_env (Waiting ?s1) (handle_event ref_worker_env [] ?s up_request)"
    by (rule worker_step.take_event) (simp_all add: ref_worker_def NewWorker_def DefaultCheckInterval_def)
  then have r: "worker_reaches ref_worker_env (Waiting ?s1) (Waiting s2)"
    unfolding s2 worker_reaches_def by (rule r_into_rtranclp)
  have q: "queued (sWorker ?s1) = [up_request, up_request]" "queued (sWorker s2) = [up_request]"
    using handle_event_frame(1) [OF s2] by (simp_all add: queued_def)
  have h: "list_all cpu_event (sSends ?s1)" "list_all scale_event (queued (sWorker ?s1))" "wkQuota (sWorker ?s1) = ?q"
    by (simp_all add: ref_worker_def queued_def scale_event_def)
  have t: "quantity (wQ (eWorld ref_worker_env))" "init_quota_vars (wQ (eWorld ref_worker_env)) = Some (eQuotas ref_worker_env)"
    using ref_table_axioms by (simp_all add: ref_worker_env_def ref_world_def)
  have c: "wkPod (sWorker ?s1) = main_pod" "sCluster ?s1 = [(''mo'', ''cn-0'') \<mapsto> main_pod]"
    by (simp_all add: ref_worker_def)
  from scale_requests_refine_levels [OF t _ _ r h, unfolded q c] obtain taken arrived where
    "[up_request, up_request] @ arrived = map snd taken @ [up_request]"
    "sCluster s2 = level_calls ref_worker_env main_pod 21 taken [(''mo'', ''cn-0'') \<mapsto> main_pod]"
    by auto
  then show ?thesis using r q by (intro exI conjI) (assumption | simp)+
qed



text \<open>
  C10: the process as it is shipped does nothing to its node.  However \<open>main\<close> gets to serve, and however the controller, the manager's
  loop and the goroutines run afterwards, the cgroup files and the cluster stay as they were found and no worker ever runs:
  no code sends to the manager.  The first request for a pod that the configuration selects can only crash the process.
\<close>

theorem shipped_process_inert:
  assumes "main_process E f s = (s', Returns u)" "mPodManager s = None"
    and "agent_reaches P R (Waiting (main_agent s' fs cl)) (Waiting a)"
  shows "aFs a = fs \<and> aCluster a = cl \<and> aLoops a = Map.empty \<and>
    (\<forall>req cfg pod g r. aConfig a = Some cfg \<and> rGet R req = Inr pod \<and> managed R cfg pod \<and>
       Reconcile R (aConfig a) req = (g, r) \<longrightarrow>
       r = Panics NilDeref \<and> agent_step P R (Waiting a) (Crashed NilDeref))"
proof -
  have "inert fs cl a"
    using assms(3) main_process_inert [OF assms(1,2)] by (rule agent_reaches_invariant) (rule inert_step)
  moreover have "r = Panics NilDeref \<and> agent_step P R (Waiting a) (Crashed NilDeref)"
    if "aConfig a = Some cfg" "rGet R req = Inr pod" "managed R cfg pod" "Reconcile R (aConfig a) req = (g, r)" for req cfg pod g r
  proof -
    have "r = Panics NilDeref"
      using Reconcile_managed [OF that(2,3)] that(1,4) by simp
    with agent_step.reconcile [OF that(4), of P] show ?thesis by simp
  qed
  ultimately show ?thesis by (auto simp: inert_def)
qed

theorem shipped_process_inert_witness:
  "\<exists>s'. main_process ref_main default_flags ref_main_state = (s', Returns ()) \<and>
     (\<forall>a. agent_reaches ref_worker_env ref_reconcile (Waiting (main_agent s' [] Map.empty)) (Waiting a) \<longrightarrow> aLoops a = Map.empty)"
proof -
  have "case main_process ref_main default_flags ref_main_state of (s', Returns u) \<Rightarrow> True | _ \<Rightarrow> False"
    by code_simp
  then obtain s' where m: "main_process ref_main default_flags ref_main_state = (s', Returns ())"
    by (auto split: prod.splits outcome.splits)
  have "mPodManager ref_main_state = None" by (simp add: ref_main_state_def)
  from shipped_process_inert [OF m this, of ref_worker_env ref_reconcile "[]" Map.empty] m show ?thesis by blast
qed

end
